(* ===== verification/Prelude.thy ===== *)
theory Prelude
  imports Main "HOL-Library.Word" "HOL-Library.AList" "HOL-Library.Sublist"
begin

text \<open>
  What every component shares: names for the machine types, the exceptions a handler can
  raise, the operations of \<^verbatim>\<open>std::string\<close>, \<^verbatim>\<open>std::getline\<close>,
  \<^verbatim>\<open>std::to_string\<close> and \<^verbatim>\<open>std::unordered_map\<close> that the gateway
  uses, and two interfaces as locales: the laws of an unordered map, and a machine with an
  invariant.  The collections below are filled by the component theories.
\<close>

named_theorems keeps_rules
  \<open>a computation leaves one part of the state alone\<close>

named_theorems preserves_rules
  \<open>a computation preserves a predicate of the state\<close>

section \<open>Machine types and exceptions\<close>

type_synonym u8 = "8 word"
type_synonym u16 = "16 word"
type_synonym u32 = "32 word"
type_synonym bytes = "u8 list"

text \<open>
  The exceptions the code can meet: \<^verbatim>\<open>std::runtime_error\<close> raised by the gateway
  itself, the exceptions of the JSON library (all derived from \<^verbatim>\<open>std::exception\<close>),
  and the use of an object that no longer lives, which in C++ is no exception but undefined
  behaviour; it is a value here so that its absence can be stated.
\<close>

datatype exn =
    Runtime_Error string
  | Json_Error string
  | Dead_Object

fun what :: "exn \<Rightarrow> string" where
  "what (Runtime_Error s) = s"
| "what (Json_Error s) = s"
| "what Dead_Object = ''''"

text \<open>Sequencing of pure computations that may throw.\<close>

definition bindR :: "exn + 'a \<Rightarrow> ('a \<Rightarrow> exn + 'b) \<Rightarrow> exn + 'b" where
  "bindR r f = (case r of Inl e \<Rightarrow> Inl e | Inr x \<Rightarrow> f x)"

lemma bindR_simps [simp]: "bindR (Inl e) f = Inl e" "bindR (Inr x) f = f x"
  by (simp_all add: bindR_def)

text \<open>\<^verbatim>\<open>duration_cast\<close> divides and truncates towards zero.\<close>

definition duration_cast :: "int \<Rightarrow> int \<Rightarrow> int" where
  "duration_cast unit d = (if d < 0 then - ((- d) div unit) else d div unit)"

section \<open>Strings\<close>

text \<open>\<^verbatim>\<open>c_str()\<close> as a C API reads it: up to the first NUL byte.\<close>

definition c_str :: "string \<Rightarrow> string" where
  "c_str s = takeWhile (\<lambda>c. c \<noteq> CHR 0x00) s"

definition char_of_byte :: "u8 \<Rightarrow> char" where
  "char_of_byte b = char_of (unat b)"

definition byte_of_char :: "char \<Rightarrow> u8" where
  "byte_of_char c = word_of_nat (of_char c)"

definition string_of_bytes :: "bytes \<Rightarrow> string" where
  "string_of_bytes bs = map char_of_byte bs"

definition bytes_of_string :: "string \<Rightarrow> bytes" where
  "bytes_of_string s = map byte_of_char s"

text \<open>\<^verbatim>\<open>s.find(pat)\<close>, with \<open>None\<close> for \<^verbatim>\<open>npos\<close>, and
  \<^verbatim>\<open>s.find(pat, pos)\<close>.\<close>

fun str_find :: "string \<Rightarrow> string \<Rightarrow> nat option" where
  "str_find pat [] = (if pat = [] then Some 0 else None)"
| "str_find pat (c # cs) =
     (if prefix pat (c # cs) then Some 0 else map_option Suc (str_find pat cs))"

definition str_find_from :: "string \<Rightarrow> string \<Rightarrow> nat \<Rightarrow> nat option" where
  "str_find_from pat s pos =
     (if length s < pos then None else map_option (\<lambda>i. pos + i) (str_find pat (drop pos s)))"

text \<open>The loop \<^verbatim>\<open>while (std::getline(ss, item, d))\<close>: the items it sees, in order.\<close>

function getline_items :: "char \<Rightarrow> string \<Rightarrow> string list" where
  "getline_items d s =
     (if s = [] then []
      else takeWhile (\<lambda>c. c \<noteq> d) s #
        (case dropWhile (\<lambda>c. c \<noteq> d) s of
           [] \<Rightarrow> []
         | _ # rest \<Rightarrow> getline_items d rest))"
  by pat_completeness auto
termination
proof (relation "measure (\<lambda>(d, s). length s)")
  fix d :: char and s x rest
  assume "dropWhile (\<lambda>c. c \<noteq> d) s = x # rest"
  then have "length (x # rest) \<le> length s"
    by (metis length_dropWhile_le)
  then show "((d, rest), (d, s)) \<in> measure (\<lambda>(d, s). length s)" by simp
qed simp

declare getline_items.simps [simp del]

text \<open>\<^verbatim>\<open>std::to_string\<close> on integers.\<close>

definition digit_char :: "nat \<Rightarrow> char" where
  "digit_char n = char_of (48 + n)"

fun string_of_nat :: "nat \<Rightarrow> string" where
  "string_of_nat n =
     (if n < 10 then [digit_char n] else string_of_nat (n div 10) @ [digit_char (n mod 10)])"

declare string_of_nat.simps [simp del]

definition to_string :: "int \<Rightarrow> string" where
  "to_string i = (if i < 0 then CHR ''-'' # string_of_nat (nat (- i)) else string_of_nat (nat i))"

subsection \<open>Lemmas on strings\<close>

lemma char_of_byte_of_char [simp]: "char_of_byte (byte_of_char c) = c"
proof -
  have "(of_char c :: nat) < 256" by (rule nat_of_char_less_256)
  then have "unat (word_of_nat (of_char c) :: u8) = of_char c"
    by (simp add: unat_of_nat)
  then show ?thesis
    by (simp add: char_of_byte_def byte_of_char_def)
qed

lemma byte_of_char_eq_iff: "byte_of_char c = byte_of_char d \<longleftrightarrow> c = d"
  by (rule inj_eq [OF inj_on_inverseI [of _ char_of_byte]]) simp

lemma byte_of_char_of_byte [simp]: "byte_of_char (char_of_byte b) = b"
proof -
  have "unat b < 2 ^ LENGTH(8)" by (rule unsigned_less)
  then have "unat b < 256" by simp
  then show ?thesis
    by (simp add: char_of_byte_def byte_of_char_def of_char_of)
qed

lemma string_of_bytes_of_string [simp]: "string_of_bytes (bytes_of_string s) = s"
  by (simp add: string_of_bytes_def bytes_of_string_def map_idI)

lemma bytes_of_string_of_bytes [simp]: "bytes_of_string (string_of_bytes bs) = bs"
  by (simp add: string_of_bytes_def bytes_of_string_def map_idI)

lemma length_bytes_of_string [simp]: "length (bytes_of_string s) = length s"
  by (simp add: bytes_of_string_def)

lemma length_string_of_bytes [simp]: "length (string_of_bytes bs) = length bs"
  by (simp add: string_of_bytes_def)

lemma bytes_of_string_append [simp]:
  "bytes_of_string (s @ t) = bytes_of_string s @ bytes_of_string t"
  by (simp add: bytes_of_string_def)

lemma bytes_of_string_eq_iff [simp]: "bytes_of_string s = bytes_of_string t \<longleftrightarrow> s = t"
  by (metis string_of_bytes_of_string)

lemma c_str_id: "CHR 0x00 \<notin> set s \<Longrightarrow> c_str s = s"
  by (auto simp: c_str_def takeWhile_eq_all_conv)

lemma c_str_idem [simp]: "c_str (c_str s) = c_str s"
  by (simp add: c_str_def)

lemma str_find_bound: "str_find pat s = Some i \<Longrightarrow> i + length pat \<le> length s"
  by (induction s arbitrary: i) (auto split: if_splits dest: prefix_length_le)

lemma str_find_prefix: "str_find pat s = Some i \<Longrightarrow> prefix pat (drop i s)"
  by (induction s arbitrary: i) (auto split: if_splits)

lemma str_find_least: "str_find pat s = Some i \<Longrightarrow> j < i \<Longrightarrow> \<not> prefix pat (drop j s)"
proof (induction s arbitrary: i j)
  case (Cons c cs)
  then show ?case
    by (cases j) (auto split: if_splits)
qed (auto split: if_splits)

lemma str_find_None: "str_find pat s = None \<Longrightarrow> \<not> prefix pat (drop j s)"
proof (induction s arbitrary: j)
  case (Cons c cs)
  then show ?case
    by (cases j) (auto split: if_splits)
qed (auto split: if_splits)

lemma str_find_infix: "str_find pat (p @ pat @ s) \<noteq> None"
proof -
  have "prefix pat (drop (length p) (p @ pat @ s))" by simp
  then show ?thesis using str_find_None by blast
qed

lemma str_find_char:
  "str_find [c] s = (if c \<in> set s then Some (length (takeWhile (\<lambda>x. x \<noteq> c) s)) else None)"
  by (induction s) auto

lemma str_find_char_append [simp]:
  "c \<notin> set s \<Longrightarrow> str_find [c] (s @ c # t) = Some (length s)"
  by (induction s) auto

lemma getline_items_Nil [simp]: "getline_items d [] = []"
  by (simp add: getline_items.simps)

lemma getline_items_no_delim:
  "d \<notin> set s \<Longrightarrow> s \<noteq> [] \<Longrightarrow> getline_items d s = [s]"
proof -
  assume "d \<notin> set s" and "s \<noteq> []"
  then have tw: "takeWhile (\<lambda>c. c \<noteq> d) s = s" by (auto simp: takeWhile_eq_all_conv)
  then have dw: "dropWhile (\<lambda>c. c \<noteq> d) s = []"
    by (metis append_self_conv takeWhile_dropWhile_id)
  have "getline_items d s = takeWhile (\<lambda>c. c \<noteq> d) s #
        (case dropWhile (\<lambda>c. c \<noteq> d) s of [] \<Rightarrow> [] | _ # rest \<Rightarrow> getline_items d rest)"
    using \<open>s \<noteq> []\<close> by (subst getline_items.simps) simp
  also have "\<dots> = [s]" unfolding tw dw by simp
  finally show ?thesis .
qed

lemma getline_items_first:
  "d \<notin> set s \<Longrightarrow> getline_items d (s @ d # t) = s # getline_items d t"
proof -
  assume "d \<notin> set s"
  then have "takeWhile (\<lambda>c. c \<noteq> d) (s @ d # t) = s" and "dropWhile (\<lambda>c. c \<noteq> d) (s @ d # t) = d # t"
    by (induction s) auto
  then show ?thesis by (simp add: getline_items.simps [of d "s @ d # t"])
qed

lemma getline_items_clean: "item \<in> set (getline_items d s) \<Longrightarrow> d \<notin> set item"
proof (induction d s arbitrary: item rule: getline_items.induct)
  case (1 d s)
  have "s \<noteq> []" using "1.prems" by auto
  then have "item = takeWhile (\<lambda>c. c \<noteq> d) s \<or>
      (\<exists>x rest. dropWhile (\<lambda>c. c \<noteq> d) s = x # rest \<and> item \<in> set (getline_items d rest))"
    using "1.prems" \<open>s \<noteq> []\<close>
    by (cases "dropWhile (\<lambda>c. c \<noteq> d) s") (simp_all add: getline_items.simps [of d s])
  then show ?case using "1.IH" [OF \<open>s \<noteq> []\<close>] by (auto dest: set_takeWhileD)
qed

subsection \<open>Decimal printing is injective\<close>

definition digit_val :: "char \<Rightarrow> nat" where
  "digit_val c = of_char c - 48"

definition nat_of_string :: "string \<Rightarrow> nat" where
  "nat_of_string s = foldl (\<lambda>acc c. 10 * acc + digit_val c) 0 s"

lemma digit_val_char: "n < 10 \<Longrightarrow> digit_val (digit_char n) = n"
  by (simp add: digit_val_def digit_char_def of_char_of)

lemma nat_of_string_of_nat: "nat_of_string (string_of_nat n) = n"
proof (induction n rule: string_of_nat.induct)
  case (1 n)
  show ?case
  proof (cases "n < 10")
    case True
    then show ?thesis
      by (simp add: string_of_nat.simps [of n] nat_of_string_def digit_val_char)
  next
    case False
    with 1 have "nat_of_string (string_of_nat (n div 10)) = n div 10" by simp
    with False show ?thesis
      by (simp add: string_of_nat.simps [of n] nat_of_string_def digit_val_char)
  qed
qed

lemma string_of_nat_inject: "string_of_nat m = string_of_nat n \<longleftrightarrow> m = n"
  by (metis nat_of_string_of_nat)

lemma digit_char_neq_minus: "digit_char n \<noteq> CHR ''-'' \<or> 10 \<le> n"
proof (cases "n < 10")
  case True
  then have "(of_char (digit_char n) :: nat) = 48 + n"
    by (simp add: digit_char_def of_char_of)
  then show ?thesis by auto
qed simp

lemma hd_string_of_nat: "hd (string_of_nat n) \<noteq> CHR ''-''"
proof (induction n rule: string_of_nat.induct)
  case (1 n)
  have ne: "string_of_nat k \<noteq> []" for k
    by (simp add: string_of_nat.simps [of k])
  show ?case
  proof (cases "n < 10")
    case True
    then show ?thesis
      using digit_char_neq_minus [of n] by (simp add: string_of_nat.simps [of n])
  next
    case False
    with 1 ne show ?thesis by (simp add: string_of_nat.simps [of n])
  qed
qed

lemma to_string_inject: "to_string i = to_string j \<longleftrightarrow> i = j"
proof
  assume eq: "to_string i = to_string j"
  show "i = j"
  proof (cases "i < 0"; cases "j < 0")
    assume "\<not> i < 0" "\<not> j < 0"
    with eq show ?thesis
      by (simp add: to_string_def string_of_nat_inject)
  next
    assume "i < 0" "j < 0"
    with eq show ?thesis
      by (simp add: to_string_def string_of_nat_inject)
  qed (use eq hd_string_of_nat in \<open>auto simp: to_string_def\<close>, (metis list.sel(1))+)
qed simp

end
