(* ===== verification/Effects.thy ===== *)
theory Effects
  imports Prelude
begin

text \<open>
  Handlers as computations over a state that may raise an exception.  The state survives an
  exception, as in the code: what a handler wrote before it threw stays written.  Below the
  combinators, two predicates on computations with one closure rule per combinator:
  \<open>keeps g m\<close> (the part \<open>g\<close> of the state is not touched) and \<open>preserves P m\<close>
  (the predicate \<open>P\<close> survives, on the exceptional path too).  A handler's invariant is
  then a backward chain over these rules.  A locale does the same for any reflexive and transitive relation
  between the states.  Last, the interface of a machine with an invariant, and its runs.
\<close>

type_synonym ('s, 'a) comp = "'s \<Rightarrow> (exn + 'a) \<times> 's"

definition ret :: "'a \<Rightarrow> ('s, 'a) comp" where
  "ret x = (\<lambda>s. (Inr x, s))"

definition throw :: "exn \<Rightarrow> ('s, 'a) comp" where
  "throw e = (\<lambda>s. (Inl e, s))"

definition bindM :: "('s, 'a) comp \<Rightarrow> ('a \<Rightarrow> ('s, 'b) comp) \<Rightarrow> ('s, 'b) comp" where
  "bindM m f = (\<lambda>s. case m s of (Inl e, s') \<Rightarrow> (Inl e, s') | (Inr x, s') \<Rightarrow> f x s')"

definition thenM :: "('s, 'a) comp \<Rightarrow> ('s, 'b) comp \<Rightarrow> ('s, 'b) comp" where
  "thenM m n = bindM m (\<lambda>_. n)"

text \<open>\<^verbatim>\<open>try { m } catch (const std::exception& e) { h(e) }\<close>\<close>

definition catchM :: "('s, 'a) comp \<Rightarrow> (exn \<Rightarrow> ('s, 'a) comp) \<Rightarrow> ('s, 'a) comp" where
  "catchM m h = (\<lambda>s. case m s of (Inl e, s') \<Rightarrow> h e s' | (Inr x, s') \<Rightarrow> (Inr x, s'))"

definition getsM :: "('s \<Rightarrow> 'a) \<Rightarrow> ('s, 'a) comp" where
  "getsM g = (\<lambda>s. (Inr (g s), s))"

definition modifyM :: "('s \<Rightarrow> 's) \<Rightarrow> ('s, unit) comp" where
  "modifyM f = (\<lambda>s. (Inr (), f s))"

definition liftR :: "exn + 'a \<Rightarrow> ('s, 'a) comp" where
  "liftR r = (\<lambda>s. (r, s))"

definition whenM :: "bool \<Rightarrow> ('s, unit) comp \<Rightarrow> ('s, unit) comp" where
  "whenM b m = (if b then m else ret ())"

primrec forM :: "'a list \<Rightarrow> ('a \<Rightarrow> ('s, unit) comp) \<Rightarrow> ('s, unit) comp" where
  "forM [] f = ret ()"
| "forM (x # xs) f = thenM (f x) (forM xs f)"

lemmas comp_defs =
  ret_def throw_def bindM_def thenM_def catchM_def getsM_def modifyM_def liftR_def whenM_def

lemma bindM_ret [simp]: "bindM (ret x) f = f x"
  by (simp add: bindM_def ret_def)

lemma bindM_assoc: "bindM (bindM m f) g = bindM m (\<lambda>x. bindM (f x) g)"
  by (auto simp: bindM_def fun_eq_iff split: prod.splits sum.splits)

section \<open>Leaving a part of the state alone\<close>

definition keeps :: "('s \<Rightarrow> 'b) \<Rightarrow> ('s, 'a) comp \<Rightarrow> bool" where
  "keeps g m \<longleftrightarrow> (\<forall>s. g (snd (m s)) = g s)"

lemma keepsD: "keeps g m \<Longrightarrow> m s = (r, s') \<Longrightarrow> g s' = g s"
  by (metis keeps_def snd_conv)

lemma keepsI: "(\<And>s. g (snd (m s)) = g s) \<Longrightarrow> keeps g m"
  by (simp add: keeps_def)

lemma keeps_snd: "keeps g m \<Longrightarrow> g (snd (m s)) = g s"
  by (simp add: keeps_def)

lemma keeps_ret [keeps_rules]: "keeps g (ret x)"
  by (simp add: keeps_def ret_def)

lemma keeps_throw [keeps_rules]: "keeps g (throw e)"
  by (simp add: keeps_def throw_def)

lemma keeps_bindM [keeps_rules]:
  "keeps g m \<Longrightarrow> (\<And>x. keeps g (f x)) \<Longrightarrow> keeps g (bindM m f)"
  by (auto simp: keeps_def bindM_def split: prod.splits sum.splits) (metis snd_conv)+

lemma keeps_thenM [keeps_rules]: "keeps g m \<Longrightarrow> keeps g n \<Longrightarrow> keeps g (thenM m n)"
  by (simp add: thenM_def keeps_bindM)

lemma keeps_catchM [keeps_rules]:
  "keeps g m \<Longrightarrow> (\<And>e. keeps g (h e)) \<Longrightarrow> keeps g (catchM m h)"
  by (auto simp: keeps_def catchM_def split: prod.splits sum.splits) (metis snd_conv)+

lemma keeps_getsM [keeps_rules]: "keeps g (getsM h)"
  by (simp add: keeps_def getsM_def)

lemma keeps_liftR [keeps_rules]: "keeps g (liftR r)"
  by (simp add: keeps_def liftR_def)

lemma keeps_modifyM: "(\<And>s. g (f s) = g s) \<Longrightarrow> keeps g (modifyM f)"
  by (simp add: keeps_def modifyM_def)

lemma keeps_whenM [keeps_rules]: "keeps g m \<Longrightarrow> keeps g (whenM b m)"
  by (simp add: whenM_def keeps_ret)

lemma keeps_if [keeps_rules]: "keeps g m \<Longrightarrow> keeps g n \<Longrightarrow> keeps g (if b then m else n)"
  by simp

lemma keeps_case_option [keeps_rules]:
  "keeps g m \<Longrightarrow> (\<And>x. keeps g (f x)) \<Longrightarrow> keeps g (case x of None \<Rightarrow> m | Some x \<Rightarrow> f x)"
  by (simp split: option.split)

lemma keeps_case_sum [keeps_rules]:
  "(\<And>x. keeps g (l x)) \<Longrightarrow> (\<And>x. keeps g (r x)) \<Longrightarrow> keeps g (case x of Inl x \<Rightarrow> l x | Inr x \<Rightarrow> r x)"
  by (simp split: sum.split)

lemma keeps_let [keeps_rules]: "(\<And>x. keeps g (f x)) \<Longrightarrow> keeps g (let x = t in f x)"
  by simp

lemma keeps_forM [keeps_rules]: "(\<And>x. keeps g (f x)) \<Longrightarrow> keeps g (forM xs f)"
  by (induction xs) (auto intro: keeps_rules)

text \<open>What follows a computation and leaves \<open>g\<close> alone can be dropped.\<close>

lemma keeps_tail:
  "keeps g n \<Longrightarrow> g (snd (thenM m n s)) = g (snd (m s))"
  "(\<And>x. keeps g (f x)) \<Longrightarrow> g (snd (bindM m f s)) = g (snd (m s))"
  by (auto simp: thenM_def bindM_def keeps_def split: prod.split sum.split)

lemma snd_ret [simp]: "snd (ret x s) = s" "snd (thenM m (ret x) s) = snd (m s)"
  by (auto simp: ret_def thenM_def bindM_def split: prod.split sum.split)

lemma comp_step:
  "m s = (Inr x, s') \<Longrightarrow> bindM m f s = f x s'"
  "m s = (Inr x, s') \<Longrightarrow> thenM m n s = n s'"
  "m s = (Inl e, s') \<Longrightarrow> bindM m f s = (Inl e, s')"
  "m s = (Inl e, s') \<Longrightarrow> thenM m n s = (Inl e, s')"
  by (simp_all add: thenM_def bindM_def)

section \<open>Preserving a predicate of the state\<close>

definition preserves :: "('s \<Rightarrow> bool) \<Rightarrow> ('s, 'a) comp \<Rightarrow> bool" where
  "preserves P m \<longleftrightarrow> (\<forall>s. P s \<longrightarrow> P (snd (m s)))"

lemma preservesD: "preserves P m \<Longrightarrow> P s \<Longrightarrow> P (snd (m s))"
  by (simp add: preserves_def)

lemma preservesI: "(\<And>s. P s \<Longrightarrow> P (snd (m s))) \<Longrightarrow> preserves P m"
  by (simp add: preserves_def)

lemma keeps_preserves: "keeps g m \<Longrightarrow> preserves (\<lambda>s. P (g s)) m"
  by (simp add: preserves_def keeps_def)

lemma preserves_ret [preserves_rules]: "preserves P (ret x)"
  by (simp add: preserves_def ret_def)

lemma preserves_throw [preserves_rules]: "preserves P (throw e)"
  by (simp add: preserves_def throw_def)

lemma preserves_bindM [preserves_rules]:
  "preserves P m \<Longrightarrow> (\<And>x. preserves P (f x)) \<Longrightarrow> preserves P (bindM m f)"
  by (fastforce simp: preserves_def bindM_def split: prod.splits sum.splits)

lemma preserves_thenM [preserves_rules]:
  "preserves P m \<Longrightarrow> preserves P n \<Longrightarrow> preserves P (thenM m n)"
  by (simp add: thenM_def preserves_bindM)

lemma preserves_catchM [preserves_rules]:
  "preserves P m \<Longrightarrow> (\<And>e. preserves P (h e)) \<Longrightarrow> preserves P (catchM m h)"
  by (fastforce simp: preserves_def catchM_def split: prod.splits sum.splits)

lemma preserves_getsM [preserves_rules]: "preserves P (getsM h)"
  by (simp add: preserves_def getsM_def)

lemma preserves_liftR [preserves_rules]: "preserves P (liftR r)"
  by (simp add: preserves_def liftR_def)

lemma preserves_modifyM: "(\<And>s. P s \<Longrightarrow> P (f s)) \<Longrightarrow> preserves P (modifyM f)"
  by (simp add: preserves_def modifyM_def)

lemma preserves_whenM [preserves_rules]: "preserves P m \<Longrightarrow> preserves P (whenM b m)"
  by (simp add: whenM_def preserves_ret)

lemma preserves_if [preserves_rules]:
  "preserves P m \<Longrightarrow> preserves P n \<Longrightarrow> preserves P (if b then m else n)"
  by simp

lemma preserves_case_option [preserves_rules]:
  "preserves P m \<Longrightarrow> (\<And>x. preserves P (f x)) \<Longrightarrow>
   preserves P (case x of None \<Rightarrow> m | Some x \<Rightarrow> f x)"
  by (simp split: option.split)

lemma preserves_case_sum [preserves_rules]:
  "(\<And>x. preserves P (l x)) \<Longrightarrow> (\<And>x. preserves P (r x)) \<Longrightarrow>
   preserves P (case x of Inl x \<Rightarrow> l x | Inr x \<Rightarrow> r x)"
  by (simp split: sum.split)

lemma preserves_let [preserves_rules]:
  "(\<And>x. preserves P (f x)) \<Longrightarrow> preserves P (let x = t in f x)"
  by simp

lemma preserves_forM [preserves_rules]:
  "(\<And>x. preserves P (f x)) \<Longrightarrow> preserves P (forM xs f)"
  by (induction xs) (auto intro: preserves_rules)

section \<open>Relations between the state before and after\<close>

text \<open>
  A reflexive and transitive relation bounds what a computation may do to the state, on the
  exceptional path too.  The combinators respect every such relation; an interpretation gives
  the rules for one of them.
\<close>

definition moves :: "('s \<Rightarrow> 's \<Rightarrow> bool) \<Rightarrow> ('s, 'a) comp \<Rightarrow> bool" where
  "moves R m \<longleftrightarrow> (\<forall>s. R s (snd (m s)))"

lemma movesD: "moves R m \<Longrightarrow> m s = (r, s') \<Longrightarrow> R s s'"
  by (metis moves_def snd_conv)

lemma movesI: "(\<And>s. R s (snd (m s))) \<Longrightarrow> moves R m"
  by (simp add: moves_def)

lemma moves_mono: "moves R m \<Longrightarrow> (\<And>s t. R s t \<Longrightarrow> R' s t) \<Longrightarrow> moves R' m"
  by (simp add: moves_def)

lemma keeps_moves: "keeps g m \<Longrightarrow> (\<And>s t. g t = g s \<Longrightarrow> R s t) \<Longrightarrow> moves R m"
  by (simp add: moves_def keeps_def)

locale step_relation =
  fixes R :: "'s \<Rightarrow> 's \<Rightarrow> bool"
  assumes refl: "R s s"
    and trans: "R s t \<Longrightarrow> R t u \<Longrightarrow> R s u"
begin

lemma moves_pure:
  "moves R (ret x)" "moves R (throw e)" "moves R (getsM h)" "moves R (liftR r)"
  by (simp_all add: moves_def comp_defs refl)

lemma moves_bindM: "moves R m \<Longrightarrow> (\<And>x. moves R (f x)) \<Longrightarrow> moves R (bindM m f)"
  unfolding moves_def bindM_def by (auto split: prod.split sum.split) (metis snd_conv trans)+

lemma moves_thenM: "moves R m \<Longrightarrow> moves R n \<Longrightarrow> moves R (thenM m n)"
  by (simp add: thenM_def moves_bindM)

lemma moves_catchM: "moves R m \<Longrightarrow> (\<And>e. moves R (h e)) \<Longrightarrow> moves R (catchM m h)"
  unfolding moves_def catchM_def by (auto split: prod.split sum.split) (metis snd_conv trans)+

lemma moves_whenM: "moves R m \<Longrightarrow> moves R (whenM b m)"
  by (simp add: whenM_def moves_pure)

lemma moves_if: "moves R m \<Longrightarrow> moves R n \<Longrightarrow> moves R (if b then m else n)"
  by simp

lemma moves_case_option:
  "moves R m \<Longrightarrow> (\<And>x. moves R (f x)) \<Longrightarrow> moves R (case x of None \<Rightarrow> m | Some x \<Rightarrow> f x)"
  by (simp split: option.split)

lemma moves_case_sum:
  "(\<And>x. moves R (l x)) \<Longrightarrow> (\<And>x. moves R (r x)) \<Longrightarrow> moves R (case x of Inl x \<Rightarrow> l x | Inr x \<Rightarrow> r x)"
  by (simp split: sum.split)

lemma moves_let: "(\<And>x. moves R (f x)) \<Longrightarrow> moves R (let x = t in f x)"
  by simp

lemma moves_case_prod: "(\<And>x y. moves R (f x y)) \<Longrightarrow> moves R (case p of (x, y) \<Rightarrow> f x y)"
  by (simp split: prod.split)

lemma moves_forM: "(\<And>x. moves R (f x)) \<Longrightarrow> moves R (forM xs f)"
  by (induction xs) (auto intro: moves_pure moves_thenM)

lemmas moves_rules =
  moves_pure moves_bindM moves_thenM moves_catchM moves_whenM moves_if moves_case_option
  moves_case_sum moves_let moves_case_prod moves_forM

end

section \<open>Machines with an invariant\<close>

text \<open>
  A machine is a step function on labelled events; the interface promises that each step
  keeps the invariant.  Its client is every statement about a whole run.
\<close>

definition run :: "('e \<Rightarrow> 's \<Rightarrow> 's) \<Rightarrow> 'e list \<Rightarrow> 's \<Rightarrow> 's" where
  "run step es s = fold step es s"

lemma run_simps [simp]:
  "run step [] s = s"
  "run step (e # es) s = run step es (step e s)"
  "run step (es @ es') s = run step es' (run step es s)"
  by (simp_all add: run_def)

locale machine =
  fixes step :: "'e \<Rightarrow> 's \<Rightarrow> 's"
    and inv :: "'s \<Rightarrow> bool"
  assumes step_inv: "inv s \<Longrightarrow> inv (step e s)"
begin

lemma run_inv: "inv s \<Longrightarrow> inv (run step es s)"
  by (induction es arbitrary: s) (auto intro: step_inv)

end

text \<open>A machine whose steps are, through an abstraction of the state, those of another.\<close>

locale simulation = machine step inv
  for step :: "'e \<Rightarrow> 's \<Rightarrow> 's" and inv :: "'s \<Rightarrow> bool" +
  fixes astep :: "'f \<Rightarrow> 't \<Rightarrow> 't"
    and abs :: "'s \<Rightarrow> 't"
    and label :: "'e \<Rightarrow> 'f"
  assumes step_abs: "inv s \<Longrightarrow> abs (step e s) = astep (label e) (abs s)"
begin

lemma run_abs: "inv s \<Longrightarrow> abs (run step es s) = run astep (map label es) (abs s)"
  by (induction es arbitrary: s) (simp_all add: step_abs step_inv)

end

section \<open>Components that dispatch commands through an interface\<close>

text \<open>
  The interface between those who ask for a command (the HTTP and MQTT front ends) and the
  one who carries it out: a dispatch keeps the invariant, also when it throws, and never
  throws the exception \<open>bad\<close>.  Its client is the pattern both front ends have: use the
  result, and report every exception.
\<close>

locale dispatcher =
  fixes dispatch :: "'a \<Rightarrow> 'b \<Rightarrow> 'c \<Rightarrow> ('s, 'r) comp"
    and inv :: "'s \<Rightarrow> bool"
    and bad :: exn
  assumes dispatch_inv: "inv s \<Longrightarrow> inv (snd (dispatch a b c s))"
    and dispatch_safe: "inv s \<Longrightarrow> fst (dispatch a b c s) \<noteq> Inl bad"
begin

lemma reported:
  assumes "inv s"
    and f: "\<And>r s. inv s \<Longrightarrow> inv (snd (f r s)) \<and> fst (f r s) \<noteq> Inl bad"
    and h: "\<And>e s. inv s \<Longrightarrow> inv (snd (h e s)) \<and> fst (h e s) \<noteq> Inl bad"
  shows "inv (snd (catchM (bindM (dispatch a b c) f) h s))
    \<and> fst (catchM (bindM (dispatch a b c) f) h s) \<noteq> Inl bad"
proof -
  obtain r s1 where r: "dispatch a b c s = (r, s1)" by (cases "dispatch a b c s")
  with dispatch_inv [OF assms(1), of a b c] have s1: "inv s1" by simp
  show ?thesis
  proof (cases r)
    case (Inl e)
    with r h [OF s1, of e] show ?thesis by (simp add: catchM_def bindM_def)
  next
    case (Inr x)
    obtain r2 s2 where r2: "f x s1 = (r2, s2)" by (cases "f x s1")
    with f [OF s1, of x] have "inv s2" "r2 \<noteq> Inl bad" by simp_all
    with h [OF \<open>inv s2\<close>] show ?thesis
      by (cases r2) (simp_all add: catchM_def bindM_def r Inr r2)
  qed
qed

end

end
