(* ===== verification/WriteQueue.thy ===== *)
theory WriteQueue
  imports Effects
begin

text \<open>
  The serialised writer of a session (\<^verbatim>\<open>enqueueWrite\<close> and
  \<^verbatim>\<open>flushWrites\<close> of \<^verbatim>\<open>src/session/DeviceSession.cpp\<close>).  Everything that
  touches the queue runs on one strand: the lambdas posted by \<^verbatim>\<open>enqueueWrite\<close>, in
  the order of posting, and the completion handlers of \<^verbatim>\<open>async_write\<close>.  The model
  keeps, beside the two members of the class, what the strand and the socket hold: the posted
  buffers not yet run, the buffers of outstanding writes, and the buffers written.
\<close>

record Writer =
  wr_posted :: "bytes list"
  wr_queue :: "bytes list"
  wr_in_progress :: bool
  wr_inflight :: "bytes list"
  wr_sent :: "bytes list"

definition new_writer :: Writer where
  "new_writer = \<lparr>wr_posted = [], wr_queue = [], wr_in_progress = False, wr_inflight = [],
     wr_sent = []\<rparr>"

definition enqueueWrite :: "bytes \<Rightarrow> Writer \<Rightarrow> Writer" where
  "enqueueWrite data w = w\<lparr>wr_posted := wr_posted w @ [data]\<rparr>"

definition flushWrites :: "Writer \<Rightarrow> Writer" where
  "flushWrites w =
     (case wr_queue w of
        [] \<Rightarrow> w\<lparr>wr_in_progress := False\<rparr>
      | buffer # _ \<Rightarrow> w\<lparr>wr_in_progress := True, wr_inflight := wr_inflight w @ [buffer]\<rparr>)"

text \<open>The strand runs the oldest posted lambda.\<close>

definition run_posted :: "Writer \<Rightarrow> Writer" where
  "run_posted w =
     (case wr_posted w of
        [] \<Rightarrow> w
      | buffer # rest \<Rightarrow>
          (let w = w\<lparr>wr_posted := rest, wr_queue := wr_queue w @ [buffer]\<rparr>
           in if \<not> wr_in_progress w then flushWrites w else w))"

text \<open>The completion handler of the outstanding write; \<open>ok\<close> is \<^verbatim>\<open>!ec\<close>.  The
  disconnect that follows an error is the session's.\<close>

definition write_completed :: "bool \<Rightarrow> Writer \<Rightarrow> Writer" where
  "write_completed ok w =
     (case wr_inflight w of
        [] \<Rightarrow> w
      | buffer # rest \<Rightarrow>
          (let w = w\<lparr>wr_inflight := rest\<rparr>
           in if \<not> ok then w\<lparr>wr_in_progress := False\<rparr>
              else flushWrites
                (w\<lparr>wr_sent := wr_sent w @ [buffer], wr_queue := tl (wr_queue w)\<rparr>)))"

datatype writer_event = Enqueue bytes | Run_posted | Write_completed bool

fun writer_step :: "writer_event \<Rightarrow> Writer \<Rightarrow> Writer" where
  "writer_step (Enqueue data) w = enqueueWrite data w"
| "writer_step Run_posted w = run_posted w"
| "writer_step (Write_completed ok) w = write_completed ok w"

fun enqueued :: "writer_event list \<Rightarrow> bytes list" where
  "enqueued [] = []"
| "enqueued (Enqueue data # es) = data # enqueued es"
| "enqueued (_ # es) = enqueued es"

section \<open>The invariant\<close>

text \<open>An outstanding write is the front of the queue, there is at most one, and
  \<^verbatim>\<open>write_in_progress_\<close> says whether there is one.\<close>

definition writer_ok :: "Writer \<Rightarrow> bool" where
  "writer_ok w \<longleftrightarrow>
     wr_inflight w = (if wr_in_progress w then [hd (wr_queue w)] else [])
     \<and> (wr_in_progress w \<longrightarrow> wr_queue w \<noteq> [])"

lemma writer_ok_new: "writer_ok new_writer"
  by (simp add: writer_ok_def new_writer_def)

lemma writer_ok_enqueue: "writer_ok w \<Longrightarrow> writer_ok (enqueueWrite data w)"
  by (simp add: writer_ok_def enqueueWrite_def)

lemma writer_ok_run_posted: "writer_ok w \<Longrightarrow> writer_ok (run_posted w)"
  by (cases "wr_queue w")
    (auto simp: writer_ok_def run_posted_def flushWrites_def Let_def split: list.splits)

lemma writer_ok_completed: "writer_ok w \<Longrightarrow> writer_ok (write_completed ok w)"
  by (auto simp: writer_ok_def write_completed_def flushWrites_def Let_def
      split: list.splits if_splits)

lemma writer_ok_step: "writer_ok w \<Longrightarrow> writer_ok (writer_step e w)"
  by (cases e) (simp_all add: writer_ok_enqueue writer_ok_run_posted writer_ok_completed)

interpretation writer: machine writer_step writer_ok
  by unfold_locales (rule writer_ok_step)

section \<open>First in, first out\<close>

definition backlog :: "Writer \<Rightarrow> bytes list" where
  "backlog w = wr_sent w @ wr_queue w @ wr_posted w"

lemma backlog_simps:
  "backlog (flushWrites w) = backlog w"
  "backlog (enqueueWrite data w) = backlog w @ [data]"
  "backlog (run_posted w) = backlog w"
  by (auto simp: backlog_def flushWrites_def enqueueWrite_def run_posted_def Let_def
      split: list.splits)

lemma backlog_completed: "writer_ok w \<Longrightarrow> backlog (write_completed ok w) = backlog w"
  by (auto simp: write_completed_def Let_def backlog_simps writer_ok_def split: list.splits if_splits)
    (simp_all add: backlog_def)

lemma backlog_step:
  "writer_ok w \<Longrightarrow> backlog (writer_step e w) = backlog w @ enqueued [e]"
  by (cases e) (simp_all add: backlog_simps backlog_completed)

lemma enqueued_Cons: "enqueued (e # es) = enqueued [e] @ enqueued es"
  by (cases e) simp_all

lemma backlog_run:
  "writer_ok w \<Longrightarrow> backlog (run writer_step es w) = backlog w @ enqueued es"
proof (induction es arbitrary: w)
  case (Cons e es)
  then show ?case
    by (simp add: writer_ok_step backlog_step enqueued_Cons [of e es])
qed simp

section \<open>Draining\<close>

text \<open>Without an error the writer is busy whenever its queue is not empty, and each event of
  the drain takes one step towards everything being sent.\<close>

definition busy :: "Writer \<Rightarrow> bool" where
  "busy w \<longleftrightarrow> wr_in_progress w \<or> wr_queue w = []"

fun drain :: "nat \<Rightarrow> Writer \<Rightarrow> Writer" where
  "drain 0 w = w"
| "drain (Suc n) w =
     drain n (if wr_inflight w \<noteq> [] then write_completed True w else run_posted w)"

definition work :: "Writer \<Rightarrow> nat" where
  "work w = 2 * length (wr_posted w) + length (wr_queue w)"

lemma drain_invariants:
  assumes "writer_ok w" and "busy w"
  defines "w' \<equiv> (if wr_inflight w \<noteq> [] then write_completed True w else run_posted w)"
  shows "writer_ok w'" and "busy w'" and "backlog w' = backlog w"
    and "work w' = work w - 1"
proof -
  show "writer_ok w'"
    using assms(1) by (simp add: w'_def writer_ok_completed writer_ok_run_posted)
  show "backlog w' = backlog w"
    using assms(1) by (simp add: w'_def backlog_completed backlog_simps)
  show "busy w'"
    using assms
    by (cases "wr_queue w"; auto simp: busy_def writer_ok_def write_completed_def run_posted_def
        flushWrites_def Let_def split: list.splits if_splits)
  show "work w' = work w - 1"
    using assms
    by (cases "wr_queue w"; auto simp: busy_def work_def writer_ok_def write_completed_def
        run_posted_def flushWrites_def Let_def split: list.splits if_splits)
qed

lemma drain_all:
  "writer_ok w \<Longrightarrow> busy w \<Longrightarrow> work w \<le> n \<Longrightarrow> wr_sent (drain n w) = backlog w"
proof (induction n arbitrary: w)
  case 0
  then show ?case by (simp add: work_def backlog_def)
next
  case (Suc n)
  let ?w = "if wr_inflight w \<noteq> [] then write_completed True w else run_posted w"
  have "wr_sent (drain n ?w) = backlog ?w"
    using Suc.prems(3) drain_invariants [OF Suc.prems(1,2)] by (intro Suc.IH) auto
  then show ?case
    using drain_invariants(3) [OF Suc.prems(1,2)] by simp
qed

lemma busy_step: "writer_ok w \<Longrightarrow> busy w \<Longrightarrow> e \<noteq> Write_completed False \<Longrightarrow> busy (writer_step e w)"
  by (cases e)
    (auto simp: busy_def writer_ok_def enqueueWrite_def write_completed_def run_posted_def
      flushWrites_def Let_def split: list.splits if_splits)

lemma busy_run:
  "writer_ok w \<Longrightarrow> busy w \<Longrightarrow> Write_completed False \<notin> set es \<Longrightarrow> busy (run writer_step es w)"
  by (induction es arbitrary: w) (auto simp: writer_ok_step busy_step)

section \<open>Properties\<close>

text \<open>
  In every history of posts, strand executions and write completions, failed ones
  included, at most one \<^verbatim>\<open>async_write\<close> is outstanding, it writes the front of
  the queue, and the flag says so; in particular the queue is never popped when empty.
\<close>

theorem writer_one_outstanding:
  "wr_inflight (run writer_step es new_writer) =
     (if wr_in_progress (run writer_step es new_writer)
      then [hd (wr_queue (run writer_step es new_writer))] else [])
   \<and> \<not> (wr_in_progress (run writer_step es new_writer)
        \<and> wr_queue (run writer_step es new_writer) = [])"
  using writer.run_inv [OF writer_ok_new, of es] by (auto simp: writer_ok_def)

text \<open>
  C19: nothing is lost, duplicated or reordered: what was written, what is queued and what is
  still posted is, in this order, what was enqueued.
\<close>

theorem writer_fifo:
  "wr_sent (run writer_step es new_writer) @ wr_queue (run writer_step es new_writer)
     @ wr_posted (run writer_step es new_writer) = enqueued es"
  using backlog_run [OF writer_ok_new, of es] by (simp add: backlog_def new_writer_def)

text \<open>
  C20: as long as no write fails the writer cannot stall: after any such history, as many
  further completions and strand executions as there is work left send everything that was
  ever enqueued.
\<close>

theorem writer_drains:
  assumes "Write_completed False \<notin> set es"
  shows "wr_sent (drain (work (run writer_step es new_writer)) (run writer_step es new_writer))
     = enqueued es"
proof -
  have "busy new_writer" by (simp add: busy_def new_writer_def)
  then have "busy (run writer_step es new_writer)"
    using assms by (intro busy_run writer_ok_new)
  then show ?thesis
    using backlog_run [OF writer_ok_new, of es] writer.run_inv [OF writer_ok_new, of es]
    by (simp add: drain_all backlog_def new_writer_def)
qed

theorem writer_drains_witness:
  "wr_sent (drain 5 (run writer_step [Enqueue [1], Enqueue [2], Run_posted, Enqueue [3]] new_writer))
     = [[1], [2], [3]]"
  using writer_drains [of "[Enqueue [1], Enqueue [2], Run_posted, Enqueue [3]]"]
  by (simp add: work_def new_writer_def enqueueWrite_def run_posted_def flushWrites_def)

end
