(* ===== verification/EarlierWriter.thy ===== *)
theory EarlierWriter
  imports WriteQueue
begin

text \<open>
  How a session wrote before the strand and the flag: \<^verbatim>\<open>send_json\<close> and
  \<^verbatim>\<open>do_write\<close> of the prototype (\<^verbatim>\<open>src/main.cpp\<close>), which are those of the
  earlier \<^verbatim>\<open>src/DeviceSession.cpp\<close>, and the \<^verbatim>\<open>sendRaw\<close> that the low-power
  patch (\<^verbatim>\<open>src/DeviceSession_lowpower_patch.cpp\<close>) adds beside them.  The queue itself
  says whether a write is outstanding.  The one event loop runs the posted lambdas in their
  order.
\<close>

section \<open>The writer\<close>

text \<open>A posted lambda of \<^verbatim>\<open>send_json\<close>, and one of \<^verbatim>\<open>sendRaw\<close>, which
  starts its write without looking at the queue.\<close>

datatype post = Queued (post_data: bytes) | Direct (post_data: bytes)

record EarlierWriter =
  ew_posted :: "post list"
  ew_queue :: "bytes list"
  ew_inflight :: "post list"
  ew_sent :: "bytes list"

definition new_earlier_writer :: EarlierWriter where
  "new_earlier_writer = \<lparr>ew_posted = [], ew_queue = [], ew_inflight = [], ew_sent = []\<rparr>"

definition send_post :: "post \<Rightarrow> EarlierWriter \<Rightarrow> EarlierWriter" where
  "send_post p w = w\<lparr>ew_posted := ew_posted w @ [p]\<rparr>"

definition do_write :: "EarlierWriter \<Rightarrow> EarlierWriter" where
  "do_write w =
     (case ew_queue w of
        [] \<Rightarrow> w
      | buffer # _ \<Rightarrow> w\<lparr>ew_inflight := ew_inflight w @ [Queued buffer]\<rparr>)"

definition earlier_run_posted :: "EarlierWriter \<Rightarrow> EarlierWriter" where
  "earlier_run_posted w =
     (case ew_posted w of
        [] \<Rightarrow> w
      | Queued data # rest \<Rightarrow>
          (let writing = (ew_queue w \<noteq> []);
               w = w\<lparr>ew_posted := rest, ew_queue := ew_queue w @ [data]\<rparr>
           in if \<not> writing then do_write w else w)
      | Direct data # rest \<Rightarrow> w\<lparr>ew_posted := rest, ew_inflight := ew_inflight w @ [Direct data]\<rparr>)"

text \<open>The completion of the write at position \<open>i\<close>; the disconnect that follows an error
  is the session's.\<close>

definition earlier_completed :: "nat \<Rightarrow> bool \<Rightarrow> EarlierWriter \<Rightarrow> EarlierWriter" where
  "earlier_completed i ok w =
     (if length (ew_inflight w) \<le> i then w
      else (let p = ew_inflight w ! i;
                w = w\<lparr>ew_inflight := take i (ew_inflight w) @ drop (Suc i) (ew_inflight w)\<rparr>
            in if \<not> ok then w
               else (let w = w\<lparr>ew_sent := ew_sent w @ [post_data p]\<rparr> in
                 case p of
                   Direct _ \<Rightarrow> w
                 | Queued _ \<Rightarrow>
                     (let w = w\<lparr>ew_queue := tl (ew_queue w)\<rparr>
                      in if ew_queue w \<noteq> [] then do_write w else w))))"

datatype earlier_event = Send bytes | Send_raw bytes | Run_post | Done nat bool

fun earlier_step :: "earlier_event \<Rightarrow> EarlierWriter \<Rightarrow> EarlierWriter" where
  "earlier_step (Send data) w = send_post (Queued data) w"
| "earlier_step (Send_raw data) w = send_post (Direct data) w"
| "earlier_step Run_post w = earlier_run_posted w"
| "earlier_step (Done i ok) w = earlier_completed i ok w"

section \<open>Agreement with the current writer\<close>

text \<open>The events of a session that only sends JSON and whose writes succeed.\<close>

datatype json_event = Json_send bytes | Json_run | Json_done

fun earlier_json_step :: "json_event \<Rightarrow> EarlierWriter \<Rightarrow> EarlierWriter" where
  "earlier_json_step (Json_send data) w = earlier_step (Send data) w"
| "earlier_json_step Json_run w = earlier_step Run_post w"
| "earlier_json_step Json_done w = earlier_step (Done 0 True) w"

fun writer_event_of :: "json_event \<Rightarrow> writer_event" where
  "writer_event_of (Json_send data) = Enqueue data"
| "writer_event_of Json_run = Run_posted"
| "writer_event_of Json_done = Write_completed True"

definition writer_of :: "EarlierWriter \<Rightarrow> Writer" where
  "writer_of w = \<lparr>wr_posted = map post_data (ew_posted w), wr_queue = ew_queue w,
     wr_in_progress = (ew_queue w \<noteq> []), wr_inflight = map post_data (ew_inflight w),
     wr_sent = ew_sent w\<rparr>"

text \<open>Only lambdas of \<^verbatim>\<open>send_json\<close>, and the outstanding write is the front of the
  queue.\<close>

definition earlier_writer_ok :: "EarlierWriter \<Rightarrow> bool" where
  "earlier_writer_ok w \<longleftrightarrow> (\<forall>p\<in>set (ew_posted w). \<exists>data. p = Queued data)
     \<and> ew_inflight w = (case ew_queue w of [] \<Rightarrow> [] | buffer # _ \<Rightarrow> [Queued buffer])"

lemmas earlier_writer_defs =
  send_post_def do_write_def earlier_run_posted_def earlier_completed_def

lemma earlier_writer_ok_step: "earlier_writer_ok w \<Longrightarrow> earlier_writer_ok (earlier_json_step e w)"
  by (cases e; cases "ew_queue w"; cases "ew_posted w")
    (auto simp: earlier_writer_ok_def earlier_writer_defs Let_def split: list.splits)

lemma writer_of_step:
  "earlier_writer_ok w \<Longrightarrow>
   writer_of (earlier_json_step e w) = writer_step (writer_event_of e) (writer_of w)"
  by (cases e; cases "ew_queue w"; cases "ew_posted w")
    (auto simp: earlier_writer_ok_def earlier_writer_defs writer_of_def enqueueWrite_def
      run_posted_def flushWrites_def write_completed_def Let_def split: list.splits)

interpretation earlier_writer:
  simulation earlier_json_step earlier_writer_ok writer_step writer_of writer_event_of
  by unfold_locales (simp_all add: earlier_writer_ok_step writer_of_step)

lemma new_earlier_writer_ok: "earlier_writer_ok new_earlier_writer"
  by (simp add: earlier_writer_ok_def new_earlier_writer_def)

lemma writer_of_new: "writer_of new_earlier_writer = new_writer"
  by (simp add: writer_of_def new_earlier_writer_def new_writer_def)

section \<open>Properties\<close>

text \<open>
  C31: as long as a session sends only JSON and its writes succeed, the writer of the
  prototype and the current one are the same machine: after the same events they have the
  same outstanding write, the same queue and the same bytes on the wire.
\<close>

theorem earlier_writer_simulates:
  "writer_of (run earlier_json_step es new_earlier_writer) =
     run writer_step (map writer_event_of es) new_writer"
  using earlier_writer.run_abs [OF new_earlier_writer_ok, of es] by (simp add: writer_of_new)

text \<open>
  The \<^verbatim>\<open>sendRaw\<close> of the low-power patch breaks the promise of one outstanding
  write: a raw frame sent while a line is being written is written at the same time, on the
  same socket.
\<close>

theorem direct_write_overlaps:
  "ew_inflight (run earlier_step [Send line, Run_post, Send_raw frame, Run_post] new_earlier_writer)
     = [Queued line, Direct frame]"
  by (simp add: earlier_writer_defs new_earlier_writer_def Let_def)

end
