(* ===== verification/Codec.thy ===== *)
theory Codec
  imports Prelude
begin

text \<open>
  The interface of a wire format: an encoder, a decoder that may refuse, and the values the
  format can carry.  The frame format, the LV payload of an authentication frame and the
  big-endian integers all provide it; what a client wants (injectivity, no two byte strings
  for one value, exactly the encodings are accepted) is proved once here.  A framed format
  moreover tells from a fixed-size header how long the message is, which is what lets a
  reader cut a byte stream into messages.
\<close>

locale codec =
  fixes enc :: "'a \<Rightarrow> bytes"
    and dec :: "bytes \<Rightarrow> 'a option"
    and ok :: "'a \<Rightarrow> bool"
  assumes dec_enc: "ok x \<Longrightarrow> dec (enc x) = Some x"
    and enc_dec: "dec bs = Some x \<Longrightarrow> ok x \<and> enc x = bs"
begin

lemma dec_iff: "dec bs = Some x \<longleftrightarrow> ok x \<and> enc x = bs"
  using dec_enc enc_dec by blast

lemma enc_inject: "ok x \<Longrightarrow> ok y \<Longrightarrow> enc x = enc y \<longleftrightarrow> x = y"
  using dec_enc by (metis option.inject)

lemma dec_canonical: "dec bs = Some x \<Longrightarrow> dec cs = Some x \<Longrightarrow> bs = cs"
  by (auto simp: dec_iff)

lemma dec_None_iff: "dec bs = None \<longleftrightarrow> (\<forall>x. ok x \<longrightarrow> enc x \<noteq> bs)"
  using dec_iff by (metis not_None_eq)

end

locale framed_codec = codec enc dec ok
  for enc :: "'a \<Rightarrow> bytes" and dec :: "bytes \<Rightarrow> 'a option" and ok :: "'a \<Rightarrow> bool" +
  fixes header :: nat
    and body_length :: "bytes \<Rightarrow> nat"
  assumes framed: "ok x \<Longrightarrow> length (enc x) = header + body_length (take header (enc x))"
begin

lemma header_bound: "ok x \<Longrightarrow> header \<le> length (enc x)"
  using framed by fastforce

lemma take_header_append: "ok x \<Longrightarrow> take header (enc x @ rest) = take header (enc x)"
  using header_bound by simp

text \<open>The first message of a stream is found from its header alone.\<close>

lemma cut_message:
  assumes "ok x"
  shows "take (header + body_length (take header (enc x @ rest))) (enc x @ rest) = enc x"
    and "drop (header + body_length (take header (enc x @ rest))) (enc x @ rest) = rest"
  using framed [OF assms] take_header_append [OF assms] by simp_all

text \<open>No encoding is a proper prefix of another.\<close>

lemma prefix_free:
  assumes "ok x" and "ok y" and "enc x @ r = enc y @ r'"
  shows "x = y \<and> r = r'"
proof -
  have "enc x = enc y"
    using cut_message(1) [OF assms(1), of r] cut_message(1) [OF assms(2), of r'] assms(3)
    by simp
  with assms show ?thesis by (simp add: enc_inject)
qed

end

end
