(* ===== verification/Json.thy ===== *)
theory Json
  imports Prelude
begin

text \<open>
  JSON documents and the JSON library (nlohmann), which is not part of the repository.  The
  documents are data; every function of the library that the gateway calls is a field of the
  record \<open>json_lib\<close>, a parameter of the model.  The predicates at the end state the
  documented behaviour that some properties need as a hypothesis.
\<close>

datatype json =
    JNull
  | JBool bool
  | JInt int
  | JNumber string   \<comment> \<open>a number that is not an integer, as its text\<close>
  | JString string
  | JArray "json list"
  | JObject "(string \<times> json) list"

text \<open>\<^verbatim>\<open>j.value(key, default)\<close> is one overloaded member of the library; the
  model has one field per result type.  \<open>json_parse\<close> is \<^verbatim>\<open>json::parse\<close>,
  which takes the whole text; \<open>json_read\<close> is \<^verbatim>\<open>stream >> j\<close>, which stops
  after the first document.\<close>

record json_lib =
  json_parse :: "string \<Rightarrow> exn + json"
  json_read :: "string \<Rightarrow> exn + json"
  json_dump :: "json \<Rightarrow> exn + string"
  json_dump2 :: "json \<Rightarrow> exn + string"
  value_string :: "json \<Rightarrow> string \<Rightarrow> string \<Rightarrow> exn + string"
  value_int :: "json \<Rightarrow> string \<Rightarrow> int \<Rightarrow> exn + int"
  value_int64 :: "json \<Rightarrow> string \<Rightarrow> int \<Rightarrow> exn + int"
  value_bool :: "json \<Rightarrow> string \<Rightarrow> bool \<Rightarrow> exn + bool"
  value_json :: "json \<Rightarrow> string \<Rightarrow> json \<Rightarrow> exn + json"
  json_contains :: "json \<Rightarrow> string \<Rightarrow> bool"
  json_at :: "json \<Rightarrow> string \<Rightarrow> json"

text \<open>\<^verbatim>\<open>j[key] = v\<close> on an object the gateway has built.\<close>

fun json_set :: "json \<Rightarrow> string \<Rightarrow> json \<Rightarrow> json" where
  "json_set (JObject fs) k v = JObject (AList.update k v fs)"
| "json_set j k v = j"

fun json_fields :: "json \<Rightarrow> (string \<times> json) list" where
  "json_fields (JObject fs) = fs"
| "json_fields j = []"

definition json_field :: "json \<Rightarrow> string \<Rightarrow> json option" where
  "json_field j k = map_of (json_fields j) k"

lemma json_field_object [simp]: "json_field (JObject fs) k = map_of fs k"
  by (simp add: json_field_def)

lemma json_field_set [simp]:
  "json_field (json_set (JObject fs) k v) k' =
     (if k' = k then Some v else json_field (JObject fs) k')"
  by (simp add: update_conv)

section \<open>Documented behaviour of the library\<close>

text \<open>\<^verbatim>\<open>value\<close> with a string default: the default when the key is absent, the
  member when it is a string, \<^verbatim>\<open>type_error\<close> when the member has another type or
  the document is not an object.\<close>

definition value_string_law :: "json_lib \<Rightarrow> bool" where
  "value_string_law J \<longleftrightarrow>
     (\<forall>j k d. case j of
        JObject fs \<Rightarrow>
          (case map_of fs k of
             None \<Rightarrow> value_string J j k d = Inr d
           | Some (JString s) \<Rightarrow> value_string J j k d = Inr s
           | Some _ \<Rightarrow> (\<exists>e. value_string J j k d = Inl (Json_Error e)))
      | _ \<Rightarrow> (\<exists>e. value_string J j k d = Inl (Json_Error e)))"

definition value_int_law :: "json_lib \<Rightarrow> bool" where
  "value_int_law J \<longleftrightarrow>
     (\<forall>fs k d. map_of fs k = None \<longrightarrow> value_int J (JObject fs) k d = Inr d)"

text \<open>Parsing a dumped document gives a document with the same members.\<close>

definition dump_parse_law :: "json_lib \<Rightarrow> bool" where
  "dump_parse_law J \<longleftrightarrow>
     (\<forall>j s. json_dump J j = Inr s \<longrightarrow>
        (\<exists>j'. json_parse J s = Inr j' \<and> (\<forall>k. json_field j' k = json_field j k)))"

text \<open>A dumped document holds no raw line feed: \<^verbatim>\<open>dump()\<close> without an indent
  writes one line and escapes control characters.\<close>

definition dump_one_line_law :: "json_lib \<Rightarrow> bool" where
  "dump_one_line_law J \<longleftrightarrow> (\<forall>j s. json_dump J j = Inr s \<longrightarrow> CHR 0x0A \<notin> set s)"

lemma value_string_not_object:
  assumes "value_string_law J" and "\<And>fs. j \<noteq> JObject fs"
  shows "\<exists>e. value_string J j k d = Inl (Json_Error e)"
proof -
  from assms(1) have "case j of
        JObject fs \<Rightarrow>
          (case map_of fs k of
             None \<Rightarrow> value_string J j k d = Inr d
           | Some (JString s) \<Rightarrow> value_string J j k d = Inr s
           | Some _ \<Rightarrow> (\<exists>e. value_string J j k d = Inl (Json_Error e)))
      | _ \<Rightarrow> (\<exists>e. value_string J j k d = Inl (Json_Error e))"
    unfolding value_string_law_def by blast
  with assms(2) show ?thesis by (cases j) auto
qed

lemma value_string_member:
  assumes "value_string_law J"
  shows "map_of fs k = Some (JString s) \<Longrightarrow> value_string J (JObject fs) k d = Inr s"
    and "map_of fs k = None \<Longrightarrow> value_string J (JObject fs) k d = Inr d"
    and "map_of fs k = Some v \<Longrightarrow> (\<And>s. v \<noteq> JString s) \<Longrightarrow>
      \<exists>e. value_string J (JObject fs) k d = Inl (Json_Error e)"
proof -
  from assms have *: "case map_of fs k of
             None \<Rightarrow> value_string J (JObject fs) k d = Inr d
           | Some (JString s) \<Rightarrow> value_string J (JObject fs) k d = Inr s
           | Some _ \<Rightarrow> (\<exists>e. value_string J (JObject fs) k d = Inl (Json_Error e))"
    unfolding value_string_law_def by (auto dest: spec [where x = "JObject fs"])
  show "map_of fs k = Some (JString s) \<Longrightarrow> value_string J (JObject fs) k d = Inr s"
    using * by simp
  show "map_of fs k = None \<Longrightarrow> value_string J (JObject fs) k d = Inr d"
    using * by simp
  show "map_of fs k = Some v \<Longrightarrow> (\<And>s. v \<noteq> JString s) \<Longrightarrow>
      \<exists>e. value_string J (JObject fs) k d = Inl (Json_Error e)"
    using * by (cases v) auto
qed

lemma json_field_Some: "json_field j k = Some v \<Longrightarrow> \<exists>fs. j = JObject fs \<and> map_of fs k = Some v"
  by (cases j) (simp_all add: json_field_def)

lemma value_string_field:
  "value_string_law J \<Longrightarrow> json_field j k = Some (JString s) \<Longrightarrow> value_string J j k d = Inr s"
  by (auto dest!: json_field_Some intro: value_string_member)

section \<open>A reference instance\<close>

text \<open>
  A library whose printer is a finite table of documents and texts (it throws on any other
  document) and whose parser is the table read backwards.  Its accessors are the documented
  ones.  It satisfies the laws above and is what closed examples run on.
\<close>

fun table_value_string :: "json \<Rightarrow> string \<Rightarrow> string \<Rightarrow> exn + string" where
  "table_value_string (JObject fs) k d =
     (case map_of fs k of None \<Rightarrow> Inr d | Some (JString s) \<Rightarrow> Inr s
      | Some _ \<Rightarrow> Inl (Json_Error ''type must be string''))"
| "table_value_string _ k d = Inl (Json_Error ''cannot use value()'')"

fun table_value_int :: "json \<Rightarrow> string \<Rightarrow> int \<Rightarrow> exn + int" where
  "table_value_int (JObject fs) k d =
     (case map_of fs k of None \<Rightarrow> Inr d | Some (JInt i) \<Rightarrow> Inr i
      | Some _ \<Rightarrow> Inl (Json_Error ''type must be number''))"
| "table_value_int _ k d = Inl (Json_Error ''cannot use value()'')"

fun table_value_bool :: "json \<Rightarrow> string \<Rightarrow> bool \<Rightarrow> exn + bool" where
  "table_value_bool (JObject fs) k d =
     (case map_of fs k of None \<Rightarrow> Inr d | Some (JBool b) \<Rightarrow> Inr b
      | Some _ \<Rightarrow> Inl (Json_Error ''type must be boolean''))"
| "table_value_bool _ k d = Inl (Json_Error ''cannot use value()'')"

fun table_value_json :: "json \<Rightarrow> string \<Rightarrow> json \<Rightarrow> exn + json" where
  "table_value_json (JObject fs) k d = (case map_of fs k of None \<Rightarrow> Inr d | Some v \<Rightarrow> Inr v)"
| "table_value_json _ k d = Inl (Json_Error ''cannot use value()'')"

definition table_dump :: "(json \<times> string) list \<Rightarrow> json \<Rightarrow> exn + string" where
  "table_dump tbl j =
     (case map_of tbl j of None \<Rightarrow> Inl (Json_Error ''invalid UTF-8 byte'') | Some s \<Rightarrow> Inr s)"

definition table_parse :: "(json \<times> string) list \<Rightarrow> string \<Rightarrow> exn + json" where
  "table_parse tbl s =
     (case map_of (map (\<lambda>(j, s). (s, j)) tbl) s of
        None \<Rightarrow> Inl (Json_Error ''parse error'') | Some j \<Rightarrow> Inr j)"

definition table_read :: "(json \<times> string) list \<Rightarrow> string \<Rightarrow> exn + json" where
  "table_read tbl s =
     (case find (\<lambda>(j, t). prefix t s) tbl of
        None \<Rightarrow> Inl (Json_Error ''parse error'') | Some (j, _) \<Rightarrow> Inr j)"

definition table_json :: "(json \<times> string) list \<Rightarrow> json_lib" where
  "table_json tbl =
     \<lparr>json_parse = table_parse tbl, json_read = table_read tbl, json_dump = table_dump tbl,
      json_dump2 = table_dump tbl,
      value_string = table_value_string, value_int = table_value_int,
      value_int64 = table_value_int, value_bool = table_value_bool, value_json = table_value_json,
      json_contains = (\<lambda>j k. json_field j k \<noteq> None),
      json_at = (\<lambda>j k. case json_field j k of None \<Rightarrow> JNull | Some v \<Rightarrow> v)\<rparr>"

lemma table_json_simps [simp]:
  "json_parse (table_json tbl) = table_parse tbl"
  "json_read (table_json tbl) = table_read tbl"
  "json_dump (table_json tbl) = table_dump tbl"
  "json_dump2 (table_json tbl) = table_dump tbl"
  "value_string (table_json tbl) = table_value_string"
  "value_int (table_json tbl) = table_value_int"
  "value_int64 (table_json tbl) = table_value_int"
  "value_bool (table_json tbl) = table_value_bool"
  "value_json (table_json tbl) = table_value_json"
  by (simp_all add: table_json_def)

lemma table_value_string_law: "value_string_law (table_json tbl)"
  by (auto simp: value_string_law_def split: json.splits option.splits)

lemma table_value_int_law: "value_int_law (table_json tbl)"
  by (simp add: value_int_law_def)

lemma table_dump_parse_law:
  assumes "distinct (map snd tbl)"
  shows "dump_parse_law (table_json tbl)"
proof -
  have "map_of (map (\<lambda>(j, s). (s, j)) tbl) s = Some j" if "map_of tbl j = Some s" for j s
  proof -
    have "(j, s) \<in> set tbl" using that by (rule map_of_SomeD)
    then have "(s, j) \<in> set (map (\<lambda>(j, s). (s, j)) tbl)" by force
    moreover have "map fst (map (\<lambda>(j, s). (s, j)) tbl) = map snd tbl"
      by (induction tbl) auto
    ultimately show ?thesis using assms by (metis map_of_is_SomeI)
  qed
  then show ?thesis
    by (fastforce simp: dump_parse_law_def table_dump_def table_parse_def split: option.splits)
qed

lemma table_dump_one_line_law:
  assumes "\<forall>s \<in> set (map snd tbl). CHR 0x0A \<notin> set s"
  shows "dump_one_line_law (table_json tbl)"
  using assms by (auto simp: dump_one_line_law_def table_dump_def split: option.splits
      dest!: map_of_SomeD)

text \<open>The same library with a printer that prints every document as one text.\<close>

definition brief_json :: "string \<Rightarrow> json_lib" where
  "brief_json s = (table_json [])\<lparr>json_dump := (\<lambda>_. Inr s), json_dump2 := (\<lambda>_. Inr s)\<rparr>"

lemma brief_json_simps [simp]:
  "json_parse (brief_json s) = table_parse []"
  "json_read (brief_json s) = table_read []"
  "json_dump (brief_json s) j = Inr s"
  "json_dump2 (brief_json s) j = Inr s"
  "value_string (brief_json s) = table_value_string"
  "value_int (brief_json s) = table_value_int"
  "value_int64 (brief_json s) = table_value_int"
  "value_bool (brief_json s) = table_value_bool"
  "value_json (brief_json s) = table_value_json"
  by (simp_all add: brief_json_def)

end
