(* ===== verification/LowPowerProtocol.thy ===== *)
theory LowPowerProtocol
  imports Codec Json
begin

unbundle bit_operations_syntax

text \<open>
  The low-power binary protocol (\<^verbatim>\<open>src/protocol/LowPowerProtocol.cpp\<close> and its
  header): big-endian integers, frames, the LV payload of an authentication frame, the CRC-32
  of a wake-up frame, the AES and Base64 wrappers over OpenSSL, and the authentication
  request and response.  OpenSSL is the record \<open>crypto\<close> of parameters.
\<close>

section \<open>Constants, frames and payloads\<close>

definition VERSION_1 :: u8 where "VERSION_1 = 0x01"

definition HEADER_SIZE :: nat where "HEADER_SIZE = 5"

text \<open>
  The enumeration has the fixed underlying type \<^verbatim>\<open>uint8_t\<close>, so a
  \<^verbatim>\<open>static_cast\<close> from a received byte may give a value without a name.
\<close>

datatype MsgType = AUTH_REQ | AUTH_RESP | HEARTBEAT | WAKEUP | Unnamed_MsgType u8

definition MsgType_of_byte :: "u8 \<Rightarrow> MsgType" where
  "MsgType_of_byte b =
     (if b = 0x00 then AUTH_REQ else if b = 0x01 then AUTH_RESP
      else if b = 0x02 then HEARTBEAT else if b = 0x03 then WAKEUP else Unnamed_MsgType b)"

fun byte_of_MsgType :: "MsgType \<Rightarrow> u8" where
  "byte_of_MsgType AUTH_REQ = 0x00"
| "byte_of_MsgType AUTH_RESP = 0x01"
| "byte_of_MsgType HEARTBEAT = 0x02"
| "byte_of_MsgType WAKEUP = 0x03"
| "byte_of_MsgType (Unnamed_MsgType b) = b"

fun MsgType_ok :: "MsgType \<Rightarrow> bool" where
  "MsgType_ok (Unnamed_MsgType b) \<longleftrightarrow> 3 < b"
| "MsgType_ok _ \<longleftrightarrow> True"

datatype EncryptFlag = NONE | AES_CBC_128_PKCS7

fun byte_of_EncryptFlag :: "EncryptFlag \<Rightarrow> u8" where
  "byte_of_EncryptFlag NONE = 0x00"
| "byte_of_EncryptFlag AES_CBC_128_PKCS7 = 0x01"

record Frame =
  fr_version :: u8
  fr_type :: MsgType
  fr_flag :: u8
  fr_size :: u16
  fr_payload :: bytes

record AuthPayload =
  ap_iv :: bytes
  ap_encrypted_devid_base64 :: string
  ap_encrypted_data :: bytes

record AuthRequest =
  ar_type :: int
  ar_method :: int
  ar_authorization :: string
  ar_signature :: string
  ar_time :: string
  ar_random :: string

record AuthResponseResult =
  rr_frame :: Frame
  rr_server_random :: string

section \<open>Big-endian integers\<close>

text \<open>\<^verbatim>\<open>(p[0] << 8) | p[1]\<close> is computed in \<^verbatim>\<open>int\<close> and cast to
  16 bits.\<close>

definition readU16BE :: "bytes \<Rightarrow> u16" where
  "readU16BE p = ucast (push_bit 8 (ucast (p ! 0) :: u32) OR ucast (p ! 1))"

definition writeU16BE :: "bytes \<Rightarrow> u16 \<Rightarrow> bytes" where
  "writeU16BE out v = out @ [ucast (drop_bit 8 v AND 0xFF), ucast (v AND 0xFF)]"

definition writeU32BE :: "bytes \<Rightarrow> u32 \<Rightarrow> bytes" where
  "writeU32BE out v =
     out @ [ucast (drop_bit 24 v AND 0xFF), ucast (drop_bit 16 v AND 0xFF),
            ucast (drop_bit 8 v AND 0xFF), ucast (v AND 0xFF)]"

section \<open>Frames\<close>

definition parseFrame :: "bytes \<Rightarrow> Frame option" where
  "parseFrame data =
     (if length data < HEADER_SIZE then None
      else let size = readU16BE (drop 3 data) in
        if length data \<noteq> HEADER_SIZE + unat size then None
        else Some \<lparr>fr_version = data ! 0, fr_type = MsgType_of_byte (data ! 1),
          fr_flag = data ! 2, fr_size = size,
          fr_payload = (if 0 < size then drop HEADER_SIZE data else [])\<rparr>)"

definition makeFrame :: "MsgType \<Rightarrow> u8 \<Rightarrow> bytes \<Rightarrow> Frame" where
  "makeFrame type flag payload =
     \<lparr>fr_version = VERSION_1, fr_type = type, fr_flag = flag,
      fr_size = word_of_nat (length payload), fr_payload = payload\<rparr>"

definition encodeFrame :: "Frame \<Rightarrow> bytes" where
  "encodeFrame f =
     writeU16BE [fr_version f, byte_of_MsgType (fr_type f), fr_flag f]
       (word_of_nat (length (fr_payload f))) @ fr_payload f"

section \<open>The LV payload\<close>

text \<open>The three lengths are promoted to \<^verbatim>\<open>int\<close> before they are added, so the
  sum is exact.\<close>

definition parseAuthPayloadLV :: "bytes \<Rightarrow> AuthPayload option" where
  "parseAuthPayloadLV payload =
     (if length payload < 6 then None
      else let iv_len = unat (readU16BE payload);
               devid_len = unat (readU16BE (drop 2 payload));
               data_len = unat (readU16BE (drop 4 payload)) in
        if length payload \<noteq> 6 + iv_len + devid_len + data_len then None
        else Some \<lparr>ap_iv = take iv_len (drop 6 payload),
          ap_encrypted_devid_base64 =
            string_of_bytes (take devid_len (drop (6 + iv_len) payload)),
          ap_encrypted_data = take data_len (drop (6 + iv_len + devid_len) payload)\<rparr>)"

definition buildAuthPayloadLV :: "bytes \<Rightarrow> string \<Rightarrow> bytes \<Rightarrow> bytes" where
  "buildAuthPayloadLV iv encrypted_devid_base64 encrypted_data =
     (let out = writeU16BE [] (word_of_nat (length iv));
          out = writeU16BE out (word_of_nat (length encrypted_devid_base64));
          out = writeU16BE out (word_of_nat (length encrypted_data))
      in out @ iv @ bytes_of_string encrypted_devid_base64 @ encrypted_data)"

section \<open>CRC-32 and the fixed frames\<close>

definition crc_bit :: "u32 \<Rightarrow> u32" where
  "crc_bit crc = (let mask = - (crc AND 1) in drop_bit 1 crc XOR (0xEDB88320 AND mask))"

definition crc_byte :: "u32 \<Rightarrow> u8 \<Rightarrow> u32" where
  "crc_byte crc b = (crc_bit ^^ 8) (crc XOR ucast b)"

definition crc32 :: "bytes \<Rightarrow> u32" where
  "crc32 data = NOT (foldl crc_byte 0xFFFFFFFF data)"

definition crc32String :: "string \<Rightarrow> u32" where
  "crc32String s = crc32 (bytes_of_string s)"

definition makeHeartbeatFrame :: bytes where
  "makeHeartbeatFrame = encodeFrame (makeFrame HEARTBEAT 0 [])"

definition makeWakeupFrame :: "string \<Rightarrow> bytes" where
  "makeWakeupFrame local_key =
     (let c = crc32String local_key; payload = writeU32BE [] c
      in encodeFrame (makeFrame WAKEUP 0 payload))"

section \<open>AES, Base64 and HMAC over OpenSSL\<close>

text \<open>
  The functions of OpenSSL the code calls, as parameters: \<^verbatim>\<open>EVP_CIPHER_CTX_new\<close>
  (whether the allocation succeeds), the two outputs of an AES-128-CBC encryption (of
  \<^verbatim>\<open>Update\<close> and of \<^verbatim>\<open>Final\<close>, whose return codes the code ignores),
  those of a decryption (\<open>None\<close> for a return code other than 1), HMAC-SHA256, and the
  Base64 block functions (\<open>None\<close> for a negative length).
\<close>

record crypto =
  evp_ctx_new :: bool
  evp_encrypt_update :: "bytes \<Rightarrow> bytes \<Rightarrow> bytes \<Rightarrow> bytes"
  evp_encrypt_final :: "bytes \<Rightarrow> bytes \<Rightarrow> bytes \<Rightarrow> bytes"
  evp_decrypt_update :: "bytes \<Rightarrow> bytes \<Rightarrow> bytes \<Rightarrow> bytes option"
  evp_decrypt_final :: "bytes \<Rightarrow> bytes \<Rightarrow> bytes \<Rightarrow> bytes option"
  hmac_sha256 :: "bytes \<Rightarrow> bytes \<Rightarrow> bytes"
  evp_encode_block :: "bytes \<Rightarrow> string"
  evp_decode_block :: "string \<Rightarrow> bytes option"

definition normalizeAes128Key :: "string \<Rightarrow> bytes" where
  "normalizeAes128Key key =
     (let n = min 16 (length key)
      in take n (bytes_of_string key) @ drop n (replicate 16 0))"

definition aes128CbcPkcs7Encrypt :: "crypto \<Rightarrow> string \<Rightarrow> bytes \<Rightarrow> bytes \<Rightarrow> exn + bytes" where
  "aes128CbcPkcs7Encrypt C key iv plain =
     (if length iv \<noteq> 16 then Inl (Runtime_Error ''AES CBC IV must be 16 bytes'')
      else let k = normalizeAes128Key key in
        if \<not> evp_ctx_new C then Inl (Runtime_Error ''EVP_CIPHER_CTX_new failed'')
        else Inr (evp_encrypt_update C k iv plain @ evp_encrypt_final C k iv plain))"

definition aes128CbcPkcs7Decrypt :: "crypto \<Rightarrow> string \<Rightarrow> bytes \<Rightarrow> bytes \<Rightarrow> exn + bytes" where
  "aes128CbcPkcs7Decrypt C key iv cipher =
     (if length iv \<noteq> 16 then Inl (Runtime_Error ''AES CBC IV must be 16 bytes'')
      else let k = normalizeAes128Key key in
        if \<not> evp_ctx_new C then Inl (Runtime_Error ''EVP_CIPHER_CTX_new failed'')
        else case evp_decrypt_update C k iv cipher of
            None \<Rightarrow> Inl (Runtime_Error ''AES decrypt update failed'')
          | Some out1 \<Rightarrow>
              (case evp_decrypt_final C k iv cipher of
                 None \<Rightarrow> Inl (Runtime_Error ''AES decrypt final failed'')
               | Some out2 \<Rightarrow> Inr (out1 @ out2)))"

definition base64Encode :: "crypto \<Rightarrow> bytes \<Rightarrow> string" where
  "base64Encode C data = evp_encode_block C data"

text \<open>\<^verbatim>\<open>out.resize(len - padding)\<close> is computed in \<^verbatim>\<open>size_t\<close>: a
  difference below zero wraps to a size no vector can have, and \<^verbatim>\<open>resize\<close>
  throws.\<close>

definition base64Decode :: "crypto \<Rightarrow> string \<Rightarrow> exn + bytes" where
  "base64Decode C s =
     (case evp_decode_block C s of
        None \<Rightarrow> Inl (Runtime_Error ''base64 decode failed'')
      | Some out \<Rightarrow>
          (let padding = (if s \<noteq> [] \<and> s ! (length s - 1) = CHR ''='' then 1 else 0)
                 + (if 1 < length s \<and> s ! (length s - 2) = CHR ''='' then 1 else 0)
           in if length out < padding then Inl (Runtime_Error ''vector::resize'')
              else Inr (take (length out - padding) out)))"

definition hmacSha256Base64 :: "crypto \<Rightarrow> string \<Rightarrow> string \<Rightarrow> string" where
  "hmacSha256Base64 C key data =
     base64Encode C (hmac_sha256 C (bytes_of_string key) (bytes_of_string data))"

section \<open>Authentication\<close>

fun auth_field_of_items :: "string list \<Rightarrow> string \<Rightarrow> string" where
  "auth_field_of_items [] key = ''''"
| "auth_field_of_items (item # items) key =
     (case str_find ''='' item of
        None \<Rightarrow> auth_field_of_items items key
      | Some pos \<Rightarrow>
          (if take pos item = key then drop (pos + 1) item
           else auth_field_of_items items key))"

definition getAuthField :: "string \<Rightarrow> string \<Rightarrow> string" where
  "getAuthField authorization key = auth_field_of_items (getline_items CHR '','' authorization) key"

text \<open>Every exception in the body is caught and gives \<^verbatim>\<open>nullopt\<close>.\<close>

definition parseAuthRequestJson :: "json_lib \<Rightarrow> bytes \<Rightarrow> AuthRequest option" where
  "parseAuthRequestJson J plain_json =
     (case json_parse J (string_of_bytes plain_json) of Inl _ \<Rightarrow> None | Inr j \<Rightarrow>
     (case value_int J j ''type'' 1 of Inl _ \<Rightarrow> None | Inr type \<Rightarrow>
     (case value_int J j ''method'' 1 of Inl _ \<Rightarrow> None | Inr method \<Rightarrow>
     (case value_string J j ''authorization'' '''' of Inl _ \<Rightarrow> None | Inr authorization \<Rightarrow>
     (case value_string J j ''signature'' '''' of Inl _ \<Rightarrow> None | Inr signature \<Rightarrow>
        (let time = getAuthField authorization ''time'';
             random = getAuthField authorization ''random''
         in if authorization = [] \<or> signature = [] \<or> time = [] \<or> random = [] then None
            else Some \<lparr>ar_type = type, ar_method = method, ar_authorization = authorization,
              ar_signature = signature, ar_time = time, ar_random = random\<rparr>))))))"

definition verifyAuthRequest :: "crypto \<Rightarrow> AuthRequest \<Rightarrow> string \<Rightarrow> string \<Rightarrow> bool" where
  "verifyAuthRequest C req devid local_key =
     (let sign_src = devid @ '':'' @ ar_time req @ '':'' @ ar_random req;
          expected = hmacSha256Base64 C local_key sign_src
      in expected = ar_signature req)"

text \<open>The two buffers \<open>iv\<close> and \<open>rnd\<close> are what \<^verbatim>\<open>RAND_bytes\<close>
  left in them, and \<open>now_sec\<close> is the reading of the system clock in seconds.\<close>

definition buildAuthResponse ::
    "crypto \<Rightarrow> json_lib \<Rightarrow> bytes \<Rightarrow> bytes \<Rightarrow> int \<Rightarrow> string \<Rightarrow> string \<Rightarrow> string \<Rightarrow> int
     \<Rightarrow> exn + AuthResponseResult" where
  "buildAuthResponse C J iv rnd now_sec devid local_key device_random heartbeat_interval =
     (let server_random = base64Encode C rnd;
          authorization = ''time='' @ to_string now_sec @ '',random='' @ server_random;
          sign_src = devid @ '':'' @ to_string now_sec @ '':'' @ server_random;
          signature = hmacSha256Base64 C local_key sign_src;
          resp = JObject [(''err'', JInt 0), (''interval'', JInt heartbeat_interval),
            (''random'', JString device_random), (''authorization'', JString authorization),
            (''signature'', JString signature)]
      in case json_dump J resp of Inl e \<Rightarrow> Inl e | Inr resp_str \<Rightarrow>
        (case aes128CbcPkcs7Encrypt C local_key iv (bytes_of_string resp_str) of
           Inl e \<Rightarrow> Inl e
         | Inr encrypted_data \<Rightarrow>
             (case aes128CbcPkcs7Encrypt C local_key iv (bytes_of_string devid) of
                Inl e \<Rightarrow> Inl e
              | Inr encrypted_devid \<Rightarrow>
                  (let encrypted_devid_b64 = base64Encode C encrypted_devid;
                       lv = buildAuthPayloadLV iv encrypted_devid_b64 encrypted_data
                   in Inr \<lparr>rr_frame = makeFrame AUTH_RESP
                             (byte_of_EncryptFlag AES_CBC_128_PKCS7) lv,
                           rr_server_random = server_random\<rparr>))))"

end
