(* ===== verification/LowPowerWire.thy ===== *)
theory LowPowerWire
  imports LowPowerProtocol
begin

unbundle bit_operations_syntax

text \<open>
  What the wire formats of the low-power protocol promise: frames and LV payloads are
  codecs (interpretations \<open>frame_wire\<close> and \<open>lv_wire\<close> of the interfaces of
  \<^theory_text>\<open>Codec\<close>), with the exact condition under which a frame survives its
  16-bit length field, and the CRC-32 is the standard one, is linear and never confuses two
  messages that differ in one byte.
\<close>

section \<open>Big-endian integers\<close>

lemma ff_mask: "(0xFF :: 'a::len word) = mask 8"
  by (simp add: mask_eq_exp_minus_1)

lemma join_split_u16:
  "(ucast (push_bit 8 (ucast (ucast (drop_bit 8 v AND 0xFF) :: u8) :: u32)
      OR ucast (ucast (v AND 0xFF) :: u8)) :: u16) = v"
  unfolding ff_mask by (rule bit_word_eqI) (auto simp: bit_simps)

lemma split_join_u16:
  fixes a b :: u8
  defines "v \<equiv> (ucast (push_bit 8 (ucast a :: u32) OR ucast b) :: u16)"
  shows "(ucast (drop_bit 8 v AND 0xFF) :: u8) = a" and "(ucast (v AND 0xFF) :: u8) = b"
  unfolding v_def ff_mask
  by (rule bit_word_eqI; auto simp: bit_simps dest: bit_imp_le_length)+

lemma length_writeU16BE [simp]: "length (writeU16BE out v) = length out + 2"
  by (simp add: writeU16BE_def)

lemma writeU16BE_append: "writeU16BE out v = out @ writeU16BE [] v"
  by (simp add: writeU16BE_def)

lemma read_writeU16BE [simp]: "readU16BE (writeU16BE [] v @ rest) = v"
  by (simp add: readU16BE_def writeU16BE_def join_split_u16)

lemma write_readU16BE: "2 \<le> length p \<Longrightarrow> writeU16BE [] (readU16BE p) = take 2 p"
  by (cases p; cases "tl p") (auto simp: readU16BE_def writeU16BE_def split_join_u16)

lemma readU16BE_take: "2 \<le> n \<Longrightarrow> 2 \<le> length p \<Longrightarrow> readU16BE (take n p) = readU16BE p"
  by (simp add: readU16BE_def)

lemma unat_u16_of_length: "n < 65536 \<Longrightarrow> unat (word_of_nat n :: u16) = n"
  by (simp add: unat_of_nat)

lemma unat_u16_bound: "unat (v :: u16) < 65536"
proof -
  have "unat v < 2 ^ LENGTH(16)" by (rule unsigned_less)
  then show ?thesis by simp
qed

section \<open>Message types\<close>

lemma MsgType_of_byte_of [simp]: "byte_of_MsgType (MsgType_of_byte b) = b"
  by (simp add: MsgType_of_byte_def)

lemma MsgType_ok_of_byte: "MsgType_ok (MsgType_of_byte b)"
proof (cases "b \<in> {0, 1, 2, 3}")
  case False
  have "3 < b"
  proof (rule ccontr)
    assume "\<not> 3 < b"
    then have "unat b \<le> 3" by (simp add: not_less word_le_nat_alt)
    then have "unat b = 0 \<or> unat b = 1 \<or> unat b = 2 \<or> unat b = 3" by arith
    then have "b = 0 \<or> b = 1 \<or> b = 2 \<or> b = 3"
      by (auto simp: word_unat_eq_iff)
    with False show False by simp
  qed
  with False show ?thesis by (simp add: MsgType_of_byte_def)
qed (auto simp: MsgType_of_byte_def)

lemma byte_of_MsgType_of: "MsgType_ok t \<Longrightarrow> MsgType_of_byte (byte_of_MsgType t) = t"
  by (cases t) (auto simp: MsgType_of_byte_def)

section \<open>Frames\<close>

text \<open>The frames the format carries: the type is one a byte can give, the payload fits the
  16-bit length, and \<^verbatim>\<open>size\<close> says its length.\<close>

definition frame_ok :: "Frame \<Rightarrow> bool" where
  "frame_ok f \<longleftrightarrow> MsgType_ok (fr_type f) \<and> length (fr_payload f) < 65536
     \<and> fr_size f = word_of_nat (length (fr_payload f))"

lemma length_encodeFrame [simp]: "length (encodeFrame f) = 5 + length (fr_payload f)"
  by (simp add: encodeFrame_def)

lemma encodeFrame_header:
  "encodeFrame f = [fr_version f, byte_of_MsgType (fr_type f), fr_flag f]
     @ writeU16BE [] (word_of_nat (length (fr_payload f))) @ fr_payload f"
  by (simp add: encodeFrame_def writeU16BE_append [of "[_, _, _]"])

lemma encodeFrame_size [simp]:
  "readU16BE (drop 3 (encodeFrame f)) = word_of_nat (length (fr_payload f))"
  by (simp add: encodeFrame_header)

lemma encodeFrame_bytes [simp]:
  "encodeFrame f ! 0 = fr_version f" "encodeFrame f ! Suc 0 = byte_of_MsgType (fr_type f)"
  "encodeFrame f ! 2 = fr_flag f" "drop 5 (encodeFrame f) = fr_payload f"
  by (simp_all add: encodeFrame_header writeU16BE_def)

lemma parseFrame_encodeFrame:
  assumes "frame_ok f"
  shows "parseFrame (encodeFrame f) = Some f"
proof -
  have "0 < (word_of_nat (length (fr_payload f)) :: u16) \<longleftrightarrow> fr_payload f \<noteq> []"
    using assms by (auto simp: frame_ok_def word_less_nat_alt unat_u16_of_length)
  with assms show ?thesis
    by (auto simp: parseFrame_def frame_ok_def HEADER_SIZE_def unat_u16_of_length Let_def
        byte_of_MsgType_of)
qed

lemma split_header:
  assumes "5 \<le> length bs"
  shows "[bs ! 0, bs ! 1, bs ! 2] @ writeU16BE [] (readU16BE (drop 3 bs)) @ drop 5 bs = bs"
proof -
  have "take 2 (drop 3 bs) @ drop 5 bs = drop 3 bs"
    using append_take_drop_id [of 2 "drop 3 bs"] by simp
  moreover have "take 3 bs = [bs ! 0, bs ! 1, bs ! 2]"
    using assms by (cases bs; cases "tl bs"; cases "tl (tl bs)") auto
  ultimately show ?thesis
    using assms append_take_drop_id [of 3 bs] by (simp add: write_readU16BE)
qed

lemma encodeFrame_parseFrame:
  assumes "parseFrame bs = Some f"
  shows "frame_ok f \<and> encodeFrame f = bs"
proof -
  define n where "n = readU16BE (drop 3 bs)"
  have len: "length bs = 5 + unat n"
    and f: "f = \<lparr>fr_version = bs ! 0, fr_type = MsgType_of_byte (bs ! 1), fr_flag = bs ! 2,
       fr_size = n, fr_payload = (if 0 < n then drop 5 bs else [])\<rparr>"
    using assms unfolding parseFrame_def Let_def HEADER_SIZE_def n_def [symmetric]
    by (simp_all split: if_splits)
  have pl: "fr_payload f = drop 5 bs"
    using len by (auto simp: f word_gt_0)
  have plen: "length (fr_payload f) = unat n"
    using len by (simp add: pl)
  have ok: "frame_ok f"
    using plen unat_u16_bound [of n] by (simp add: frame_ok_def f MsgType_ok_of_byte)
  have "encodeFrame f = [bs ! 0, bs ! 1, bs ! 2] @ writeU16BE [] n @ drop 5 bs"
    unfolding encodeFrame_header pl using plen pl by (simp add: f)
  also have "\<dots> = bs"
    unfolding n_def using len by (intro split_header) simp
  finally have "encodeFrame f = bs" .
  with ok show ?thesis by simp
qed

text \<open>The reader's cut: the header says how long the frame is.\<close>

definition body_length :: "bytes \<Rightarrow> nat" where
  "body_length header = unat (readU16BE (drop 3 header))"

interpretation frame_wire: framed_codec encodeFrame parseFrame frame_ok HEADER_SIZE body_length
proof (unfold_locales, goal_cases)
  case (1 f)
  then show ?case by (rule parseFrame_encodeFrame)
next
  case (2 bs f)
  then show ?case by (rule encodeFrame_parseFrame)
next
  case (3 f)
  have "drop 3 (take 5 (encodeFrame f)) = take 2 (drop 3 (encodeFrame f))"
    by (simp add: drop_take)
  with 3 show ?case
    by (simp add: HEADER_SIZE_def body_length_def readU16BE_take frame_ok_def unat_u16_of_length)
qed

lemma frame_ok_makeFrame:
  "frame_ok (makeFrame t flag payload) \<longleftrightarrow> MsgType_ok t \<and> length payload < 65536"
  by (simp add: frame_ok_def makeFrame_def)

section \<open>The LV payload\<close>

definition lv_ok :: "AuthPayload \<Rightarrow> bool" where
  "lv_ok p \<longleftrightarrow> length (ap_iv p) < 65536 \<and> length (ap_encrypted_devid_base64 p) < 65536
     \<and> length (ap_encrypted_data p) < 65536"

definition encode_lv :: "AuthPayload \<Rightarrow> bytes" where
  "encode_lv p =
     buildAuthPayloadLV (ap_iv p) (ap_encrypted_devid_base64 p) (ap_encrypted_data p)"

lemma build_header:
  "buildAuthPayloadLV iv d e =
     writeU16BE [] (word_of_nat (length iv)) @ writeU16BE [] (word_of_nat (length d))
     @ writeU16BE [] (word_of_nat (length e)) @ iv @ bytes_of_string d @ e"
  by (simp add: buildAuthPayloadLV_def writeU16BE_append [of "writeU16BE _ _"])

lemma build_parts:
  "length (buildAuthPayloadLV iv d e) = 6 + length iv + length d + length e"
  "readU16BE (buildAuthPayloadLV iv d e) = word_of_nat (length iv)"
  "readU16BE (drop 2 (buildAuthPayloadLV iv d e)) = word_of_nat (length d)"
  "readU16BE (drop 4 (buildAuthPayloadLV iv d e)) = word_of_nat (length e)"
  "drop 6 (buildAuthPayloadLV iv d e) = iv @ bytes_of_string d @ e"
  by (simp_all add: build_header)

lemma build_tail:
  "drop (6 + length iv) (buildAuthPayloadLV iv d e) = bytes_of_string d @ e"
  "drop (6 + length iv + length d) (buildAuthPayloadLV iv d e) = e"
proof -
  have "drop (length iv) (drop 6 (buildAuthPayloadLV iv d e)) = bytes_of_string d @ e"
    by (simp add: build_parts(5))
  then show "drop (6 + length iv) (buildAuthPayloadLV iv d e) = bytes_of_string d @ e"
    by (simp add: add.commute)
  then have "drop (length d) (drop (6 + length iv) (buildAuthPayloadLV iv d e)) = e"
    by simp
  then show "drop (6 + length iv + length d) (buildAuthPayloadLV iv d e) = e"
    by (simp add: ac_simps)
qed

lemma parse_build:
  "length iv < 65536 \<Longrightarrow> length d < 65536 \<Longrightarrow> length e < 65536 \<Longrightarrow>
   parseAuthPayloadLV (buildAuthPayloadLV iv d e) =
     Some \<lparr>ap_iv = iv, ap_encrypted_devid_base64 = d, ap_encrypted_data = e\<rparr>"
  by (simp add: parseAuthPayloadLV_def Let_def build_parts build_tail unat_u16_of_length
      string_of_bytes_def bytes_of_string_def map_idI)

lemma split_lv_header:
  assumes "6 \<le> length p"
  shows "writeU16BE [] (readU16BE p) @ writeU16BE [] (readU16BE (drop 2 p))
     @ writeU16BE [] (readU16BE (drop 4 p)) @ drop 6 p = p"
proof -
  have "take 2 (drop 4 p) @ drop 6 p = drop 4 p"
    using append_take_drop_id [of 2 "drop 4 p"] by simp
  moreover have "take 2 (drop 2 p) @ drop 4 p = drop 2 p"
    using append_take_drop_id [of 2 "drop 2 p"] by simp
  ultimately show ?thesis
    using assms by (simp add: write_readU16BE)
qed

lemma build_parse:
  assumes "parseAuthPayloadLV bs = Some p"
  shows "lv_ok p \<and> encode_lv p = bs"
proof -
  define l where "l = unat (readU16BE bs)"
  define m where "m = unat (readU16BE (drop 2 bs))"
  define n where "n = unat (readU16BE (drop 4 bs))"
  have len: "length bs = 6 + l + m + n"
    and p: "p = \<lparr>ap_iv = take l (drop 6 bs),
       ap_encrypted_devid_base64 = string_of_bytes (take m (drop (6 + l) bs)),
       ap_encrypted_data = take n (drop (6 + l + m) bs)\<rparr>"
    using assms unfolding parseAuthPayloadLV_def Let_def l_def [symmetric] m_def [symmetric]
      n_def [symmetric] by (simp_all split: if_splits)
  have "l < 65536" and "m < 65536" and "n < 65536"
    unfolding l_def m_def n_def by (rule unat_u16_bound)+
  then have ok: "lv_ok p"
    by (auto simp: lv_ok_def p)
  have "take l (drop 6 bs) @ take m (drop (6 + l) bs) @ take n (drop (6 + l + m) bs) = drop 6 bs"
  proof -
    have "take n (drop (6 + l + m) bs) = drop (6 + l + m) bs" using len by simp
    moreover have "take m (drop (6 + l) bs) @ drop (6 + l + m) bs = drop (6 + l) bs"
      using append_take_drop_id [of m "drop (6 + l) bs"] by (simp add: ac_simps)
    moreover have "take l (drop 6 bs) @ drop (6 + l) bs = drop 6 bs"
      using append_take_drop_id [of l "drop 6 bs"] by (simp add: ac_simps)
    ultimately show ?thesis by simp
  qed
  then have "encode_lv p = writeU16BE [] (word_of_nat l) @ writeU16BE [] (word_of_nat m)
      @ writeU16BE [] (word_of_nat n) @ drop 6 bs"
    using len by (simp add: encode_lv_def build_header p)
  also have "\<dots> = bs"
    unfolding l_def m_def n_def of_nat_unat ucast_id using len by (intro split_lv_header) simp
  finally show ?thesis using ok by simp
qed

interpretation lv_wire: codec encode_lv parseAuthPayloadLV lv_ok
proof (unfold_locales, goal_cases)
  case (1 p)
  then show ?case by (simp add: encode_lv_def lv_ok_def parse_build)
next
  case (2 bs p)
  then show ?case by (rule build_parse)
qed

section \<open>CRC-32\<close>

lemma xor_right_cancel: "x XOR k = y XOR k \<longleftrightarrow> x = y" for x y k :: "'a::len word"
proof
  assume "x XOR k = y XOR k"
  then have "(x XOR k) XOR k = (y XOR k) XOR k" by simp
  then show "x = y" by (simp add: xor.assoc)
qed simp

lemma crc_bit_eq: "crc_bit c = drop_bit 1 c XOR (if odd c then 0xEDB88320 else 0)"
  by (cases "odd c")
    (simp_all add: crc_bit_def and_one_eq odd_iff_mod_2_eq_one even_iff_mod_2_eq_zero)

lemma crc_byte_eq:
  "crc_byte c b =
     crc_bit (crc_bit (crc_bit (crc_bit (crc_bit (crc_bit (crc_bit (crc_bit (c XOR ucast b))))))))"
  by (simp add: crc_byte_def eval_nat_numeral)

lemma poly_msb: "bit (0xEDB88320 :: u32) 31"
  by simp

lemma crc_bit_msb: "bit (crc_bit c) 31 \<longleftrightarrow> odd c"
  unfolding crc_bit_eq by (auto simp: bit_simps poly_msb dest: bit_imp_le_length)

lemma crc_bit_inject: "crc_bit c = crc_bit d \<longleftrightarrow> c = d"
proof
  assume eq: "crc_bit c = crc_bit d"
  then have odd: "odd c \<longleftrightarrow> odd d" by (metis crc_bit_msb)
  define k :: u32 where "k = (if odd c then 0xEDB88320 else 0)"
  from eq odd have "drop_bit 1 c XOR k = drop_bit 1 d XOR k"
    by (simp add: crc_bit_eq k_def)
  then have "c div 2 = d div 2" by (simp add: xor_right_cancel drop_bit_eq_div)
  moreover have "c mod 2 = d mod 2" using odd by (simp add: mod_2_eq_odd)
  ultimately show "c = d" by (metis div_mult_mod_eq)
qed simp

lemma crc_bit_xor: "crc_bit (c XOR d) = crc_bit c XOR crc_bit d"
  unfolding crc_bit_eq
  by (cases "odd c"; cases "odd d")
    (simp_all add: drop_bit_xor even_xor_iff xor.assoc xor.commute xor.left_commute)

lemma crc_bits_inject: "(crc_bit ^^ n) c = (crc_bit ^^ n) d \<longleftrightarrow> c = d"
  by (induction n) (simp_all add: crc_bit_inject)

lemma crc_bits_xor: "(crc_bit ^^ n) (c XOR d) = (crc_bit ^^ n) c XOR (crc_bit ^^ n) d"
  by (induction n) (simp_all add: crc_bit_xor)

lemma crc_byte_xor: "crc_byte (c XOR d) (a XOR b) = crc_byte c a XOR crc_byte d b"
proof -
  have "(ucast (a XOR b) :: u32) = ucast a XOR ucast b"
    by (rule bit_word_eqI) (auto simp: bit_simps)
  then have "(c XOR d) XOR ucast (a XOR b) = (c XOR ucast a) XOR (d XOR ucast b)"
    by (simp add: ac_simps)
  then show ?thesis by (simp add: crc_byte_def crc_bits_xor)
qed

lemma crc_bytes_inject: "foldl crc_byte c xs = foldl crc_byte d xs \<longleftrightarrow> c = d"
proof (induction xs arbitrary: c d)
  case (Cons x xs)
  then show ?case by (simp add: crc_byte_def crc_bits_inject xor_right_cancel)
qed simp

lemma crc_bytes_xor:
  "length xs = length ys \<Longrightarrow>
   foldl crc_byte c xs XOR foldl crc_byte d ys
     = foldl crc_byte (c XOR d) (map2 (XOR) xs ys)"
  by (induction xs ys arbitrary: c d rule: list_induct2) (simp_all add: crc_byte_xor)

text \<open>
  Where the shift register ends with zeros at the top, every step shifted out a zero: the
  register before the steps is the one after them, shifted back.
\<close>

definition below :: "nat \<Rightarrow> u32 \<Rightarrow> bool" where
  "below n w \<longleftrightarrow> (\<forall>i \<ge> n. \<not> bit w i)"

lemma crc_bit_shifted:
  assumes "below 31 (crc_bit c)"
  shows "c = push_bit 1 (crc_bit c)"
proof -
  have "even c" using assms crc_bit_msb [of c] by (auto simp: below_def)
  then have "crc_bit c = drop_bit 1 c" by (simp add: crc_bit_eq)
  moreover have "c div 2 * 2 = c" 
    using \<open>even c\<close> div_mult_mod_eq [of c 2] by (simp add: mod_2_eq_odd)
  ultimately show ?thesis
    by (simp add: push_bit_eq_mult drop_bit_eq_div)
qed

lemma below_mono: "below m w \<Longrightarrow> m \<le> n \<Longrightarrow> below n w"
  by (auto simp: below_def)

lemma below_push_bit: "below m w \<Longrightarrow> below (m + n) (push_bit n w)"
  by (auto simp: below_def bit_simps)

lemma crc_bits_shifted:
  "n \<le> 32 \<Longrightarrow> below (32 - n) ((crc_bit ^^ n) c) \<Longrightarrow> c = push_bit n ((crc_bit ^^ n) c)"
proof (induction n)
  case (Suc n)
  let ?y = "(crc_bit ^^ n) c"
  have b: "below (31 - n) (crc_bit ?y)" using Suc.prems by simp
  then have y: "?y = push_bit 1 (crc_bit ?y)"
    by (intro crc_bit_shifted) (auto intro: below_mono)
  have "below (31 - n + 1) (push_bit 1 (crc_bit ?y))"
    using b by (rule below_push_bit)
  moreover have "31 - n + 1 = 32 - n" using Suc.prems(1) by simp
  ultimately have "below (32 - n) ?y" using y by argo
  with Suc have "c = push_bit n ?y" by simp
  also have "\<dots> = push_bit n (push_bit 1 (crc_bit ?y))" using y by simp
  also have "\<dots> = push_bit (Suc n) (crc_bit ?y)" by (simp add: push_bit_push_bit)
  finally show ?case by simp
qed simp

lemma crc_byte_shifted:
  assumes "below 24 (crc_byte c b)"
  shows "c = push_bit 8 (crc_byte c b) XOR ucast b"
proof -
  have "c XOR ucast b = push_bit 8 (crc_byte c b)"
    using crc_bits_shifted [of 8 "c XOR ucast b"] assms by (simp add: crc_byte_def)
  then have "(c XOR ucast b) XOR ucast b = push_bit 8 (crc_byte c b) XOR ucast b" by simp
  then show ?thesis by (simp add: xor.assoc)
qed

lemma below_ucast8: "below 8 (ucast (b :: u8))"
  by (auto simp: below_def bit_simps dest: bit_imp_le_length)

lemma below_xor: "below n v \<Longrightarrow> below n w \<Longrightarrow> below n (v XOR w)"
  by (auto simp: below_def bit_simps)

lemma crc_zero_burst:
  "length zs + m \<le> 4 \<Longrightarrow> below (8 * m) (foldl crc_byte 0 zs) \<Longrightarrow>
   zs = replicate (length zs) 0"
proof (induction zs arbitrary: m rule: rev_induct)
  case (snoc z zs)
  let ?s = "foldl crc_byte 0 zs"
  let ?v = "crc_byte ?s z"
  have m: "m \<le> 3" and b: "below (8 * m) ?v" using snoc.prems by simp_all
  then have "below 24 ?v" by (auto intro: below_mono)
  then have s: "?s = push_bit 8 ?v XOR ucast z" by (rule crc_byte_shifted)
  have "below (8 * m + 8) (push_bit 8 ?v)" using b by (rule below_push_bit)
  moreover have "below (8 * m + 8) (ucast z)" using below_ucast8 by (rule below_mono) simp
  ultimately have "below (8 * Suc m) ?s"
    by (subst s) (simp add: below_xor add.commute)
  then have zs: "zs = replicate (length zs) 0"
    using snoc.prems(1) by (intro snoc.IH [of "Suc m"]) simp_all
  have "crc_byte 0 0 = 0" by (simp add: crc_byte_eq crc_bit_eq)
  then have "foldl crc_byte 0 (replicate k 0) = 0" for k by (induction k) simp_all
  then have "?s = 0" by (subst zs) simp
  then have eq: "push_bit 8 ?v XOR ucast z = (0 :: u32)" using s by simp
  have "z = 0"
  proof (rule bit_word_eqI)
    fix n assume "n < LENGTH(8)"
    moreover have "\<not> bit (push_bit 8 ?v XOR ucast z :: u32) n" unfolding eq by simp
    ultimately show "bit z n \<longleftrightarrow> bit (0 :: u8) n" by (simp add: bit_simps)
  qed
  with zs show ?case by (metis length_append_singleton replicate_append_same replicate_Suc)
qed simp

lemma crc_burst:
  assumes len: "length xs = length ys" "length xs \<le> 4"
    and eq: "foldl crc_byte c xs = foldl crc_byte c ys"
  shows "xs = ys"
proof -
  let ?zs = "map2 (XOR) xs ys"
  have "foldl crc_byte 0 ?zs = 0"
    using crc_bytes_xor [OF len(1), of c c] eq by simp
  then have "?zs = replicate (length xs) 0"
    using crc_zero_burst [of ?zs 0] len by (simp add: below_def)
  then have "xs ! i XOR ys ! i = 0" if "i < length xs" for i
  proof -
    have "?zs ! i = 0" using \<open>?zs = _\<close> that by simp
    then show ?thesis using that len by simp
  qed
  moreover have "a = b" if "a XOR b = 0" for a b :: u8
    using that xor_right_cancel [of a b b] by simp
  ultimately show ?thesis using len by (auto intro: nth_equalityI)
qed

section \<open>The wake-up frame\<close>

lemma byte_bit:
  fixes v :: u32
  assumes "k \<le> n" and "n < k + 8"
  shows "bit (ucast (drop_bit k v AND 0xFF) :: u8) (n - k) \<longleftrightarrow> bit v n"
  using assms unfolding ff_mask by (auto simp: bit_simps)

lemma length_writeU32BE [simp]: "length (writeU32BE out v) = length out + 4"
  by (simp add: writeU32BE_def)

lemma writeU32BE_inject: "writeU32BE [] v = writeU32BE [] w \<longleftrightarrow> v = w"
proof
  assume "writeU32BE [] v = writeU32BE [] w"
  then have eq: "(ucast (drop_bit k v AND 0xFF) :: u8) = ucast (drop_bit k w AND 0xFF)"
    if "k \<in> {0, 8, 16, 24}" for k
    using that by (auto simp: writeU32BE_def)
  show "v = w"
  proof (rule bit_word_eqI)
    fix n assume "n < LENGTH(32)"
    then have "8 * (n div 8) \<in> {0, 8, 16, 24}" by auto
    moreover have "8 * (n div 8) \<le> n" and "n < 8 * (n div 8) + 8" by simp_all
    ultimately show "bit v n \<longleftrightarrow> bit w n"
      using byte_bit [of "8 * (n div 8)" n] eq by metis
  qed
qed simp

definition wakeup_frame :: "string \<Rightarrow> Frame" where
  "wakeup_frame local_key = makeFrame WAKEUP 0 (writeU32BE [] (crc32String local_key))"

lemma frame_ok_wakeup: "frame_ok (wakeup_frame local_key)"
  by (simp add: wakeup_frame_def frame_ok_makeFrame)

lemma makeWakeupFrame_eq: "makeWakeupFrame local_key = encodeFrame (wakeup_frame local_key)"
  by (simp add: makeWakeupFrame_def wakeup_frame_def Let_def)

lemma makeWakeupFrame_inject:
  "makeWakeupFrame k = makeWakeupFrame k' \<longleftrightarrow> crc32String k = crc32String k'"
proof
  assume "makeWakeupFrame k = makeWakeupFrame k'"
  then have "wakeup_frame k = wakeup_frame k'"
    by (simp add: makeWakeupFrame_eq frame_wire.enc_inject frame_ok_wakeup)
  then show "crc32String k = crc32String k'"
    by (simp add: wakeup_frame_def makeFrame_def writeU32BE_inject)
qed (simp add: makeWakeupFrame_def)

section \<open>Properties\<close>

text \<open>
  C11: the frame parser accepts exactly the encodings of the frames the format can carry, and
  gives the encoded frame back; no frame has two encodings and no byte string two readings.
\<close>

theorem parseFrame_iff: "parseFrame bs = Some f \<longleftrightarrow> frame_ok f \<and> encodeFrame f = bs"
  by (rule frame_wire.dec_iff)

text \<open>
  C36: a frame built by the gateway comes back from the parser when its payload fits the
  16-bit length field; a longer payload is encoded with a truncated length and every parser
  of the format refuses it.
\<close>

theorem parseFrame_makeFrame:
  assumes "MsgType_ok t"
  shows "parseFrame (encodeFrame (makeFrame t flag payload)) =
    (if length payload < 65536 then Some (makeFrame t flag payload) else None)"
proof (cases "length payload < 65536")
  case True
  with assms show ?thesis by (simp add: parseFrame_encodeFrame frame_ok_makeFrame)
next
  case False
  then have "unat (word_of_nat (length payload) :: u16) \<noteq> length payload"
    using unat_u16_bound [of "word_of_nat (length payload)"] by linarith
  with False show ?thesis
    by (simp add: parseFrame_def makeFrame_def Let_def HEADER_SIZE_def)
qed

theorem parseFrame_makeFrame_witness:
  "MsgType_ok WAKEUP \<and>
   parseFrame (encodeFrame (makeFrame WAKEUP 0 (replicate 65536 7))) = None"
  using parseFrame_makeFrame [of WAKEUP 0 "replicate 65536 7"] by simp

text \<open>
  C35: the LV parser accepts exactly what the builder produces from three parts of fewer than
  65536 bytes each, and gives the three parts back.
\<close>

theorem parseAuthPayloadLV_iff:
  "parseAuthPayloadLV bs = Some p \<longleftrightarrow>
     lv_ok p \<and>
     buildAuthPayloadLV (ap_iv p) (ap_encrypted_devid_base64 p) (ap_encrypted_data p) = bs"
  using lv_wire.dec_iff [of bs p] by (simp add: encode_lv_def)

text \<open>
  C34: the CRC-32 of the wake-up frame detects every change confined to four consecutive
  bytes: two local keys that differ only there never share a wake-up frame.
\<close>

theorem makeWakeupFrame_burst:
  assumes "length xs = length ys" and "length xs \<le> 4"
  shows "makeWakeupFrame (p @ xs @ s) = makeWakeupFrame (p @ ys @ s) \<longleftrightarrow> xs = ys"
proof
  assume "makeWakeupFrame (p @ xs @ s) = makeWakeupFrame (p @ ys @ s)"
  then have "crc32String (p @ xs @ s) = crc32String (p @ ys @ s)"
    by (simp only: makeWakeupFrame_inject)
  then have "bytes_of_string xs = bytes_of_string ys"
    using assms unfolding crc32String_def crc32_def bytes_of_string_append foldl_append
    by (intro crc_burst) (simp_all add: crc_bytes_inject)
  then show "xs = ys" by simp
qed simp

theorem makeWakeupFrame_burst_witness:
  "makeWakeupFrame ''key-0001-a'' \<noteq> makeWakeupFrame ''key-0002-a''"
  using makeWakeupFrame_burst [of "''0001''" "''0002''" "''key-''" "''-a''"] by simp

text \<open>
  A wake-up frame is a well-formed WAKEUP frame of four payload bytes that carry the
  CRC-32 of the local key, big-endian, and the CRC is the standard one: its check value on
  the nine digits is 0xCBF43926.
\<close>

theorem makeWakeupFrame_parses:
  "(\<exists>f. parseFrame (makeWakeupFrame local_key) = Some f \<and> fr_version f = VERSION_1
     \<and> fr_type f = WAKEUP \<and> fr_flag f = 0 \<and> fr_size f = 4
     \<and> fr_payload f = writeU32BE [] (crc32String local_key))
   \<and> crc32String ''123456789'' = 0xCBF43926"
proof
  have "parseFrame (makeWakeupFrame local_key) = Some (wakeup_frame local_key)"
    by (simp add: makeWakeupFrame_eq parseFrame_encodeFrame frame_ok_wakeup)
  then show "\<exists>f. parseFrame (makeWakeupFrame local_key) = Some f \<and> fr_version f = VERSION_1
     \<and> fr_type f = WAKEUP \<and> fr_flag f = 0 \<and> fr_size f = 4
     \<and> fr_payload f = writeU32BE [] (crc32String local_key)"
    by (auto simp: wakeup_frame_def makeFrame_def)
  show "crc32String ''123456789'' = 0xCBF43926"
    by (simp add: crc32String_def bytes_of_string_def byte_of_char_def crc32_def crc_byte_eq
        crc_bit_eq)
qed

end
