(* ===== verification/LowPowerAuth.thy ===== *)
theory LowPowerAuth
  imports LowPowerWire
begin

text \<open>
  The authentication exchange of the low-power protocol: reading the fields of an
  authorization string, the AES wrapper as an inverse pair, what an accepted request has been
  signed with, and that a response of the gateway passes the gateway's own verification.  The
  documented behaviour of OpenSSL that this rests on is stated first.
\<close>

section \<open>Documented behaviour of OpenSSL\<close>

text \<open>With a 16-byte key and IV, decrypting what encrypting produced gives the plain text
  back.\<close>

definition aes_law :: "crypto \<Rightarrow> bool" where
  "aes_law C \<longleftrightarrow> evp_ctx_new C \<and>
     (\<forall>k iv p. length k = 16 \<longrightarrow> length iv = 16 \<longrightarrow>
        (let c = evp_encrypt_update C k iv p @ evp_encrypt_final C k iv p
         in \<exists>a b. evp_decrypt_update C k iv c = Some a \<and> evp_decrypt_final C k iv c = Some b
              \<and> a @ b = p))"

text \<open>Base64 text has no comma and is empty for empty data only.\<close>

definition base64_law :: "crypto \<Rightarrow> bool" where
  "base64_law C \<longleftrightarrow>
     (\<forall>data. CHR '','' \<notin> set (evp_encode_block C data) \<and> (evp_encode_block C data = [] \<longrightarrow> data = []))"

definition hmac_law :: "crypto \<Rightarrow> bool" where
  "hmac_law C \<longleftrightarrow> (\<forall>k d. length (hmac_sha256 C k d) = 32)"

section \<open>Authorization fields\<close>

lemma getAuthField_pair:
  assumes "CHR '','' \<notin> set t" and "CHR '','' \<notin> set r"
  shows "getAuthField (''time='' @ t @ '',random='' @ r) ''time'' = t"
    and "getAuthField (''time='' @ t @ '',random='' @ r) ''random'' = r"
proof -
  have "getline_items CHR '','' (''time='' @ t @ '',random='' @ r)
      = [''time='' @ t, ''random='' @ r]"
    using getline_items_first [of "CHR '',''" "''time='' @ t" "''random='' @ r"]
      getline_items_no_delim [of "CHR '',''" "''random='' @ r"] assms by simp
  moreover have "str_find ''='' (''time='' @ t) = Some 4" by simp
  moreover have "str_find ''='' (''random='' @ r) = Some 6" by simp
  ultimately show "getAuthField (''time='' @ t @ '',random='' @ r) ''time'' = t"
    and "getAuthField (''time='' @ t @ '',random='' @ r) ''random'' = r"
    unfolding getAuthField_def by simp_all
qed

lemma digit_char_neq_comma: "n < 10 \<Longrightarrow> digit_char n \<noteq> CHR '',''"
proof -
  assume "n < 10"
  then have "(of_char (digit_char n) :: nat) = 48 + n"
    by (simp add: digit_char_def)
  then show ?thesis by auto
qed

lemma string_of_nat_no_comma: "CHR '','' \<notin> set (string_of_nat n)"
proof (induction n rule: string_of_nat.induct)
  case (1 n)
  then show ?case
    using digit_char_neq_comma [of n] digit_char_neq_comma [of "n mod 10"]
    by (cases "n < 10") (auto simp: string_of_nat.simps [of n])
qed

lemma to_string_no_comma: "CHR '','' \<notin> set (to_string i)"
  by (simp add: to_string_def string_of_nat_no_comma)

lemma to_string_not_Nil: "to_string i \<noteq> []"
proof -
  have "string_of_nat n \<noteq> []" for n by (simp add: string_of_nat.simps [of n])
  then show ?thesis by (simp add: to_string_def)
qed

section \<open>AES\<close>

lemma length_normalizeAes128Key [simp]: "length (normalizeAes128Key key) = 16"
  by (simp add: normalizeAes128Key_def Let_def)

lemma aes_decrypt_encrypt:
  assumes "aes_law C" and "aes128CbcPkcs7Encrypt C key iv plain = Inr cipher"
  shows "aes128CbcPkcs7Decrypt C key iv cipher = Inr plain"
proof -
  let ?k = "normalizeAes128Key key"
  from assms(2) have iv: "length iv = 16" and new: "evp_ctx_new C"
    and c: "cipher = evp_encrypt_update C ?k iv plain @ evp_encrypt_final C ?k iv plain"
    by (auto simp: aes128CbcPkcs7Encrypt_def Let_def split: if_splits)
  from assms(1) iv obtain a b where "evp_decrypt_update C ?k iv cipher = Some a"
    and "evp_decrypt_final C ?k iv cipher = Some b" and "a @ b = plain"
    unfolding aes_law_def Let_def c by (metis length_normalizeAes128Key)
  with iv new show ?thesis by (simp add: aes128CbcPkcs7Decrypt_def Let_def)
qed

lemma aes_encrypt_total:
  "aes_law C \<Longrightarrow> length iv = 16 \<Longrightarrow> \<exists>c. aes128CbcPkcs7Encrypt C key iv plain = Inr c"
  by (simp add: aes128CbcPkcs7Encrypt_def aes_law_def Let_def)

lemma aes_key_prefix:
  "take 16 key = take 16 key' \<Longrightarrow> normalizeAes128Key key = normalizeAes128Key key'"
proof -
  assume eq: "take 16 key = take 16 key'"
  then have "min 16 (length key) = min 16 (length key')" by (metis length_take min.commute)
  moreover from eq have "take 16 (bytes_of_string key) = take 16 (bytes_of_string key')"
    by (simp add: bytes_of_string_def take_map)
  moreover have "take (min 16 n) xs = take 16 (take n xs)" for n and xs :: bytes
    by simp
  ultimately show ?thesis
    by (simp add: normalizeAes128Key_def Let_def) (metis length_bytes_of_string take_take take_all_iff le_refl)
qed

section \<open>Requests and responses\<close>

lemma parseAuthRequestJson_Some:
  assumes "parseAuthRequestJson J plain = Some req"
  shows "ar_time req = getAuthField (ar_authorization req) ''time''"
    and "ar_random req = getAuthField (ar_authorization req) ''random''"
    and "ar_time req \<noteq> []" and "ar_random req \<noteq> []" and "ar_signature req \<noteq> []"
    and "ar_authorization req \<noteq> []"
  using assms
  by (auto simp: parseAuthRequestJson_def Let_def split: sum.splits if_splits)

text \<open>How the other side reads a request or a response made of these members.\<close>

lemma parseAuthRequestJson_members:
  assumes laws: "value_string_law J" "value_int_law J"
    and parse: "json_parse J s = Inr j"
    and fields: "json_field j ''authorization'' = Some (JString a)"
      "json_field j ''signature'' = Some (JString sig)"
      "json_field j ''type'' = None" "json_field j ''method'' = None"
    and parts: "getAuthField a ''time'' = t" "getAuthField a ''random'' = r"
      "a \<noteq> []" "t \<noteq> []" "r \<noteq> []" "sig \<noteq> []"
  shows "parseAuthRequestJson J (bytes_of_string s) =
    Some \<lparr>ar_type = 1, ar_method = 1, ar_authorization = a, ar_signature = sig,
      ar_time = t, ar_random = r\<rparr>"
proof -
  from fields(1) obtain fs where j: "j = JObject fs" by (auto dest: json_field_Some)
  have "value_int J j ''type'' 1 = Inr 1" and "value_int J j ''method'' 1 = Inr 1"
    using laws(2) fields(3,4) by (simp_all add: value_int_law_def j json_field_def)
  then show ?thesis
    using parse parts value_string_field [OF laws(1) fields(1)]
      value_string_field [OF laws(1) fields(2)]
    by (simp add: parseAuthRequestJson_def Let_def)
qed

lemma buildAuthResponse_parts:
  assumes "buildAuthResponse C J iv rnd now_sec devid key drandom hb = Inr r"
  defines "sr \<equiv> base64Encode C rnd"
  defines "auth \<equiv> ''time='' @ to_string now_sec @ '',random='' @ sr"
  defines "sig \<equiv> hmacSha256Base64 C key (devid @ '':'' @ to_string now_sec @ '':'' @ sr)"
  defines "resp \<equiv> JObject [(''err'', JInt 0), (''interval'', JInt hb),
            (''random'', JString drandom), (''authorization'', JString auth),
            (''signature'', JString sig)]"
  obtains tx data ed where "json_dump J resp = Inr tx"
    and "aes128CbcPkcs7Encrypt C key iv (bytes_of_string tx) = Inr data"
    and "aes128CbcPkcs7Encrypt C key iv (bytes_of_string devid) = Inr ed"
    and "r = \<lparr>rr_frame = makeFrame AUTH_RESP 1
               (buildAuthPayloadLV iv (base64Encode C ed) data),
             rr_server_random = sr\<rparr>"
  using assms(1) unfolding buildAuthResponse_def Let_def sr_def [symmetric] auth_def [symmetric]
    sig_def [symmetric] resp_def [symmetric]
  by (auto split: sum.splits)

lemma buildAuthResponse_verifies:
  assumes laws: "aes_law C" "base64_law C" "value_string_law J" "value_int_law J"
      "dump_parse_law J" "hmac_law C"
    and rnd: "rnd \<noteq> []"
    and build: "buildAuthResponse C J iv rnd now_sec devid key drandom hb = Inr r"
    and fits: "length (fr_payload (rr_frame r)) < 65536"
  obtains p plain req j where "parseFrame (encodeFrame (rr_frame r)) = Some (rr_frame r)"
    and "parseAuthPayloadLV (fr_payload (rr_frame r)) = Some p" and "ap_iv p = iv"
    and "aes128CbcPkcs7Decrypt C key (ap_iv p) (ap_encrypted_data p) = Inr plain"
    and "parseAuthRequestJson J plain = Some req"
    and "verifyAuthRequest C req devid key" and "ar_random req = rr_server_random r"
    and "ar_time req = to_string now_sec"
    and "json_parse J (string_of_bytes plain) = Inr j"
    and "json_field j ''err'' = Some (JInt 0)" and "json_field j ''interval'' = Some (JInt hb)"
    and "json_field j ''random'' = Some (JString drandom)"
proof -
  let ?sr = "base64Encode C rnd"
  let ?auth = "''time='' @ to_string now_sec @ '',random='' @ ?sr"
  let ?sig = "hmacSha256Base64 C key (devid @ '':'' @ to_string now_sec @ '':'' @ ?sr)"
  let ?resp = "JObject [(''err'', JInt 0), (''interval'', JInt hb),
            (''random'', JString drandom), (''authorization'', JString ?auth),
            (''signature'', JString ?sig)]"
  obtain tx data ed where dump: "json_dump J ?resp = Inr tx"
    and enc: "aes128CbcPkcs7Encrypt C key iv (bytes_of_string tx) = Inr data"
    and r: "r = \<lparr>rr_frame = makeFrame AUTH_RESP 1
               (buildAuthPayloadLV iv (base64Encode C ed) data), rr_server_random = ?sr\<rparr>"
    using build by (rule buildAuthResponse_parts)
  have len: "6 + length iv + length (base64Encode C ed) + length data < 65536"
    using fits by (simp add: r makeFrame_def build_parts)
  have frame: "parseFrame (encodeFrame (rr_frame r)) = Some (rr_frame r)"
    using fits by (intro parseFrame_encodeFrame)
      (simp add: r frame_ok_makeFrame makeFrame_def frame_ok_def)
  have lv: "parseAuthPayloadLV (fr_payload (rr_frame r)) = Some \<lparr>ap_iv = iv,
      ap_encrypted_devid_base64 = base64Encode C ed, ap_encrypted_data = data\<rparr>"
    using len by (simp add: r makeFrame_def parse_build)
  have dec: "aes128CbcPkcs7Decrypt C key iv data = Inr (bytes_of_string tx)"
    using laws(1) enc by (rule aes_decrypt_encrypt)
  obtain j where parse: "json_parse J tx = Inr j"
    and fields: "\<And>k. json_field j k = json_field ?resp k"
    using laws(5) dump unfolding dump_parse_law_def by blast
  have sr: "CHR '','' \<notin> set ?sr" "?sr \<noteq> []"
    using laws(2) rnd by (auto simp: base64Encode_def base64_law_def)
  have "hmac_sha256 C a b \<noteq> []" for a b
    using laws(6) by (metis hmac_law_def list.size(3) zero_neq_numeral)
  then have sig: "?sig \<noteq> []"
    using laws(2) by (auto simp: hmacSha256Base64_def base64Encode_def base64_law_def)
  let ?req = "\<lparr>ar_type = 1, ar_method = 1, ar_authorization = ?auth, ar_signature = ?sig,
      ar_time = to_string now_sec, ar_random = ?sr\<rparr>"
  have "parseAuthRequestJson J (bytes_of_string tx) = Some ?req"
    using sr sig to_string_no_comma to_string_not_Nil
    by (intro parseAuthRequestJson_members [OF laws(3,4) parse] getAuthField_pair)
      (simp_all add: fields)
  moreover have "verifyAuthRequest C ?req devid key" by (simp add: verifyAuthRequest_def)
  ultimately show thesis
    using that [OF frame lv] dec parse fields by (simp add: r)
qed

section \<open>A reference instance of OpenSSL\<close>

text \<open>
  Functions that satisfy the laws above: the cipher is the identity, the digest is the first
  32 bytes of key and data padded with zeros, and the text encoding writes each byte as two
  letters.  They only serve closed examples.
\<close>

definition hex_letters :: "bytes \<Rightarrow> string" where
  "hex_letters bs =
     concat (map (\<lambda>b. [char_of (65 + unat b div 16), char_of (65 + unat b mod 16)]) bs)"

definition plain_crypto :: crypto where
  "plain_crypto =
     \<lparr>evp_ctx_new = True, evp_encrypt_update = (\<lambda>k iv p. p), evp_encrypt_final = (\<lambda>k iv p. []),
      evp_decrypt_update = (\<lambda>k iv c. Some c), evp_decrypt_final = (\<lambda>k iv c. Some []),
      hmac_sha256 = (\<lambda>k d. take 32 (k @ d @ replicate 32 0)),
      evp_encode_block = hex_letters, evp_decode_block = (\<lambda>s. None)\<rparr>"

lemma plain_crypto_simps [simp]:
  "evp_ctx_new plain_crypto"
  "evp_encrypt_update plain_crypto k iv p = p"
  "evp_encrypt_final plain_crypto k iv p = []"
  "evp_decrypt_update plain_crypto k iv p = Some p"
  "evp_decrypt_final plain_crypto k iv p = Some []"
  "hmac_sha256 plain_crypto k d = take 32 (k @ d @ replicate 32 0)"
  "evp_encode_block plain_crypto = hex_letters"
  by (simp_all add: plain_crypto_def)

lemma hex_letters_no_comma: "CHR '','' \<notin> set (hex_letters bs)"
proof
  assume "CHR '','' \<in> set (hex_letters bs)"
  then obtain n :: nat where "CHR '','' = char_of n" and "65 \<le> n" "n < 256"
  proof -
    assume *: "\<And>n :: nat. CHR '','' = char_of n \<Longrightarrow> 65 \<le> n \<Longrightarrow> n < 256 \<Longrightarrow> thesis"
    assume "CHR '','' \<in> set (hex_letters bs)"
    then obtain b :: u8 where "CHR '','' = char_of (65 + unat b div 16)
        \<or> CHR '','' = char_of (65 + unat b mod 16)"
      by (auto simp: hex_letters_def)
    moreover have "unat b < 256"
      using unsigned_less [of b] by simp
    ultimately show thesis
      using * [of "65 + unat b div 16"] * [of "65 + unat b mod 16"] by fastforce
  qed
  then have "(of_char CHR '','' :: nat) = n" by simp
  with \<open>65 \<le> n\<close> show False by simp
qed

lemma plain_crypto_laws: "aes_law plain_crypto" "base64_law plain_crypto" "hmac_law plain_crypto"
proof -
  show "aes_law plain_crypto" by (simp add: aes_law_def)
  have "hex_letters bs = [] \<Longrightarrow> bs = []" for bs by (cases bs) (simp_all add: hex_letters_def)
  then show "base64_law plain_crypto" by (simp add: base64_law_def hex_letters_no_comma)
  show "hmac_law plain_crypto" by (auto simp: hmac_law_def min_def)
qed

section \<open>Properties\<close>

text \<open>
  C10: the authentication response closes the loop: the frame parses, its LV payload carries
  the IV, the device that holds the local key decrypts the body, and the body passes the very
  verification the gateway applies to requests, for the same device and key, with the
  server's random value and time in its authorization fields.  The same body is a document
  that reports no error and tells the device its own random value and the heartbeat interval
  it was built with.
\<close>

theorem buildAuthResponse_accepted:
  assumes "aes_law C" and "base64_law C" and "hmac_law C"
    and "value_string_law J" and "value_int_law J" and "dump_parse_law J"
    and "rnd \<noteq> []"
    and "buildAuthResponse C J iv rnd now_sec devid key drandom hb = Inr r"
    and "length (fr_payload (rr_frame r)) < 65536"
  shows "\<exists>p plain req j. parseFrame (encodeFrame (rr_frame r)) = Some (rr_frame r)
    \<and> parseAuthPayloadLV (fr_payload (rr_frame r)) = Some p \<and> ap_iv p = iv
    \<and> aes128CbcPkcs7Decrypt C key (ap_iv p) (ap_encrypted_data p) = Inr plain
    \<and> parseAuthRequestJson J plain = Some req \<and> verifyAuthRequest C req devid key
    \<and> ar_random req = rr_server_random r \<and> ar_time req = to_string now_sec
    \<and> json_parse J (string_of_bytes plain) = Inr j \<and> json_field j ''err'' = Some (JInt 0)
    \<and> json_field j ''interval'' = Some (JInt hb)
    \<and> json_field j ''random'' = Some (JString drandom)"
  by (rule buildAuthResponse_verifies
      [OF assms(1,2,4,5,6,3,7,8,9)]) blast

definition example_response :: json where
  "example_response =
     (let sr = hex_letters [1]; key = ''K''
      in JObject [(''err'', JInt 0), (''interval'', JInt 180), (''random'', JString ''R''),
           (''authorization'', JString (''time='' @ to_string 5 @ '',random='' @ sr)),
           (''signature'', JString (hmacSha256Base64 plain_crypto key
              (''D1'' @ '':'' @ to_string 5 @ '':'' @ sr)))])"

definition example_json :: json_lib where
  "example_json = table_json [(example_response, ''x'')]"

lemma example_json_laws:
  "value_string_law example_json" "value_int_law example_json" "dump_parse_law example_json"
  by (simp_all add: example_json_def table_value_string_law table_value_int_law
      table_dump_parse_law)

theorem buildAuthResponse_accepted_witness:
  "\<exists>r p plain req j. buildAuthResponse plain_crypto example_json (replicate 16 0) [1] 5
      ''D1'' ''K'' ''R'' 180 = Inr r
    \<and> parseAuthPayloadLV (fr_payload (rr_frame r)) = Some p
    \<and> aes128CbcPkcs7Decrypt plain_crypto ''K'' (ap_iv p) (ap_encrypted_data p) = Inr plain
    \<and> parseAuthRequestJson example_json plain = Some req
    \<and> verifyAuthRequest plain_crypto req ''D1'' ''K''
    \<and> json_parse example_json (string_of_bytes plain) = Inr j
    \<and> json_field j ''interval'' = Some (JInt 180) \<and> json_field j ''random'' = Some (JString ''R'')"
proof -
  let ?r = "\<lparr>rr_frame = makeFrame AUTH_RESP 1 (buildAuthPayloadLV (replicate 16 0)
        (hex_letters (bytes_of_string ''D1'')) (bytes_of_string ''x'')),
      rr_server_random = hex_letters [1]\<rparr>"
  have build: "buildAuthResponse plain_crypto example_json (replicate 16 0) [1] 5
      ''D1'' ''K'' ''R'' 180 = Inr ?r"
    by (simp add: buildAuthResponse_def Let_def example_json_def table_dump_def
        example_response_def base64Encode_def aes128CbcPkcs7Encrypt_def)
  have fits: "length (fr_payload (rr_frame ?r)) < 65536"
    by (simp add: makeFrame_def build_parts hex_letters_def bytes_of_string_def)
  show ?thesis
    using buildAuthResponse_accepted [OF plain_crypto_laws example_json_laws _ build fits] build
    by blast
qed

end
