(* ===== verification/EarlierProtocol.thy ===== *)
theory EarlierProtocol
  imports LowPowerAuth
begin

text \<open>
  The earlier copy of the low-power protocol (\<^verbatim>\<open>src/LowPowerProtocol.cpp\<close>, namespace
  \<^verbatim>\<open>lowpower_lp\<close>), which the build does not compile and the earlier session and wake
  manager use.  Its types are, field for field, those of the current header.  The functions
  are translated from that file; the property says what a reader who compares the two files
  wants to know: where they agree and where they do not.
\<close>

section \<open>Frames\<close>

definition lp_readU16BE :: "bytes \<Rightarrow> u16" where
  "lp_readU16BE p = ucast (push_bit 8 (ucast (p ! 0) :: u32) OR ucast (p ! 1))"

definition lp_writeU16BE :: "bytes \<Rightarrow> u16 \<Rightarrow> bytes" where
  "lp_writeU16BE out v = (out @ [ucast (drop_bit 8 v AND 0xFF)]) @ [ucast (v AND 0xFF)]"

definition lp_writeU32BE :: "bytes \<Rightarrow> u32 \<Rightarrow> bytes" where
  "lp_writeU32BE out v =
     (((out @ [ucast (drop_bit 24 v AND 0xFF)]) @ [ucast (drop_bit 16 v AND 0xFF)])
       @ [ucast (drop_bit 8 v AND 0xFF)]) @ [ucast (v AND 0xFF)]"

text \<open>A frame as its declaration initialises it.\<close>

definition lp_new_Frame :: Frame where
  "lp_new_Frame = \<lparr>fr_version = VERSION_1, fr_type = HEARTBEAT, fr_flag = 0, fr_size = 0,
     fr_payload = []\<rparr>"

definition lp_parseFrame :: "bytes \<Rightarrow> Frame option" where
  "lp_parseFrame data =
     (if length data < 5 then None
      else let f = lp_new_Frame\<lparr>fr_version := data ! 0, fr_type := MsgType_of_byte (data ! 1),
             fr_flag := data ! 2, fr_size := lp_readU16BE (drop 3 data)\<rparr> in
        if length data \<noteq> 5 + unat (fr_size f) then None
        else if 0 < fr_size f then Some (f\<lparr>fr_payload := drop 5 data\<rparr>)
        else Some f)"

definition lp_encodeFrame :: "Frame \<Rightarrow> bytes" where
  "lp_encodeFrame frame =
     (let out = [] @ [fr_version frame];
          out = out @ [byte_of_MsgType (fr_type frame)];
          out = out @ [fr_flag frame];
          out = lp_writeU16BE out (word_of_nat (length (fr_payload frame)))
      in out @ fr_payload frame)"

definition lp_parseAuthPayloadLV :: "bytes \<Rightarrow> AuthPayload option" where
  "lp_parseAuthPayloadLV payload =
     (if length payload < 6 then None
      else let iv_len = unat (lp_readU16BE payload);
               devid_len = unat (lp_readU16BE (drop 2 payload));
               data_len = unat (lp_readU16BE (drop 4 payload));
               expect = 6 + iv_len + devid_len + data_len in
        if length payload \<noteq> expect then None
        else let pos = 6; iv = take iv_len (drop pos payload);
                 pos = pos + iv_len; devid = string_of_bytes (take devid_len (drop pos payload));
                 pos = pos + devid_len; data = take data_len (drop pos payload)
          in Some \<lparr>ap_iv = iv, ap_encrypted_devid_base64 = devid, ap_encrypted_data = data\<rparr>)"

definition lp_buildAuthPayloadLV :: "bytes \<Rightarrow> string \<Rightarrow> bytes \<Rightarrow> bytes" where
  "lp_buildAuthPayloadLV iv encrypted_devid_base64 encrypted_data =
     (let out = lp_writeU16BE [] (word_of_nat (length iv));
          out = lp_writeU16BE out (word_of_nat (length encrypted_devid_base64));
          out = lp_writeU16BE out (word_of_nat (length encrypted_data));
          out = out @ iv;
          out = out @ bytes_of_string encrypted_devid_base64
      in out @ encrypted_data)"

definition lp_makeHeartbeatFrame :: bytes where
  "lp_makeHeartbeatFrame =
     lp_encodeFrame (lp_new_Frame\<lparr>fr_version := VERSION_1, fr_type := HEARTBEAT, fr_flag := 0\<rparr>)"

text \<open>The loop over the bits and the loop over the bytes.\<close>

fun lp_crc_bits :: "nat \<Rightarrow> u32 \<Rightarrow> u32" where
  "lp_crc_bits 0 crc = crc"
| "lp_crc_bits (Suc j) crc =
     (let mask = - (crc AND 1) in lp_crc_bits j (drop_bit 1 crc XOR (0xEDB88320 AND mask)))"

fun lp_crc_bytes :: "bytes \<Rightarrow> u32 \<Rightarrow> u32" where
  "lp_crc_bytes [] crc = crc"
| "lp_crc_bytes (b # data) crc = lp_crc_bytes data (lp_crc_bits 8 (crc XOR ucast b))"

definition lp_crc32 :: "bytes \<Rightarrow> u32" where
  "lp_crc32 data = NOT (lp_crc_bytes data 0xFFFFFFFF)"

definition lp_crc32String :: "string \<Rightarrow> u32" where
  "lp_crc32String s = lp_crc32 (bytes_of_string s)"

definition lp_makeWakeupFrame :: "string \<Rightarrow> bytes" where
  "lp_makeWakeupFrame local_key =
     (let c = lp_crc32String local_key;
          f = lp_new_Frame\<lparr>fr_version := VERSION_1, fr_type := WAKEUP, fr_flag := 0\<rparr>;
          f = f\<lparr>fr_payload := lp_writeU32BE (fr_payload f) c\<rparr>
      in lp_encodeFrame f)"

section \<open>Cryptography\<close>

definition lp_normalizeAes128Key :: "string \<Rightarrow> bytes" where
  "lp_normalizeAes128Key key =
     (let n = min 16 (length key) in take n (bytes_of_string key) @ drop n (replicate 16 0))"

definition lp_aes128CbcPkcs7Encrypt :: "crypto \<Rightarrow> string \<Rightarrow> bytes \<Rightarrow> bytes \<Rightarrow> exn + bytes" where
  "lp_aes128CbcPkcs7Encrypt C key iv plain =
     (if length iv \<noteq> 16 then Inl (Runtime_Error ''AES CBC IV must be 16 bytes'')
      else let k = lp_normalizeAes128Key key in
        if \<not> evp_ctx_new C then Inl (Runtime_Error ''EVP_CIPHER_CTX_new failed'')
        else let out1 = evp_encrypt_update C k iv plain; out2 = evp_encrypt_final C k iv plain
          in Inr (out1 @ out2))"

definition lp_aes128CbcPkcs7Decrypt :: "crypto \<Rightarrow> string \<Rightarrow> bytes \<Rightarrow> bytes \<Rightarrow> exn + bytes" where
  "lp_aes128CbcPkcs7Decrypt C key iv cipher =
     (if length iv \<noteq> 16 then Inl (Runtime_Error ''AES CBC IV must be 16 bytes'')
      else let k = lp_normalizeAes128Key key in
        if \<not> evp_ctx_new C then Inl (Runtime_Error ''EVP_CIPHER_CTX_new failed'')
        else case evp_decrypt_update C k iv cipher of
            None \<Rightarrow> Inl (Runtime_Error ''AES decrypt update failed'')
          | Some out1 \<Rightarrow>
              (case evp_decrypt_final C k iv cipher of
                 None \<Rightarrow> Inl (Runtime_Error ''AES decrypt final failed'')
               | Some out2 \<Rightarrow> Inr (out1 @ out2)))"

definition lp_base64Encode :: "crypto \<Rightarrow> bytes \<Rightarrow> string" where
  "lp_base64Encode C data = evp_encode_block C data"

definition lp_base64Decode :: "crypto \<Rightarrow> string \<Rightarrow> exn + bytes" where
  "lp_base64Decode C s =
     (case evp_decode_block C s of
        None \<Rightarrow> Inl (Runtime_Error ''base64 decode failed'')
      | Some out \<Rightarrow>
          (let padding = 0;
               padding = (if s \<noteq> [] \<and> s ! (length s - 1) = CHR ''='' then padding + 1 else padding);
               padding = (if 1 < length s \<and> s ! (length s - 2) = CHR ''='' then padding + 1 else padding)
           in if length out < padding then Inl (Runtime_Error ''vector::resize'')
              else Inr (take (length out - padding) out)))"

definition lp_hmacSha256Base64 :: "crypto \<Rightarrow> string \<Rightarrow> string \<Rightarrow> string" where
  "lp_hmacSha256Base64 C key data =
     (let digest = hmac_sha256 C (bytes_of_string key) (bytes_of_string data)
      in lp_base64Encode C digest)"

section \<open>Authentication\<close>

fun lp_auth_field_of_items :: "string list \<Rightarrow> string \<Rightarrow> string" where
  "lp_auth_field_of_items [] key = ''''"
| "lp_auth_field_of_items (item # items) key =
     (case str_find ''='' item of
        None \<Rightarrow> lp_auth_field_of_items items key
      | Some pos \<Rightarrow>
          (let k = take pos item; v = drop (pos + 1) item
           in if k = key then v else lp_auth_field_of_items items key))"

definition lp_getAuthField :: "string \<Rightarrow> string \<Rightarrow> string" where
  "lp_getAuthField authorization key =
     lp_auth_field_of_items (getline_items CHR '','' authorization) key"

text \<open>The time of the request is not required here.\<close>

definition lp_parseAuthRequestJson :: "json_lib \<Rightarrow> bytes \<Rightarrow> AuthRequest option" where
  "lp_parseAuthRequestJson J plain_json =
     (case json_parse J (string_of_bytes plain_json) of Inl _ \<Rightarrow> None | Inr j \<Rightarrow>
     (case value_int J j ''type'' 1 of Inl _ \<Rightarrow> None | Inr type \<Rightarrow>
     (case value_int J j ''method'' 1 of Inl _ \<Rightarrow> None | Inr method \<Rightarrow>
     (case value_string J j ''authorization'' '''' of Inl _ \<Rightarrow> None | Inr authorization \<Rightarrow>
     (case value_string J j ''signature'' '''' of Inl _ \<Rightarrow> None | Inr signature \<Rightarrow>
        (let time = lp_getAuthField authorization ''time'';
             random = lp_getAuthField authorization ''random''
         in if authorization = [] \<or> signature = [] \<or> random = [] then None
            else Some \<lparr>ar_type = type, ar_method = method, ar_authorization = authorization,
              ar_signature = signature, ar_time = time, ar_random = random\<rparr>))))))"

definition lp_verifyAuthRequest :: "crypto \<Rightarrow> AuthRequest \<Rightarrow> string \<Rightarrow> string \<Rightarrow> bool" where
  "lp_verifyAuthRequest C req devid local_key =
     (let sign_src = devid @ '':'' @ ar_time req @ '':'' @ ar_random req;
          expected = lp_hmacSha256Base64 C local_key sign_src
      in expected = ar_signature req)"

definition lp_buildAuthResponse ::
    "crypto \<Rightarrow> json_lib \<Rightarrow> bytes \<Rightarrow> int \<Rightarrow> bytes \<Rightarrow> string \<Rightarrow> string \<Rightarrow> string \<Rightarrow> int
     \<Rightarrow> exn + AuthResponseResult" where
  "lp_buildAuthResponse C J iv now_sec rnd devid local_key device_random heartbeat_interval =
     (let server_random = lp_base64Encode C rnd;
          authorization = ''time='' @ to_string now_sec @ '',random='' @ server_random;
          sign_src = devid @ '':'' @ to_string now_sec @ '':'' @ server_random;
          signature = lp_hmacSha256Base64 C local_key sign_src;
          resp = JObject [(''err'', JInt 0), (''interval'', JInt heartbeat_interval),
            (''random'', JString device_random), (''authorization'', JString authorization),
            (''signature'', JString signature)]
      in case json_dump J resp of Inl e \<Rightarrow> Inl e | Inr resp_str \<Rightarrow>
        (case lp_aes128CbcPkcs7Encrypt C local_key iv (bytes_of_string resp_str) of
           Inl e \<Rightarrow> Inl e
         | Inr encrypted_data \<Rightarrow>
             (case lp_aes128CbcPkcs7Encrypt C local_key iv (bytes_of_string devid) of
                Inl e \<Rightarrow> Inl e
              | Inr encrypted_devid \<Rightarrow>
                  (let encrypted_devid_b64 = lp_base64Encode C encrypted_devid;
                       f = lp_new_Frame\<lparr>fr_version := VERSION_1, fr_type := AUTH_RESP,
                         fr_flag := byte_of_EncryptFlag AES_CBC_128_PKCS7,
                         fr_payload := lp_buildAuthPayloadLV iv encrypted_devid_b64 encrypted_data\<rparr>
                   in Inr \<lparr>rr_frame = f, rr_server_random = server_random\<rparr>))))"

section \<open>Agreement with the current file\<close>

lemma lp_integers:
  "lp_readU16BE = readU16BE" "lp_writeU16BE = writeU16BE" "lp_writeU32BE = writeU32BE"
  by (simp_all add: fun_eq_iff lp_readU16BE_def readU16BE_def lp_writeU16BE_def writeU16BE_def
      lp_writeU32BE_def writeU32BE_def)

lemma lp_parseFrame_eq: "lp_parseFrame = parseFrame"
proof
  fix data
  have "(if b then None else let f = lp_new_Frame\<lparr>fr_version := v, fr_type := t, fr_flag := g,
            fr_size := size\<rparr> in
          if n \<noteq> 5 + unat (fr_size f) then None
          else if 0 < fr_size f then Some (f\<lparr>fr_payload := p\<rparr>) else Some f) =
        (if b then None else if n \<noteq> 5 + unat size then None
          else Some \<lparr>fr_version = v, fr_type = t, fr_flag = g, fr_size = size,
            fr_payload = (if 0 < size then p else [])\<rparr>)" for b v t g size n p
    by (cases "0 < size") (simp_all only: lp_new_Frame_def Let_def Frame.simps if_True if_False)
  then show "lp_parseFrame data = parseFrame data"
    by (simp only: lp_parseFrame_def parseFrame_def lp_integers HEADER_SIZE_def Let_def)
qed

lemma lp_encodeFrame_eq: "lp_encodeFrame = encodeFrame"
  by (simp add: fun_eq_iff lp_encodeFrame_def encodeFrame_def lp_integers Let_def)

lemma lp_payloads:
  "lp_parseAuthPayloadLV = parseAuthPayloadLV" "lp_buildAuthPayloadLV = buildAuthPayloadLV"
  unfolding fun_eq_iff lp_parseAuthPayloadLV_def parseAuthPayloadLV_def lp_buildAuthPayloadLV_def
    buildAuthPayloadLV_def lp_integers Let_def
  by (simp_all only: append_assoc) simp_all

lemma lp_crc_bits_eq: "lp_crc_bits n crc = (crc_bit ^^ n) crc"
  by (induction n arbitrary: crc) (simp_all add: crc_bit_def Let_def funpow_swap1)

lemma lp_crc_bytes_eq: "lp_crc_bytes data crc = foldl crc_byte crc data"
  by (induction data arbitrary: crc) (simp_all add: lp_crc_bits_eq crc_byte_def)

lemma lp_crc32_eq: "lp_crc32 = crc32" "lp_crc32String = crc32String"
  by (simp_all add: fun_eq_iff lp_crc32_def crc32_def lp_crc_bytes_eq lp_crc32String_def crc32String_def)

lemma lp_fixed_frames:
  "lp_makeHeartbeatFrame = makeHeartbeatFrame" "lp_makeWakeupFrame = makeWakeupFrame"
  by (simp_all add: fun_eq_iff lp_makeHeartbeatFrame_def makeHeartbeatFrame_def
      lp_makeWakeupFrame_def makeWakeupFrame_def lp_encodeFrame_eq lp_crc32_eq lp_integers
      encodeFrame_def makeFrame_def lp_new_Frame_def Let_def)

lemma lp_crypto:
  "lp_aes128CbcPkcs7Encrypt = aes128CbcPkcs7Encrypt"
  "lp_aes128CbcPkcs7Decrypt = aes128CbcPkcs7Decrypt"
  "lp_base64Encode = base64Encode" "lp_base64Decode = base64Decode"
  "lp_hmacSha256Base64 = hmacSha256Base64"
  by (simp_all add: fun_eq_iff lp_aes128CbcPkcs7Encrypt_def aes128CbcPkcs7Encrypt_def
      lp_aes128CbcPkcs7Decrypt_def aes128CbcPkcs7Decrypt_def lp_base64Encode_def base64Encode_def
      lp_base64Decode_def base64Decode_def lp_hmacSha256Base64_def hmacSha256Base64_def
      lp_normalizeAes128Key_def normalizeAes128Key_def Let_def split: option.split)

lemma lp_getAuthField_eq: "lp_getAuthField = getAuthField"
proof -
  have "lp_auth_field_of_items items key = auth_field_of_items items key" for items key
    by (induction items) (simp_all add: Let_def split: option.split)
  then show ?thesis by (simp add: fun_eq_iff lp_getAuthField_def getAuthField_def)
qed

lemma lp_verifyAuthRequest_eq: "lp_verifyAuthRequest = verifyAuthRequest"
  by (simp add: fun_eq_iff lp_verifyAuthRequest_def verifyAuthRequest_def lp_crypto)

lemma lp_parseAuthRequestJson_eq:
  "parseAuthRequestJson J plain =
     (case lp_parseAuthRequestJson J plain of
        None \<Rightarrow> None | Some req \<Rightarrow> if ar_time req = '''' then None else Some req)"
  by (simp add: lp_parseAuthRequestJson_def parseAuthRequestJson_def lp_getAuthField_eq Let_def
      split: sum.split)

text \<open>The two responses differ in the field that the encoder does not use.\<close>

lemma lp_buildAuthResponse_eq:
  "lp_buildAuthResponse C J iv now_sec rnd devid key random hb =
     map_sum id (\<lambda>r. r\<lparr>rr_frame := (rr_frame r)\<lparr>fr_size := 0\<rparr>\<rparr>)
       (buildAuthResponse C J iv rnd now_sec devid key random hb)"
  by (simp add: lp_buildAuthResponse_def buildAuthResponse_def lp_crypto lp_payloads
      lp_new_Frame_def makeFrame_def Let_def split: sum.split)

lemma encodeFrame_size_unused: "encodeFrame (f\<lparr>fr_size := n\<rparr>) = encodeFrame f"
  by (simp add: encodeFrame_def)


section \<open>Properties\<close>

text \<open>
  C32: the two copies of the low-power protocol agree but for two differences: the earlier
  file and the current one parse and print the same frames and payloads and compute the same
  checksums, digests, ciphers and encodings; the current file refuses an authentication
  request without a time; and it fills in the size of the response frame, which the earlier
  file leaves at 0.  The encoder reads the size of the payload and not that field, so the bytes
  of the response are the same.
\<close>

theorem earlier_protocol_agrees:
  "lp_parseFrame = parseFrame \<and> lp_encodeFrame = encodeFrame
   \<and> lp_parseAuthPayloadLV = parseAuthPayloadLV \<and> lp_buildAuthPayloadLV = buildAuthPayloadLV
   \<and> lp_makeHeartbeatFrame = makeHeartbeatFrame \<and> lp_makeWakeupFrame = makeWakeupFrame
   \<and> lp_crc32String = crc32String
   \<and> lp_base64Encode = base64Encode \<and> lp_base64Decode = base64Decode
   \<and> lp_aes128CbcPkcs7Encrypt = aes128CbcPkcs7Encrypt
   \<and> lp_aes128CbcPkcs7Decrypt = aes128CbcPkcs7Decrypt
   \<and> lp_hmacSha256Base64 = hmacSha256Base64 \<and> lp_getAuthField = getAuthField
   \<and> lp_verifyAuthRequest = verifyAuthRequest
   \<and> parseAuthRequestJson J plain =
       (case lp_parseAuthRequestJson J plain of
          None \<Rightarrow> None | Some req \<Rightarrow> if ar_time req = '''' then None else Some req)
   \<and> lp_buildAuthResponse C J iv now rnd devid key random hb =
       map_sum id (\<lambda>r. r\<lparr>rr_frame := (rr_frame r)\<lparr>fr_size := 0\<rparr>\<rparr>)
         (buildAuthResponse C J iv rnd now devid key random hb)
   \<and> map_sum id (\<lambda>r. (lp_encodeFrame (rr_frame r), rr_server_random r))
       (lp_buildAuthResponse C J iv now rnd devid key random hb) =
     map_sum id (\<lambda>r. (encodeFrame (rr_frame r), rr_server_random r))
       (buildAuthResponse C J iv rnd now devid key random hb)"
proof -
  have "map_sum id (\<lambda>r. (lp_encodeFrame (rr_frame r), rr_server_random r))
       (lp_buildAuthResponse C J iv now rnd devid key random hb) =
     map_sum id (\<lambda>r. (encodeFrame (rr_frame r), rr_server_random r))
       (buildAuthResponse C J iv rnd now devid key random hb)"
    by (simp add: lp_buildAuthResponse_eq lp_encodeFrame_eq sum.map_comp comp_def id_def
        encodeFrame_size_unused)
  then show ?thesis
    by (simp add: lp_parseFrame_eq lp_encodeFrame_eq lp_payloads lp_fixed_frames lp_crc32_eq
        lp_crypto lp_getAuthField_eq lp_verifyAuthRequest_eq lp_parseAuthRequestJson_eq
        lp_buildAuthResponse_eq)
qed

end
