(* ===== verification/Containers.thy ===== *)
theory Containers
  imports Prelude
begin

text \<open>
  \<^verbatim>\<open>std::unordered_map\<close> as the gateway uses it: \<^verbatim>\<open>find\<close>,
  \<^verbatim>\<open>count\<close>, \<^verbatim>\<open>operator[]\<close> (for an assignment and for a reference that
  inserts a default element), \<^verbatim>\<open>erase\<close> and the range-based loop.  The model is an
  association list whose order is the iteration order of the container, which the language
  leaves open.  The interface the components rely on is the locale \<open>unordered_map\<close>, with
  its laws; the list operations interpret it, and every component lemma goes through the
  interpretation \<open>um\<close>.
\<close>

type_synonym ('k, 'v) umap = "('k \<times> 'v) list"

definition um_find :: "('k, 'v) umap \<Rightarrow> 'k \<Rightarrow> 'v option" where
  "um_find m k = map_of m k"

definition um_put :: "('k, 'v) umap \<Rightarrow> 'k \<Rightarrow> 'v \<Rightarrow> ('k, 'v) umap" where
  "um_put m k v = AList.update k v m"

definition um_erase :: "('k, 'v) umap \<Rightarrow> 'k \<Rightarrow> ('k, 'v) umap" where
  "um_erase m k = filter (\<lambda>(k', _). k' \<noteq> k) m"

definition um_keys :: "('k, 'v) umap \<Rightarrow> 'k list" where
  "um_keys m = map fst m"

definition um_ok :: "('k, 'v) umap \<Rightarrow> bool" where
  "um_ok m \<longleftrightarrow> distinct (map fst m)"

text \<open>\<^verbatim>\<open>m[k]\<close> as a reference: a missing key is inserted with the
  default-constructed element first, then \<open>f\<close> is what the code does to the element.\<close>

definition um_modify :: "'v \<Rightarrow> ('k, 'v) umap \<Rightarrow> 'k \<Rightarrow> ('v \<Rightarrow> 'v) \<Rightarrow> ('k, 'v) umap" where
  "um_modify dflt m k f = um_put m k (f (case um_find m k of None \<Rightarrow> dflt | Some v \<Rightarrow> v))"

section \<open>The interface\<close>

locale unordered_map =
  fixes find :: "'m \<Rightarrow> 'k \<Rightarrow> 'v option"
    and put :: "'m \<Rightarrow> 'k \<Rightarrow> 'v \<Rightarrow> 'm"
    and erase :: "'m \<Rightarrow> 'k \<Rightarrow> 'm"
    and keys :: "'m \<Rightarrow> 'k list"
    and ok :: "'m \<Rightarrow> bool"
    and none :: "'m"
  assumes find_none: "find none k = None"
    and find_put: "find (put m k v) k' = (if k' = k then Some v else find m k')"
    and find_erase: "find (erase m k) k' = (if k' = k then None else find m k')"
    and mem_keys: "k \<in> set (keys m) \<longleftrightarrow> find m k \<noteq> None"
    and keys_distinct: "ok m \<Longrightarrow> distinct (keys m)"
    and ok_none: "ok none"
    and ok_put: "ok m \<Longrightarrow> ok (put m k v)"
    and ok_erase: "ok m \<Longrightarrow> ok (erase m k)"
begin

lemma find_put_same: "find (put m k v) k = Some v"
  by (simp add: find_put)

lemma find_erase_same: "find (erase m k) k = None"
  by (simp add: find_erase)

lemma find_erase_list:
  "find (fold (\<lambda>k m. erase m k) ks m) k' = (if k' \<in> set ks then None else find m k')"
  by (induction ks arbitrary: m) (auto simp: find_erase)

lemma ok_erase_list: "ok m \<Longrightarrow> ok (fold (\<lambda>k m. erase m k) ks m)"
  by (induction ks arbitrary: m) (auto simp: ok_erase)

lemma finite_found: "finite {k. find m k \<noteq> None}"
proof -
  have "{k. find m k \<noteq> None} = set (keys m)"
    by (auto simp: mem_keys)
  then show ?thesis by simp
qed

end

interpretation um: unordered_map um_find um_put um_erase um_keys um_ok "[]"
proof (unfold_locales, goal_cases)
  case (1 k)
  show ?case by (simp add: um_find_def)
next
  case (2 m k v k')
  show ?case by (simp add: um_find_def um_put_def update_conv)
next
  case (3 m k k')
  show ?case by (induction m) (auto simp: um_find_def um_erase_def)
next
  case (4 k m)
  show ?case by (simp add: um_keys_def um_find_def map_of_eq_None_iff)
next
  case (5 m)
  then show ?case by (simp add: um_ok_def um_keys_def)
next
  case 6
  show ?case by (simp add: um_ok_def)
next
  case (7 m k v)
  then show ?case by (simp add: um_ok_def um_put_def distinct_update)
next
  case (8 m k)
  then show ?case by (simp add: um_ok_def um_erase_def distinct_map_filter)
qed

lemmas um_simps [simp] =
  um.find_none um.find_put um.find_erase um.find_erase_list um.ok_none

lemma um_find_modify [simp]:
  "um_find (um_modify d m k f) k' =
     (if k' = k then Some (f (case um_find m k of None \<Rightarrow> d | Some v \<Rightarrow> v)) else um_find m k')"
  by (simp add: um_modify_def)

lemma um_ok_modify: "um_ok m \<Longrightarrow> um_ok (um_modify d m k f)"
  by (simp add: um_modify_def um.ok_put)

lemma um_put_put [simp]: "um_put (um_put m k v) k v' = um_put m k v'"
  unfolding um_put_def by (induction m) auto

lemma um_keys_put: "um_find m k \<noteq> None \<Longrightarrow> um_keys (um_put m k v) = um_keys m"
  unfolding um_put_def um_keys_def um_find_def by (induction m) auto

lemma um_put_same: "um_find m k = Some v \<Longrightarrow> um_put m k v = m"
  by (metis AList.update_triv um_find_def um_put_def)

text \<open>The entries whose element satisfies a predicate.\<close>

definition um_filter :: "('v \<Rightarrow> bool) \<Rightarrow> ('k, 'v) umap \<Rightarrow> ('k, 'v) umap" where
  "um_filter P m = filter (\<lambda>(_, v). P v) m"

lemma um_find_filter:
  "um_ok m \<Longrightarrow> um_find (um_filter P m) k =
     (case um_find m k of None \<Rightarrow> None | Some v \<Rightarrow> if P v then Some v else None)"
proof (induction m)
  case Nil
  then show ?case by (simp add: um_filter_def um_find_def)
next
  case (Cons kv m)
  have "k \<notin> fst ` set m \<Longrightarrow> um_find m k = None"
    by (simp add: um_find_def map_of_eq_None_iff)
  with Cons show ?case
    by (cases kv) (auto simp: um_filter_def um_find_def um_ok_def)
qed

lemma um_ok_filter: "um_ok m \<Longrightarrow> um_ok (um_filter P m)"
  by (simp add: um_ok_def um_filter_def distinct_map_filter)

lemmas um_ok_intros = um.ok_none um.ok_put um.ok_erase um_ok_modify um.ok_erase_list

end
