(* ===== verification/JsonLineProtocol.thy ===== *)
theory JsonLineProtocol
  imports Json
begin

text \<open>
  The JSON line protocol (\<^verbatim>\<open>src/protocol/JsonLineProtocol.cpp\<close>): one document per
  line, and the documents the gateway sends.
\<close>

text \<open>\<^verbatim>\<open>parseLine\<close> fills \<^verbatim>\<open>error\<close> and returns
  \<^verbatim>\<open>nullopt\<close> when the library throws; the left value is that text.\<close>

definition parseLine :: "json_lib \<Rightarrow> string \<Rightarrow> string + json" where
  "parseLine J line =
     (case json_parse J line of Inl e \<Rightarrow> Inl (what e) | Inr j \<Rightarrow> Inr j)"

definition encodeLine :: "json_lib \<Rightarrow> json \<Rightarrow> exn + string" where
  "encodeLine J j = (case json_dump J j of Inl e \<Rightarrow> Inl e | Inr s \<Rightarrow> Inr (s @ [CHR 0x0A]))"

definition makeError :: "string \<Rightarrow> string \<Rightarrow> json" where
  "makeError code message =
     JObject [(''type'', JString ''error''), (''code'', JString code),
       (''message'', JString message)]"

definition makeLoginAck :: "int \<Rightarrow> int \<Rightarrow> int \<Rightarrow> int \<Rightarrow> string \<Rightarrow> json" where
  "makeLoginAck seq result heartbeat idle_timeout error =
     (let j = JObject [(''type'', JString ''login_ack''), (''seq'', JInt seq),
          (''result'', JInt result), (''heartbeat'', JInt heartbeat),
          (''idle_timeout'', JInt idle_timeout)]
      in if error \<noteq> [] then json_set j ''error'' (JString error) else j)"

definition makeHeartbeatAck :: "int \<Rightarrow> int \<Rightarrow> int \<Rightarrow> json" where
  "makeHeartbeatAck seq result next_heartbeat =
     JObject [(''type'', JString ''heartbeat_ack''), (''seq'', JInt seq),
       (''result'', JInt result), (''next_heartbeat'', JInt next_heartbeat)]"

definition makeWake :: "int \<Rightarrow> string \<Rightarrow> string \<Rightarrow> json \<Rightarrow> int \<Rightarrow> json" where
  "makeWake seq msg_id cmd params expire_ms =
     JObject [(''type'', JString ''wake''), (''seq'', JInt seq), (''msg_id'', JString msg_id),
       (''cmd'', JString cmd), (''reason'', JString ''admin_api''),
       (''expire_ms'', JInt expire_ms), (''params'', params)]"

definition makeTaskDoneAck :: "int \<Rightarrow> string \<Rightarrow> int \<Rightarrow> json" where
  "makeTaskDoneAck seq msg_id result =
     JObject [(''type'', JString ''task_done_ack''), (''seq'', JInt seq),
       (''msg_id'', JString msg_id), (''result'', JInt result)]"

text \<open>An encoded document is one line: a line feed at its end and nowhere before.\<close>

lemma encodeLine_one_line:
  assumes "dump_one_line_law J" and "encodeLine J j = Inr s"
  obtains body where "s = body @ [CHR 0x0A]" and "CHR 0x0A \<notin> set body"
    and "json_dump J j = Inr body"
  using assms by (auto simp: encodeLine_def dump_one_line_law_def split: sum.splits)

text \<open>What the peer's reader recovers from an encoded document.\<close>

lemma parse_encodeLine:
  assumes "dump_parse_law J" and "encodeLine J j = Inr s"
  shows "\<exists>j'. parseLine J (butlast s) = Inr j' \<and> (\<forall>k. json_field j' k = json_field j k)"
  using assms by (fastforce simp: encodeLine_def parseLine_def dump_parse_law_def
      split: sum.splits)

end
