(* ===== verification/RedisStore.thy ===== *)
theory RedisStore
  imports Effects JsonLineProtocol
begin

text \<open>
  The Redis client of the gateway (\<^verbatim>\<open>src/storage/RedisStore.cpp\<close>).  The server is
  a parameter: the reply to a command is an arbitrary function of the commands sent so far on
  the connection, so whatever other clients and expiry do is covered.  The state of the
  component is that list of commands.  An argument that hiredis formats with
  \<^verbatim>\<open>%s\<close> is read as a C string.
\<close>

record RedisConfig =
  rc_host :: string
  rc_port :: int
  rc_password :: string
  rc_db :: int
  rc_prefix :: string

datatype redisReply =
    Reply_Status string
  | Reply_String string
  | Reply_Other

type_synonym redis_cmd = "string list"

type_synonym redis_server = "redis_cmd list \<Rightarrow> redisReply option"

definition redisCommand :: "redis_server \<Rightarrow> redis_cmd \<Rightarrow> redis_cmd list
    \<Rightarrow> redisReply option \<times> redis_cmd list" where
  "redisCommand R args log = (R (log @ [args]), log @ [args])"

definition redis_key :: "RedisConfig \<Rightarrow> string \<Rightarrow> string" where
  "redis_key cfg k = rc_prefix cfg @ k"

fun commandOK :: "redisReply option \<Rightarrow> bool" where
  "commandOK (Some (Reply_Status s)) \<longleftrightarrow> s = ''OK''"
| "commandOK _ \<longleftrightarrow> False"

text \<open>\<^verbatim>\<open>connect()\<close>: \<open>up\<close> is whether \<^verbatim>\<open>redisConnect\<close>
  gave a context without error.\<close>

definition redis_connect :: "redis_server \<Rightarrow> RedisConfig \<Rightarrow> bool \<Rightarrow> redis_cmd list
    \<Rightarrow> bool \<times> redis_cmd list" where
  "redis_connect R cfg up log =
     (if \<not> up then (False, log)
      else
        (let (ok, log) =
           (if rc_password cfg \<noteq> [] then
              (let (reply, log) = redisCommand R [''AUTH'', c_str (rc_password cfg)] log
               in (commandOK reply, log))
            else (True, log))
         in if \<not> ok then (False, log)
            else (let (reply, log) = redisCommand R [''SELECT'', to_string (rc_db cfg)] log
                  in (commandOK reply, log))))"

definition getRaw :: "redis_server \<Rightarrow> RedisConfig \<Rightarrow> string \<Rightarrow> redis_cmd list
    \<Rightarrow> string option \<times> redis_cmd list" where
  "getRaw R cfg raw_key log =
     (let k = redis_key cfg raw_key;
          (reply, log) = redisCommand R [''GET'', c_str k] log
      in case reply of
           Some (Reply_String s) \<Rightarrow> (Some s, log)
         | _ \<Rightarrow> (None, log))"

definition setRaw :: "redis_server \<Rightarrow> RedisConfig \<Rightarrow> string \<Rightarrow> string \<Rightarrow> redis_cmd list
    \<Rightarrow> bool \<times> redis_cmd list" where
  "setRaw R cfg raw_key v log =
     (let k = redis_key cfg raw_key;
          (reply, log) = redisCommand R [''SET'', c_str k, c_str v] log
      in (commandOK reply, log))"

definition delRaw :: "redis_server \<Rightarrow> RedisConfig \<Rightarrow> string \<Rightarrow> redis_cmd list
    \<Rightarrow> bool \<times> redis_cmd list" where
  "delRaw R cfg raw_key log =
     (let k = redis_key cfg raw_key;
          (reply, log) = redisCommand R [''DEL'', c_str k] log
      in (reply \<noteq> None, log))"

section \<open>The keys of the gateway\<close>

definition secret_key :: "string \<Rightarrow> string" where
  "secret_key device_id = ''device:secret:'' @ device_id"

definition local_key_key :: "string \<Rightarrow> string" where
  "local_key_key device_id = ''device:local_key:'' @ device_id"

definition id_index_key :: "string \<Rightarrow> string" where
  "id_index_key encrypted_device_id_b64 = ''lowpower:device_id_index:'' @ encrypted_device_id_b64"

definition online_key :: "string \<Rightarrow> string" where
  "online_key device_id = ''device:online:'' @ device_id"

definition pending_key :: "string \<Rightarrow> string \<Rightarrow> string" where
  "pending_key device_id msg_id = ''device:pending_wake:'' @ device_id @ '':'' @ msg_id"

section \<open>Operations\<close>

definition getDeviceSecret where
  "getDeviceSecret R cfg device_id = getRaw R cfg (secret_key device_id)"

definition setDeviceSecretForDev where
  "setDeviceSecretForDev R cfg device_id secret = setRaw R cfg (secret_key device_id) secret"

definition getLocalKey where
  "getLocalKey R cfg device_id = getRaw R cfg (local_key_key device_id)"

definition setLocalKeyForDev where
  "setLocalKeyForDev R cfg device_id local_key = setRaw R cfg (local_key_key device_id) local_key"

definition getDeviceIdByEncryptedId where
  "getDeviceIdByEncryptedId R cfg encrypted_device_id_b64 =
     getRaw R cfg (id_index_key encrypted_device_id_b64)"

definition setEncryptedIdIndex where
  "setEncryptedIdIndex R cfg encrypted_device_id_b64 device_id =
     setRaw R cfg (id_index_key encrypted_device_id_b64) device_id"

text \<open>The document is printed before the command is sent, and printing may throw.\<close>

definition setex :: "redis_server \<Rightarrow> RedisConfig \<Rightarrow> json_lib \<Rightarrow> string \<Rightarrow> json \<Rightarrow> int
    \<Rightarrow> redis_cmd list \<Rightarrow> (exn + bool) \<times> redis_cmd list" where
  "setex R cfg J raw_key doc ttl_sec log =
     (case json_dump J doc of
        Inl e \<Rightarrow> (Inl e, log)
      | Inr v \<Rightarrow>
          (let k = redis_key cfg raw_key;
               (reply, log) =
                 redisCommand R [''SETEX'', c_str k, to_string ttl_sec, c_str v] log
           in (Inr (commandOK reply), log)))"

definition setOnline where
  "setOnline R cfg J device_id state ttl_sec = setex R cfg J (online_key device_id) state ttl_sec"

definition setOffline where
  "setOffline R cfg device_id = delRaw R cfg (online_key device_id)"

definition savePendingWake where
  "savePendingWake R cfg J device_id msg_id payload ttl_sec =
     setex R cfg J (pending_key device_id msg_id) payload ttl_sec"

definition removePendingWake where
  "removePendingWake R cfg device_id msg_id = delRaw R cfg (pending_key device_id msg_id)"

section \<open>Documented behaviour of the server\<close>

text \<open>What a list of commands has written last under each key, were no entry to expire.\<close>

fun redis_effect :: "redis_cmd \<Rightarrow> (string \<Rightarrow> string option) \<Rightarrow> (string \<Rightarrow> string option)" where
  "redis_effect [cmd, k, v] db = (if cmd = ''SET'' then db(k := Some v) else db)"
| "redis_effect [cmd, k, ttl, v] db = (if cmd = ''SETEX'' then db(k := Some v) else db)"
| "redis_effect [cmd, k] db = (if cmd = ''DEL'' then db(k := None) else db)"
| "redis_effect _ db = db"

definition redis_db :: "redis_cmd list \<Rightarrow> string \<Rightarrow> string option" where
  "redis_db log = fold redis_effect log (\<lambda>_. None)"

lemma redis_db_snoc [simp]: "redis_db (log @ [cmd]) = redis_effect cmd (redis_db log)"
  by (simp add: redis_db_def)

lemma redis_db_append: "redis_db (log @ log') = fold redis_effect log' (redis_db log)"
  by (simp add: redis_db_def)

lemma redis_db_Nil [simp]: "redis_db [] = (\<lambda>_. None)"
  by (simp add: redis_db_def)

text \<open>The commands that write a key.\<close>

fun writes_key :: "redis_cmd \<Rightarrow> string \<Rightarrow> bool" where
  "writes_key (cmd # k' # _) k \<longleftrightarrow> cmd \<in> {''SET'', ''SETEX'', ''DEL''} \<and> k' = k"
| "writes_key _ k \<longleftrightarrow> False"

lemma redis_effect_other: "\<not> writes_key cmd k \<Longrightarrow> redis_effect cmd db k = db k"
  by (cases "(cmd, db)" rule: redis_effect.cases) auto

lemma fold_redis_effect_other:
  "\<forall>cmd\<in>set log. \<not> writes_key cmd k \<Longrightarrow> fold redis_effect log db k = db k"
  by (induction log arbitrary: db) (simp_all add: redis_effect_other)

text \<open>
  \<^verbatim>\<open>SET\<close> keeps its value: after a \<^verbatim>\<open>SET\<close> that the server answered with
  \<^verbatim>\<open>OK\<close>, \<^verbatim>\<open>GET\<close> gives the value until a command writes the key again.  It holds
  while the connection lasts, only the gateway writes the key, and nothing is evicted.  Of a
  key written by \<^verbatim>\<open>SETEX\<close>, which expires, it says nothing.
\<close>

definition set_law :: "redis_server \<Rightarrow> bool" where
  "set_law R \<longleftrightarrow>
     (\<forall>log k v later. R (log @ [[''SET'', k, v]]) = Some (Reply_Status ''OK'')
        \<longrightarrow> (\<forall>cmd\<in>set later. \<not> writes_key cmd k)
        \<longrightarrow> R (log @ [[''SET'', k, v]] @ later @ [[''GET'', k]]) = Some (Reply_String v))"

text \<open>A reference server that satisfies it, on which nothing has expired yet.\<close>

definition db_server :: redis_server where
  "db_server log =
     (if log = [] then None
      else case last log of
          [cmd, k] \<Rightarrow>
            (if cmd = ''GET'' then
               Some (case redis_db (butlast log) k of None \<Rightarrow> Reply_Other | Some v \<Rightarrow> Reply_String v)
             else Some Reply_Other)
        | _ \<Rightarrow> Some (Reply_Status ''OK''))"

lemma db_server_set_law: "set_law db_server"
  unfolding set_law_def
proof (intro allI impI)
  fix log :: "redis_cmd list" and k v :: string and later :: "redis_cmd list"
  assume later: "\<forall>cmd\<in>set later. \<not> writes_key cmd k"
  have "redis_db (log @ [''SET'', k, v] # later) k = Some v"
    using later redis_db_append [of "log @ [[''SET'', k, v]]" later]
    by (simp add: fold_redis_effect_other)
  moreover have "butlast (log @ [''SET'', k, v] # later @ [[''GET'', k]]) = log @ [''SET'', k, v] # later"
    by (simp add: butlast_append)
  ultimately show "db_server (log @ [[''SET'', k, v]] @ later @ [[''GET'', k]]) = Some (Reply_String v)"
    by (simp add: db_server_def)
qed

section \<open>Lemmas\<close>

lemma c_str_append: "CHR 0x00 \<notin> set s \<Longrightarrow> c_str (s @ t) = s @ c_str t"
  by (induction s) (auto simp: c_str_def)

definition prefix_ok :: "RedisConfig \<Rightarrow> bool" where
  "prefix_ok cfg \<longleftrightarrow> CHR 0x00 \<notin> set (rc_prefix cfg)"

lemma snd_setRaw: "snd (setRaw R cfg k v log) = log @ [[''SET'', c_str (redis_key cfg k), c_str v]]"
  by (simp add: setRaw_def redisCommand_def Let_def)

lemma snd_delRaw: "snd (delRaw R cfg k log) = log @ [[''DEL'', c_str (redis_key cfg k)]]"
  by (simp add: delRaw_def redisCommand_def Let_def)

lemma redis_key_neq:
  assumes "prefix_ok cfg"
  shows "c_str (redis_key cfg k) = c_str (redis_key cfg k') \<longleftrightarrow> c_str k = c_str k'"
  using assms by (simp add: redis_key_def prefix_ok_def c_str_append)

text \<open>The five families of keys never collide.\<close>

lemma key_families:
  "c_str (secret_key d) = ''device:secret:'' @ c_str d"
  "c_str (local_key_key d) = ''device:local_key:'' @ c_str d"
  "c_str (id_index_key d) = ''lowpower:device_id_index:'' @ c_str d"
  "c_str (online_key d) = ''device:online:'' @ c_str d"
  "c_str (pending_key d m) = ''device:pending_wake:'' @ c_str (d @ '':'' @ m)"
  by (simp_all add: secret_key_def local_key_key_def id_index_key_def online_key_def
      pending_key_def c_str_def)

lemma pending_key_inject:
  assumes "CHR '':'' \<notin> set m" and "CHR '':'' \<notin> set m'"
    and "pending_key d m = pending_key d' m'"
  shows "d = d' \<and> m = m'"
proof -
  have eq: "d @ CHR '':'' # m = d' @ CHR '':'' # m'"
    using assms(3) by (simp add: pending_key_def)
  then have "rev m @ CHR '':'' # rev d = rev m' @ CHR '':'' # rev d'"
    by (metis append.assoc append_Cons append_Nil rev.simps(2) rev_append)
  then have "takeWhile (\<lambda>c. c \<noteq> CHR '':'') (rev m @ CHR '':'' # rev d)
      = takeWhile (\<lambda>c. c \<noteq> CHR '':'') (rev m' @ CHR '':'' # rev d')" by simp
  moreover have "takeWhile (\<lambda>c. c \<noteq> CHR '':'') (rev s @ CHR '':'' # t) = rev s"
    if "CHR '':'' \<notin> set s" for s t :: string
    using that by (subst takeWhile_append2) auto
  ultimately have "m = m'" using assms(1,2) by simp
  with eq show ?thesis by simp
qed

section \<open>Any series of operations\<close>

datatype redis_op =
    Set_online string json int
  | Set_offline string
  | Save_pending string string json int
  | Remove_pending string string
  | Set_secret string string
  | Get_secret string
  | Set_index string string
  | Get_index string
  | Set_local_key string string
  | Get_local_key string

fun redis_run :: "redis_server \<Rightarrow> RedisConfig \<Rightarrow> json_lib \<Rightarrow> redis_op \<Rightarrow> redis_cmd list \<Rightarrow> redis_cmd list" where
  "redis_run R cfg J (Set_online d state ttl) log = snd (setOnline R cfg J d state ttl log)"
| "redis_run R cfg J (Set_offline d) log = snd (setOffline R cfg d log)"
| "redis_run R cfg J (Save_pending d m payload ttl) log = snd (savePendingWake R cfg J d m payload ttl log)"
| "redis_run R cfg J (Remove_pending d m) log = snd (removePendingWake R cfg d m log)"
| "redis_run R cfg J (Set_secret d secret) log = snd (setDeviceSecretForDev R cfg d secret log)"
| "redis_run R cfg J (Get_secret d) log = snd (getDeviceSecret R cfg d log)"
| "redis_run R cfg J (Set_index e d) log = snd (setEncryptedIdIndex R cfg e d log)"
| "redis_run R cfg J (Get_index e) log = snd (getDeviceIdByEncryptedId R cfg e log)"
| "redis_run R cfg J (Set_local_key d key) log = snd (setLocalKeyForDev R cfg d key log)"
| "redis_run R cfg J (Get_local_key d) log = snd (getLocalKey R cfg d log)"

lemma snd_getRaw: "snd (getRaw R cfg k log) = log @ [[''GET'', c_str (redis_key cfg k)]]"
  by (simp add: getRaw_def redisCommand_def Let_def split: option.split redisReply.split)

lemma snd_setex:
  "snd (setex R cfg J k doc ttl log) = log @ (case json_dump J doc of Inl _ \<Rightarrow> []
     | Inr v \<Rightarrow> [[''SETEX'', c_str (redis_key cfg k), to_string ttl, c_str v]])"
  by (simp add: setex_def redisCommand_def Let_def split: sum.split)

lemma redis_run_writes:
  assumes "prefix_ok cfg" and "\<And>d' key. op = Set_local_key d' key \<Longrightarrow> c_str d' \<noteq> c_str d"
  shows "\<exists>later. redis_run R cfg J op log = log @ later
    \<and> (\<forall>cmd\<in>set later. \<not> writes_key cmd (c_str (redis_key cfg (local_key_key d))))"
  using assms
  by (cases op)
    (auto simp: setOnline_def setOffline_def savePendingWake_def removePendingWake_def
      setDeviceSecretForDev_def getDeviceSecret_def setEncryptedIdIndex_def
      getDeviceIdByEncryptedId_def setLocalKeyForDev_def getLocalKey_def snd_getRaw snd_setRaw
      snd_delRaw snd_setex redis_key_neq key_families split: sum.split)

lemma redis_runs_writes:
  assumes "prefix_ok cfg" and "\<forall>d' key. Set_local_key d' key \<in> set ops \<longrightarrow> c_str d' \<noteq> c_str d"
  shows "\<exists>later. fold (redis_run R cfg J) ops log = log @ later
    \<and> (\<forall>cmd\<in>set later. \<not> writes_key cmd (c_str (redis_key cfg (local_key_key d))))"
  using assms(2)
proof (induction ops arbitrary: log)
  case (Cons op ops)
  obtain l1 where l1: "redis_run R cfg J op log = log @ l1"
    "\<forall>cmd\<in>set l1. \<not> writes_key cmd (c_str (redis_key cfg (local_key_key d)))"
    using redis_run_writes [OF assms(1), of op d R J log] Cons.prems by auto
  obtain l2 where "fold (redis_run R cfg J) ops (log @ l1) = (log @ l1) @ l2"
    "\<forall>cmd\<in>set l2. \<not> writes_key cmd (c_str (redis_key cfg (local_key_key d)))"
    using Cons.IH [of "log @ l1"] Cons.prems by auto
  with l1 show ?case by (intro exI [of _ "l1 @ l2"]) auto
qed simp

section \<open>Properties\<close>

text \<open>
  C37: a local key that the server has accepted is read back up to its first NUL byte,
  whatever operations of the client follow, in any number and for any device, as long as none
  provisions the key of this device again: online states, pending commands, secrets and index
  entries live under other keys.
\<close>

theorem local_key_roundtrip:
  assumes "set_law R" and "prefix_ok cfg" and "fst (setLocalKeyForDev R cfg d key log)"
    and "\<forall>d' key'. Set_local_key d' key' \<in> set ops \<longrightarrow> c_str d' \<noteq> c_str d"
  shows "fst (getLocalKey R cfg d
      (fold (redis_run R cfg J) ops (snd (setLocalKeyForDev R cfg d key log)))) = Some (c_str key)"
proof -
  let ?k = "c_str (redis_key cfg (local_key_key d))"
  let ?set = "[''SET'', ?k, c_str key]"
  obtain later where later: "fold (redis_run R cfg J) ops (log @ [?set]) = (log @ [?set]) @ later"
    "\<forall>cmd\<in>set later. \<not> writes_key cmd ?k"
    using redis_runs_writes [OF assms(2,4)] by blast
  have "commandOK (R (log @ [?set]))"
    using assms(3) by (simp add: setLocalKeyForDev_def setRaw_def redisCommand_def Let_def)
  then have "R (log @ [?set]) = Some (Reply_Status ''OK'')"
    by (cases "R (log @ [?set])" rule: commandOK.cases) simp_all
  with assms(1) later(2) have "R (log @ [?set] @ later @ [[''GET'', ?k]]) = Some (Reply_String (c_str key))"
    unfolding set_law_def by blast
  then show ?thesis
    by (simp add: setLocalKeyForDev_def snd_setRaw later(1) getLocalKey_def getRaw_def
        redisCommand_def Let_def)
qed

definition lp_config :: RedisConfig where
  "lp_config = \<lparr>rc_host = ''h'', rc_port = 6379, rc_password = '''', rc_db = 0, rc_prefix = ''lp:''\<rparr>"

theorem local_key_roundtrip_witness:
  "fst (getLocalKey db_server lp_config ''D1''
     (fold (redis_run db_server lp_config (brief_json ''{}''))
       [Set_online ''D1'' JNull 600, Set_local_key ''D2'' ''L'', Set_secret ''D1'' ''S'', Set_offline ''D1'']
       (snd (setLocalKeyForDev db_server lp_config ''D1'' ''K'' [])))) = Some ''K''"
  by (subst local_key_roundtrip [OF db_server_set_law])
    (auto simp: prefix_ok_def lp_config_def setLocalKeyForDev_def setRaw_def redisCommand_def
      db_server_def c_str_def)

end
