(* ===== verification/AppConfig.thy ===== *)
theory AppConfig
  imports RedisStore
begin

text \<open>
  The configuration (\<^verbatim>\<open>src/AppConfig.cpp\<close>, \<^verbatim>\<open>include/AppConfig.h\<close>), the
  runtime configurations \<^verbatim>\<open>src/main.cpp\<close> derives from it, and its computation of
  the number of worker threads.
\<close>

record ServerConfig =
  sc_tcp_port :: int
  sc_http_port :: int
  sc_heartbeat_default_sec :: int
  sc_idle_timeout_sec :: int
  sc_worker_threads :: int

record AuthConfig =
  ac_enable :: bool
  ac_timestamp_window_sec :: int
  ac_dev_default_secret :: string

record WakeConfig =
  wc_ack_timeout_ms :: int
  wc_max_retry :: int
  wc_expire_ms :: int

record MqttConfig =
  mc_enable :: bool
  mc_host :: string
  mc_port :: int
  mc_client_id :: string
  mc_username :: string
  mc_password :: string
  mc_qos :: int
  mc_keepalive_sec :: int
  mc_topic_prefix :: string
  mc_command_request_topic :: string

record AppConfig =
  app_server :: ServerConfig
  app_redis :: RedisConfig
  app_auth :: AuthConfig
  app_wake :: WakeConfig
  app_mqtt :: MqttConfig

text \<open>The runtime configurations of a session (\<^verbatim>\<open>include/session/DeviceSession.h\<close>)
  and of the wake manager (\<^verbatim>\<open>include/service/WakeManager.h\<close>).\<close>

record AppRuntimeConfig =
  rt_heartbeat_default_sec :: int
  rt_idle_timeout_sec :: int
  rt_auth_wait_timeout_sec :: int
  rt_dev_default_secret :: string
  rt_json_auth_enable :: bool

record WakeRuntimeConfig =
  wr_ack_timeout_ms :: int
  wr_max_retry :: int
  wr_expire_ms :: int

section \<open>Defaults\<close>

definition default_ServerConfig :: ServerConfig where
  "default_ServerConfig = \<lparr>sc_tcp_port = 9000, sc_http_port = 8080,
     sc_heartbeat_default_sec = 180, sc_idle_timeout_sec = 600, sc_worker_threads = 0\<rparr>"

definition default_RedisConfig :: RedisConfig where
  "default_RedisConfig = \<lparr>rc_host = ''127.0.0.1'', rc_port = 6379, rc_password = '''',
     rc_db = 0, rc_prefix = ''lp:''\<rparr>"

definition default_AuthConfig :: AuthConfig where
  "default_AuthConfig = \<lparr>ac_enable = True, ac_timestamp_window_sec = 300,
     ac_dev_default_secret = ''DEV_ONLY_CHANGE_ME''\<rparr>"

definition default_WakeConfig :: WakeConfig where
  "default_WakeConfig = \<lparr>wc_ack_timeout_ms = 5000, wc_max_retry = 3, wc_expire_ms = 300000\<rparr>"

definition default_MqttConfig :: MqttConfig where
  "default_MqttConfig = \<lparr>mc_enable = True, mc_host = ''mqtt'', mc_port = 1883,
     mc_client_id = ''lowpower-tcp-gateway'', mc_username = '''', mc_password = '''',
     mc_qos = 1, mc_keepalive_sec = 30, mc_topic_prefix = ''lp_gateway'',
     mc_command_request_topic = ''devices/+/commands/request''\<rparr>"

definition default_AppConfig :: AppConfig where
  "default_AppConfig = \<lparr>app_server = default_ServerConfig, app_redis = default_RedisConfig,
     app_auth = default_AuthConfig, app_wake = default_WakeConfig, app_mqtt = default_MqttConfig\<rparr>"

definition default_AppRuntimeConfig :: AppRuntimeConfig where
  "default_AppRuntimeConfig = \<lparr>rt_heartbeat_default_sec = 180, rt_idle_timeout_sec = 600,
     rt_auth_wait_timeout_sec = 10, rt_dev_default_secret = ''DEV_ONLY_CHANGE_ME'',
     rt_json_auth_enable = True\<rparr>"

definition default_WakeRuntimeConfig :: WakeRuntimeConfig where
  "default_WakeRuntimeConfig = \<lparr>wr_ack_timeout_ms = 5000, wr_max_retry = 3,
     wr_expire_ms = 300000\<rparr>"

section \<open>Loading\<close>

text \<open>Each section of \<^verbatim>\<open>load\<close>, on the subdocument and the section's record.\<close>

definition load_server :: "json_lib \<Rightarrow> json \<Rightarrow> ServerConfig \<Rightarrow> exn + ServerConfig" where
  "load_server J s c =
     bindR (value_int J s ''tcp_port'' (sc_tcp_port c)) (\<lambda>v. let c = c\<lparr>sc_tcp_port := v\<rparr> in
     bindR (value_int J s ''http_port'' (sc_http_port c)) (\<lambda>v. let c = c\<lparr>sc_http_port := v\<rparr> in
     bindR (value_int J s ''heartbeat_default_sec'' (sc_heartbeat_default_sec c))
       (\<lambda>v. let c = c\<lparr>sc_heartbeat_default_sec := v\<rparr> in
     bindR (value_int J s ''idle_timeout_sec'' (sc_idle_timeout_sec c))
       (\<lambda>v. let c = c\<lparr>sc_idle_timeout_sec := v\<rparr> in
     bindR (value_int J s ''worker_threads'' (sc_worker_threads c))
       (\<lambda>v. Inr (c\<lparr>sc_worker_threads := v\<rparr>))))))"

definition load_redis :: "json_lib \<Rightarrow> json \<Rightarrow> RedisConfig \<Rightarrow> exn + RedisConfig" where
  "load_redis J r c =
     bindR (value_string J r ''host'' (rc_host c)) (\<lambda>v. let c = c\<lparr>rc_host := v\<rparr> in
     bindR (value_int J r ''port'' (rc_port c)) (\<lambda>v. let c = c\<lparr>rc_port := v\<rparr> in
     bindR (value_string J r ''password'' (rc_password c)) (\<lambda>v. let c = c\<lparr>rc_password := v\<rparr> in
     bindR (value_int J r ''db'' (rc_db c)) (\<lambda>v. let c = c\<lparr>rc_db := v\<rparr> in
     bindR (value_string J r ''prefix'' (rc_prefix c)) (\<lambda>v. Inr (c\<lparr>rc_prefix := v\<rparr>))))))"

definition load_auth :: "json_lib \<Rightarrow> json \<Rightarrow> AuthConfig \<Rightarrow> exn + AuthConfig" where
  "load_auth J a c =
     bindR (value_bool J a ''enable'' (ac_enable c)) (\<lambda>v. let c = c\<lparr>ac_enable := v\<rparr> in
     bindR (value_int J a ''timestamp_window_sec'' (ac_timestamp_window_sec c))
       (\<lambda>v. let c = c\<lparr>ac_timestamp_window_sec := v\<rparr> in
     bindR (value_string J a ''dev_default_secret'' (ac_dev_default_secret c))
       (\<lambda>v. Inr (c\<lparr>ac_dev_default_secret := v\<rparr>))))"

definition load_wake :: "json_lib \<Rightarrow> json \<Rightarrow> WakeConfig \<Rightarrow> exn + WakeConfig" where
  "load_wake J w c =
     bindR (value_int J w ''ack_timeout_ms'' (wc_ack_timeout_ms c))
       (\<lambda>v. let c = c\<lparr>wc_ack_timeout_ms := v\<rparr> in
     bindR (value_int J w ''max_retry'' (wc_max_retry c)) (\<lambda>v. let c = c\<lparr>wc_max_retry := v\<rparr> in
     bindR (value_int J w ''expire_ms'' (wc_expire_ms c)) (\<lambda>v. Inr (c\<lparr>wc_expire_ms := v\<rparr>))))"

definition load_mqtt :: "json_lib \<Rightarrow> json \<Rightarrow> MqttConfig \<Rightarrow> exn + MqttConfig" where
  "load_mqtt J m c =
     bindR (value_bool J m ''enable'' (mc_enable c)) (\<lambda>v. let c = c\<lparr>mc_enable := v\<rparr> in
     bindR (value_string J m ''host'' (mc_host c)) (\<lambda>v. let c = c\<lparr>mc_host := v\<rparr> in
     bindR (value_int J m ''port'' (mc_port c)) (\<lambda>v. let c = c\<lparr>mc_port := v\<rparr> in
     bindR (value_string J m ''client_id'' (mc_client_id c)) (\<lambda>v. let c = c\<lparr>mc_client_id := v\<rparr> in
     bindR (value_string J m ''username'' (mc_username c)) (\<lambda>v. let c = c\<lparr>mc_username := v\<rparr> in
     bindR (value_string J m ''password'' (mc_password c)) (\<lambda>v. let c = c\<lparr>mc_password := v\<rparr> in
     bindR (value_int J m ''qos'' (mc_qos c)) (\<lambda>v. let c = c\<lparr>mc_qos := v\<rparr> in
     bindR (value_int J m ''keepalive_sec'' (mc_keepalive_sec c))
       (\<lambda>v. let c = c\<lparr>mc_keepalive_sec := v\<rparr> in
     bindR (value_string J m ''topic_prefix'' (mc_topic_prefix c))
       (\<lambda>v. let c = c\<lparr>mc_topic_prefix := v\<rparr> in
     bindR (value_string J m ''command_request_topic'' (mc_command_request_topic c))
       (\<lambda>v. Inr (c\<lparr>mc_command_request_topic := v\<rparr>)))))))))))"

text \<open>\<^verbatim>\<open>if (j.contains(name)) { auto s = j[name]; ... }\<close>\<close>

definition load_section :: "json_lib \<Rightarrow> json \<Rightarrow> string \<Rightarrow> (json \<Rightarrow> 'c \<Rightarrow> exn + 'c) \<Rightarrow> 'c \<Rightarrow> exn + 'c" where
  "load_section J j name body c =
     (if json_contains J j name then body (json_at J j name) c else Inr c)"

text \<open>\<open>file\<close> is the content of the file at the path, \<open>None\<close> when it does not open.
  \<^verbatim>\<open>ifs >> j\<close> reads one document; what follows it in the file is not looked at.\<close>

definition AppConfig_load :: "json_lib \<Rightarrow> string \<Rightarrow> string option \<Rightarrow> exn + AppConfig" where
  "AppConfig_load J path file =
     (case file of
        None \<Rightarrow> Inl (Runtime_Error (''failed to open config: '' @ path))
      | Some content \<Rightarrow>
          bindR (json_read J content) (\<lambda>j. let cfg = default_AppConfig in
          bindR (load_section J j ''server'' (load_server J) (app_server cfg))
            (\<lambda>v. let cfg = cfg\<lparr>app_server := v\<rparr> in
          bindR (load_section J j ''redis'' (load_redis J) (app_redis cfg))
            (\<lambda>v. let cfg = cfg\<lparr>app_redis := v\<rparr> in
          bindR (load_section J j ''auth'' (load_auth J) (app_auth cfg))
            (\<lambda>v. let cfg = cfg\<lparr>app_auth := v\<rparr> in
          bindR (load_section J j ''wake'' (load_wake J) (app_wake cfg))
            (\<lambda>v. let cfg = cfg\<lparr>app_wake := v\<rparr> in
          bindR (load_section J j ''mqtt'' (load_mqtt J) (app_mqtt cfg))
            (\<lambda>v. Inr (cfg\<lparr>app_mqtt := v\<rparr>))))))))"

section \<open>What main derives\<close>

definition makeSessionConfig :: "AppConfig \<Rightarrow> AppRuntimeConfig" where
  "makeSessionConfig cfg = default_AppRuntimeConfig
     \<lparr>rt_heartbeat_default_sec := sc_heartbeat_default_sec (app_server cfg),
      rt_idle_timeout_sec := sc_idle_timeout_sec (app_server cfg),
      rt_dev_default_secret := ac_dev_default_secret (app_auth cfg),
      rt_json_auth_enable := ac_enable (app_auth cfg)\<rparr>"

definition makeWakeConfig :: "AppConfig \<Rightarrow> WakeRuntimeConfig" where
  "makeWakeConfig cfg =
     \<lparr>wr_ack_timeout_ms = wc_ack_timeout_ms (app_wake cfg),
      wr_max_retry = wc_max_retry (app_wake cfg),
      wr_expire_ms = wc_expire_ms (app_wake cfg)\<rparr>"

text \<open>\<open>hw\<close> is \<^verbatim>\<open>std::thread::hardware_concurrency()\<close>, which may be 0; the main
  thread runs the loop too, so one thread fewer is spawned.\<close>

definition worker_threads :: "AppConfig \<Rightarrow> nat \<Rightarrow> nat" where
  "worker_threads cfg hw =
     (if 0 < sc_worker_threads (app_server cfg) then nat (sc_worker_threads (app_server cfg))
      else max 1 hw)"

definition spawned_threads :: "AppConfig \<Rightarrow> nat \<Rightarrow> nat" where
  "spawned_threads cfg hw = length [1..<worker_threads cfg hw]"

section \<open>Properties\<close>

text \<open>The accessors of the library on members that are absent.\<close>

definition absent_law :: "json_lib \<Rightarrow> bool" where
  "absent_law J \<longleftrightarrow>
     (\<forall>fs k. map_of fs k = None \<longrightarrow>
        (\<forall>d. value_string J (JObject fs) k d = Inr d) \<and> (\<forall>d. value_int J (JObject fs) k d = Inr d)
        \<and> (\<forall>d. value_bool J (JObject fs) k d = Inr d))
   \<and> (\<forall>fs k. json_contains J (JObject fs) k \<longleftrightarrow> map_of fs k \<noteq> None)
   \<and> (\<forall>fs k v. map_of fs k = Some v \<longrightarrow> json_at J (JObject fs) k = v)"

text \<open>
  A configuration file is an overlay of the defaults: when every section it has is an
  empty object, loading gives the default configuration, and the session and wake managers
  run with the documented defaults.
\<close>

theorem AppConfig_load_defaults:
  assumes "absent_law J" and "json_read J content = Inr (JObject fs)"
    and "\<forall>v \<in> set (map snd fs). v = JObject []"
  shows "AppConfig_load J path (Some content) = Inr default_AppConfig
    \<and> makeSessionConfig default_AppConfig = default_AppRuntimeConfig
    \<and> makeWakeConfig default_AppConfig = default_WakeRuntimeConfig"
proof -
  have at: "json_contains J (JObject fs) k \<Longrightarrow> json_at J (JObject fs) k = JObject []" for k
  proof -
    assume "json_contains J (JObject fs) k"
    then obtain v where v: "map_of fs k = Some v"
      using assms(1) by (auto simp: absent_law_def)
    then have "(k, v) \<in> set fs" by (rule map_of_SomeD)
    then have "v = JObject []" using assms(3) by force
    with v assms(1) show ?thesis by (simp add: absent_law_def)
  qed
  have absent: "value_string J (JObject []) k d = Inr d" "value_int J (JObject []) k i = Inr i"
    "value_bool J (JObject []) k b = Inr b" for k d i b
    using assms(1) by (simp_all add: absent_law_def)
  have "AppConfig_load J path (Some content) = Inr default_AppConfig"
    by (simp add: AppConfig_load_def assms(2) load_section_def at absent load_server_def Let_def
        load_redis_def load_auth_def load_wake_def load_mqtt_def default_AppConfig_def)
  then show ?thesis
    by (simp add: makeSessionConfig_def makeWakeConfig_def default_AppConfig_def
        default_ServerConfig_def default_AuthConfig_def default_WakeConfig_def
        default_AppRuntimeConfig_def default_WakeRuntimeConfig_def)
qed

lemma table_absent_law: "absent_law (table_json tbl)"
  by (auto simp: absent_law_def table_json_def)

theorem AppConfig_load_defaults_witness:
  "AppConfig_load (table_json [(JObject [(''wake'', JObject [])], ''{}'')]) ''c'' (Some ''{}'')
     = Inr default_AppConfig"
  using AppConfig_load_defaults [OF table_absent_law, of "[(JObject [(''wake'', JObject [])], ''{}'')]"
      "''{}''" "[(''wake'', JObject [])]" "''c''"]
  by (simp add: table_read_def)

end
