(* ===== verification/GatewayContext.thy ===== *)
theory GatewayContext
  imports Containers AppConfig WriteQueue LowPowerAuth
begin

text \<open>
  The shared state (\<^verbatim>\<open>include/GatewayContext.h\<close>), the objects it points to, and the
  world a handler runs in.  A session object is named by a number; \<open>w_heap\<close> holds the
  objects that live, so \<^verbatim>\<open>weak_ptr::lock()\<close> is a lookup there.  The environment
  \<open>env\<close> collects the configuration and the parameters: the libraries, the Redis server,
  and the readings of the clocks and of the random source, each a function of how many
  readings were taken before.
\<close>

section \<open>Device states and sessions\<close>

record DeviceState =
  ds_device_id :: string
  ds_imei :: string
  ds_fw :: string
  ds_model :: string
  ds_remote_addr :: string
  ds_protocol :: string
  ds_dev_state :: string
  ds_battery :: int
  ds_rssi :: int
  ds_rsrp :: int
  ds_charging :: bool
  ds_online :: bool
  ds_login_time :: int        \<comment> \<open>steady clock, nanoseconds\<close>
  ds_last_heartbeat :: int    \<comment> \<open>steady clock, nanoseconds\<close>

definition default_DeviceState :: DeviceState where
  "default_DeviceState = \<lparr>ds_device_id = '''', ds_imei = '''', ds_fw = '''', ds_model = '''',
     ds_remote_addr = '''', ds_protocol = '''', ds_dev_state = ''unknown'', ds_battery = -1,
     ds_rssi = 0, ds_rsrp = 0, ds_charging = False, ds_online = False, ds_login_time = 0,
     ds_last_heartbeat = 0\<rparr>"

datatype SessionProtocol = UNKNOWN | JSON_LINE | LOWPOWER

text \<open>The asynchronous read a session waits for.\<close>

datatype read_op =
    No_read
  | Peek
  | Json_line
  | Lp_header
  | Lp_payload u8 u8 u8 u16

record Session =
  ss_protocol :: SessionProtocol
  ss_device_id :: string
  ss_remote_addr :: string
  ss_closing :: bool
  ss_open :: bool            \<comment> \<open>the socket\<close>
  ss_writer :: Writer
  ss_reading :: read_op
  ss_read_buffer :: bytes

record GatewayContext =
  ctx_sessions :: "(string, nat) umap"
  ctx_states :: "(string, DeviceState) umap"
  ctx_redis :: bool           \<comment> \<open>the three pointers: whether they are set\<close>
  ctx_wake_manager :: bool
  ctx_mqtt_backend :: bool

record PendingWake =
  pw_device_id :: string
  pw_msg_id :: string
  pw_cmd :: string
  pw_payload :: json
  pw_session :: nat           \<comment> \<open>a \<^verbatim>\<open>weak_ptr\<close>\<close>
  pw_protocol :: SessionProtocol
  pw_retry_count :: int
  pw_next_retry :: int        \<comment> \<open>steady clock, nanoseconds\<close>

record Publication =
  pub_topic :: string
  pub_document :: json
  pub_content :: string
  pub_qos :: int
  pub_retain :: bool

record World =
  w_ctx :: GatewayContext
  w_heap :: "(nat, Session) umap"
  w_next_session :: nat            \<comment> \<open>the name of the next session object\<close>
  w_pending :: "(string, PendingWake) umap"
  w_redis_log :: "redis_cmd list"
  w_mqtt_client :: bool
  w_published :: "Publication list"
  w_tasks :: "(string \<times> string \<times> json) list"   \<comment> \<open>commands posted to the io context\<close>
  w_steady_reads :: nat
  w_system_reads :: nat
  w_random_reads :: nat

type_synonym 'a gw = "(World, 'a) comp"

record env =
  env_json :: json_lib
  env_crypto :: crypto
  env_redis :: redis_server
  env_redis_cfg :: RedisConfig
  env_session_cfg :: AppRuntimeConfig
  env_wake_cfg :: WakeRuntimeConfig
  env_server_cfg :: ServerConfig
  env_mqtt_cfg :: MqttConfig
  env_steady :: "nat \<Rightarrow> int"      \<comment> \<open>readings of the steady clock, nanoseconds\<close>
  env_system :: "nat \<Rightarrow> int"      \<comment> \<open>readings of the system clock, nanoseconds\<close>
  env_random :: "nat \<Rightarrow> bytes"    \<comment> \<open>16-byte fills of \<^verbatim>\<open>RAND_bytes\<close>\<close>

section \<open>Elementary computations\<close>

definition steady_now :: "env \<Rightarrow> int gw" where
  "steady_now E = (\<lambda>w. (Inr (env_steady E (w_steady_reads w)),
     w\<lparr>w_steady_reads := Suc (w_steady_reads w)\<rparr>))"

definition system_now :: "env \<Rightarrow> int gw" where
  "system_now E = (\<lambda>w. (Inr (env_system E (w_system_reads w)),
     w\<lparr>w_system_reads := Suc (w_system_reads w)\<rparr>))"

definition rand_bytes :: "env \<Rightarrow> bytes gw" where
  "rand_bytes E = (\<lambda>w. (Inr (env_random E (w_random_reads w)),
     w\<lparr>w_random_reads := Suc (w_random_reads w)\<rparr>))"

text \<open>A call into the Redis client.\<close>

definition on_redis :: "(redis_cmd list \<Rightarrow> 'a \<times> redis_cmd list) \<Rightarrow> 'a gw" where
  "on_redis f = (\<lambda>w. let (x, log) = f (w_redis_log w) in (Inr x, w\<lparr>w_redis_log := log\<rparr>))"

definition on_redis_throwing ::
    "(redis_cmd list \<Rightarrow> (exn + 'a) \<times> redis_cmd list) \<Rightarrow> 'a gw" where
  "on_redis_throwing f = (\<lambda>w. let (x, log) = f (w_redis_log w) in (x, w\<lparr>w_redis_log := log\<rparr>))"

text \<open>Member access on a session object; the object must live.\<close>

definition get_session :: "nat \<Rightarrow> Session gw" where
  "get_session sid =
     (\<lambda>w. case um_find (w_heap w) sid of None \<Rightarrow> (Inl Dead_Object, w) | Some s \<Rightarrow> (Inr s, w))"

definition modify_session :: "nat \<Rightarrow> (Session \<Rightarrow> Session) \<Rightarrow> unit gw" where
  "modify_session sid f =
     (\<lambda>w. case um_find (w_heap w) sid of
            None \<Rightarrow> (Inl Dead_Object, w)
          | Some s \<Rightarrow> (Inr (), w\<lparr>w_heap := um_put (w_heap w) sid (f s)\<rparr>))"

definition get_ctx :: "GatewayContext gw" where
  "get_ctx = getsM w_ctx"

definition modify_ctx :: "(GatewayContext \<Rightarrow> GatewayContext) \<Rightarrow> unit gw" where
  "modify_ctx f = modifyM (\<lambda>w. w\<lparr>w_ctx := f (w_ctx w)\<rparr>)"

text \<open>\<^verbatim>\<open>auto& s = ctx_.states[id]\<close>: the entry is inserted when it is missing.
  \<open>state_ref\<close> is the access, \<open>write_state\<close> an assignment through the reference.\<close>

definition state_ref :: "string \<Rightarrow> DeviceState gw" where
  "state_ref dev =
     thenM (modify_ctx (\<lambda>c. c\<lparr>ctx_states := um_modify default_DeviceState (ctx_states c) dev (\<lambda>s. s)\<rparr>))
       (bindM get_ctx (\<lambda>c. case um_find (ctx_states c) dev of
          None \<Rightarrow> throw Dead_Object | Some s \<Rightarrow> ret s))"

definition write_state :: "string \<Rightarrow> (DeviceState \<Rightarrow> DeviceState) \<Rightarrow> unit gw" where
  "write_state dev f =
     modify_ctx (\<lambda>c. c\<lparr>ctx_states := um_modify default_DeviceState (ctx_states c) dev f\<rparr>)"

text \<open>\<^verbatim>\<open>weak_ptr::lock()\<close> succeeds while the object lives.\<close>

definition session_alive :: "nat \<Rightarrow> bool gw" where
  "session_alive sid = getsM (\<lambda>w. um_find (w_heap w) sid \<noteq> None)"

lemmas gw_defs =
  steady_now_def system_now_def rand_bytes_def on_redis_def on_redis_throwing_def
  get_session_def modify_session_def get_ctx_def modify_ctx_def state_ref_def write_state_def
  session_alive_def

section \<open>Symbolic execution\<close>

text \<open>One equation per elementary computation at the head of a sequence; with them
  \<open>simp\<close> runs a handler on a symbolic world.\<close>

lemma seq_runs:
  "thenM (modifyM f1) n1 w1 = n1 (f1 w1)"
  "bindM (getsM g2) k2 w2 = k2 (g2 w2) w2"
  "thenM (ret x3) n3 w3 = n3 w3"
  "bindM (ret x4) k4 w4 = k4 x4 w4"
  "bindM (liftR (Inr x5)) k5 w5 = k5 x5 w5"
  "bindM (liftR (Inl e6)) k6 w6 = (Inl e6, w6)"
  "thenM (whenM True m7) n7 w7 = thenM m7 n7 w7"
  "thenM (whenM False m8) n8 w8 = n8 w8"
  "thenM (thenM a9 b9) c9 w9 = thenM a9 (thenM b9 c9) w9"
  "thenM (bindM m10 f10) n10 w10 = bindM m10 (\<lambda>x. thenM (f10 x) n10) w10"
  "bindM (thenM a11 b11) f11 w11 = thenM a11 (bindM b11 f11) w11"
  "bindM (bindM m12 f12) h12 w12 = bindM m12 (\<lambda>x. bindM (f12 x) h12) w12"
  by (auto simp: comp_defs split: prod.split sum.split)

lemma gw_runs:
  "bindM get_ctx k1 w = k1 (w_ctx w) w"
  "thenM (modify_ctx c) n w = n (w\<lparr>w_ctx := c (w_ctx w)\<rparr>)"
  "thenM (write_state d u) n w = n (w\<lparr>w_ctx := (w_ctx w)\<lparr>
     ctx_states := um_modify default_DeviceState (ctx_states (w_ctx w)) d u\<rparr>\<rparr>)"
  "bindM (steady_now E) k2 w =
     k2 (env_steady E (w_steady_reads w)) (w\<lparr>w_steady_reads := Suc (w_steady_reads w)\<rparr>)"
  "bindM (state_ref d) k3 w = k3 (case um_find (ctx_states (w_ctx w)) d of
       None \<Rightarrow> default_DeviceState | Some s \<Rightarrow> s)
     (w\<lparr>w_ctx := (w_ctx w)\<lparr>
        ctx_states := um_modify default_DeviceState (ctx_states (w_ctx w)) d (\<lambda>s. s)\<rparr>\<rparr>)"
  "bindM (on_redis f) k4 w = k4 (fst (f (w_redis_log w))) (w\<lparr>w_redis_log := snd (f (w_redis_log w))\<rparr>)"
  by (simp_all add: comp_defs gw_defs split: prod.split)

section \<open>What the elementary computations touch\<close>

lemma keeps_steady [keeps_rules]:
  "(\<And>w n. g (w\<lparr>w_steady_reads := n\<rparr>) = g w) \<Longrightarrow> keeps g (steady_now E)"
  by (simp add: keeps_def steady_now_def)

lemma keeps_system [keeps_rules]:
  "(\<And>w n. g (w\<lparr>w_system_reads := n\<rparr>) = g w) \<Longrightarrow> keeps g (system_now E)"
  by (simp add: keeps_def system_now_def)

lemma keeps_random [keeps_rules]:
  "(\<And>w n. g (w\<lparr>w_random_reads := n\<rparr>) = g w) \<Longrightarrow> keeps g (rand_bytes E)"
  by (simp add: keeps_def rand_bytes_def)

lemma keeps_redis [keeps_rules]:
  "(\<And>w l. g (w\<lparr>w_redis_log := l\<rparr>) = g w) \<Longrightarrow> keeps g (on_redis f)"
  "(\<And>w l. g (w\<lparr>w_redis_log := l\<rparr>) = g w) \<Longrightarrow> keeps g (on_redis_throwing h)"
  by (auto simp: keeps_def on_redis_def on_redis_throwing_def split: prod.split)

lemma keeps_get_session [keeps_rules]: "keeps g (get_session sid)"
  by (auto simp: keeps_def get_session_def split: option.split)

lemma keeps_modify_session [keeps_rules]:
  "(\<And>w h. g (w\<lparr>w_heap := h\<rparr>) = g w) \<Longrightarrow> keeps g (modify_session sid f)"
  by (auto simp: keeps_def modify_session_def split: option.split)

lemma keeps_get_ctx [keeps_rules]: "keeps g get_ctx"
  by (simp add: get_ctx_def keeps_getsM)

lemma keeps_modify_ctx [keeps_rules]:
  "(\<And>w. g (w\<lparr>w_ctx := f (w_ctx w)\<rparr>) = g w) \<Longrightarrow> keeps g (modify_ctx f)"
  by (simp add: modify_ctx_def keeps_modifyM)

lemma keeps_state_ref [keeps_rules]:
  "(\<And>w st. g (w\<lparr>w_ctx := (w_ctx w)\<lparr>ctx_states := st\<rparr>\<rparr>) = g w) \<Longrightarrow> keeps g (state_ref dev)"
  unfolding state_ref_def by (intro keeps_rules) auto

lemma keeps_write_state [keeps_rules]:
  "(\<And>w st. g (w\<lparr>w_ctx := (w_ctx w)\<lparr>ctx_states := st\<rparr>\<rparr>) = g w) \<Longrightarrow> keeps g (write_state dev f)"
  unfolding write_state_def by (intro keeps_rules) auto

lemma keeps_session_alive [keeps_rules]: "keeps g (session_alive sid)"
  by (simp add: session_alive_def keeps_getsM)

section \<open>The start of a run, and a concrete environment\<close>

text \<open>What \<^verbatim>\<open>main\<close> has built when the event loop starts; \<open>mqtt\<close> is
  whether the bridge was enabled (and then started).\<close>

definition initial_World :: "bool \<Rightarrow> redis_cmd list \<Rightarrow> World" where
  "initial_World mqtt log =
     \<lparr>w_ctx = \<lparr>ctx_sessions = [], ctx_states = [], ctx_redis = True, ctx_wake_manager = True,
        ctx_mqtt_backend = mqtt\<rparr>,
      w_heap = [], w_next_session = 0, w_pending = [], w_redis_log = log, w_mqtt_client = mqtt,
      w_published = [], w_tasks = [], w_steady_reads = 0, w_system_reads = 0,
      w_random_reads = 0\<rparr>"

definition new_Session :: "string \<Rightarrow> Session" where
  "new_Session remote = \<lparr>ss_protocol = UNKNOWN, ss_device_id = '''', ss_remote_addr = remote,
     ss_closing = False, ss_open = True, ss_writer = new_writer, ss_reading = No_read,
     ss_read_buffer = []\<rparr>"

text \<open>The environment the closed examples run in: clocks that advance ten seconds per
  reading.\<close>

definition sample_env :: "json_lib \<Rightarrow> redis_server \<Rightarrow> env" where
  "sample_env J R =
     \<lparr>env_json = J, env_crypto = plain_crypto, env_redis = R, env_redis_cfg = default_RedisConfig,
      env_session_cfg = default_AppRuntimeConfig, env_wake_cfg = default_WakeRuntimeConfig,
      env_server_cfg = default_ServerConfig, env_mqtt_cfg = default_MqttConfig,
      env_steady = (\<lambda>n. 10000000000 * int n), env_system = (\<lambda>n. 10000000000 * int n),
      env_random = (\<lambda>n. replicate 16 (of_nat n))\<rparr>"

lemma sample_env_simps [simp]:
  "env_json (sample_env J R) = J"
  "env_crypto (sample_env J R) = plain_crypto"
  "env_redis (sample_env J R) = R"
  "env_redis_cfg (sample_env J R) = default_RedisConfig"
  "env_session_cfg (sample_env J R) = default_AppRuntimeConfig"
  "env_wake_cfg (sample_env J R) = default_WakeRuntimeConfig"
  "env_server_cfg (sample_env J R) = default_ServerConfig"
  "env_mqtt_cfg (sample_env J R) = default_MqttConfig"
  "env_steady (sample_env J R) n = 10000000000 * int n"
  "env_system (sample_env J R) n = 10000000000 * int n"
  by (simp_all add: sample_env_def)

end
