(* ===== verification/MqttBackend.thy ===== *)
theory MqttBackend
  imports GatewayContext
begin

text \<open>
  The bridge to the MQTT broker (\<^verbatim>\<open>src/backend/MqttBackend.cpp\<close>), built with
  \<^verbatim>\<open>LP_HAS_MQTT\<close>: topics, publications, and the life cycle of the client.  The
  command requests it receives are in \<^theory_text>\<open>MqttCommands\<close>, after the wake manager
  they call.  The mosquitto library is a parameter: the publications are what is handed to
  \<^verbatim>\<open>mosquitto_publish\<close> (whose return code is only logged), and the life cycle takes
  the outcomes of its calls.
\<close>

section \<open>Topics\<close>

definition makeTopic :: "MqttConfig \<Rightarrow> string \<Rightarrow> string" where
  "makeTopic cfg sfx = mc_topic_prefix cfg @ ''/'' @ sfx"

definition makeDeviceTopic :: "MqttConfig \<Rightarrow> string \<Rightarrow> string \<Rightarrow> string" where
  "makeDeviceTopic cfg device_id sfx =
     makeTopic cfg (''devices/'' @ device_id @ ''/'' @ sfx)"

definition mqtt_extractDeviceId :: "string \<Rightarrow> string" where
  "mqtt_extractDeviceId topic =
     (case str_find ''/devices/'' topic of
        None \<Rightarrow> ''''
      | Some start \<Rightarrow>
          (let start = start + length ''/devices/''
           in case str_find_from ''/'' topic start of
                None \<Rightarrow> ''''
              | Some end_pos \<Rightarrow>
                  (if end_pos \<le> start then '''' else take (end_pos - start) (drop start topic))))"

section \<open>Publications\<close>

definition publishJson :: "env \<Rightarrow> string \<Rightarrow> json \<Rightarrow> bool \<Rightarrow> unit gw" where
  "publishJson E topic payload retain =
     bindM (getsM w_mqtt_client) (\<lambda>client.
       if \<not> client then ret ()
       else bindM (liftR (json_dump (env_json E) payload)) (\<lambda>content.
         modifyM (\<lambda>w. w\<lparr>w_published := w_published w @
           [\<lparr>pub_topic = c_str topic, pub_document = payload, pub_content = content,
             pub_qos = mc_qos (env_mqtt_cfg E), pub_retain = retain\<rparr>]\<rparr>)))"

definition state_doc :: "DeviceState \<Rightarrow> json" where
  "state_doc s =
     JObject [(''device_id'', JString (ds_device_id s)), (''online'', JBool (ds_online s)),
       (''protocol'', JString (ds_protocol s)), (''dev_state'', JString (ds_dev_state s)),
       (''remote_addr'', JString (ds_remote_addr s)), (''battery'', JInt (ds_battery s)),
       (''rssi'', JInt (ds_rssi s)), (''rsrp'', JInt (ds_rsrp s)),
       (''charging'', JBool (ds_charging s)), (''imei'', JString (ds_imei s)),
       (''fw'', JString (ds_fw s)), (''model'', JString (ds_model s))]"

definition publishDeviceState :: "env \<Rightarrow> DeviceState \<Rightarrow> unit gw" where
  "publishDeviceState E s =
     publishJson E (makeDeviceTopic (env_mqtt_cfg E) (ds_device_id s) ''state'') (state_doc s) True"

definition publishDeviceOffline :: "env \<Rightarrow> string \<Rightarrow> unit gw" where
  "publishDeviceOffline E device_id =
     publishJson E (makeDeviceTopic (env_mqtt_cfg E) device_id ''state'')
       (JObject [(''device_id'', JString device_id), (''online'', JBool False)]) True"

definition mqtt_publishCommandEvent :: "env \<Rightarrow> string \<Rightarrow> json \<Rightarrow> unit gw" where
  "mqtt_publishCommandEvent E device_id payload =
     publishJson E (makeDeviceTopic (env_mqtt_cfg E) device_id ''commands/events'') payload False"

section \<open>The life cycle of the client\<close>

text \<open>The members \<^verbatim>\<open>client_\<close> and \<^verbatim>\<open>started_\<close>, and what the library holds
  for the gateway: initialisations not cleaned up, clients not destroyed, running loops.\<close>

record MqttClient =
  mq_client :: bool
  mq_started :: bool
  mq_lib_inits :: int
  mq_clients :: int
  mq_loops :: int

definition new_MqttClient :: MqttClient where
  "new_MqttClient = \<lparr>mq_client = False, mq_started = False, mq_lib_inits = 0, mq_clients = 0,
     mq_loops = 0\<rparr>"

text \<open>The outcomes of \<^verbatim>\<open>mosquitto_new\<close>, \<^verbatim>\<open>mosquitto_username_pw_set\<close>,
  \<^verbatim>\<open>mosquitto_connect_async\<close> and \<^verbatim>\<open>mosquitto_loop_start\<close>.\<close>

record mosquitto_outcomes =
  mo_new :: bool
  mo_pw_set :: bool
  mo_connect :: bool
  mo_loop_start :: bool

definition mosq_destroy :: "MqttClient \<Rightarrow> MqttClient" where
  "mosq_destroy st = st\<lparr>mq_clients := mq_clients st - 1, mq_client := False,
     mq_lib_inits := mq_lib_inits st - 1\<rparr>"

definition MqttBackend_start :: "MqttConfig \<Rightarrow> mosquitto_outcomes \<Rightarrow> MqttClient \<Rightarrow> bool \<times> MqttClient" where
  "MqttBackend_start cfg out st =
     (if \<not> mc_enable cfg then (True, st)
      else if mq_started st then (True, st)
      else (let st = st\<lparr>mq_lib_inits := mq_lib_inits st + 1\<rparr> in
        if \<not> mo_new out then (False, st\<lparr>mq_client := False, mq_lib_inits := mq_lib_inits st - 1\<rparr>)
        else (let st = st\<lparr>mq_client := True, mq_clients := mq_clients st + 1\<rparr> in
          if mc_username cfg \<noteq> [] \<and> \<not> mo_pw_set out then (False, mosq_destroy st)
          else if \<not> mo_connect out then (False, mosq_destroy st)
          else if \<not> mo_loop_start out then (False, mosq_destroy st)
          else (True, st\<lparr>mq_loops := mq_loops st + 1, mq_started := True\<rparr>))))"

definition MqttBackend_stop :: "MqttClient \<Rightarrow> MqttClient" where
  "MqttBackend_stop st =
     (if \<not> mq_client st then st
      else st\<lparr>mq_loops := mq_loops st - 1, mq_clients := mq_clients st - 1, mq_client := False,
        mq_started := False, mq_lib_inits := mq_lib_inits st - 1\<rparr>)"

datatype mqtt_life = Start mosquitto_outcomes | Stop

fun mqtt_life_step :: "MqttConfig \<Rightarrow> mqtt_life \<Rightarrow> MqttClient \<Rightarrow> MqttClient" where
  "mqtt_life_step cfg (Start out) st = snd (MqttBackend_start cfg out st)"
| "mqtt_life_step cfg Stop st = MqttBackend_stop st"

text \<open>The client pointer, the flag and what the library holds agree.\<close>

definition mqtt_balanced :: "MqttClient \<Rightarrow> bool" where
  "mqtt_balanced st \<longleftrightarrow> mq_started st = mq_client st
     \<and> mq_lib_inits st = of_bool (mq_client st) \<and> mq_clients st = of_bool (mq_client st)
     \<and> mq_loops st = of_bool (mq_client st)"

lemma mqtt_balanced_step: "mqtt_balanced st \<Longrightarrow> mqtt_balanced (mqtt_life_step cfg e st)"
  by (cases e)
    (auto simp: mqtt_balanced_def MqttBackend_start_def MqttBackend_stop_def mosq_destroy_def Let_def)

interpretation mqtt_life: machine "mqtt_life_step cfg" mqtt_balanced for cfg
  by unfold_locales (rule mqtt_balanced_step)

lemma mqtt_start_client:
  "mc_enable cfg \<Longrightarrow> mqtt_balanced st \<Longrightarrow>
   mq_client (snd (MqttBackend_start cfg out st)) = fst (MqttBackend_start cfg out st)"
  by (auto simp: mqtt_balanced_def MqttBackend_start_def mosq_destroy_def Let_def)

lemma mqtt_disabled_run:
  "\<not> mc_enable cfg \<Longrightarrow> \<not> mq_client st \<Longrightarrow> \<not> mq_client (run (mqtt_life_step cfg) es st)"
proof (induction es arbitrary: st)
  case (Cons e es)
  then show ?case
    by (cases e) (simp_all add: MqttBackend_start_def MqttBackend_stop_def)
qed simp

section \<open>Lemmas\<close>

lemma str_find_append:
  "str_find pat (p @ pat) = Some (length p) \<Longrightarrow> str_find pat (p @ pat @ rest) = Some (length p)"
proof (induction p)
  case Nil
  then show ?case by (cases pat; cases rest) auto
next
  case (Cons c p)
  have "\<not> prefix pat (c # p @ pat)" using Cons.prems by (auto split: if_splits)
  moreover have "prefix (c # p @ pat) (c # p @ pat @ rest)" by simp
  ultimately have "\<not> prefix pat (c # p @ pat @ rest)"
    using prefix_length_prefix [of pat "c # p @ pat @ rest" "c # p @ pat"] by auto
  moreover have "str_find pat (p @ pat) = Some (length p)"
    using Cons.prems by (auto split: if_splits)
  ultimately show ?case using Cons.IH by simp
qed

lemma keeps_publishJson [keeps_rules]:
  "(\<And>w p. g (w\<lparr>w_published := p\<rparr>) = g w) \<Longrightarrow> keeps g (publishJson E topic payload retain)"
  unfolding publishJson_def by (intro keeps_rules keeps_modifyM) auto

lemma keeps_publications [keeps_rules]:
  "(\<And>w p. g (w\<lparr>w_published := p\<rparr>) = g w) \<Longrightarrow> keeps g (publishDeviceState E s)"
  "(\<And>w p. g (w\<lparr>w_published := p\<rparr>) = g w) \<Longrightarrow> keeps g (publishDeviceOffline E d)"
  "(\<And>w p. g (w\<lparr>w_published := p\<rparr>) = g w) \<Longrightarrow> keeps g (mqtt_publishCommandEvent E d j)"
  unfolding publishDeviceState_def publishDeviceOffline_def mqtt_publishCommandEvent_def
  by (intro keeps_rules; simp)+

lemma mqtt_extractDeviceId_topic:
  assumes "str_find ''/devices/'' (mc_topic_prefix cfg @ ''/devices/'') = Some (length (mc_topic_prefix cfg))"
    and "device_id \<noteq> []" and "CHR ''/'' \<notin> set device_id"
  shows "mqtt_extractDeviceId (makeDeviceTopic cfg device_id sfx) = device_id"
proof -
  let ?p = "mc_topic_prefix cfg"
  let ?t = "makeDeviceTopic cfg device_id sfx"
  have topic: "?t = ?p @ ''/devices/'' @ device_id @ CHR ''/'' # sfx"
    by (simp add: makeDeviceTopic_def makeTopic_def)
  have start: "str_find ''/devices/'' ?t = Some (length ?p)"
    unfolding topic by (rule str_find_append [OF assms(1)])
  have drop: "drop (length ?p + 9) ?t = device_id @ CHR ''/'' # sfx"
    by (simp add: topic)
  have "str_find_from ''/'' ?t (length ?p + 9) = Some (length ?p + 9 + length device_id)"
    using assms(3) by (simp add: str_find_from_def drop) (simp add: topic)
  moreover have "length ''/devices/'' = 9" by simp
  ultimately show ?thesis
    using start drop assms(2) unfolding mqtt_extractDeviceId_def Let_def by (simp del: list.size)
qed

section \<open>Properties\<close>

text \<open>
  C39: the device a request topic is about is the one the topic was made for: the identifier
  comes back from every topic of a device when it is not empty and has no slash, and the
  configured prefix does not itself contain the marker.
\<close>

theorem device_topic_roundtrip:
  assumes "str_find ''/devices/'' (mc_topic_prefix cfg @ ''/devices/'') = Some (length (mc_topic_prefix cfg))"
    and "device_id \<noteq> []" and "CHR ''/'' \<notin> set device_id"
  shows "mqtt_extractDeviceId (makeDeviceTopic cfg device_id sfx) = device_id"
  using assms by (rule mqtt_extractDeviceId_topic)

theorem device_topic_roundtrip_witness:
  "mqtt_extractDeviceId (makeDeviceTopic default_MqttConfig ''dev001'' ''commands/request'')
     = ''dev001''"
  using device_topic_roundtrip [of default_MqttConfig "''dev001''" "''commands/request''"]
  by (simp add: default_MqttConfig_def)

text \<open>
  C40: the MQTT client leaks nothing: after every history of starts, whatever call of the
  library fails, and stops, the library is initialised, a client exists and a loop runs
  exactly when \<^verbatim>\<open>client_\<close> is set, which is exactly when \<^verbatim>\<open>started_\<close>
  is; and one more start leaves a client exactly when the bridge is enabled and the start
  reports success.
\<close>

theorem mqtt_lifecycle_balanced:
  "mqtt_balanced (run (mqtt_life_step cfg) es new_MqttClient)
   \<and> mq_client (snd (MqttBackend_start cfg out (run (mqtt_life_step cfg) es new_MqttClient)))
      = (mc_enable cfg \<and> fst (MqttBackend_start cfg out (run (mqtt_life_step cfg) es new_MqttClient)))"
proof -
  let ?st = "run (mqtt_life_step cfg) es new_MqttClient"
  have bal: "mqtt_balanced ?st"
    by (rule mqtt_life.run_inv) (simp add: mqtt_balanced_def new_MqttClient_def)
  show ?thesis
  proof (cases "mc_enable cfg")
    case True
    with bal show ?thesis by (simp add: mqtt_start_client)
  next
    case False
    then have "\<not> mq_client ?st"
      by (rule mqtt_disabled_run) (simp add: new_MqttClient_def)
    with bal False show ?thesis by (simp add: MqttBackend_start_def)
  qed
qed

end
