(* ===== verification/SessionCore.thy ===== *)
theory SessionCore
  imports MqttBackend
begin

text \<open>
  The part of a session that the other components call: closing, sending, and its protocol
  (\<^verbatim>\<open>src/session/DeviceSession.cpp\<close>, lines 29 to 63).  A method runs on an object
  that lives; on any other name it is the error \<open>Dead_Object\<close>, which the code cannot
  produce.
\<close>

definition session_protocol :: "nat \<Rightarrow> SessionProtocol gw" where
  "session_protocol sid = bindM (get_session sid) (\<lambda>s. ret (ss_protocol s))"

definition session_deviceId :: "nat \<Rightarrow> string gw" where
  "session_deviceId sid = bindM (get_session sid) (\<lambda>s. ret (ss_device_id s))"

definition close_session :: "nat \<Rightarrow> unit gw" where
  "close_session sid = modify_session sid (\<lambda>s. s\<lparr>ss_open := False\<rparr>)"

definition sendRaw :: "nat \<Rightarrow> bytes \<Rightarrow> unit gw" where
  "sendRaw sid data =
     modify_session sid (\<lambda>s. s\<lparr>ss_writer := enqueueWrite data (ss_writer s)\<rparr>)"

definition sendJson :: "env \<Rightarrow> nat \<Rightarrow> json \<Rightarrow> unit gw" where
  "sendJson E sid j =
     bindM (liftR (encodeLine (env_json E) j)) (\<lambda>line. sendRaw sid (bytes_of_string line))"

lemma keeps_session_protocol [keeps_rules]: "keeps g (session_protocol sid)"
  unfolding session_protocol_def by (intro keeps_rules)

lemma keeps_heap_ops [keeps_rules]:
  "(\<And>w h. g (w\<lparr>w_heap := h\<rparr>) = g w) \<Longrightarrow> keeps g (close_session sid)"
  "(\<And>w h. g (w\<lparr>w_heap := h\<rparr>) = g w) \<Longrightarrow> keeps g (sendRaw sid data)"
  "(\<And>w h. g (w\<lparr>w_heap := h\<rparr>) = g w) \<Longrightarrow> keeps g (sendJson E sid j)"
  unfolding close_session_def sendRaw_def sendJson_def by (intro keeps_rules; simp)+

section \<open>Sessions as a handler leaves them\<close>

text \<open>The objects that live, as a set of names.\<close>

definition alive_set :: "World \<Rightarrow> nat set" where
  "alive_set w = {sid. um_find (w_heap w) sid \<noteq> None}"

lemma alive_set_modify_session: "alive_set (snd (modify_session sid f w)) = alive_set w"
  by (auto simp: alive_set_def modify_session_def split: option.splits)

lemma keeps_alive [keeps_rules]:
  "keeps alive_set (modify_session sid f)"
  "keeps alive_set (close_session sid)"
  "keeps alive_set (sendRaw sid data)"
  "keeps alive_set (sendJson E sid j)"
proof -
  show *: "keeps alive_set (modify_session sid f)" for f
    by (rule keepsI) (rule alive_set_modify_session)
  show "keeps alive_set (close_session sid)" "keeps alive_set (sendRaw sid data)"
    by (simp_all add: close_session_def sendRaw_def *)
  show "keeps alive_set (sendJson E sid j)"
    unfolding sendJson_def by (intro keeps_bindM keeps_liftR) (simp add: sendRaw_def *)
qed

lemma alive_set_upd [simp]:
  "alive_set (w\<lparr>w_ctx := c\<rparr>) = alive_set w"
  "alive_set (w\<lparr>w_pending := p\<rparr>) = alive_set w"
  "alive_set (w\<lparr>w_redis_log := l\<rparr>) = alive_set w"
  "alive_set (w\<lparr>w_published := q\<rparr>) = alive_set w"
  "alive_set (w\<lparr>w_tasks := t\<rparr>) = alive_set w"
  "alive_set (w\<lparr>w_steady_reads := n\<rparr>) = alive_set w"
  "alive_set (w\<lparr>w_system_reads := n\<rparr>) = alive_set w"
  "alive_set (w\<lparr>w_random_reads := n\<rparr>) = alive_set w"
  by (simp_all add: alive_set_def)

end
