(* ===== verification/WakeManager.thy ===== *)
theory WakeManager
  imports SessionCore
begin

text \<open>
  Wake commands (\<^verbatim>\<open>src/service/WakeManager.cpp\<close>): dispatch to the session of a
  device, the table of commands that wait for an acknowledgement, and the timer that retries
  them.  The table is \<open>w_pending\<close> of the world.
\<close>

section \<open>Operations\<close>

definition nowMs :: "env \<Rightarrow> int gw" where
  "nowMs E = bindM (system_now E) (\<lambda>t. ret (duration_cast 1000000 t))"

definition makeMsgId :: "env \<Rightarrow> string gw" where
  "makeMsgId E = bindM (nowMs E) (\<lambda>t. ret (''W'' @ to_string t))"

definition command_event :: "string \<Rightarrow> string \<Rightarrow> string \<Rightarrow> string \<Rightarrow> json option \<Rightarrow> json" where
  "command_event device_id msg_id status cmd extra =
     (let payload = JObject [(''device_id'', JString device_id), (''msg_id'', JString msg_id),
            (''status'', JString status), (''cmd'', JString cmd)]
      in case extra of
           None \<Rightarrow> payload
         | Some x \<Rightarrow> fold (\<lambda>(k, v) j. json_set j k v) (json_fields x) payload)"

definition publishCommandEvent ::
    "env \<Rightarrow> string \<Rightarrow> string \<Rightarrow> string \<Rightarrow> string \<Rightarrow> json option \<Rightarrow> unit gw" where
  "publishCommandEvent E device_id msg_id status cmd extra =
     bindM get_ctx (\<lambda>c.
       if \<not> ctx_mqtt_backend c then ret ()
       else mqtt_publishCommandEvent E device_id (command_event device_id msg_id status cmd extra))"

text \<open>\<^verbatim>\<open>std::chrono::milliseconds\<close> added to a point of the steady clock.\<close>

definition milliseconds :: "int \<Rightarrow> int" where
  "milliseconds ms = 1000000 * ms"

text \<open>The look-up that opens both dispatch functions.\<close>

definition lock_session :: "string \<Rightarrow> nat gw" where
  "lock_session device_id =
     bindM get_ctx (\<lambda>c. case um_find (ctx_sessions c) device_id of
         None \<Rightarrow> throw (Runtime_Error ''device offline'')
       | Some sid \<Rightarrow> bindM (session_alive sid) (\<lambda>alive.
           if alive then ret sid
           else thenM (modify_ctx (\<lambda>c. c\<lparr>ctx_sessions := um_erase (ctx_sessions c) device_id\<rparr>))
             (throw (Runtime_Error ''device session expired''))))"

definition add_pending :: "string \<Rightarrow> PendingWake \<Rightarrow> unit gw" where
  "add_pending msg_id p = modifyM (\<lambda>w. w\<lparr>w_pending := um_put (w_pending w) msg_id p\<rparr>)"

definition sendLowPowerWake :: "env \<Rightarrow> string \<Rightarrow> string gw" where
  "sendLowPowerWake E device_id =
     bindM (lock_session device_id) (\<lambda>sid.
     bindM get_ctx (\<lambda>c.
       if \<not> ctx_redis c then throw (Runtime_Error ''redis required for local_key'')
       else bindM (on_redis (getLocalKey (env_redis E) (env_redis_cfg E) device_id)) (\<lambda>local_key.
         case local_key of
           None \<Rightarrow> throw (Runtime_Error ''local_key not found'')
         | Some key \<Rightarrow>
             bindM (makeMsgId E) (\<lambda>msg_id.
             let raw = makeWakeupFrame key;
                 payload = JObject [(''protocol'', JString ''lowpower''),
                   (''type'', JString ''wakeup''), (''msg_id'', JString msg_id)] in
             bindM (steady_now E) (\<lambda>t.
             thenM (add_pending msg_id \<lparr>pw_device_id = device_id, pw_msg_id = msg_id,
                 pw_cmd = ''lowpower_wakeup'', pw_payload = payload, pw_session = sid,
                 pw_protocol = LOWPOWER, pw_retry_count = 0,
                 pw_next_retry = t + milliseconds (wr_ack_timeout_ms (env_wake_cfg E))\<rparr>)
             (thenM (bindM (on_redis_throwing (savePendingWake (env_redis E) (env_redis_cfg E)
                 (env_json E) device_id msg_id payload
                 (duration_cast 1000 (wr_expire_ms (env_wake_cfg E))))) (\<lambda>_. ret ()))
             (thenM (sendRaw sid raw)
             (thenM (publishCommandEvent E device_id msg_id ''dispatched'' ''lowpower_wakeup''
                 (Some (JObject [(''protocol'', JString ''lowpower'')])))
             (ret msg_id)))))))))"

definition sendWake :: "env \<Rightarrow> string \<Rightarrow> string \<Rightarrow> json \<Rightarrow> string gw" where
  "sendWake E device_id cmd params =
     bindM (lock_session device_id) (\<lambda>sid.
     bindM (session_protocol sid) (\<lambda>proto.
       if proto = LOWPOWER \<or> cmd = ''lowpower_wakeup'' then sendLowPowerWake E device_id
       else bindM (makeMsgId E) (\<lambda>msg_id.
         bindM (nowMs E) (\<lambda>seq.
         let expire_ms = seq + wr_expire_ms (env_wake_cfg E);
             payload = makeWake seq msg_id cmd params expire_ms in
         bindM (steady_now E) (\<lambda>t.
         thenM (add_pending msg_id \<lparr>pw_device_id = device_id, pw_msg_id = msg_id, pw_cmd = cmd,
             pw_payload = payload, pw_session = sid, pw_protocol = JSON_LINE, pw_retry_count = 0,
             pw_next_retry = t + milliseconds (wr_ack_timeout_ms (env_wake_cfg E))\<rparr>)
         (bindM get_ctx (\<lambda>c.
         thenM (whenM (ctx_redis c)
             (bindM (on_redis_throwing (savePendingWake (env_redis E) (env_redis_cfg E)
               (env_json E) device_id msg_id payload
               (duration_cast 1000 (wr_expire_ms (env_wake_cfg E))))) (\<lambda>_. ret ())))
         (thenM (sendJson E sid payload)
         (thenM (publishCommandEvent E device_id msg_id ''dispatched'' cmd
             (Some (JObject [(''protocol'', JString ''json_line'')])))
         (ret msg_id))))))))))"

definition erase_pending :: "string \<Rightarrow> unit gw" where
  "erase_pending msg_id = modifyM (\<lambda>w. w\<lparr>w_pending := um_erase (w_pending w) msg_id\<rparr>)"

definition markAck :: "env \<Rightarrow> string \<Rightarrow> unit gw" where
  "markAck E msg_id =
     bindM (getsM (\<lambda>w. um_find (w_pending w) msg_id)) (\<lambda>it.
       case it of
         None \<Rightarrow> ret ()
       | Some p \<Rightarrow>
           thenM (publishCommandEvent E (pw_device_id p) msg_id ''acked'' (pw_cmd p) None)
             (erase_pending msg_id))"

definition markDone :: "env \<Rightarrow> string \<Rightarrow> unit gw" where
  "markDone E msg_id =
     bindM (getsM (\<lambda>w. um_find (w_pending w) msg_id)) (\<lambda>it.
       case it of
         None \<Rightarrow> ret ()
       | Some p \<Rightarrow>
           bindM get_ctx (\<lambda>c.
           thenM (whenM (ctx_redis c)
               (bindM (on_redis (removePendingWake (env_redis E) (env_redis_cfg E)
                 (pw_device_id p) msg_id)) (\<lambda>_. ret ())))
           (thenM (publishCommandEvent E (pw_device_id p) msg_id ''done'' (pw_cmd p) None)
             (erase_pending msg_id))))"

text \<open>The reference \<^verbatim>\<open>PendingWake&\<close> is the key of the entry.\<close>

definition get_pending :: "string \<Rightarrow> PendingWake gw" where
  "get_pending k =
     (\<lambda>w. case um_find (w_pending w) k of None \<Rightarrow> (Inl Dead_Object, w) | Some p \<Rightarrow> (Inr p, w))"

definition set_pending :: "string \<Rightarrow> (PendingWake \<Rightarrow> PendingWake) \<Rightarrow> unit gw" where
  "set_pending k f = bindM (get_pending k) (\<lambda>p. add_pending k (f p))"

definition resendWake :: "env \<Rightarrow> PendingWake \<Rightarrow> unit gw" where
  "resendWake E p =
     (if pw_protocol p = JSON_LINE then sendJson E (pw_session p) (pw_payload p)
      else if pw_protocol p = LOWPOWER then
        bindM get_ctx (\<lambda>c.
          if \<not> ctx_redis c then ret ()
          else bindM (on_redis (getLocalKey (env_redis E) (env_redis_cfg E) (pw_device_id p)))
            (\<lambda>local_key. case local_key of
               None \<Rightarrow> ret ()
             | Some key \<Rightarrow> sendRaw (pw_session p) (makeWakeupFrame key)))
      else ret ())"

definition retryWake :: "env \<Rightarrow> string \<Rightarrow> unit gw" where
  "retryWake E k =
     bindM (get_pending k) (\<lambda>p.
     bindM (session_alive (pw_session p)) (\<lambda>alive.
       if \<not> alive then ret ()
       else thenM (set_pending k (\<lambda>p. p\<lparr>pw_retry_count := pw_retry_count p + 1\<rparr>))
         (bindM (steady_now E) (\<lambda>t.
         thenM (set_pending k (\<lambda>p. p\<lparr>pw_next_retry :=
             t + milliseconds (wr_ack_timeout_ms (env_wake_cfg E))\<rparr>))
         (bindM (get_pending k) (\<lambda>p.
         thenM (publishCommandEvent E (pw_device_id p) (pw_msg_id p) ''retrying'' (pw_cmd p)
             (Some (JObject [(''retry_count'', JInt (pw_retry_count p))])))
         (resendWake E p)))))))"

text \<open>One turn of the first loop of \<^verbatim>\<open>onTick\<close>: what it adds to
  \<^verbatim>\<open>remove_list\<close>.  The loop runs over the entries in the order of the
  container; no turn inserts or removes one.\<close>

definition tick_entry :: "env \<Rightarrow> int \<Rightarrow> string \<Rightarrow> string list gw" where
  "tick_entry E now k =
     bindM (get_pending k) (\<lambda>p.
       if now < pw_next_retry p then ret []
       else if pw_retry_count p \<ge> wr_max_retry (env_wake_cfg E) then
         thenM (publishCommandEvent E (pw_device_id p) (pw_msg_id p) ''failed'' (pw_cmd p)
             (Some (JObject [(''retry_count'', JInt (pw_retry_count p))])))
           (ret [pw_msg_id p])
       else thenM (retryWake E k) (ret []))"

primrec tick_loop :: "env \<Rightarrow> int \<Rightarrow> string list \<Rightarrow> string list gw" where
  "tick_loop E now [] = ret []"
| "tick_loop E now (k # ks) =
     bindM (tick_entry E now k) (\<lambda>r. bindM (tick_loop E now ks) (\<lambda>rs. ret (r @ rs)))"

definition onTick :: "env \<Rightarrow> unit gw" where
  "onTick E =
     bindM (steady_now E) (\<lambda>now.
     bindM (getsM (\<lambda>w. um_keys (w_pending w))) (\<lambda>ks.
     bindM (tick_loop E now ks) (\<lambda>remove_list. forM remove_list erase_pending)))"

section \<open>What the operations touch\<close>

lemma keeps_clocks [keeps_rules]:
  "(\<And>w n. g (w\<lparr>w_system_reads := n\<rparr>) = g w) \<Longrightarrow> keeps g (nowMs E)"
  "(\<And>w n. g (w\<lparr>w_system_reads := n\<rparr>) = g w) \<Longrightarrow> keeps g (makeMsgId E)"
  unfolding nowMs_def makeMsgId_def by (intro keeps_rules; simp)+

lemma keeps_publishCommandEvent [keeps_rules]:
  "(\<And>w p. g (w\<lparr>w_published := p\<rparr>) = g w) \<Longrightarrow> keeps g (publishCommandEvent E d m st cmd extra)"
  unfolding publishCommandEvent_def by (intro keeps_rules) auto

lemma keeps_lock_session:
  "(\<And>w s. g (w\<lparr>w_ctx := (w_ctx w)\<lparr>ctx_sessions := s\<rparr>\<rparr>) = g w) \<Longrightarrow> keeps g (lock_session d)"
  unfolding lock_session_def by (intro keeps_rules) auto

lemma keeps_pending_ops:
  "(\<And>w p. g (w\<lparr>w_pending := p\<rparr>) = g w) \<Longrightarrow> keeps g (add_pending k p)"
  "(\<And>w p. g (w\<lparr>w_pending := p\<rparr>) = g w) \<Longrightarrow> keeps g (erase_pending k)"
  "(\<And>w p. g (w\<lparr>w_pending := p\<rparr>) = g w) \<Longrightarrow> keeps g (set_pending k f)"
  by (auto simp: keeps_def add_pending_def erase_pending_def set_pending_def get_pending_def comp_defs
      split: option.split)

lemma keeps_get_pending [keeps_rules]: "keeps g (get_pending k)"
  by (auto simp: keeps_def get_pending_def split: option.split)

section \<open>The table of pending commands\<close>

definition entry_ok :: "WakeRuntimeConfig \<Rightarrow> string \<Rightarrow> PendingWake \<Rightarrow> bool" where
  "entry_ok cfg k p \<longleftrightarrow> pw_msg_id p = k \<and> pw_protocol p \<noteq> UNKNOWN \<and> 0 \<le> pw_retry_count p
     \<and> pw_retry_count p \<le> max 0 (wr_max_retry cfg)"

definition pending_ok :: "WakeRuntimeConfig \<Rightarrow> (string, PendingWake) umap \<Rightarrow> bool" where
  "pending_ok cfg P \<longleftrightarrow> um_ok P \<and> (\<forall>k p. um_find P k = Some p \<longrightarrow> entry_ok cfg k p)"

lemma pending_ok_put: "pending_ok cfg P \<Longrightarrow> entry_ok cfg k p \<Longrightarrow> pending_ok cfg (um_put P k p)"
  by (simp add: pending_ok_def um.ok_put)

lemma pending_ok_erase: "pending_ok cfg P \<Longrightarrow> pending_ok cfg (um_erase P k)"
  by (simp add: pending_ok_def um.ok_erase)

text \<open>An entry after a retry at time \<open>t\<close>.\<close>

definition retried :: "env \<Rightarrow> int \<Rightarrow> PendingWake \<Rightarrow> PendingWake" where
  "retried E t p = p\<lparr>pw_retry_count := pw_retry_count p + 1,
     pw_next_retry := t + milliseconds (wr_ack_timeout_ms (env_wake_cfg E))\<rparr>"

lemma wake_runs:
  "um_find (w_pending w) k = Some p \<Longrightarrow> get_pending k w = (Inr p, w)"
  "um_find (w_pending w) k = Some p \<Longrightarrow>
     set_pending k f w = (Inr (), w\<lparr>w_pending := um_put (w_pending w) k (f p)\<rparr>)"
  "session_alive sid w = (Inr (sid \<in> alive_set w), w)"
  "steady_now E w =
     (Inr (env_steady E (w_steady_reads w)), w\<lparr>w_steady_reads := Suc (w_steady_reads w)\<rparr>)"
  by (simp_all add: get_pending_def set_pending_def add_pending_def session_alive_def alive_set_def
      steady_now_def comp_defs)

lemma keeps_resendWake:
  assumes "\<And>sid j. keeps g (sendJson E sid j)" "\<And>sid data. keeps g (sendRaw sid data)"
    "\<And>w l. g (w\<lparr>w_redis_log := l\<rparr>) = g w"
  shows "keeps g (resendWake E p)"
  unfolding resendWake_def
  by (intro keeps_if keeps_bindM keeps_get_ctx keeps_ret keeps_redis keeps_case_option)
    (simp_all add: assms)

text \<open>A retry, up to what it publishes and sends.\<close>

lemma retryWake_dead:
  assumes "um_find (w_pending w) k = Some p" and "pw_session p \<notin> alive_set w"
  shows "retryWake E k w = (Inr (), w)"
  using assms by (simp add: retryWake_def comp_step wake_runs ret_def)

lemma retryWake_alive:
  fixes E :: env
  assumes "um_find (w_pending w) k = Some p" and "pw_session p \<in> alive_set w"
  defines "q \<equiv> retried E (env_steady E (w_steady_reads w)) p"
  shows "retryWake E k w =
     thenM (publishCommandEvent E (pw_device_id p) (pw_msg_id p) ''retrying'' (pw_cmd p)
         (Some (JObject [(''retry_count'', JInt (pw_retry_count q))])))
       (resendWake E q)
       (w\<lparr>w_steady_reads := Suc (w_steady_reads w), w_pending := um_put (w_pending w) k q\<rparr>)"
  using assms(1,2)
  by (simp add: retryWake_def comp_step wake_runs q_def retried_def)

lemma retryWake_keeps:
  assumes "um_find (w_pending w) k = Some p" and "pw_session p \<in> alive_set w"
    and "\<And>sid j. keeps g (sendJson E sid j)" "\<And>sid data. keeps g (sendRaw sid data)"
      "\<And>w l. g (w\<lparr>w_redis_log := l\<rparr>) = g w" "\<And>w p. g (w\<lparr>w_published := p\<rparr>) = g w"
  shows "g (snd (retryWake E k w)) =
     g (w\<lparr>w_steady_reads := Suc (w_steady_reads w),
          w_pending := um_put (w_pending w) k (retried E (env_steady E (w_steady_reads w)) p)\<rparr>)"
proof -
  have "keeps g (thenM (publishCommandEvent E d m st c x) (resendWake E q))" for d m st c x q
    by (intro keeps_thenM keeps_publishCommandEvent keeps_resendWake) (simp_all add: assms(3-6))
  then show ?thesis
    by (simp add: retryWake_alive [OF assms(1,2)] keeps_snd)
qed

text \<open>What a tick makes of an entry: it waits, it has failed, it is stuck with a dead
  session, or it is sent again at time \<open>t\<close>.\<close>

definition exhausted :: "env \<Rightarrow> int \<Rightarrow> PendingWake \<Rightarrow> bool" where
  "exhausted E now p \<longleftrightarrow>
     pw_next_retry p \<le> now \<and> wr_max_retry (env_wake_cfg E) \<le> pw_retry_count p"

definition resends :: "env \<Rightarrow> int \<Rightarrow> nat set \<Rightarrow> PendingWake \<Rightarrow> bool" where
  "resends E now alive p \<longleftrightarrow>
     pw_next_retry p \<le> now \<and> pw_retry_count p < wr_max_retry (env_wake_cfg E)
     \<and> pw_session p \<in> alive"

lemma tick_entry_pending:
  assumes "um_find (w_pending w) k = Some p"
  shows "w_pending (snd (tick_entry E now k w)) =
      (if resends E now (alive_set w) p
       then um_put (w_pending w) k (retried E (env_steady E (w_steady_reads w)) p)
       else w_pending w)"
    and "w_steady_reads (snd (tick_entry E now k w)) =
      (if resends E now (alive_set w) p then Suc (w_steady_reads w) else w_steady_reads w)"
    and "alive_set (snd (tick_entry E now k w)) = alive_set w"
proof -
  have split: "snd (tick_entry E now k w) =
     (if exhausted E now p then snd (publishCommandEvent E (pw_device_id p) (pw_msg_id p)
          ''failed'' (pw_cmd p) (Some (JObject [(''retry_count'', JInt (pw_retry_count p))])) w)
      else if resends E now (alive_set w) p then snd (retryWake E k w) else w)"
    using assms
    by (auto simp: tick_entry_def comp_step wake_runs exhausted_def resends_def retryWake_dead)
  have quiet: "keeps w_pending (publishCommandEvent E d m st c x)"
    "keeps w_steady_reads (publishCommandEvent E d m st c x)"
    "keeps alive_set (publishCommandEvent E d m st c x)" for d m st c x
    by (rule keeps_publishCommandEvent, simp)+
  have disjoint: "exhausted E now p \<Longrightarrow> \<not> resends E now (alive_set w) p"
    by (simp add: exhausted_def resends_def)
  have keeps: "keeps w_pending (sendJson E sid j)" "keeps w_pending (sendRaw sid data)"
      "keeps w_steady_reads (sendJson E sid j)" "keeps w_steady_reads (sendRaw sid data)"
    for sid j data by (rule keeps_heap_ops, simp)+
  show "w_pending (snd (tick_entry E now k w)) =
      (if resends E now (alive_set w) p
       then um_put (w_pending w) k (retried E (env_steady E (w_steady_reads w)) p)
       else w_pending w)"
    using disjoint retryWake_keeps [OF assms, of w_pending E] keeps
    by (auto simp: split keeps_snd [OF quiet(1)] resends_def)
  show "w_steady_reads (snd (tick_entry E now k w)) =
      (if resends E now (alive_set w) p then Suc (w_steady_reads w) else w_steady_reads w)"
    using disjoint retryWake_keeps [OF assms, of w_steady_reads E] keeps
    by (auto simp: split keeps_snd [OF quiet(2)] resends_def)
  show "alive_set (snd (tick_entry E now k w)) = alive_set w"
    using retryWake_keeps [OF assms, of alive_set E] keeps_alive
    by (auto simp: split keeps_snd [OF quiet(3)] resends_def)
qed

lemma tick_entry_removes:
  assumes "um_find (w_pending w) k = Some p" and "tick_entry E now k w = (Inr rm, w')"
  shows "rm = (if exhausted E now p then [pw_msg_id p] else [])"
  using assms
  by (auto simp: tick_entry_def comp_step wake_runs exhausted_def comp_defs
      split: prod.splits sum.splits if_splits)

lemma entry_ok_retried:
  "entry_ok (env_wake_cfg E) k p \<Longrightarrow> resends E now alive p \<Longrightarrow>
   entry_ok (env_wake_cfg E) k (retried E t p)"
  by (auto simp: entry_ok_def resends_def retried_def)

lemma tick_loop_spec:
  assumes "distinct ks" and "\<forall>k\<in>set ks. um_find (w_pending w) k \<noteq> None"
    and "tick_loop E now ks w = (Inr rm, w')"
  shows "\<exists>r. (\<forall>k. w_steady_reads w \<le> r k)
     \<and> (\<forall>k. um_find (w_pending w') k = map_option (\<lambda>p.
          if k \<in> set ks \<and> resends E now (alive_set w) p then retried E (env_steady E (r k)) p else p)
          (um_find (w_pending w) k))
     \<and> set rm = {pw_msg_id p |k p. k \<in> set ks \<and> um_find (w_pending w) k = Some p
          \<and> exhausted E now p}"
  using assms
proof (induction ks arbitrary: w rm)
  case Nil
  then show ?case by (auto simp: ret_def option.map_ident intro: exI [of _ "\<lambda>_. w_steady_reads w"])
next
  case (Cons k ks)
  then obtain p where p: "um_find (w_pending w) k = Some p" by auto
  from Cons.prems(3) obtain r1 w1 rs where
    one: "tick_entry E now k w = (Inr r1, w1)" and rest: "tick_loop E now ks w1 = (Inr rs, w')"
    and rm: "rm = r1 @ rs"
    by (auto simp: bindM_def ret_def split: prod.splits sum.splits)
  let ?go = "resends E now (alive_set w) p"
  let ?q = "retried E (env_steady E (w_steady_reads w)) p"
  have w1: "w_pending w1 = (if ?go then um_put (w_pending w) k ?q else w_pending w)"
      "w_steady_reads w1 = (if ?go then Suc (w_steady_reads w) else w_steady_reads w)"
      "alive_set w1 = alive_set w"
    using tick_entry_pending [OF p, of E now] one by simp_all
  have found: "um_find (w_pending w1) k' = um_find (w_pending w) k'" if "k' \<noteq> k" for k'
    using that by (simp add: w1)
  have "\<forall>k'\<in>set ks. um_find (w_pending w1) k' \<noteq> None"
    using Cons.prems(1,2) by (auto simp: w1)
  with Cons.IH [OF _ _ rest] Cons.prems(1) obtain r where
    r: "\<forall>k. w_steady_reads w1 \<le> r k"
      "\<And>k'. um_find (w_pending w') k' = map_option (\<lambda>p.
          if k' \<in> set ks \<and> resends E now (alive_set w) p then retried E (env_steady E (r k')) p else p)
          (um_find (w_pending w1) k')"
      "set rs = {pw_msg_id p |k p. k \<in> set ks \<and> um_find (w_pending w1) k = Some p
          \<and> exhausted E now p}"
    by (auto simp: w1)
  have same: "{pw_msg_id p |k p. k \<in> set ks \<and> um_find (w_pending w1) k = Some p \<and> exhausted E now p}
      = {pw_msg_id p |k p. k \<in> set ks \<and> um_find (w_pending w) k = Some p \<and> exhausted E now p}"
    using Cons.prems(1) found by (auto; metis)
  show ?case
  proof (intro exI [of _ "r(k := w_steady_reads w)"] conjI allI)
    show "w_steady_reads w \<le> (r(k := w_steady_reads w)) k'" for k'
      using r(1)[rule_format, of k'] by (auto simp: w1 split: if_splits)
    show "um_find (w_pending w') k' = map_option (\<lambda>p.
        if k' \<in> set (k # ks) \<and> resends E now (alive_set w) p
        then retried E (env_steady E ((r(k := w_steady_reads w)) k')) p else p)
        (um_find (w_pending w) k')" for k'
      using Cons.prems(1) p
      by (cases "k' = k"; cases "um_find (w_pending w) k'") (simp_all add: r(2) w1)
    show "set rm = {pw_msg_id p |k' p. k' \<in> set (k # ks) \<and> um_find (w_pending w) k' = Some p
        \<and> exhausted E now p}"
      using tick_entry_removes [OF p one] p by (auto simp: rm r(3) same)
  qed
qed

text \<open>The library prints what a tick may print for an entry.\<close>

definition entry_prints :: "env \<Rightarrow> PendingWake \<Rightarrow> bool" where
  "entry_prints E p \<longleftrightarrow> (\<exists>s. json_dump (env_json E) (pw_payload p) = Inr s)
     \<and> (\<forall>status n. \<exists>s. json_dump (env_json E) (command_event (pw_device_id p) (pw_msg_id p) status
          (pw_cmd p) (Some (JObject [(''retry_count'', JInt n)]))) = Inr s)"

lemma publishCommandEvent_returns:
  assumes "\<exists>s. json_dump (env_json E) (command_event d m status cmd extra) = Inr s"
  shows "\<exists>w'. publishCommandEvent E d m status cmd extra w = (Inr (), w')"
  using assms
  by (auto simp: publishCommandEvent_def mqtt_publishCommandEvent_def publishJson_def comp_defs
      get_ctx_def split: option.split)

lemma sendRaw_returns:
  "sid \<in> alive_set w \<Longrightarrow> \<exists>w'. sendRaw sid data w = (Inr (), w')"
  by (auto simp: sendRaw_def modify_session_def alive_set_def)

lemma sendJson_returns:
  "sid \<in> alive_set w \<Longrightarrow> \<exists>s. json_dump (env_json E) j = Inr s \<Longrightarrow>
   \<exists>w'. sendJson E sid j w = (Inr (), w')"
  by (auto simp: sendJson_def encodeLine_def comp_defs intro: sendRaw_returns)

lemma resendWake_returns:
  assumes "pw_session p \<in> alive_set w" and "entry_prints E p"
  shows "\<exists>w'. resendWake E p w = (Inr (), w')"
proof -
  have "\<exists>w'. sendRaw (pw_session p) data (w\<lparr>w_redis_log := l\<rparr>) = (Inr (), w')" for data l
    using assms(1) by (intro sendRaw_returns) simp
  moreover have "\<exists>w'. sendJson E (pw_session p) (pw_payload p) w = (Inr (), w')"
    using assms by (intro sendJson_returns) (auto simp: entry_prints_def)
  ultimately show ?thesis
    by (auto simp: resendWake_def comp_defs get_ctx_def on_redis_def split: prod.split option.split)
qed

lemma tick_entry_returns:
  assumes p: "um_find (w_pending w) k = Some p" and prints: "entry_prints E p"
  shows "\<exists>rm w'. tick_entry E now k w = (Inr rm, w')"
proof (cases "resends E now (alive_set w) p")
  case True
  let ?q = "retried E (env_steady E (w_steady_reads w)) p"
  let ?w = "w\<lparr>w_steady_reads := Suc (w_steady_reads w), w_pending := um_put (w_pending w) k ?q\<rparr>"
  have q: "entry_prints E ?q" "pw_session ?q = pw_session p"
    using prints by (simp_all add: entry_prints_def retried_def)
  obtain w1 where w1: "publishCommandEvent E (pw_device_id p) (pw_msg_id p) ''retrying'' (pw_cmd p)
      (Some (JObject [(''retry_count'', JInt (pw_retry_count ?q))])) ?w = (Inr (), w1)"
    using prints by (metis publishCommandEvent_returns entry_prints_def)
  have "keeps alive_set (publishCommandEvent E d m st c x)" for d m st c x
    by (rule keeps_publishCommandEvent) simp
  from keepsD [OF this w1] have "alive_set w1 = alive_set w" by simp
  then have "pw_session ?q \<in> alive_set w1"
    using True q(2) by (simp add: resends_def)
  with q(1) obtain w2 where "resendWake E ?q w1 = (Inr (), w2)"
    using resendWake_returns by blast
  with w1 True p show ?thesis
    by (auto simp: tick_entry_def comp_step wake_runs resends_def retryWake_alive ret_def)
next
  case False
  obtain w1 where w1: "publishCommandEvent E (pw_device_id p) (pw_msg_id p) ''failed'' (pw_cmd p)
      (Some (JObject [(''retry_count'', JInt (pw_retry_count p))])) w = (Inr (), w1)"
    using prints by (metis publishCommandEvent_returns entry_prints_def)
  with False p show ?thesis
    by (auto simp: tick_entry_def comp_step wake_runs resends_def retryWake_dead ret_def)
qed

lemma tick_loop_returns:
  assumes "distinct ks" and "\<forall>k\<in>set ks. \<exists>p. um_find (w_pending w) k = Some p \<and> entry_prints E p"
  shows "\<exists>rm w'. tick_loop E now ks w = (Inr rm, w')"
  using assms
proof (induction ks arbitrary: w)
  case Nil
  then show ?case by (simp add: ret_def)
next
  case (Cons k ks)
  then obtain p where p: "um_find (w_pending w) k = Some p" "entry_prints E p" by auto
  then obtain r1 w1 where one: "tick_entry E now k w = (Inr r1, w1)"
    using tick_entry_returns by blast
  have "um_find (w_pending w1) k' = um_find (w_pending w) k'" if "k' \<noteq> k" for k'
    using that tick_entry_pending(1) [OF p(1), of E now] one by (simp split: if_splits)
  then have "\<forall>k\<in>set ks. \<exists>p. um_find (w_pending w1) k = Some p \<and> entry_prints E p"
    using Cons.prems by (metis distinct.simps(2) list.set_intros(2))
  then have "\<exists>rm w'. tick_loop E now ks w1 = (Inr rm, w')"
    using Cons.prems by (intro Cons.IH) simp_all
  with one show ?case by (auto simp: bindM_def ret_def)
qed

section \<open>What a tick sends and publishes\<close>

text \<open>The publication of a command event, when the bridge is there.\<close>

definition command_publications ::
    "env \<Rightarrow> bool \<Rightarrow> string \<Rightarrow> string \<Rightarrow> string \<Rightarrow> string \<Rightarrow> json option \<Rightarrow> Publication list" where
  "command_publications E on d m status cmd extra =
     (case json_dump (env_json E) (command_event d m status cmd extra) of
        Inl _ \<Rightarrow> []
      | Inr content \<Rightarrow>
          if \<not> on then []
          else [\<lparr>pub_topic = c_str (makeDeviceTopic (env_mqtt_cfg E) d ''commands/events''),
            pub_document = command_event d m status cmd extra, pub_content = content,
            pub_qos = mc_qos (env_mqtt_cfg E), pub_retain = False\<rparr>])"

definition bridged :: "World \<Rightarrow> bool" where
  "bridged w \<longleftrightarrow> ctx_mqtt_backend (w_ctx w) \<and> w_mqtt_client w"

lemma publishCommandEvent_run:
  assumes "\<exists>t. json_dump (env_json E) (command_event d m status cmd extra) = Inr t"
  shows "publishCommandEvent E d m status cmd extra w =
     (Inr (), w\<lparr>w_published := w_published w @ command_publications E (bridged w) d m status cmd extra\<rparr>)"
  using assms
  by (auto simp: publishCommandEvent_def mqtt_publishCommandEvent_def publishJson_def comp_defs
      get_ctx_def command_publications_def bridged_def)

text \<open>The buffers a repetition of an entry hands to the writer of its session: the line of
  a JSON command, or the wake-up frame for the key that Redis has at that moment.\<close>

definition resent :: "env \<Rightarrow> bool \<Rightarrow> redis_cmd list \<Rightarrow> PendingWake \<Rightarrow> bytes list" where
  "resent E redis log p =
     (if pw_protocol p = JSON_LINE then
        (case json_dump (env_json E) (pw_payload p) of
           Inl _ \<Rightarrow> [] | Inr line \<Rightarrow> [bytes_of_string (line @ [CHR 0x0A])])
      else if pw_protocol p = LOWPOWER \<and> redis then
        (case fst (getLocalKey (env_redis E) (env_redis_cfg E) (pw_device_id p) log) of
           None \<Rightarrow> [] | Some key \<Rightarrow> [makeWakeupFrame key])
      else [])"

text \<open>The buffers for session \<open>sid\<close>, and the publications, of one entry at the time
  \<open>now\<close>; and of all entries, in the order of the container.\<close>

definition entry_sends ::
    "env \<Rightarrow> bool \<Rightarrow> int \<Rightarrow> nat set \<Rightarrow> nat \<Rightarrow> redis_cmd list \<Rightarrow> PendingWake \<Rightarrow> bytes list" where
  "entry_sends E redis now alive sid log p =
     (if resends E now alive p \<and> pw_session p = sid then resent E redis log p else [])"

definition entry_events :: "env \<Rightarrow> bool \<Rightarrow> int \<Rightarrow> nat set \<Rightarrow> PendingWake \<Rightarrow> Publication list" where
  "entry_events E on now alive p =
     (let event = (\<lambda>status n. command_publications E on (pw_device_id p) (pw_msg_id p) status (pw_cmd p)
            (Some (JObject [(''retry_count'', JInt n)])))
      in if exhausted E now p then event ''failed'' (pw_retry_count p)
         else if resends E now alive p then event ''retrying'' (pw_retry_count p + 1)
         else [])"

definition each_entry ::
    "(string, PendingWake) umap \<Rightarrow> (string \<Rightarrow> PendingWake \<Rightarrow> 'a list) \<Rightarrow> string list \<Rightarrow> 'a list" where
  "each_entry P f ks =
     concat (map (\<lambda>k. case um_find P k of None \<Rightarrow> [] | Some p \<Rightarrow> f k p) ks)"

text \<open>A session with more buffers handed to its writer.\<close>

definition with_buffers :: "bytes list \<Rightarrow> Session \<Rightarrow> Session" where
  "with_buffers bufs s = s\<lparr>ss_writer := fold enqueueWrite bufs (ss_writer s)\<rparr>"

lemma with_buffers_simps [simp]:
  "with_buffers [] s = s"
  "with_buffers bufs' (with_buffers bufs s) = with_buffers (bufs @ bufs') s"
  by (simp_all add: with_buffers_def)

lemma with_buffers_map [simp]: "map_option (with_buffers []) x = x"
  by (cases x) simp_all

lemma sendRaw_heap:
  "um_find (w_heap (snd (sendRaw sid data w))) sid' =
     map_option (with_buffers (if sid' = sid then [data] else [])) (um_find (w_heap w) sid')"
  by (auto simp: sendRaw_def modify_session_def with_buffers_def split: option.split)

lemma resendWake_effects:
  assumes "entry_prints E p"
  shows "um_find (w_heap (snd (resendWake E p w))) sid =
      map_option (with_buffers (if sid = pw_session p
        then resent E (ctx_redis (w_ctx w)) (w_redis_log w) p else [])) (um_find (w_heap w) sid)"
    and "prefix (w_redis_log w) (w_redis_log (snd (resendWake E p w)))"
proof -
  obtain line where line: "json_dump (env_json E) (pw_payload p) = Inr line"
    using assms by (auto simp: entry_prints_def)
  have redis: "um_find (w_heap (snd (sendRaw (pw_session p) data (w\<lparr>w_redis_log := log\<rparr>)))) sid =
      map_option (with_buffers (if sid = pw_session p then [data] else [])) (um_find (w_heap w) sid)"
    for data log by (simp add: sendRaw_heap)
  show "um_find (w_heap (snd (resendWake E p w))) sid =
      map_option (with_buffers (if sid = pw_session p
        then resent E (ctx_redis (w_ctx w)) (w_redis_log w) p else [])) (um_find (w_heap w) sid)"
    using redis line
    by (auto simp: resendWake_def resent_def sendJson_def encodeLine_def sendRaw_heap seq_runs gw_runs
        get_ctx_def comp_defs on_redis_def split: prod.split option.split)
  have log: "w_redis_log (snd (sendRaw sid data w)) = w_redis_log w" for sid data w
    by (rule keeps_snd [OF keeps_heap_ops(2)]) simp
  have "prefix (w_redis_log w) (snd (getLocalKey R cfg d (w_redis_log w)))" for R cfg d
    by (simp add: getLocalKey_def snd_getRaw)
  then show "prefix (w_redis_log w) (w_redis_log (snd (resendWake E p w)))"
    by (auto simp: resendWake_def sendJson_def log comp_defs get_ctx_def on_redis_def
        split: prod.split option.split sum.split) (metis snd_conv)+
qed

lemma keeps_bridge:
  "keeps (\<lambda>w. (w_ctx w, w_mqtt_client w, w_published w)) (resendWake E p)"
  "keeps (\<lambda>w. (w_ctx w, w_mqtt_client w)) (publishCommandEvent E d m st c x)"
  by (intro keeps_resendWake keeps_heap_ops keeps_publishCommandEvent; simp)+

lemma tick_entry_effects:
  assumes p: "um_find (w_pending w) k = Some p" and prints: "entry_prints E p"
    and run: "tick_entry E now k w = (r, w')"
  shows "w_ctx w' = w_ctx w" and "w_mqtt_client w' = w_mqtt_client w"
    and "w_published w' = w_published w @ entry_events E (bridged w) now (alive_set w) p"
    and "prefix (w_redis_log w) (w_redis_log w')"
    and "um_find (w_heap w') sid = map_option (with_buffers
      (entry_sends E (ctx_redis (w_ctx w)) now (alive_set w) sid (w_redis_log w) p)) (um_find (w_heap w) sid)"
proof -
  have event: "\<exists>t. json_dump (env_json E) (command_event (pw_device_id p) (pw_msg_id p) status (pw_cmd p)
      (Some (JObject [(''retry_count'', JInt n)]))) = Inr t" for status n
    using prints by (simp add: entry_prints_def)
  have "w_ctx w' = w_ctx w \<and> w_mqtt_client w' = w_mqtt_client w
    \<and> w_published w' = w_published w @ entry_events E (bridged w) now (alive_set w) p
    \<and> prefix (w_redis_log w) (w_redis_log w')
    \<and> um_find (w_heap w') sid = map_option (with_buffers
      (entry_sends E (ctx_redis (w_ctx w)) now (alive_set w) sid (w_redis_log w) p)) (um_find (w_heap w) sid)"
  proof (cases "resends E now (alive_set w) p")
    case True
    define q where "q = retried E (env_steady E (w_steady_reads w)) p"
    have q: "entry_prints E q" "pw_session q = pw_session p" "resent E b log q = resent E b log p" for b log
      using prints by (simp_all add: q_def entry_prints_def retried_def resent_def)
    let ?event = "command_publications E (bridged w) (pw_device_id p) (pw_msg_id p) ''retrying'' (pw_cmd p)
        (Some (JObject [(''retry_count'', JInt (pw_retry_count p + 1))]))"
    let ?w = "w\<lparr>w_steady_reads := Suc (w_steady_reads w), w_pending := um_put (w_pending w) k q,
        w_published := w_published w @ ?event\<rparr>"
    have "snd (tick_entry E now k w) = snd (resendWake E q ?w)"
      using True p event
      by (simp add: tick_entry_def comp_step wake_runs resends_def retryWake_alive
          publishCommandEvent_run q_def [symmetric]) (simp add: q_def retried_def bridged_def)
    with run have w': "w' = snd (resendWake E q ?w)" by simp
    have "(w_ctx w', w_mqtt_client w', w_published w') = (w_ctx w, w_mqtt_client w, w_published w @ ?event)"
      unfolding w' using keeps_snd [OF keeps_bridge(1), of E q ?w] by simp
    moreover have "\<not> exhausted E now p" using True by (simp add: resends_def exhausted_def)
    ultimately show ?thesis
      using resendWake_effects [OF q(1), of ?w] True
      by (auto simp: w' q entry_events_def entry_sends_def Let_def)
  next
    case False
    have "snd (tick_entry E now k w) = (if exhausted E now p then
        w\<lparr>w_published := w_published w @ command_publications E (bridged w) (pw_device_id p) (pw_msg_id p)
          ''failed'' (pw_cmd p) (Some (JObject [(''retry_count'', JInt (pw_retry_count p))]))\<rparr> else w)"
      using False p event
      by (auto simp: tick_entry_def comp_step wake_runs exhausted_def resends_def retryWake_dead
          publishCommandEvent_run)
    with run have "w' = (if exhausted E now p then
        w\<lparr>w_published := w_published w @ command_publications E (bridged w) (pw_device_id p) (pw_msg_id p)
          ''failed'' (pw_cmd p) (Some (JObject [(''retry_count'', JInt (pw_retry_count p))]))\<rparr> else w)"
      by simp
    with False show ?thesis
      by (simp add: entry_events_def entry_sends_def Let_def)
  qed
  then show "w_ctx w' = w_ctx w" "w_mqtt_client w' = w_mqtt_client w"
    "w_published w' = w_published w @ entry_events E (bridged w) now (alive_set w) p"
    "prefix (w_redis_log w) (w_redis_log w')"
    "um_find (w_heap w') sid = map_option (with_buffers
      (entry_sends E (ctx_redis (w_ctx w)) now (alive_set w) sid (w_redis_log w) p)) (um_find (w_heap w) sid)"
    by simp_all
qed

lemma each_entry_cong:
  assumes "\<And>k. k \<in> set ks \<Longrightarrow> um_find P k = um_find P' k" and "\<And>k p. k \<in> set ks \<Longrightarrow> f k p = g k p"
  shows "each_entry P f ks = each_entry P' g ks"
  unfolding each_entry_def using assms
  by (intro arg_cong [where f = concat] map_cong refl) (auto split: option.split)

lemma each_entry_Cons:
  "um_find P k = Some p \<Longrightarrow> each_entry P f (k # ks) = f k p @ each_entry P f ks"
  by (simp add: each_entry_def)

lemma tick_loop_effects:
  assumes "distinct ks" and "\<forall>k\<in>set ks. \<exists>p. um_find (w_pending w) k = Some p \<and> entry_prints E p"
    and "tick_loop E now ks w = (Inr rm, w')"
  shows "\<exists>lg. (\<forall>k. prefix (w_redis_log w) (lg k))
    \<and> (\<forall>sid. um_find (w_heap w') sid = map_option (with_buffers
        (each_entry (w_pending w) (\<lambda>k. entry_sends E (ctx_redis (w_ctx w)) now (alive_set w) sid (lg k)) ks))
        (um_find (w_heap w) sid))
    \<and> w_published w' = w_published w
        @ each_entry (w_pending w) (\<lambda>_. entry_events E (bridged w) now (alive_set w)) ks"
  using assms
proof (induction ks arbitrary: w rm)
  case Nil
  then show ?case by (auto simp: ret_def each_entry_def option.map_ident intro: exI [of _ "\<lambda>_. w_redis_log w"])
next
  case (Cons k ks)
  then obtain p where p: "um_find (w_pending w) k = Some p" "entry_prints E p" by auto
  from Cons.prems(3) obtain r1 w1 rs where
    one: "tick_entry E now k w = (Inr r1, w1)" and rest: "tick_loop E now ks w1 = (Inr rs, w')"
    by (auto simp: bindM_def ret_def split: prod.splits sum.splits)
  note w1 = tick_entry_effects [OF p one]
  have alive: "alive_set w1 = alive_set w"
    using tick_entry_pending(3) [OF p(1), of E now] one by simp
  have found: "um_find (w_pending w1) k' = um_find (w_pending w) k'" if "k' \<in> set ks" for k'
    using that Cons.prems(1) tick_entry_pending(1) [OF p(1), of E now] one by (auto split: if_splits)
  then have "\<forall>k\<in>set ks. \<exists>p. um_find (w_pending w1) k = Some p \<and> entry_prints E p"
    using Cons.prems(2) by simp
  with Cons.IH [OF _ _ rest] Cons.prems(1) obtain lg where
    lg: "\<forall>k. prefix (w_redis_log w1) (lg k)"
      "\<And>sid. um_find (w_heap w') sid = map_option (with_buffers
        (each_entry (w_pending w1) (\<lambda>k. entry_sends E (ctx_redis (w_ctx w1)) now (alive_set w1) sid (lg k)) ks))
        (um_find (w_heap w1) sid)"
      "w_published w' = w_published w1
        @ each_entry (w_pending w1) (\<lambda>_. entry_events E (bridged w1) now (alive_set w1)) ks"
    by auto
  let ?lg = "lg(k := w_redis_log w)"
  have sends: "each_entry (w_pending w1) (\<lambda>k. entry_sends E b now (alive_set w) sid (lg k)) ks
      = each_entry (w_pending w) (\<lambda>k. entry_sends E b now (alive_set w) sid (?lg k)) ks" for b sid
    using Cons.prems(1) by (intro each_entry_cong found) auto
  have events: "each_entry (w_pending w1) (\<lambda>_. entry_events E b now (alive_set w)) ks
      = each_entry (w_pending w) (\<lambda>_. entry_events E b now (alive_set w)) ks" for b
    by (intro each_entry_cong found) auto
  have bridge: "bridged w1 = bridged w" using w1(1,2) by (simp add: bridged_def)
  show ?case
  proof (intro exI [of _ ?lg] conjI allI)
    show "prefix (w_redis_log w) (?lg k')" for k'
      using lg(1) w1(4) prefix_order.trans by auto
    show "um_find (w_heap w') sid = map_option (with_buffers (each_entry (w_pending w)
        (\<lambda>k. entry_sends E (ctx_redis (w_ctx w)) now (alive_set w) sid (?lg k)) (k # ks)))
        (um_find (w_heap w) sid)" for sid
      by (simp add: lg(2) w1(1,5) alive sends each_entry_Cons [OF p(1)] option.map_comp comp_def)
    show "w_published w' = w_published w
        @ each_entry (w_pending w) (\<lambda>_. entry_events E (bridged w) now (alive_set w)) (k # ks)"
      by (simp add: lg(3) w1(3) alive events bridge each_entry_Cons [OF p(1)])
  qed
qed

section \<open>The timer against its specification\<close>

definition tick_outcome :: "env \<Rightarrow> int \<Rightarrow> nat set \<Rightarrow> int \<Rightarrow> PendingWake \<Rightarrow> PendingWake option" where
  "tick_outcome E now alive t p =
     (if exhausted E now p then None
      else if resends E now alive p then Some (retried E t p) else Some p)"

definition table_prints :: "env \<Rightarrow> World \<Rightarrow> bool" where
  "table_prints E w \<longleftrightarrow> (\<forall>k p. um_find (w_pending w) k = Some p \<longrightarrow> entry_prints E p)"

lemma forM_erase:
  "forM ks erase_pending w =
     (Inr (), w\<lparr>w_pending := fold (\<lambda>k m. um_erase m k) ks (w_pending w)\<rparr>)"
  by (induction ks arbitrary: w) (simp_all add: erase_pending_def comp_defs)

lemma keeps_alive_tick: "keeps alive_set (onTick E)"
proof -
  have "keeps alive_set (tick_entry E now k)" for now k
  proof (rule keepsI)
    fix w
    show "alive_set (snd (tick_entry E now k w)) = alive_set w"
    proof (cases "um_find (w_pending w) k")
      case None
      then show ?thesis by (simp add: tick_entry_def get_pending_def comp_step)
    next
      case (Some p)
      then show ?thesis by (rule tick_entry_pending)
    qed
  qed
  then have "keeps alive_set (tick_loop E now ks)" for now ks
    by (induction ks) (auto intro!: keeps_bindM keeps_ret)
  then show ?thesis
    unfolding onTick_def
    by (intro keeps_bindM keeps_steady keeps_getsM keeps_forM keeps_pending_ops) simp_all
qed

lemma onTick_run:
  assumes "pending_ok (env_wake_cfg E) (w_pending w)" and "table_prints E w"
  defines "now \<equiv> env_steady E (w_steady_reads w)" and "ks \<equiv> um_keys (w_pending w)"
  obtains rm w1 where "tick_loop E now ks (w\<lparr>w_steady_reads := Suc (w_steady_reads w)\<rparr>) = (Inr rm, w1)"
    and "onTick E w = (Inr (), w1\<lparr>w_pending := fold (\<lambda>k m. um_erase m k) rm (w_pending w1)\<rparr>)"
    and "distinct ks" and "\<forall>k. k \<in> set ks \<longleftrightarrow> um_find (w_pending w) k \<noteq> None"
    and "\<forall>k\<in>set ks. \<exists>p. um_find (w_pending w) k = Some p \<and> entry_prints E p"
proof -
  have keys: "distinct ks" "\<And>k. k \<in> set ks \<longleftrightarrow> um_find (w_pending w) k \<noteq> None"
    using assms(1) by (auto simp: pending_ok_def um.keys_distinct um.mem_keys ks_def)
  have entries: "\<forall>k\<in>set ks. \<exists>p. um_find (w_pending w) k = Some p \<and> entry_prints E p"
    using assms(2) keys(2) by (auto simp: table_prints_def)
  have "\<exists>rm w1. tick_loop E now ks (w\<lparr>w_steady_reads := Suc (w_steady_reads w)\<rparr>) = (Inr rm, w1)"
    using tick_loop_returns [OF keys(1), of "w\<lparr>w_steady_reads := Suc (w_steady_reads w)\<rparr>"] entries by simp
  then obtain rm w1 where loop:
    "tick_loop E now ks (w\<lparr>w_steady_reads := Suc (w_steady_reads w)\<rparr>) = (Inr rm, w1)" by blast
  have "onTick E w = (Inr (), w1\<lparr>w_pending := fold (\<lambda>k m. um_erase m k) rm (w_pending w1)\<rparr>)"
    using loop by (simp add: onTick_def comp_step wake_runs getsM_def bindM_def forM_erase now_def ks_def)
  with that loop keys entries show thesis by blast
qed

lemma onTick_spec:
  assumes "pending_ok (env_wake_cfg E) (w_pending w)" and "table_prints E w"
  shows "fst (onTick E w) = Inr ()"
    and "\<exists>r. (\<forall>k. w_steady_reads w < r k) \<and>
      (\<forall>k. um_find (w_pending (snd (onTick E w))) k = Option.bind (um_find (w_pending w) k)
         (tick_outcome E (env_steady E (w_steady_reads w)) (alive_set w) (env_steady E (r k))))"
    and "\<exists>lg. (\<forall>k. prefix (w_redis_log w) (lg k))
      \<and> (\<forall>sid. um_find (w_heap (snd (onTick E w))) sid = map_option (with_buffers
          (each_entry (w_pending w) (\<lambda>k. entry_sends E (ctx_redis (w_ctx w))
            (env_steady E (w_steady_reads w)) (alive_set w) sid (lg k)) (um_keys (w_pending w))))
          (um_find (w_heap w) sid))
      \<and> w_published (snd (onTick E w)) = w_published w @ each_entry (w_pending w)
          (\<lambda>_. entry_events E (bridged w) (env_steady E (w_steady_reads w)) (alive_set w))
          (um_keys (w_pending w))"
proof -
  let ?now = "env_steady E (w_steady_reads w)"
  let ?w = "w\<lparr>w_steady_reads := Suc (w_steady_reads w)\<rparr>"
  let ?ks = "um_keys (w_pending w)"
  obtain rm w1 where loop: "tick_loop E ?now ?ks ?w = (Inr rm, w1)"
    and run: "onTick E w = (Inr (), w1\<lparr>w_pending := fold (\<lambda>k m. um_erase m k) rm (w_pending w1)\<rparr>)"
    and keys: "distinct ?ks" "\<forall>k. k \<in> set ?ks \<longleftrightarrow> um_find (w_pending w) k \<noteq> None"
    and entries: "\<forall>k\<in>set ?ks. \<exists>p. um_find (w_pending w) k = Some p \<and> entry_prints E p"
    using onTick_run [OF assms] by blast
  from run show "fst (onTick E w) = Inr ()" by simp
  obtain r where r: "\<forall>k. w_steady_reads w < r k"
    "\<And>k. um_find (w_pending w1) k = map_option (\<lambda>p.
          if k \<in> set ?ks \<and> resends E ?now (alive_set w) p then retried E (env_steady E (r k)) p else p)
          (um_find (w_pending w) k)"
    "set rm = {pw_msg_id p |k p. k \<in> set ?ks \<and> um_find (w_pending w) k = Some p
          \<and> exhausted E ?now p}"
    using tick_loop_spec [OF keys(1) _ loop] keys(2) by (auto simp: Suc_le_eq)
  have "set rm = {k. \<exists>p. um_find (w_pending w) k = Some p \<and> exhausted E ?now p}"
    using assms(1) keys(2) by (auto simp: r(3) pending_ok_def entry_ok_def) blast
  with r(1,2) keys(2) run show "\<exists>r. (\<forall>k. w_steady_reads w < r k) \<and>
      (\<forall>k. um_find (w_pending (snd (onTick E w))) k = Option.bind (um_find (w_pending w) k)
         (tick_outcome E ?now (alive_set w) (env_steady E (r k))))"
    by (intro exI [of _ r])
      (auto simp: tick_outcome_def exhausted_def resends_def split: bind_split)
  show "\<exists>lg. (\<forall>k. prefix (w_redis_log w) (lg k))
      \<and> (\<forall>sid. um_find (w_heap (snd (onTick E w))) sid = map_option (with_buffers
          (each_entry (w_pending w) (\<lambda>k. entry_sends E (ctx_redis (w_ctx w)) ?now (alive_set w) sid (lg k)) ?ks))
          (um_find (w_heap w) sid))
      \<and> w_published (snd (onTick E w)) = w_published w @ each_entry (w_pending w)
          (\<lambda>_. entry_events E (bridged w) ?now (alive_set w)) ?ks"
    using tick_loop_effects [OF keys(1) _ loop] entries run by (simp add: bridged_def)
qed

section \<open>The invariant of the table\<close>

abbreviation table_ok :: "env \<Rightarrow> World \<Rightarrow> bool" where
  "table_ok E w \<equiv> pending_ok (env_wake_cfg E) (w_pending w)"

lemma preserves_table:
  "keeps w_pending m \<Longrightarrow> preserves (table_ok E) m"
  by (rule keeps_preserves)

lemma preserves_table_add:
  "entry_ok (env_wake_cfg E) k p \<Longrightarrow> preserves (table_ok E) (add_pending k p)"
  by (simp add: preserves_def add_pending_def modifyM_def pending_ok_put)

lemma preserves_table_erase: "preserves (table_ok E) (erase_pending k)"
  by (simp add: preserves_def erase_pending_def modifyM_def pending_ok_erase)

lemma keeps_pending [keeps_rules]:
  "keeps w_pending (lock_session d)"
  "keeps w_pending (session_protocol sid)"
  "keeps w_pending (sendRaw sid data)"
  "keeps w_pending (sendJson E sid j)"
  by (auto intro!: keeps_lock_session keeps_session_protocol keeps_heap_ops)

lemma preserves_table_sendLowPowerWake: "preserves (table_ok E) (sendLowPowerWake E d)"
  unfolding sendLowPowerWake_def Let_def
  by (intro preserves_bindM preserves_thenM preserves_if preserves_case_option preserves_throw
      preserves_ret preserves_table_add)
    (auto intro!: preserves_table keeps_rules simp: entry_ok_def)

lemma preserves_table_sendWake: "preserves (table_ok E) (sendWake E d cmd params)"
  unfolding sendWake_def Let_def
  by (intro preserves_bindM preserves_thenM preserves_if preserves_ret preserves_table_add
      preserves_table_sendLowPowerWake preserves_whenM)
    (auto intro!: preserves_table keeps_rules simp: entry_ok_def)

lemma preserves_table_mark:
  "preserves (table_ok E) (markAck E m)" "preserves (table_ok E) (markDone E m)"
  unfolding markAck_def markDone_def
  by (intro preserves_bindM preserves_thenM preserves_case_option preserves_ret
      preserves_table_erase preserves_whenM;
      auto intro!: preserves_table keeps_rules)+

lemma preserves_table_tick_entry: "preserves (table_ok E) (tick_entry E now k)"
proof (rule preservesI)
  fix w assume ok: "table_ok E w"
  show "table_ok E (snd (tick_entry E now k w))"
  proof (cases "um_find (w_pending w) k")
    case None
    with ok show ?thesis by (simp add: tick_entry_def get_pending_def comp_step)
  next
    case (Some p)
    with ok have "entry_ok (env_wake_cfg E) k p" by (simp add: pending_ok_def)
    with ok show ?thesis
      by (simp add: tick_entry_pending [OF Some] pending_ok_put entry_ok_retried)
  qed
qed

lemma preserves_table_onTick: "preserves (table_ok E) (onTick E)"
proof -
  have "preserves (table_ok E) (tick_loop E now ks)" for now ks
    by (induction ks) (auto intro!: preserves_bindM preserves_ret preserves_table_tick_entry)
  then show ?thesis
    unfolding onTick_def
    by (intro preserves_bindM preserves_forM preserves_table_erase)
      (auto intro!: preserves_table keeps_rules)
qed

lemmas preserves_table_wake =
  preserves_table_sendLowPowerWake preserves_table_sendWake preserves_table_mark
  preserves_table_onTick

section \<open>Ticks in a row\<close>

primrec ticks :: "env \<Rightarrow> nat \<Rightarrow> World \<Rightarrow> World" where
  "ticks E 0 w = w"
| "ticks E (Suc n) w = snd (onTick E (ticks E n w))"

lemma entry_prints_retried [simp]: "entry_prints E (retried E t p) = entry_prints E p"
  by (simp add: entry_prints_def retried_def)

lemma ticks_invariants:
  assumes "table_ok E w" and "table_prints E w"
  shows "table_ok E (ticks E n w)" and "table_prints E (ticks E n w)"
    and "alive_set (ticks E n w) = alive_set w"
proof -
  have "table_ok E (ticks E n w) \<and> table_prints E (ticks E n w) \<and> alive_set (ticks E n w) = alive_set w"
  proof (induction n)
    case 0
    with assms show ?case by simp
  next
    case (Suc n)
    let ?w = "ticks E n w"
    obtain r where r: "\<And>k. um_find (w_pending (snd (onTick E ?w))) k
        = Option.bind (um_find (w_pending ?w) k)
          (tick_outcome E (env_steady E (w_steady_reads ?w)) (alive_set ?w) (env_steady E (r k)))"
      using onTick_spec(2) [of E ?w] Suc by blast
    have "table_prints E (snd (onTick E ?w))"
      using Suc by (auto simp: table_prints_def r tick_outcome_def split: bind_splits if_splits)
    then show ?case
      using Suc by (simp add: preservesD [OF preserves_table_onTick] keeps_snd [OF keeps_alive_tick])
  qed
  then show "table_ok E (ticks E n w)" "table_prints E (ticks E n w)"
    "alive_set (ticks E n w) = alive_set w" by auto
qed

lemma ticks_step:
  assumes "table_ok E w" and "table_prints E w"
  shows "\<exists>t. um_find (w_pending (ticks E (Suc n) w)) k =
     Option.bind (um_find (w_pending (ticks E n w)) k)
       (tick_outcome E (env_steady E (w_steady_reads (ticks E n w))) (alive_set w) t)"
  using onTick_spec(2) [OF ticks_invariants(1,2) [OF assms]] ticks_invariants(3) [OF assms]
  by (metis ticks.simps(2))

text \<open>The timer of \<open>k\<close> has run out at the next tick.\<close>

definition due :: "env \<Rightarrow> string \<Rightarrow> World \<Rightarrow> bool" where
  "due E k w = (case um_find (w_pending w) k of
     None \<Rightarrow> True | Some p \<Rightarrow> pw_next_retry p \<le> env_steady E (w_steady_reads w))"

lemma ticks_count:
  assumes "table_ok E w" and "table_prints E w"
    and "um_find (w_pending w) k = Some p" and "pw_session p \<in> alive_set w"
    and "\<forall>j<i. due E k (ticks E j w)"
    and "pw_retry_count p + int i \<le> max (pw_retry_count p) (wr_max_retry (env_wake_cfg E))"
  shows "\<exists>q. um_find (w_pending (ticks E i w)) k = Some q \<and> pw_session q = pw_session p
    \<and> pw_retry_count q = pw_retry_count p + int i"
  using assms(5,6)
proof (induction i)
  case 0
  with assms(3) show ?case by simp
next
  case (Suc i)
  then obtain q where q: "um_find (w_pending (ticks E i w)) k = Some q" "pw_session q = pw_session p"
    "pw_retry_count q = pw_retry_count p + int i"
    by (auto simp: less_Suc_eq max_def split: if_splits)
  obtain t where t: "um_find (w_pending (ticks E (Suc i) w)) k =
     Option.bind (um_find (w_pending (ticks E i w)) k)
       (tick_outcome E (env_steady E (w_steady_reads (ticks E i w))) (alive_set w) t)"
    using ticks_step [OF assms(1,2)] by blast
  have "due E k (ticks E i w)" using Suc.prems by simp
  with q Suc.prems(2) assms(4) show ?case
    by (auto simp: t due_def tick_outcome_def exhausted_def resends_def retried_def
        simp del: ticks.simps)
qed

section \<open>Properties\<close>


definition sample_wake :: PendingWake where
  "sample_wake = \<lparr>pw_device_id = ''D1'', pw_msg_id = ''W1'', pw_cmd = ''take_photo'',
     pw_payload = JNull, pw_session = 0, pw_protocol = JSON_LINE, pw_retry_count = 0,
     pw_next_retry = 0\<rparr>"

definition sample_table :: "(nat, Session) umap \<Rightarrow> World" where
  "sample_table heap = (initial_World True [])\<lparr>w_heap := heap, w_pending := [(''W1'', sample_wake)]\<rparr>"

lemma sample_table_ok:
  "table_ok (sample_env (brief_json ''{}'') R) (sample_table heap)"
  "table_prints (sample_env (brief_json ''{}'') R) (sample_table heap)"
  by (auto simp: sample_table_def pending_ok_def um_ok_def um_find_def entry_ok_def sample_wake_def
      table_prints_def entry_prints_def default_WakeRuntimeConfig_def split: if_splits)



lemmas wake_eval = onTick_def tick_entry_def retryWake_def resendWake_def comp_defs
  publishCommandEvent_def mqtt_publishCommandEvent_def publishJson_def command_event_def
  get_ctx_def get_pending_def set_pending_def add_pending_def erase_pending_def
  session_alive_def steady_now_def sendJson_def sendRaw_def modify_session_def encodeLine_def
  milliseconds_def um_find_def um_put_def um_keys_def um_erase_def


text \<open>
  A command whose session is gone is never given up: however often the timer ticks, and
  however long its deadline is over, the entry stays as it is, and no failure is reported.
\<close>

theorem expired_wake_stays:
  assumes "table_ok E w" and "table_prints E w"
    and "um_find (w_pending w) k = Some p" and "pw_session p \<notin> alive_set w"
    and "pw_retry_count p < wr_max_retry (env_wake_cfg E)"
  shows "um_find (w_pending (ticks E n w)) k = Some p"
proof (induction n)
  case 0
  with assms(3) show ?case by simp
next
  case (Suc n)
  then show ?case
    using ticks_step [OF assms(1,2), of n k] assms(4,5)
    by (auto simp: tick_outcome_def exhausted_def resends_def simp del: ticks.simps)
qed

theorem expired_wake_stays_witness:
  "um_find (w_pending (ticks (sample_env (brief_json ''{}'') db_server) 1000 (sample_table [])))
     ''W1'' = Some sample_wake"
  by (rule expired_wake_stays [OF sample_table_ok])
    (simp_all add: sample_table_def um_find_def alive_set_def sample_wake_def
      default_WakeRuntimeConfig_def)

text \<open>The readings of the wall clock a dispatch uses.\<close>

definition wall_ms :: "env \<Rightarrow> nat \<Rightarrow> int" where
  "wall_ms E n = duration_cast 1000000 (env_system E n)"

definition wake_msg_id :: "env \<Rightarrow> nat \<Rightarrow> string" where
  "wake_msg_id E n = ''W'' @ to_string (wall_ms E n)"

lemma clock_runs:
  "nowMs E w = (Inr (wall_ms E (w_system_reads w)), w\<lparr>w_system_reads := Suc (w_system_reads w)\<rparr>)"
  "makeMsgId E w =
     (Inr (wake_msg_id E (w_system_reads w)), w\<lparr>w_system_reads := Suc (w_system_reads w)\<rparr>)"
  by (simp_all add: nowMs_def makeMsgId_def system_now_def bindM_def ret_def wall_ms_def
      wake_msg_id_def)

text \<open>What a successful JSON dispatch leaves behind: the entry, the line on the session's
  writer, the copy in Redis.\<close>

lemma sendWake_json:
  fixes E :: env and w :: World and params :: json and cmd :: string
  defines "msg_id \<equiv> wake_msg_id E (w_system_reads w)"
    and "seq \<equiv> wall_ms E (Suc (w_system_reads w))"
  defines "payload \<equiv> makeWake seq msg_id cmd params (seq + wr_expire_ms (env_wake_cfg E))"
  assumes "um_find (ctx_sessions (w_ctx w)) d = Some sid" and "um_find (w_heap w) sid = Some s"
    and "ss_protocol s \<noteq> LOWPOWER" and "cmd \<noteq> ''lowpower_wakeup''"
    and "json_dump (env_json E) payload = Inr line"
    and "\<exists>t. json_dump (env_json E) (command_event d msg_id ''dispatched'' cmd
        (Some (JObject [(''protocol'', JString ''json_line'')]))) = Inr t"
  shows "\<exists>w'. sendWake E d cmd params w = (Inr msg_id, w')
    \<and> w_pending w' = um_put (w_pending w) msg_id
        \<lparr>pw_device_id = d, pw_msg_id = msg_id, pw_cmd = cmd, pw_payload = payload,
         pw_session = sid, pw_protocol = JSON_LINE, pw_retry_count = 0,
         pw_next_retry = env_steady E (w_steady_reads w)
           + milliseconds (wr_ack_timeout_ms (env_wake_cfg E))\<rparr>
    \<and> w_heap w' = um_put (w_heap w) sid (s\<lparr>ss_writer := enqueueWrite
        (bytes_of_string (line @ [CHR 0x0A])) (ss_writer s)\<rparr>)
    \<and> w_redis_log w' = w_redis_log w @ (if ctx_redis (w_ctx w) then
        [[''SETEX'', c_str (redis_key (env_redis_cfg E) (pending_key d msg_id)),
          to_string (duration_cast 1000 (wr_expire_ms (env_wake_cfg E))), c_str line]] else [])
    \<and> w_ctx w' = w_ctx w \<and> w_mqtt_client w' = w_mqtt_client w"
proof -
  obtain e where e: "json_dump (env_json E) (command_event d msg_id ''dispatched'' cmd
        (Some (JObject [(''protocol'', JString ''json_line'')]))) = Inr e"
    using assms(9) by blast
  show ?thesis
    using assms(4-8) e
    by (simp add: sendWake_def lock_session_def session_alive_def session_protocol_def
        get_session_def clock_runs steady_now_def add_pending_def
        on_redis_throwing_def savePendingWake_def setex_def redisCommand_def sendJson_def
        encodeLine_def sendRaw_def modify_session_def publishCommandEvent_def get_ctx_def
        mqtt_publishCommandEvent_def publishJson_def comp_defs Let_def
        msg_id_def [symmetric] seq_def [symmetric] payload_def [symmetric])
qed

lemma mark_unknown:
  "um_find (w_pending w) m = None \<Longrightarrow> markAck E m w = (Inr (), w)"
  "um_find (w_pending w) m = None \<Longrightarrow> markDone E m w = (Inr (), w)"
  by (simp_all add: markAck_def markDone_def comp_defs)

lemma publishCommandEvent_quiet:
  assumes "publishCommandEvent E d m status cmd extra w = (r, w')"
  shows "w_pending w' = w_pending w" "w_redis_log w' = w_redis_log w" "w_heap w' = w_heap w"
    "w_ctx w' = w_ctx w"
  by (rule keepsD [OF keeps_publishCommandEvent, OF _ assms], simp)+

lemma mark_known:
  assumes "um_find (w_pending w) m = Some p"
    and "\<forall>status. \<exists>t. json_dump (env_json E)
      (command_event (pw_device_id p) m status (pw_cmd p) None) = Inr t"
  shows "\<exists>w1. markAck E m w = (Inr (), w1) \<and> w_pending w1 = um_erase (w_pending w) m
      \<and> w_redis_log w1 = w_redis_log w"
    and "\<exists>w1. markDone E m w = (Inr (), w1) \<and> w_pending w1 = um_erase (w_pending w) m
      \<and> w_redis_log w1 = w_redis_log w @ (if ctx_redis (w_ctx w) then
          [[''DEL'', c_str (redis_key (env_redis_cfg E) (pending_key (pw_device_id p) m))]] else [])
      \<and> w_published w1 = w_published w
          @ command_publications E (bridged w) (pw_device_id p) m ''done'' (pw_cmd p) None"
proof -
  have event: "\<exists>t. json_dump (env_json E) (command_event (pw_device_id p) m status (pw_cmd p) None) = Inr t"
    for status using assms(2) by blast
  show "\<exists>w1. markAck E m w = (Inr (), w1) \<and> w_pending w1 = um_erase (w_pending w) m
      \<and> w_redis_log w1 = w_redis_log w"
    using assms(1) by (simp add: markAck_def erase_pending_def comp_defs publishCommandEvent_run [OF event])
  show "\<exists>w1. markDone E m w = (Inr (), w1) \<and> w_pending w1 = um_erase (w_pending w) m
      \<and> w_redis_log w1 = w_redis_log w @ (if ctx_redis (w_ctx w) then
          [[''DEL'', c_str (redis_key (env_redis_cfg E) (pending_key (pw_device_id p) m))]] else [])
      \<and> w_published w1 = w_published w
          @ command_publications E (bridged w) (pw_device_id p) m ''done'' (pw_cmd p) None"
    using assms(1) by (auto simp: markDone_def erase_pending_def on_redis_def removePendingWake_def
        delRaw_def redisCommand_def get_ctx_def comp_defs Let_def publishCommandEvent_run [OF event]
        bridged_def)
qed

text \<open>The library prints the documents of one JSON command.\<close>

definition wake_prints :: "env \<Rightarrow> string \<Rightarrow> string \<Rightarrow> string \<Rightarrow> json \<Rightarrow> string \<Rightarrow> bool" where
  "wake_prints E d m cmd payload line \<longleftrightarrow> json_dump (env_json E) payload = Inr line
     \<and> (\<forall>status. \<forall>extra\<in>{None, Some (JObject [(''protocol'', JString ''json_line'')])}.
          \<exists>t. json_dump (env_json E) (command_event d m status cmd extra) = Inr t)"

lemma sendWake_stored:
  fixes E :: env and w :: World and params :: json and cmd :: string
  defines "m \<equiv> wake_msg_id E (w_system_reads w)"
    and "seq \<equiv> wall_ms E (Suc (w_system_reads w))"
  assumes "um_find (ctx_sessions (w_ctx w)) d = Some sid" and "um_find (w_heap w) sid = Some s"
    and "ss_protocol s \<noteq> LOWPOWER" and "cmd \<noteq> ''lowpower_wakeup''"
    and "wake_prints E d m cmd (makeWake seq m cmd params (seq + wr_expire_ms (env_wake_cfg E))) line"
    and "ctx_redis (w_ctx w)"
  shows "\<exists>w1 p. sendWake E d cmd params w = (Inr m, w1)
    \<and> um_find (w_pending w1) m = Some p \<and> pw_device_id p = d \<and> pw_cmd p = cmd
    \<and> redis_db (w_redis_log w1) (c_str (redis_key (env_redis_cfg E) (pending_key d m)))
        = Some (c_str line)
    \<and> ctx_redis (w_ctx w1) \<and> bridged w1 = bridged w
    \<and> (\<forall>status. \<exists>t. json_dump (env_json E) (command_event d m status cmd None) = Inr t)"
proof -
  from assms(7) have line: "json_dump (env_json E) (makeWake seq m cmd params
      (seq + wr_expire_ms (env_wake_cfg E))) = Inr line"
    and event: "\<exists>t. json_dump (env_json E) (command_event d m ''dispatched'' cmd
        (Some (JObject [(''protocol'', JString ''json_line'')]))) = Inr t"
    and marks: "\<forall>status. \<exists>t. json_dump (env_json E) (command_event d m status cmd None) = Inr t"
    by (simp_all add: wake_prints_def)
  from sendWake_json [OF assms(3-6) line [unfolded m_def seq_def] event [unfolded m_def]] marks
    assms(8)
  show ?thesis by (auto simp: m_def seq_def bridged_def)
qed


text \<open>A device with a session that lives.\<close>

definition sample_online :: World where
  "sample_online = (initial_World True [])\<lparr>
     w_ctx := (w_ctx (initial_World True []))\<lparr>ctx_sessions := [(''D1'', 0)]\<rparr>,
     w_heap := [(0, new_Session ''10.0.0.9'')]\<rparr>"

lemma sample_online_simps:
  "um_find (ctx_sessions (w_ctx sample_online)) ''D1'' = Some 0"
  "um_find (w_heap sample_online) 0 = Some (new_Session ''10.0.0.9'')"
  "ctx_redis (w_ctx sample_online)" "w_system_reads sample_online = 0"
  "w_redis_log sample_online = []" "ctx_mqtt_backend (w_ctx sample_online)" "w_mqtt_client sample_online"
  by (simp_all add: sample_online_def initial_World_def um_find_def)

lemma sample_msg_id: "wake_msg_id (sample_env J R) 0 = ''W0''"
  by (simp add: wake_msg_id_def wall_ms_def duration_cast_def to_string_def digit_char_def
      string_of_nat.simps char_of_def bit_0)




text \<open>
  The identifier of a command is the wall clock in milliseconds and nothing else: two
  dispatches get the same identifier exactly when they read the clock within the same
  millisecond.
\<close>

theorem makeMsgId_collides_iff:
  "fst (makeMsgId E w) = fst (makeMsgId E w')
   \<longleftrightarrow> duration_cast 1000000 (env_system E (w_system_reads w))
      = duration_cast 1000000 (env_system E (w_system_reads w'))"
  by (simp add: clock_runs wake_msg_id_def wall_ms_def to_string_inject)

end
