(* ===== verification/DeviceSession.thy ===== *)
theory DeviceSession
  imports WakeManager
begin

text \<open>
  The device session (\<^verbatim>\<open>src/session/DeviceSession.cpp\<close>): protocol detection,
  the two read loops, the handlers of both protocols, and the registration in the shared
  state.  A read loop is a chain of asynchronous operations; \<open>ss_reading\<close> is the one
  outstanding, and \<open>read_completed\<close> runs its completion handler, with \<open>None\<close> for
  an error and the bytes it delivered otherwise.
\<close>

section \<open>Registration and disconnection\<close>

definition online_doc :: "DeviceState \<Rightarrow> json" where
  "online_doc s = JObject [(''device_id'', JString (ds_device_id s)), (''online'', JBool (ds_online s)),
     (''protocol'', JString (ds_protocol s)), (''remote_addr'', JString (ds_remote_addr s)),
     (''battery'', JInt (ds_battery s)), (''rssi'', JInt (ds_rssi s)), (''rsrp'', JInt (ds_rsrp s)),
     (''dev'', JString (ds_dev_state s))]"

definition updateRedisOnline :: "env \<Rightarrow> DeviceState \<Rightarrow> unit gw" where
  "updateRedisOnline E state =
     bindM get_ctx (\<lambda>c.
       if \<not> ctx_redis c then ret ()
       else bindM (on_redis_throwing (setOnline (env_redis E) (env_redis_cfg E) (env_json E)
           (ds_device_id state) (online_doc state) (rt_idle_timeout_sec (env_session_cfg E)))) (\<lambda>_.
         whenM (ctx_mqtt_backend c) (publishDeviceState E state)))"

definition registerOnlineState :: "env \<Rightarrow> nat \<Rightarrow> DeviceState \<Rightarrow> unit gw" where
  "registerOnlineState E sid state =
     thenM (modify_ctx (\<lambda>c. c\<lparr>ctx_sessions := um_put (ctx_sessions c) (ds_device_id state) sid,
         ctx_states := um_put (ctx_states c) (ds_device_id state) state\<rparr>))
       (updateRedisOnline E state)"

definition resolveLocalKey :: "env \<Rightarrow> string \<Rightarrow> string gw" where
  "resolveLocalKey E device_id =
     bindM get_ctx (\<lambda>c.
       if ctx_redis c then
         bindM (on_redis (getLocalKey (env_redis E) (env_redis_cfg E) device_id)) (\<lambda>key.
           case key of Some k \<Rightarrow> ret k | None \<Rightarrow> ret (rt_dev_default_secret (env_session_cfg E)))
       else ret (rt_dev_default_secret (env_session_cfg E)))"

definition deregisterDevice :: "env \<Rightarrow> string \<Rightarrow> unit gw" where
  "deregisterDevice E device_id =
     thenM (modify_ctx (\<lambda>c. c\<lparr>ctx_sessions := um_erase (ctx_sessions c) device_id\<rparr>))
     (bindM get_ctx (\<lambda>c.
     thenM (whenM (um_find (ctx_states c) device_id \<noteq> None)
         (write_state device_id (\<lambda>d. d\<lparr>ds_online := False\<rparr>)))
     (thenM (whenM (ctx_redis c)
         (bindM (on_redis (setOffline (env_redis E) (env_redis_cfg E) device_id)) (\<lambda>_. ret ())))
     (whenM (ctx_mqtt_backend c) (publishDeviceOffline E device_id)))))"

definition handleDisconnect :: "env \<Rightarrow> nat \<Rightarrow> unit gw" where
  "handleDisconnect E sid =
     bindM (get_session sid) (\<lambda>s.
     thenM (modify_session sid (\<lambda>s. s\<lparr>ss_closing := True\<rparr>))
     (if ss_closing s then ret ()
      else thenM (whenM (ss_device_id s \<noteq> []) (deregisterDevice E (ss_device_id s)))
        (close_session sid)))"

section \<open>The handlers of the JSON protocol\<close>

abbreviation jstr :: "env \<Rightarrow> json \<Rightarrow> string \<Rightarrow> string \<Rightarrow> string gw" where
  "jstr E msg k d \<equiv> liftR (value_string (env_json E) msg k d)"

abbreviation jint :: "env \<Rightarrow> json \<Rightarrow> string \<Rightarrow> int \<Rightarrow> int gw" where
  "jint E msg k d \<equiv> liftR (value_int (env_json E) msg k d)"

definition handleJsonLogin :: "env \<Rightarrow> nat \<Rightarrow> json \<Rightarrow> unit gw" where
  "handleJsonLogin E sid msg =
     (let hb = rt_heartbeat_default_sec (env_session_cfg E);
          idle = rt_idle_timeout_sec (env_session_cfg E)
      in bindM (jstr E msg ''device_id'' '''') (\<lambda>device_id.
         if device_id = [] then
           bindM (jint E msg ''seq'' 0) (\<lambda>seq.
             sendJson E sid (makeLoginAck seq 1 hb idle ''device_id_required''))
         else
           thenM (modify_session sid (\<lambda>s. s\<lparr>ss_device_id := device_id\<rparr>))
           (bindM (jstr E msg ''imei'' '''') (\<lambda>imei.
           bindM (jstr E msg ''fw'' '''') (\<lambda>fw.
           bindM (jstr E msg ''model'' '''') (\<lambda>model.
           bindM (get_session sid) (\<lambda>s.
           bindM (jstr E msg ''dev'' ''unknown'') (\<lambda>dev.
           bindM (steady_now E) (\<lambda>login_time.
           bindM (steady_now E) (\<lambda>last_heartbeat.
           thenM (registerOnlineState E sid (default_DeviceState\<lparr>ds_device_id := device_id,
               ds_imei := imei, ds_fw := fw, ds_model := model,
               ds_remote_addr := ss_remote_addr s, ds_protocol := ''json_line'',
               ds_online := True, ds_dev_state := dev, ds_login_time := login_time,
               ds_last_heartbeat := last_heartbeat\<rparr>))
           (bindM (jint E msg ''seq'' 0) (\<lambda>seq.
             sendJson E sid (makeLoginAck seq 0 hb idle '''')))))))))))))"

text \<open>\<^verbatim>\<open>s.field = msg.value(key, s.field)\<close> through the reference \<^verbatim>\<open>s\<close>.\<close>

definition update_field ::
    "string \<Rightarrow> (DeviceState \<Rightarrow> exn + 'a) \<Rightarrow> ('a \<Rightarrow> DeviceState \<Rightarrow> DeviceState) \<Rightarrow> unit gw" where
  "update_field dev rd upd =
     bindM (state_ref dev) (\<lambda>s. bindM (liftR (rd s)) (\<lambda>v. write_state dev (upd v)))"

definition next_heartbeat :: "AppRuntimeConfig \<Rightarrow> int \<Rightarrow> int" where
  "next_heartbeat cfg battery =
     (let next_sec = rt_heartbeat_default_sec cfg;
          next_sec = (if 0 \<le> battery \<and> battery < 20 then 300 else next_sec)
      in if 0 \<le> battery \<and> battery < 10 then 600 else next_sec)"

definition handleJsonHeartbeat :: "env \<Rightarrow> nat \<Rightarrow> json \<Rightarrow> unit gw" where
  "handleJsonHeartbeat E sid msg =
     bindM (get_session sid) (\<lambda>session.
       let dev = ss_device_id session; J = env_json E in
       if dev = [] then sendJson E sid (makeError ''not_logged_in'' '''')
       else thenM (bindM (state_ref dev) (\<lambda>_. write_state dev (\<lambda>s. s\<lparr>ds_online := True\<rparr>)))
         (thenM (bindM (steady_now E) (\<lambda>t. write_state dev (\<lambda>s. s\<lparr>ds_last_heartbeat := t\<rparr>)))
         (thenM (update_field dev (\<lambda>s. value_int J msg ''battery'' (ds_battery s))
             (\<lambda>v s. s\<lparr>ds_battery := v\<rparr>))
         (thenM (update_field dev (\<lambda>s. value_int J msg ''rssi'' (ds_rssi s))
             (\<lambda>v s. s\<lparr>ds_rssi := v\<rparr>))
         (thenM (update_field dev (\<lambda>s. value_int J msg ''rsrp'' (ds_rsrp s))
             (\<lambda>v s. s\<lparr>ds_rsrp := v\<rparr>))
         (thenM (update_field dev (\<lambda>s. value_bool J msg ''charging'' (ds_charging s))
             (\<lambda>v s. s\<lparr>ds_charging := v\<rparr>))
         (thenM (update_field dev (\<lambda>s. value_string J msg ''dev'' (ds_dev_state s))
             (\<lambda>v s. s\<lparr>ds_dev_state := v\<rparr>))
         (bindM (state_ref dev) (\<lambda>state_copy.
         thenM (updateRedisOnline E state_copy)
         (bindM (jint E msg ''seq'' 0) (\<lambda>seq.
           sendJson E sid (makeHeartbeatAck seq 0
             (next_heartbeat (env_session_cfg E) (ds_battery state_copy))))))))))))))"

definition handleJsonWakeAck :: "env \<Rightarrow> nat \<Rightarrow> json \<Rightarrow> unit gw" where
  "handleJsonWakeAck E sid msg =
     bindM (jstr E msg ''msg_id'' '''') (\<lambda>msg_id.
     bindM get_ctx (\<lambda>c.
       whenM (ctx_wake_manager c \<and> msg_id \<noteq> []) (markAck E msg_id)))"

text \<open>The last read of the message is for the log line; it may throw as any other.\<close>

definition handleJsonTaskDone :: "env \<Rightarrow> nat \<Rightarrow> json \<Rightarrow> unit gw" where
  "handleJsonTaskDone E sid msg =
     bindM (jstr E msg ''msg_id'' '''') (\<lambda>msg_id.
     bindM get_ctx (\<lambda>c.
     thenM (whenM (ctx_wake_manager c \<and> msg_id \<noteq> []) (markDone E msg_id))
     (bindM (jint E msg ''seq'' 0) (\<lambda>seq.
     thenM (sendJson E sid (makeTaskDoneAck seq msg_id 0))
     (bindM (jstr E msg ''url'' '''') (\<lambda>_. ret ()))))))"

definition handleJsonHostSleep :: "env \<Rightarrow> nat \<Rightarrow> json \<Rightarrow> unit gw" where
  "handleJsonHostSleep E sid msg =
     bindM (get_session sid) (\<lambda>s.
     thenM (write_state (ss_device_id s) (\<lambda>d. d\<lparr>ds_dev_state := ''sleep''\<rparr>))
     (bindM (jint E msg ''seq'' 0) (\<lambda>seq.
       sendJson E sid (JObject [(''type'', JString ''host_sleep_ack''), (''seq'', JInt seq),
         (''result'', JInt 0)]))))"

definition handleJsonHostState :: "env \<Rightarrow> nat \<Rightarrow> json \<Rightarrow> unit gw" where
  "handleJsonHostState E sid msg =
     bindM (jstr E msg ''dev'' ''unknown'') (\<lambda>dev.
     bindM (get_session sid) (\<lambda>s.
       write_state (ss_device_id s) (\<lambda>d. d\<lparr>ds_dev_state := dev\<rparr>)))"

definition handleJsonMessage :: "env \<Rightarrow> nat \<Rightarrow> string \<Rightarrow> unit gw" where
  "handleJsonMessage E sid line =
     (case parseLine (env_json E) line of
        Inl error \<Rightarrow> sendJson E sid (makeError ''bad_json'' error)
      | Inr msg \<Rightarrow>
          bindM (jstr E msg ''type'' '''') (\<lambda>type.
            if type = ''login'' then handleJsonLogin E sid msg
            else if type = ''heartbeat'' then handleJsonHeartbeat E sid msg
            else if type = ''wake_ack'' then handleJsonWakeAck E sid msg
            else if type = ''task_done'' then handleJsonTaskDone E sid msg
            else if type = ''host_sleep'' then handleJsonHostSleep E sid msg
            else if type = ''host_state'' then handleJsonHostState E sid msg
            else sendJson E sid (makeError ''unknown_type'' type)))"

section \<open>The handlers of the low-power protocol\<close>

text \<open>The readings \<^verbatim>\<open>buildAuthResponse\<close> takes: two fills of random bytes and
  the wall clock in seconds.\<close>

definition run_buildAuthResponse :: "env \<Rightarrow> string \<Rightarrow> string \<Rightarrow> string \<Rightarrow> AuthResponseResult gw" where
  "run_buildAuthResponse E devid local_key device_random =
     bindM (rand_bytes E) (\<lambda>iv.
     bindM (rand_bytes E) (\<lambda>rnd.
     bindM (system_now E) (\<lambda>t.
       liftR (buildAuthResponse (env_crypto E) (env_json E) iv rnd (duration_cast 1000000000 t)
         devid local_key device_random (rt_heartbeat_default_sec (env_session_cfg E))))))"

definition lookup_encrypted_id :: "env \<Rightarrow> string \<Rightarrow> string gw" where
  "lookup_encrypted_id E enc =
     bindM get_ctx (\<lambda>c.
       if ctx_redis c then
         bindM (on_redis (getDeviceIdByEncryptedId (env_redis E) (env_redis_cfg E) enc)) (\<lambda>v.
           case v of Some d \<Rightarrow> ret d | None \<Rightarrow> ret '''')
       else ret '''')"

definition handleLowPowerAuthReq :: "env \<Rightarrow> nat \<Rightarrow> Frame \<Rightarrow> unit gw" where
  "handleLowPowerAuthReq E sid frame =
     (case parseAuthPayloadLV (fr_payload frame) of
        None \<Rightarrow> close_session sid
      | Some payload \<Rightarrow>
          bindM (lookup_encrypted_id E (ap_encrypted_devid_base64 payload)) (\<lambda>device_id.
            if device_id = [] then close_session sid
            else bindM (resolveLocalKey E device_id) (\<lambda>local_key.
              case aes128CbcPkcs7Decrypt (env_crypto E) local_key (ap_iv payload)
                  (ap_encrypted_data payload) of
                Inl _ \<Rightarrow> close_session sid
              | Inr plain \<Rightarrow>
                  (case parseAuthRequestJson (env_json E) plain of
                     None \<Rightarrow> close_session sid
                   | Some req \<Rightarrow>
                       if \<not> verifyAuthRequest (env_crypto E) req device_id local_key
                       then close_session sid
                       else
                         thenM (modify_session sid (\<lambda>s. s\<lparr>ss_device_id := device_id\<rparr>))
                         (bindM (get_session sid) (\<lambda>s.
                         bindM (steady_now E) (\<lambda>login_time.
                         bindM (steady_now E) (\<lambda>last_heartbeat.
                         thenM (registerOnlineState E sid
                           (default_DeviceState\<lparr>ds_device_id := device_id,
                             ds_remote_addr := ss_remote_addr s, ds_protocol := ''lowpower'',
                             ds_online := True, ds_dev_state := ''sleep'',
                             ds_login_time := login_time, ds_last_heartbeat := last_heartbeat\<rparr>))
                         (bindM (run_buildAuthResponse E device_id local_key (ar_random req)) (\<lambda>resp.
                           sendRaw sid (encodeFrame (rr_frame resp))))))))))))"

definition handleLowPowerHeartbeat :: "env \<Rightarrow> nat \<Rightarrow> Frame \<Rightarrow> unit gw" where
  "handleLowPowerHeartbeat E sid frame =
     bindM (get_session sid) (\<lambda>session.
       let dev = ss_device_id session in
       if dev = [] then close_session sid
       else if fr_flag frame \<noteq> 0 \<or> fr_size frame \<noteq> 0 then close_session sid
       else thenM (bindM (state_ref dev) (\<lambda>_. write_state dev (\<lambda>s. s\<lparr>ds_online := True\<rparr>)))
         (thenM (bindM (steady_now E) (\<lambda>t. write_state dev (\<lambda>s. s\<lparr>ds_last_heartbeat := t\<rparr>)))
         (thenM (write_state dev (\<lambda>s. s\<lparr>ds_dev_state := ''sleep''\<rparr>))
         (bindM (state_ref dev) (\<lambda>state_copy.
         thenM (updateRedisOnline E state_copy)
           (sendRaw sid makeHeartbeatFrame))))))"

definition handleLowPowerFrame :: "env \<Rightarrow> nat \<Rightarrow> Frame \<Rightarrow> unit gw" where
  "handleLowPowerFrame E sid frame =
     (if fr_type frame = AUTH_REQ then handleLowPowerAuthReq E sid frame
      else if fr_type frame = HEARTBEAT then handleLowPowerHeartbeat E sid frame
      else ret ())"

section \<open>The read loops\<close>

definition start_read :: "nat \<Rightarrow> read_op \<Rightarrow> unit gw" where
  "start_read sid op = modify_session sid (\<lambda>s. s\<lparr>ss_reading := op\<rparr>)"

definition readAutoDetect :: "nat \<Rightarrow> unit gw" where "readAutoDetect sid = start_read sid Peek"

definition readJsonLine :: "nat \<Rightarrow> unit gw" where "readJsonLine sid = start_read sid Json_line"

definition readLowPowerHeader :: "nat \<Rightarrow> unit gw" where
  "readLowPowerHeader sid = start_read sid Lp_header"

definition make_frame_of :: "u8 \<Rightarrow> u8 \<Rightarrow> u8 \<Rightarrow> u16 \<Rightarrow> bytes \<Rightarrow> Frame" where
  "make_frame_of version type flag sz payload =
     \<lparr>fr_version = version, fr_type = MsgType_of_byte type, fr_flag = flag, fr_size = sz,
      fr_payload = payload\<rparr>"

definition readLowPowerPayload :: "env \<Rightarrow> nat \<Rightarrow> u8 \<Rightarrow> u8 \<Rightarrow> u8 \<Rightarrow> u16 \<Rightarrow> unit gw" where
  "readLowPowerPayload E sid version type flag sz =
     (if sz = 0 then
        thenM (handleLowPowerFrame E sid (make_frame_of version type flag 0 []))
          (readLowPowerHeader sid)
      else start_read sid (Lp_payload version type flag sz))"

text \<open>The completion handlers.\<close>

definition on_peek :: "env \<Rightarrow> nat \<Rightarrow> bytes option \<Rightarrow> unit gw" where
  "on_peek E sid result =
     (case result of
        None \<Rightarrow> handleDisconnect E sid
      | Some [] \<Rightarrow> handleDisconnect E sid
      | Some (b # _) \<Rightarrow>
          if b = byte_of_char CHR ''{'' then
            thenM (modify_session sid (\<lambda>s. s\<lparr>ss_protocol := JSON_LINE\<rparr>)) (readJsonLine sid)
          else if b = VERSION_1 then
            thenM (modify_session sid (\<lambda>s. s\<lparr>ss_protocol := LOWPOWER\<rparr>)) (readLowPowerHeader sid)
          else close_session sid)"

text \<open>\<^verbatim>\<open>std::getline\<close> on the read buffer: the line, and what stays.\<close>

definition take_line :: "bytes \<Rightarrow> bytes \<times> bytes" where
  "take_line buf =
     (let line = takeWhile (\<lambda>b. b \<noteq> byte_of_char CHR 0x0A) buf
      in (line, drop (length line + 1) buf))"

definition strip_cr :: "string \<Rightarrow> string" where
  "strip_cr line = (if line \<noteq> [] \<and> last line = CHR 0x0D then butlast line else line)"

definition on_json_line :: "env \<Rightarrow> nat \<Rightarrow> bytes option \<Rightarrow> unit gw" where
  "on_json_line E sid result =
     (case result of
        None \<Rightarrow> handleDisconnect E sid
      | Some chunk \<Rightarrow>
          bindM (get_session sid) (\<lambda>s.
          let (line, rest) = take_line (ss_read_buffer s @ chunk);
              line = strip_cr (string_of_bytes line) in
          thenM (modify_session sid (\<lambda>s. s\<lparr>ss_read_buffer := rest\<rparr>))
          (thenM (whenM (line \<noteq> []) (handleJsonMessage E sid line))
            (readJsonLine sid))))"

definition on_lowpower_header :: "env \<Rightarrow> nat \<Rightarrow> bytes option \<Rightarrow> unit gw" where
  "on_lowpower_header E sid result =
     (case result of
        None \<Rightarrow> handleDisconnect E sid
      | Some header \<Rightarrow>
          if header ! 0 \<noteq> VERSION_1 then close_session sid
          else readLowPowerPayload E sid (header ! 0) (header ! 1) (header ! 2)
            (readU16BE (drop 3 header)))"

definition on_lowpower_payload ::
    "env \<Rightarrow> nat \<Rightarrow> u8 \<Rightarrow> u8 \<Rightarrow> u8 \<Rightarrow> u16 \<Rightarrow> bytes option \<Rightarrow> unit gw" where
  "on_lowpower_payload E sid version type flag sz result =
     (case result of
        None \<Rightarrow> handleDisconnect E sid
      | Some payload \<Rightarrow>
          thenM (handleLowPowerFrame E sid (make_frame_of version type flag sz payload))
            (readLowPowerHeader sid))"

text \<open>What the read operations of the library deliver: the peek at most a header, the line
  read up to a delimiter, and the other two exactly what was asked for.\<close>

fun read_contract :: "read_op \<Rightarrow> bytes \<Rightarrow> bytes \<Rightarrow> bool" where
  "read_contract No_read buf chunk \<longleftrightarrow> False"
| "read_contract Peek buf chunk \<longleftrightarrow> length chunk \<le> HEADER_SIZE"
| "read_contract Json_line buf chunk \<longleftrightarrow> byte_of_char CHR 0x0A \<in> set (buf @ chunk)"
| "read_contract Lp_header buf chunk \<longleftrightarrow> length chunk = HEADER_SIZE"
| "read_contract (Lp_payload _ _ _ sz) buf chunk \<longleftrightarrow> length chunk = unat sz"

fun on_read :: "env \<Rightarrow> nat \<Rightarrow> read_op \<Rightarrow> bytes option \<Rightarrow> unit gw" where
  "on_read E sid No_read result = ret ()"
| "on_read E sid Peek result = on_peek E sid result"
| "on_read E sid Json_line result = on_json_line E sid result"
| "on_read E sid Lp_header result = on_lowpower_header E sid result"
| "on_read E sid (Lp_payload version type flag sz) result =
     on_lowpower_payload E sid version type flag sz result"

definition read_completed :: "env \<Rightarrow> nat \<Rightarrow> bytes option \<Rightarrow> unit gw" where
  "read_completed E sid result =
     bindM (get_session sid) (\<lambda>s.
     thenM (start_read sid No_read) (on_read E sid (ss_reading s) result))"

section \<open>The writer of the session\<close>

definition session_run_posted :: "nat \<Rightarrow> unit gw" where
  "session_run_posted sid =
     modify_session sid (\<lambda>s. s\<lparr>ss_writer := run_posted (ss_writer s)\<rparr>)"

definition session_write_completed :: "env \<Rightarrow> nat \<Rightarrow> bool \<Rightarrow> unit gw" where
  "session_write_completed E sid ok =
     thenM (modify_session sid (\<lambda>s. s\<lparr>ss_writer := write_completed ok (ss_writer s)\<rparr>))
       (whenM (\<not> ok) (handleDisconnect E sid))"

section \<open>Lemmas\<close>

lemma session_runs:
  "um_find (w_heap w) sid = Some s \<Longrightarrow> get_session sid w = (Inr s, w)"
  "um_find (w_heap w) sid = Some s \<Longrightarrow>
     modify_session sid f w = (Inr (), w\<lparr>w_heap := um_put (w_heap w) sid (f s)\<rparr>)"
  "um_find (w_heap w) sid = None \<Longrightarrow> get_session sid w = (Inl Dead_Object, w)"
  "um_find (w_heap w) sid = None \<Longrightarrow> modify_session sid f w = (Inl Dead_Object, w)"
  by (simp_all add: get_session_def modify_session_def)

lemma session_seq_runs:
  "um_find (w_heap w) sid = Some s \<Longrightarrow> bindM (get_session sid) k w = k s w"
  "um_find (w_heap w) sid = Some s \<Longrightarrow>
     thenM (modify_session sid f) n w = n (w\<lparr>w_heap := um_put (w_heap w) sid (f s)\<rparr>)"
  by (simp_all add: session_runs comp_step)

lemma keeps_updateRedisOnline [keeps_rules]:
  "(\<And>w l. g (w\<lparr>w_redis_log := l\<rparr>) = g w) \<Longrightarrow> (\<And>w p. g (w\<lparr>w_published := p\<rparr>) = g w) \<Longrightarrow>
   keeps g (updateRedisOnline E state)"
  unfolding updateRedisOnline_def by (intro keeps_rules) auto

lemma keeps_lookups [keeps_rules]:
  "(\<And>w l. g (w\<lparr>w_redis_log := l\<rparr>) = g w) \<Longrightarrow> keeps g (resolveLocalKey E d)"
  "(\<And>w l. g (w\<lparr>w_redis_log := l\<rparr>) = g w) \<Longrightarrow> keeps g (lookup_encrypted_id E enc)"
  unfolding resolveLocalKey_def lookup_encrypted_id_def by (intro keeps_rules; simp)+

lemma keeps_run_buildAuthResponse [keeps_rules]:
  "(\<And>w n. g (w\<lparr>w_random_reads := n\<rparr>) = g w) \<Longrightarrow> (\<And>w n. g (w\<lparr>w_system_reads := n\<rparr>) = g w) \<Longrightarrow>
   keeps g (run_buildAuthResponse E d k r)"
  unfolding run_buildAuthResponse_def by (intro keeps_rules; simp)

lemma keeps_reads [keeps_rules]:
  "(\<And>w h. g (w\<lparr>w_heap := h\<rparr>) = g w) \<Longrightarrow> keeps g (start_read sid op)"
  "(\<And>w h. g (w\<lparr>w_heap := h\<rparr>) = g w) \<Longrightarrow> keeps g (readAutoDetect sid)"
  "(\<And>w h. g (w\<lparr>w_heap := h\<rparr>) = g w) \<Longrightarrow> keeps g (readJsonLine sid)"
  "(\<And>w h. g (w\<lparr>w_heap := h\<rparr>) = g w) \<Longrightarrow> keeps g (readLowPowerHeader sid)"
  unfolding start_read_def readAutoDetect_def readJsonLine_def readLowPowerHeader_def
  by (intro keeps_rules; simp)+

text \<open>Frames arrive on the wire in two reads.\<close>

definition deliver_frame :: "env \<Rightarrow> nat \<Rightarrow> bytes \<Rightarrow> unit gw" where
  "deliver_frame E sid bs =
     (if length bs = HEADER_SIZE then read_completed E sid (Some bs)
      else thenM (read_completed E sid (Some (take HEADER_SIZE bs)))
        (read_completed E sid (Some (drop HEADER_SIZE bs))))"

section \<open>Disconnection\<close>

lemma keeps_deregister:
  "(\<And>w c. g (w\<lparr>w_ctx := c\<rparr>) = g w) \<Longrightarrow> (\<And>w l. g (w\<lparr>w_redis_log := l\<rparr>) = g w) \<Longrightarrow>
   (\<And>w p. g (w\<lparr>w_published := p\<rparr>) = g w) \<Longrightarrow> keeps g (deregisterDevice E d)"
  unfolding deregisterDevice_def by (intro keeps_rules; simp)

lemma keeps_closing:
  "keeps (\<lambda>w. map_option ss_closing (um_find (w_heap w) sid)) (close_session sid')"
  by (auto simp: keeps_def close_session_def modify_session_def split: option.splits)

lemma handleDisconnect_first:
  assumes "um_find (w_heap w) sid = Some s" and "\<not> ss_closing s"
  shows "handleDisconnect E sid w =
     thenM (whenM (ss_device_id s \<noteq> []) (deregisterDevice E (ss_device_id s))) (close_session sid)
       (w\<lparr>w_heap := um_put (w_heap w) sid (s\<lparr>ss_closing := True\<rparr>)\<rparr>)"
  using assms by (simp add: handleDisconnect_def comp_step session_runs)

lemma handleDisconnect_again:
  assumes "um_find (w_heap w) sid = Some s" and "ss_closing s"
  shows "handleDisconnect E sid w = (Inr (), w)"
proof -
  have "s\<lparr>ss_closing := True\<rparr> = s" using assms(2) by simp
  then show ?thesis
    using assms by (simp add: handleDisconnect_def comp_step session_runs um_put_same ret_def)
qed

lemma handleDisconnect_marks:
  assumes "um_find (w_heap w) sid = Some s"
  shows "\<exists>s'. um_find (w_heap (snd (handleDisconnect E sid w))) sid = Some s' \<and> ss_closing s'"
proof (cases "ss_closing s")
  case True
  with assms show ?thesis by (simp add: handleDisconnect_again)
next
  case False
  let ?g = "\<lambda>w. map_option ss_closing (um_find (w_heap w) sid)"
  have "keeps ?g (thenM (whenM b (deregisterDevice E d)) (close_session sid))" for b d
    by (intro keeps_thenM keeps_whenM keeps_deregister keeps_closing) simp_all
  from keeps_snd [OF this, of "ss_device_id s \<noteq> []" "ss_device_id s"
      "w\<lparr>w_heap := um_put (w_heap w) sid (s\<lparr>ss_closing := True\<rparr>)\<rparr>"]
  show ?thesis
    by (auto simp: handleDisconnect_first [OF assms False] map_option_eq_Some)
qed

text \<open>What a deregistration, and so the first disconnection of a session, does to the shared
  state.\<close>

lemma deregister_ctx:
  "w_ctx (snd (deregisterDevice E d w)) =
     (w_ctx w)\<lparr>ctx_sessions := um_erase (ctx_sessions (w_ctx w)) d,
       ctx_states := (if um_find (ctx_states (w_ctx w)) d \<noteq> None
         then um_modify default_DeviceState (ctx_states (w_ctx w)) d (\<lambda>d. d\<lparr>ds_online := False\<rparr>)
         else ctx_states (w_ctx w))\<rparr>"
proof -
  have tail: "keeps w_ctx (thenM (whenM b (bindM (on_redis f) (\<lambda>_. ret ())))
      (whenM c (publishDeviceOffline E d)))" for b c f
    by (intro keeps_rules; simp)
  show ?thesis
    by (cases "um_find (ctx_states (w_ctx w)) d")
      (simp_all add: deregisterDevice_def seq_runs gw_runs keeps_snd [OF tail])
qed

lemma handleDisconnect_ctx:
  assumes "um_find (w_heap w) sid = Some s" and "\<not> ss_closing s" and "ss_device_id s \<noteq> []"
  shows "ctx_sessions (w_ctx (snd (handleDisconnect E sid w))) =
      um_erase (ctx_sessions (w_ctx w)) (ss_device_id s)"
    and "um_find (ctx_states (w_ctx (snd (handleDisconnect E sid w)))) (ss_device_id s) =
      map_option (\<lambda>d. d\<lparr>ds_online := False\<rparr>) (um_find (ctx_states (w_ctx w)) (ss_device_id s))"
proof -
  have "keeps w_ctx (close_session sid)" by (intro keeps_rules) simp
  then show "ctx_sessions (w_ctx (snd (handleDisconnect E sid w))) =
      um_erase (ctx_sessions (w_ctx w)) (ss_device_id s)"
    "um_find (ctx_states (w_ctx (snd (handleDisconnect E sid w)))) (ss_device_id s) =
      map_option (\<lambda>d. d\<lparr>ds_online := False\<rparr>) (um_find (ctx_states (w_ctx w)) (ss_device_id s))"
    using assms(3)
    by (auto simp: handleDisconnect_first [OF assms(1,2)] keeps_tail(1) whenM_def deregister_ctx)
qed

section \<open>The copy of a state in Redis and on the broker\<close>

text \<open>The library prints a state for Redis and for the broker.\<close>

definition state_prints :: "env \<Rightarrow> DeviceState \<Rightarrow> bool" where
  "state_prints E s \<longleftrightarrow> (\<exists>t. json_dump (env_json E) (online_doc s) = Inr t)
     \<and> (\<exists>t. json_dump (env_json E) (state_doc s) = Inr t)"

lemma updateRedisOnline_returns:
  assumes "state_prints E s"
  shows "\<exists>w'. updateRedisOnline E s w = (Inr (), w')
    \<and> w_heap w' = w_heap w \<and> w_ctx w' = w_ctx w
    \<and> w_random_reads w' = w_random_reads w \<and> w_system_reads w' = w_system_reads w"
proof -
  obtain t1 t2 where "json_dump (env_json E) (online_doc s) = Inr t1"
    "json_dump (env_json E) (state_doc s) = Inr t2"
    using assms by (auto simp: state_prints_def)
  then show ?thesis
    by (simp add: updateRedisOnline_def get_ctx_def comp_defs on_redis_throwing_def setOnline_def
        setex_def redisCommand_def Let_def publishDeviceState_def publishJson_def)
qed

section \<open>Authentication\<close>

text \<open>The decision of the authentication handler: the device, its key and its request.\<close>

definition auth_decision ::
    "env \<Rightarrow> GatewayContext \<Rightarrow> redis_cmd list \<Rightarrow> Frame \<Rightarrow> (string \<times> string \<times> AuthRequest) option" where
  "auth_decision E c log frame =
     Option.bind (parseAuthPayloadLV (fr_payload frame)) (\<lambda>p.
     if \<not> ctx_redis c then None
     else
       (let (found, log1) = getDeviceIdByEncryptedId (env_redis E) (env_redis_cfg E)
              (ap_encrypted_devid_base64 p) log
        in Option.bind found (\<lambda>d.
          if d = [] then None
          else
            (let key = (case fst (getLocalKey (env_redis E) (env_redis_cfg E) d log1) of
                   Some k \<Rightarrow> k | None \<Rightarrow> rt_dev_default_secret (env_session_cfg E))
             in case aes128CbcPkcs7Decrypt (env_crypto E) key (ap_iv p) (ap_encrypted_data p) of
                  Inl _ \<Rightarrow> None
                | Inr plain \<Rightarrow> Option.bind (parseAuthRequestJson (env_json E) plain) (\<lambda>req.
                    if verifyAuthRequest (env_crypto E) req d key then Some (d, key, req)
                    else None)))))"

definition authed_state :: "string \<Rightarrow> string \<Rightarrow> int \<Rightarrow> int \<Rightarrow> DeviceState" where
  "authed_state d remote t1 t2 = default_DeviceState\<lparr>ds_device_id := d, ds_remote_addr := remote,
     ds_protocol := ''lowpower'', ds_online := True, ds_dev_state := ''sleep'',
     ds_login_time := t1, ds_last_heartbeat := t2\<rparr>"

text \<open>What the handler does once it has accepted a request.\<close>

definition accept_device :: "env \<Rightarrow> nat \<Rightarrow> string \<Rightarrow> string \<Rightarrow> AuthRequest \<Rightarrow> unit gw" where
  "accept_device E sid d key req =
     thenM (modify_session sid (\<lambda>s. s\<lparr>ss_device_id := d\<rparr>))
     (bindM (get_session sid) (\<lambda>s.
     bindM (steady_now E) (\<lambda>t1.
     bindM (steady_now E) (\<lambda>t2.
     thenM (registerOnlineState E sid (authed_state d (ss_remote_addr s) t1 t2))
     (bindM (run_buildAuthResponse E d key (ar_random req)) (\<lambda>resp.
       sendRaw sid (encodeFrame (rr_frame resp))))))))"

lemma auth_refines:
  "\<exists>log. handleLowPowerAuthReq E sid frame w =
     (case auth_decision E (w_ctx w) (w_redis_log w) frame of
        None \<Rightarrow> close_session sid (w\<lparr>w_redis_log := log\<rparr>)
      | Some (d, key, req) \<Rightarrow> accept_device E sid d key req (w\<lparr>w_redis_log := log\<rparr>))"
proof (cases "parseAuthPayloadLV (fr_payload frame)")
  case None
  then show ?thesis
    by (intro exI [of _ "w_redis_log w"]) (simp add: handleLowPowerAuthReq_def auth_decision_def)
next
  case payload: (Some p)
  let ?enc = "ap_encrypted_devid_base64 p"
  show ?thesis
  proof (cases "ctx_redis (w_ctx w)")
    case False
    then show ?thesis
      by (intro exI [of _ "w_redis_log w"])
        (simp add: handleLowPowerAuthReq_def auth_decision_def payload lookup_encrypted_id_def
          seq_runs gw_runs)
  next
    case redis: True
    obtain found log1 where
      id: "getDeviceIdByEncryptedId (env_redis E) (env_redis_cfg E) ?enc (w_redis_log w) = (found, log1)"
      by fastforce
    show ?thesis
    proof (cases "found = None \<or> found = Some []")
      case True
      then show ?thesis
        using redis by (intro exI [of _ log1])
          (auto simp: handleLowPowerAuthReq_def auth_decision_def payload lookup_encrypted_id_def
            seq_runs gw_runs id)
    next
      case False
      then obtain d where d: "found = Some d" "d \<noteq> []" by auto
      obtain k log2 where key: "getLocalKey (env_redis E) (env_redis_cfg E) d log1 = (k, log2)"
        by fastforce
      show ?thesis
        using redis d
        by (intro exI [of _ log2])
          (cases k; auto simp: handleLowPowerAuthReq_def auth_decision_def payload
            lookup_encrypted_id_def resolveLocalKey_def seq_runs gw_runs id key accept_device_def
            authed_state_def split: sum.split option.split)
    qed
  qed
qed

lemma accept_device_ctx:
  assumes "um_find (w_heap w) sid = Some s"
  shows "w_ctx (snd (accept_device E sid d key req w)) =
     (w_ctx w)\<lparr>ctx_sessions := um_put (ctx_sessions (w_ctx w)) d sid,
       ctx_states := um_put (ctx_states (w_ctx w)) d (authed_state d (ss_remote_addr s)
         (env_steady E (w_steady_reads w)) (env_steady E (Suc (w_steady_reads w))))\<rparr>"
proof -
  have tail: "keeps w_ctx (thenM (updateRedisOnline E st) (bindM (run_buildAuthResponse E d key r)
      (\<lambda>resp. sendRaw sid (encodeFrame (rr_frame resp)))))" for st r
    by (intro keeps_rules; simp)
  show ?thesis
    using assms
    by (simp add: accept_device_def registerOnlineState_def comp_step session_runs seq_runs gw_runs
        keeps_snd [OF tail] authed_state_def)
qed

text \<open>The answer to an accepted request: the random bytes and the time are the next
  readings.\<close>

definition auth_response ::
    "env \<Rightarrow> World \<Rightarrow> string \<Rightarrow> string \<Rightarrow> AuthRequest \<Rightarrow> exn + AuthResponseResult" where
  "auth_response E w d key req =
     buildAuthResponse (env_crypto E) (env_json E) (env_random E (w_random_reads w))
       (env_random E (Suc (w_random_reads w)))
       (duration_cast 1000000000 (env_system E (w_system_reads w))) d key (ar_random req)
       (rt_heartbeat_default_sec (env_session_cfg E))"

lemma run_buildAuthResponse_run:
  assumes "auth_response E w d key req = Inr resp"
  shows "run_buildAuthResponse E d key (ar_random req) w =
     (Inr resp, w\<lparr>w_random_reads := Suc (Suc (w_random_reads w)),
        w_system_reads := Suc (w_system_reads w)\<rparr>)"
  using assms by (simp add: run_buildAuthResponse_def comp_defs rand_bytes_def system_now_def
      auth_response_def)

lemma accept_device_answers:
  fixes E :: env and w :: World and s :: Session and d :: string
  defines "st \<equiv> authed_state d (ss_remote_addr s) (env_steady E (w_steady_reads w))
         (env_steady E (Suc (w_steady_reads w)))"
  assumes "um_find (w_heap w) sid = Some s" and "state_prints E st"
    and "auth_response E w d key req = Inr resp"
  shows "fst (accept_device E sid d key req w) = Inr ()
    \<and> w_heap (snd (accept_device E sid d key req w)) = um_put (w_heap w) sid
        (s\<lparr>ss_device_id := d, ss_writer := enqueueWrite (encodeFrame (rr_frame resp)) (ss_writer s)\<rparr>)"
proof -
  define w1 where "w1 = w\<lparr>w_heap := um_put (w_heap w) sid (s\<lparr>ss_device_id := d\<rparr>),
    w_steady_reads := Suc (Suc (w_steady_reads w)), w_ctx := (w_ctx w)\<lparr>
      ctx_sessions := um_put (ctx_sessions (w_ctx w)) d sid,
      ctx_states := um_put (ctx_states (w_ctx w)) d st\<rparr>\<rparr>"
  obtain w2 where w2: "updateRedisOnline E st w1 = (Inr (), w2)" "w_heap w2 = w_heap w1"
    "w_random_reads w2 = w_random_reads w" "w_system_reads w2 = w_system_reads w"
    using updateRedisOnline_returns [OF assms(3), of w1] by (auto simp: w1_def)
  have "auth_response E w2 d key req = Inr resp"
    using assms(4) w2 by (simp add: auth_response_def)
  from run_buildAuthResponse_run [OF this] w2(1) assms(2)
  have "accept_device E sid d key req w = sendRaw sid (encodeFrame (rr_frame resp))
      (w2\<lparr>w_random_reads := Suc (Suc (w_random_reads w2)), w_system_reads := Suc (w_system_reads w2)\<rparr>)"
    by (simp add: accept_device_def registerOnlineState_def comp_step session_runs seq_runs gw_runs
        steady_now_def bindM_def w1_def st_def authed_state_def)
  then show ?thesis by (simp add: sendRaw_def modify_session_def w2(2) w1_def)
qed

lemma auth_sessions:
  assumes "um_find (w_heap w) sid = Some s"
  shows "ctx_sessions (w_ctx (snd (handleLowPowerAuthReq E sid frame w))) =
     (case auth_decision E (w_ctx w) (w_redis_log w) frame of
        None \<Rightarrow> ctx_sessions (w_ctx w)
      | Some (d, _) \<Rightarrow> um_put (ctx_sessions (w_ctx w)) d sid)"
proof -
  obtain log where run: "handleLowPowerAuthReq E sid frame w =
     (case auth_decision E (w_ctx w) (w_redis_log w) frame of
        None \<Rightarrow> close_session sid (w\<lparr>w_redis_log := log\<rparr>)
      | Some (d, key, req) \<Rightarrow> accept_device E sid d key req (w\<lparr>w_redis_log := log\<rparr>))"
    using auth_refines by blast
  have close: "w_ctx (snd (close_session sid w')) = w_ctx w'" for w'
    by (rule keeps_snd) (intro keeps_rules, simp)
  have accept: "ctx_sessions (w_ctx (snd (accept_device E sid d key req (w\<lparr>w_redis_log := log\<rparr>)))) =
      um_put (ctx_sessions (w_ctx w)) d sid" for d key req
    using assms by (subst accept_device_ctx) simp_all
  show ?thesis unfolding run by (auto simp: close accept split: option.split)
qed

section \<open>Login and heartbeat\<close>

text \<open>A message whose members, where present, have the types the gateway asks for.\<close>

definition string_members :: "string set" where
  "string_members = {''device_id'', ''imei'', ''fw'', ''model'', ''dev''}"

definition int_members :: "string set" where
  "int_members = {''battery'', ''rssi'', ''rsrp'', ''seq''}"

definition well_typed :: "env \<Rightarrow> json \<Rightarrow> bool" where
  "well_typed E msg \<longleftrightarrow>
     (\<forall>k\<in>string_members. \<forall>d. \<exists>v. value_string (env_json E) msg k d = Inr v)
     \<and> (\<forall>k\<in>int_members. \<forall>d. \<exists>v. value_int (env_json E) msg k d = Inr v)
     \<and> (\<forall>d. \<exists>v. value_bool (env_json E) msg ''charging'' d = Inr v)"

text \<open>The value a read of a well-typed member gives.\<close>

definition str_of :: "env \<Rightarrow> json \<Rightarrow> string \<Rightarrow> string \<Rightarrow> string" where
  "str_of E msg k d = (case value_string (env_json E) msg k d of Inr v \<Rightarrow> v | Inl _ \<Rightarrow> d)"

definition int_of :: "env \<Rightarrow> json \<Rightarrow> string \<Rightarrow> int \<Rightarrow> int" where
  "int_of E msg k d = (case value_int (env_json E) msg k d of Inr v \<Rightarrow> v | Inl _ \<Rightarrow> d)"

definition bool_of :: "env \<Rightarrow> json \<Rightarrow> string \<Rightarrow> bool \<Rightarrow> bool" where
  "bool_of E msg k d = (case value_bool (env_json E) msg k d of Inr v \<Rightarrow> v | Inl _ \<Rightarrow> d)"

lemma well_typedD:
  assumes "well_typed E msg"
  shows "k \<in> string_members \<Longrightarrow> value_string (env_json E) msg k d = Inr (str_of E msg k d)"
    and "k \<in> int_members \<Longrightarrow> value_int (env_json E) msg k i = Inr (int_of E msg k i)"
    and "value_bool (env_json E) msg ''charging'' b = Inr (bool_of E msg ''charging'' b)"
proof -
  show "value_string (env_json E) msg k d = Inr (str_of E msg k d)" if key: "k \<in> string_members"
  proof -
    obtain v where "value_string (env_json E) msg k d = Inr v"
      using assms key unfolding well_typed_def by blast
    then show ?thesis by (simp add: str_of_def)
  qed
  show "value_int (env_json E) msg k i = Inr (int_of E msg k i)" if key: "k \<in> int_members"
  proof -
    obtain v where "value_int (env_json E) msg k i = Inr v"
      using assms key unfolding well_typed_def by blast
    then show ?thesis by (simp add: int_of_def)
  qed
  obtain v where "value_bool (env_json E) msg ''charging'' b = Inr v"
    using assms unfolding well_typed_def by blast
  then show "value_bool (env_json E) msg ''charging'' b = Inr (bool_of E msg ''charging'' b)"
    by (simp add: bool_of_def)
qed

lemma members:
  "''device_id'' \<in> string_members" "''imei'' \<in> string_members" "''fw'' \<in> string_members"
  "''model'' \<in> string_members" "''dev'' \<in> string_members" "''battery'' \<in> int_members"
  "''rssi'' \<in> int_members" "''rsrp'' \<in> int_members" "''seq'' \<in> int_members"
  by (simp_all add: string_members_def int_members_def)

definition login_state :: "env \<Rightarrow> json \<Rightarrow> string \<Rightarrow> int \<Rightarrow> int \<Rightarrow> DeviceState" where
  "login_state E msg remote t1 t2 = default_DeviceState\<lparr>ds_device_id := str_of E msg ''device_id'' '''',
     ds_imei := str_of E msg ''imei'' '''', ds_fw := str_of E msg ''fw'' '''',
     ds_model := str_of E msg ''model'' '''', ds_remote_addr := remote,
     ds_protocol := ''json_line'', ds_online := True,
     ds_dev_state := str_of E msg ''dev'' ''unknown'', ds_login_time := t1,
     ds_last_heartbeat := t2\<rparr>"

lemma handleJsonLogin_ctx:
  assumes "um_find (w_heap w) sid = Some s" and "well_typed E msg"
    and "str_of E msg ''device_id'' '''' \<noteq> ''''"
  shows "w_ctx (snd (handleJsonLogin E sid msg w)) =
     (w_ctx w)\<lparr>ctx_sessions := um_put (ctx_sessions (w_ctx w)) (str_of E msg ''device_id'' '''') sid,
       ctx_states := um_put (ctx_states (w_ctx w)) (str_of E msg ''device_id'' '''')
         (login_state E msg (ss_remote_addr s) (env_steady E (w_steady_reads w))
           (env_steady E (Suc (w_steady_reads w))))\<rparr>"
proof -
  have tail: "keeps w_ctx (thenM (updateRedisOnline E st) (bindM (liftR r)
      (\<lambda>seq. sendJson E sid (f seq))))" for st f and r :: "exn + int"
    by (intro keeps_rules; simp)
  show ?thesis
    using assms
    by (simp add: handleJsonLogin_def registerOnlineState_def Let_def well_typedD members
        session_seq_runs seq_runs gw_runs keeps_snd [OF tail] login_state_def)
qed

text \<open>The state after a heartbeat.\<close>

definition heartbeat_state :: "env \<Rightarrow> json \<Rightarrow> int \<Rightarrow> DeviceState \<Rightarrow> DeviceState" where
  "heartbeat_state E msg t s = s\<lparr>ds_online := True, ds_last_heartbeat := t,
     ds_battery := int_of E msg ''battery'' (ds_battery s),
     ds_rssi := int_of E msg ''rssi'' (ds_rssi s), ds_rsrp := int_of E msg ''rsrp'' (ds_rsrp s),
     ds_charging := bool_of E msg ''charging'' (ds_charging s),
     ds_dev_state := str_of E msg ''dev'' (ds_dev_state s)\<rparr>"

lemma handleJsonHeartbeat_run:
  assumes "um_find (w_heap w) sid = Some session" and "well_typed E msg"
    and "ss_device_id session \<noteq> ''''"
    and "um_find (ctx_states (w_ctx w)) (ss_device_id session) = Some s"
  defines "s' \<equiv> heartbeat_state E msg (env_steady E (w_steady_reads w)) s"
  shows "handleJsonHeartbeat E sid msg w =
     thenM (updateRedisOnline E s') (sendJson E sid (makeHeartbeatAck (int_of E msg ''seq'' 0) 0
         (next_heartbeat (env_session_cfg E) (ds_battery s'))))
       (w\<lparr>w_steady_reads := Suc (w_steady_reads w), w_ctx := (w_ctx w)\<lparr>ctx_states :=
            um_put (ctx_states (w_ctx w)) (ss_device_id session) s'\<rparr>\<rparr>)"
proof -
  have reads: "value_int (env_json E) msg ''battery'' i = Inr (int_of E msg ''battery'' i)"
    "value_int (env_json E) msg ''rssi'' i = Inr (int_of E msg ''rssi'' i)"
    "value_int (env_json E) msg ''rsrp'' i = Inr (int_of E msg ''rsrp'' i)"
    "value_int (env_json E) msg ''seq'' i = Inr (int_of E msg ''seq'' i)"
    "value_bool (env_json E) msg ''charging'' b = Inr (bool_of E msg ''charging'' b)"
    "value_string (env_json E) msg ''dev'' d = Inr (str_of E msg ''dev'' d)" for i b d
    using well_typedD [OF assms(2)] members by blast+
  have seq: "thenM m (bindM (liftR (Inr x)) f) = thenM m (f x)" for m :: "unit gw" and x :: int and f
    by (simp add: fun_eq_iff comp_defs)
  show ?thesis
    using assms(1,3,4)
    by (simp add: handleJsonHeartbeat_def Let_def update_field_def reads session_seq_runs seq_runs
        gw_runs seq um_modify_def s'_def heartbeat_state_def)
qed

section \<open>Properties\<close>

text \<open>
  C13: the incremental reader is the frame parser: on the bytes of any frame that the parser
  accepts and whose version is the supported one, the read of a header and the read of a
  payload together run the frame handler exactly once, on the frame the parser gives, and
  then wait for the next header.
\<close>

theorem lp_reader_is_parser:
  assumes s: "um_find (w_heap w) sid = Some s" "ss_reading s = Lp_header"
    and f: "parseFrame bs = Some f" and v: "fr_version f = VERSION_1"
  shows "deliver_frame E sid bs w =
     thenM (handleLowPowerFrame E sid f) (readLowPowerHeader sid)
       (w\<lparr>w_heap := um_put (w_heap w) sid (s\<lparr>ss_reading := No_read\<rparr>)\<rparr>)"
proof -
  define n where "n = readU16BE (drop 3 bs)"
  have len: "length bs = 5 + unat n"
    and fr: "f = make_frame_of (bs ! 0) (bs ! 1) (bs ! 2) n (if 0 < n then drop 5 bs else [])"
    using f unfolding parseFrame_def Let_def HEADER_SIZE_def n_def [symmetric] make_frame_of_def
    by (simp_all split: if_splits)
  have v': "bs ! 0 = VERSION_1" using v fr by (simp add: make_frame_of_def)
  have "2 \<le> length (drop 3 bs)" using len by simp
  then have two: "readU16BE (take 2 (drop 3 bs)) = readU16BE (drop 3 bs)"
    by (simp add: readU16BE_take)
  let ?w = "w\<lparr>w_heap := um_put (w_heap w) sid (s\<lparr>ss_reading := No_read\<rparr>)\<rparr>"
  have header: "read_completed E sid (Some h) w = readLowPowerPayload E sid (bs ! 0) (bs ! 1) (bs ! 2) n ?w"
    if "h = bs \<or> h = take 5 bs" for h
  proof -
    have "h ! 0 = bs ! 0" "h ! 1 = bs ! 1" "h ! 2 = bs ! 2"
      using that by auto
    moreover have "readU16BE (drop 3 h) = n"
      using that two by (auto simp: drop_take n_def)
    ultimately show ?thesis
      using s v' by (simp add: read_completed_def start_read_def comp_step session_runs
          on_lowpower_header_def)
  qed
  show ?thesis
  proof (cases "n = 0")
    case True
    then show ?thesis
      using len header [of bs] fr
      by (simp add: deliver_frame_def HEADER_SIZE_def readLowPowerPayload_def)
  next
    case False
    then have pos: "0 < n" "length bs \<noteq> 5" using len by (auto simp: word_gt_0 unat_eq_0)
    have "read_completed E sid (Some (take 5 bs)) w =
        (Inr (), ?w\<lparr>w_heap := um_put (w_heap w) sid (s\<lparr>ss_reading :=
          Lp_payload (bs ! 0) (bs ! 1) (bs ! 2) n\<rparr>)\<rparr>)"
      using False header [of "take 5 bs"]
      by (simp add: readLowPowerPayload_def start_read_def session_runs)
    then show ?thesis
      using pos fr
      by (simp add: deliver_frame_def HEADER_SIZE_def comp_step read_completed_def session_runs
          start_read_def on_lowpower_payload_def)
  qed
qed

text \<open>A session of each protocol, as the first bytes left it.\<close>

definition lp_session :: Session where
  "lp_session = (new_Session ''10.0.0.9'')\<lparr>ss_protocol := LOWPOWER, ss_reading := Lp_header\<rparr>"

definition json_session :: Session where
  "json_session = (new_Session ''10.0.0.9'')\<lparr>ss_protocol := JSON_LINE, ss_reading := Json_line\<rparr>"

definition with_session :: "Session \<Rightarrow> World" where
  "with_session s = (initial_World True [])\<lparr>w_next_session := 1, w_heap := [(0, s)]\<rparr>"

lemma with_session_simps [simp]:
  "um_find (w_heap (with_session s)) 0 = Some s" "w_ctx (with_session s) = w_ctx (initial_World True [])"
  "w_redis_log (with_session s) = []" "w_steady_reads (with_session s) = 0"
  by (simp_all add: with_session_def initial_World_def um_find_def)

theorem lp_reader_is_parser_witness:
  "deliver_frame (sample_env (brief_json ''{}'') db_server) 0 (encodeFrame (makeFrame WAKEUP 0 [1, 2])) (with_session lp_session) =
     readLowPowerHeader 0 (with_session (lp_session\<lparr>ss_reading := No_read\<rparr>))"
proof -
  have "parseFrame (encodeFrame (makeFrame WAKEUP 0 [1, 2])) = Some (makeFrame WAKEUP 0 [1, 2])"
    by (simp add: parseFrame_encodeFrame frame_ok_makeFrame)
  from lp_reader_is_parser [OF _ _ this, of "with_session lp_session" 0 lp_session
      "sample_env (brief_json ''{}'') db_server"]
  show ?thesis
    by (simp add: lp_session_def makeFrame_def handleLowPowerFrame_def seq_runs with_session_def
        um_put_def um_find_def)
qed

text \<open>
  C22: the end of an old connection takes the device off line even when it has a newer one:
  the registration of another, live session is erased and the device is marked as offline.
\<close>

theorem stale_disconnect_unregisters:
  assumes "um_find (w_heap w) old = Some s" and "\<not> ss_closing s" and "ss_device_id s \<noteq> ''''"
    and "um_find (ctx_sessions (w_ctx w)) (ss_device_id s) = Some new" and "new \<noteq> old"
    and "um_find (w_heap w) new = Some s'" and "um_find (ctx_states (w_ctx w)) (ss_device_id s) = Some st"
  shows "um_find (ctx_sessions (w_ctx (snd (handleDisconnect E old w)))) (ss_device_id s) = None
    \<and> um_find (ctx_states (w_ctx (snd (handleDisconnect E old w)))) (ss_device_id s)
        = Some (st\<lparr>ds_online := False\<rparr>)
    \<and> um_find (w_heap (snd (handleDisconnect E old w))) new = Some s'"
proof -
  let ?g = "\<lambda>w. um_find (w_heap w) new"
  have "keeps ?g (close_session old)"
    using assms(5) by (auto simp: keeps_def close_session_def modify_session_def split: option.splits)
  then have k: "keeps ?g (thenM (whenM b (deregisterDevice E d)) (close_session old))" for b d
    by (intro keeps_thenM keeps_whenM keeps_deregister) simp_all
  have "?g (snd (handleDisconnect E old w)) = Some s'"
    unfolding handleDisconnect_first [OF assms(1,2)]
    using assms(5,6) by (subst keeps_snd [OF k]) simp
  then show ?thesis
    using handleDisconnect_ctx [OF assms(1-3), of E] assms(7) by simp
qed

definition two_sessions :: World where
  "two_sessions = (initial_World True [])\<lparr>
     w_heap := [(0, json_session\<lparr>ss_device_id := ''D1''\<rparr>), (1, json_session\<lparr>ss_device_id := ''D1''\<rparr>)],
     w_next_session := 2, w_ctx := (w_ctx (initial_World True []))\<lparr>ctx_sessions := [(''D1'', 1)],
       ctx_states := [(''D1'', default_DeviceState\<lparr>ds_online := True\<rparr>)]\<rparr>\<rparr>"

theorem stale_disconnect_unregisters_witness:
  "um_find (ctx_sessions (w_ctx (snd (handleDisconnect
      (sample_env (brief_json ''{}'') db_server) 0 two_sessions)))) ''D1'' = None"
  using stale_disconnect_unregisters [of two_sessions 0 "json_session\<lparr>ss_device_id := ''D1''\<rparr>" 1
      "json_session\<lparr>ss_device_id := ''D1''\<rparr>" "default_DeviceState\<lparr>ds_online := True\<rparr>"
      "sample_env (brief_json ''{}'') db_server"]
  by (simp add: two_sessions_def initial_World_def um_find_def json_session_def new_Session_def)

text \<open>A device \<^verbatim>\<open>D1\<close> with key \<^verbatim>\<open>K\<close>, and the frame it
  authenticates with.\<close>

definition auth_doc :: json where
  "auth_doc = JObject [(''authorization'', JString (''time='' @ ''5'' @ '',random='' @ ''R'')),
     (''signature'', JString (hmacSha256Base64 plain_crypto ''K'' ''D1:5:R''))]"

definition auth_request :: AuthRequest where
  "auth_request = \<lparr>ar_type = 1, ar_method = 1,
     ar_authorization = ''time='' @ ''5'' @ '',random='' @ ''R'',
     ar_signature = hmacSha256Base64 plain_crypto ''K'' ''D1:5:R'', ar_time = ''5'',
     ar_random = ''R''\<rparr>"

definition auth_redis :: redis_server where
  "auth_redis log =
     (if last log = [''GET'', ''lp:lowpower:device_id_index:E1''] then Some (Reply_String ''D1'')
      else Some (Reply_String ''K''))"

definition auth_env :: env where
  "auth_env = sample_env ((table_json [(auth_doc, ''x'')])\<lparr>json_dump := (\<lambda>_. Inr ''x'')\<rparr>) auth_redis"

definition auth_frame :: Frame where
  "auth_frame = makeFrame AUTH_REQ 1 (buildAuthPayloadLV (replicate 16 0) ''E1'' (bytes_of_string ''x''))"

lemma auth_example:
  "ctx_redis (w_ctx (initial_World mqtt log))"
  "getDeviceIdByEncryptedId (env_redis auth_env) (env_redis_cfg auth_env) ''E1'' [] =
     (Some ''D1'', [[''GET'', ''lp:lowpower:device_id_index:E1'']])"
  "fst (getLocalKey (env_redis auth_env) (env_redis_cfg auth_env) ''D1'' log) = Some ''K''"
  "aes_law (env_crypto auth_env)"
  "aes128CbcPkcs7Encrypt (env_crypto auth_env) ''K'' (replicate 16 0) (bytes_of_string ''x'')
     = Inr (bytes_of_string ''x'')"
  "parseAuthRequestJson (env_json auth_env) (bytes_of_string ''x'') = Some auth_request"
  "ar_signature auth_request = hmacSha256Base64 (env_crypto auth_env) ''K''
     (''D1'' @ '':'' @ ar_time auth_request @ '':'' @ ar_random auth_request)"
  "fr_payload auth_frame = buildAuthPayloadLV (replicate 16 0) ''E1'' (bytes_of_string ''x'')"
proof -
  show "ctx_redis (w_ctx (initial_World mqtt log))" by (simp add: initial_World_def)
  show "getDeviceIdByEncryptedId (env_redis auth_env) (env_redis_cfg auth_env) ''E1'' [] =
     (Some ''D1'', [[''GET'', ''lp:lowpower:device_id_index:E1'']])"
    by (simp add: auth_env_def getDeviceIdByEncryptedId_def getRaw_def redisCommand_def
        auth_redis_def redis_key_def id_index_key_def default_RedisConfig_def c_str_def)
  show "fst (getLocalKey (env_redis auth_env) (env_redis_cfg auth_env) ''D1'' log) = Some ''K''"
    by (simp add: auth_env_def getLocalKey_def getRaw_def redisCommand_def
        auth_redis_def redis_key_def local_key_key_def default_RedisConfig_def c_str_def)
  show "aes_law (env_crypto auth_env)" by (simp add: auth_env_def plain_crypto_laws)
  show "aes128CbcPkcs7Encrypt (env_crypto auth_env) ''K'' (replicate 16 0) (bytes_of_string ''x'')
     = Inr (bytes_of_string ''x'')"
    by (simp add: auth_env_def aes128CbcPkcs7Encrypt_def)
  have hmac: "hmacSha256Base64 plain_crypto ''K'' ''D1:5:R'' \<noteq> ''''"
    by (simp add: hmacSha256Base64_def base64Encode_def hex_letters_def bytes_of_string_def)
  show "parseAuthRequestJson (env_json auth_env) (bytes_of_string ''x'') = Some auth_request"
    using hmac getAuthField_pair [of "''5''" "''R''"]
    by (simp add: auth_env_def parseAuthRequestJson_def table_parse_def auth_doc_def
        auth_request_def Let_def)
  show "ar_signature auth_request = hmacSha256Base64 (env_crypto auth_env) ''K''
     (''D1'' @ '':'' @ ar_time auth_request @ '':'' @ ar_random auth_request)"
    by (simp add: auth_request_def auth_env_def)
  show "fr_payload auth_frame = buildAuthPayloadLV (replicate 16 0) ''E1'' (bytes_of_string ''x'')"
    by (simp add: auth_frame_def makeFrame_def)
qed

lemma auth_example_decision:
  "auth_decision auth_env (w_ctx (with_session lp_session)) [] auth_frame
     = Some (''D1'', ''K'', auth_request)"
  using auth_example(7) aes_decrypt_encrypt [OF auth_example(4,5)]
  by (simp add: auth_decision_def auth_example(1-6,8) parse_build verifyAuthRequest_def)

text \<open>
  C8: nobody is registered without the key: when a low-power authentication changes the
  registration of a device, the frame held an LV payload whose decryption under that device's
  key (its local key in Redis, or the configured default) is a request signed with the HMAC
  of that device's identifier under the same key.
\<close>

theorem auth_sound:
  assumes "um_find (w_heap w) sid = Some s"
    and "um_find (ctx_sessions (w_ctx (snd (handleLowPowerAuthReq E sid frame w)))) d
      \<noteq> um_find (ctx_sessions (w_ctx w)) d"
  shows "\<exists>p key plain req log. d \<noteq> '''' \<and> parseAuthPayloadLV (fr_payload frame) = Some p
    \<and> aes128CbcPkcs7Decrypt (env_crypto E) key (ap_iv p) (ap_encrypted_data p) = Inr plain
    \<and> parseAuthRequestJson (env_json E) plain = Some req
    \<and> ar_signature req = hmacSha256Base64 (env_crypto E) key
        (d @ '':'' @ ar_time req @ '':'' @ ar_random req)
    \<and> (fst (getLocalKey (env_redis E) (env_redis_cfg E) d log) = Some key
       \<or> fst (getLocalKey (env_redis E) (env_redis_cfg E) d log) = None
         \<and> key = rt_dev_default_secret (env_session_cfg E))"
proof -
  from assms(2) obtain key req where
    "auth_decision E (w_ctx w) (w_redis_log w) frame = Some (d, key, req)"
    by (auto simp: auth_sessions [OF assms(1)] split: option.splits prod.splits if_splits)
  then show ?thesis
    by (clarsimp simp: auth_decision_def verifyAuthRequest_def Let_def bind_eq_Some_conv
        split: if_splits sum.splits prod.splits option.splits; metis)
qed

theorem auth_sound_witness:
  "\<exists>p plain. parseAuthPayloadLV (fr_payload auth_frame) = Some p
    \<and> aes128CbcPkcs7Decrypt plain_crypto ''K'' (ap_iv p) (ap_encrypted_data p) = Inr plain"
proof -
  have "um_find (ctx_sessions (w_ctx (snd (handleLowPowerAuthReq auth_env 0 auth_frame
      (with_session lp_session))))) ''D1'' \<noteq> um_find (ctx_sessions (w_ctx (with_session lp_session))) ''D1''"
    using auth_sessions [of "with_session lp_session" 0 lp_session auth_env auth_frame]
      auth_example_decision by (simp add: initial_World_def)
  from auth_sound [OF _ this] auth_example(3) show ?thesis
    by (auto simp: auth_env_def)
qed

text \<open>
  C9: a device that knows its key gets in and is answered: when Redis maps the encrypted
  identifier to the device and holds its local key, a frame with a request encrypted and
  signed under that key registers the session for the device, on line, with the protocol of
  the frame; and when the state can be printed and the response can be built, the handler
  returns with the encoded response frame queued on the writer of exactly this session.
\<close>

theorem auth_complete:
  assumes "um_find (w_heap w) sid = Some s" and "ctx_redis (w_ctx w)"
    and "getDeviceIdByEncryptedId (env_redis E) (env_redis_cfg E) enc (w_redis_log w) = (Some d, log)"
    and "d \<noteq> ''''" and "fst (getLocalKey (env_redis E) (env_redis_cfg E) d log) = Some key"
    and "aes_law (env_crypto E)"
    and "aes128CbcPkcs7Encrypt (env_crypto E) key iv plain = Inr cipher"
    and "parseAuthRequestJson (env_json E) plain = Some req"
    and "ar_signature req = hmacSha256Base64 (env_crypto E) key
        (d @ '':'' @ ar_time req @ '':'' @ ar_random req)"
    and "length iv < 65536" and "length enc < 65536" and "length cipher < 65536"
    and "fr_payload frame = buildAuthPayloadLV iv enc cipher"
  shows "um_find (ctx_sessions (w_ctx (snd (handleLowPowerAuthReq E sid frame w)))) d = Some sid
    \<and> (\<exists>st. um_find (ctx_states (w_ctx (snd (handleLowPowerAuthReq E sid frame w)))) d = Some st
        \<and> ds_online st \<and> ds_device_id st = d \<and> ds_protocol st = ''lowpower''
        \<and> ds_last_heartbeat st = env_steady E (Suc (w_steady_reads w))
        \<and> (\<forall>resp. state_prints E st \<longrightarrow> auth_response E w d key req = Inr resp \<longrightarrow>
            fst (handleLowPowerAuthReq E sid frame w) = Inr ()
            \<and> w_heap (snd (handleLowPowerAuthReq E sid frame w)) = um_put (w_heap w) sid
                (s\<lparr>ss_device_id := d,
                   ss_writer := enqueueWrite (encodeFrame (rr_frame resp)) (ss_writer s)\<rparr>)))"
proof -
  have "auth_decision E (w_ctx w) (w_redis_log w) frame = Some (d, key, req)"
    using assms aes_decrypt_encrypt [OF assms(6,7)]
    by (simp add: auth_decision_def parse_build verifyAuthRequest_def)
  then obtain log where run: "handleLowPowerAuthReq E sid frame w =
      accept_device E sid d key req (w\<lparr>w_redis_log := log\<rparr>)"
    using auth_refines [of E sid frame w] by auto
  let ?w = "w\<lparr>w_redis_log := log\<rparr>"
  have s: "um_find (w_heap ?w) sid = Some s" using assms(1) by simp
  have "auth_response E ?w d key req = auth_response E w d key req"
    by (simp add: auth_response_def)
  with accept_device_answers [OF s, of E d key req] show ?thesis
    unfolding run accept_device_ctx [OF s] by (simp add: authed_state_def)
qed

theorem auth_complete_witness:
  "\<exists>resp. auth_response auth_env (with_session lp_session) ''D1'' ''K'' auth_request = Inr resp
    \<and> um_find (ctx_sessions (w_ctx (snd (handleLowPowerAuthReq auth_env 0 auth_frame
        (with_session lp_session))))) ''D1'' = Some 0
    \<and> w_heap (snd (handleLowPowerAuthReq auth_env 0 auth_frame (with_session lp_session)))
      = um_put (w_heap (with_session lp_session)) 0 (lp_session\<lparr>ss_device_id := ''D1'',
          ss_writer := enqueueWrite (encodeFrame (rr_frame resp)) (ss_writer lp_session)\<rparr>)"
proof -
  have prints: "state_prints auth_env st" for st by (simp add: state_prints_def auth_env_def)
  obtain resp where resp:
    "auth_response auth_env (with_session lp_session) ''D1'' ''K'' auth_request = Inr resp"
    by (simp add: auth_response_def buildAuthResponse_def Let_def auth_env_def sample_env_def
        aes128CbcPkcs7Encrypt_def)
  then show ?thesis
    using auth_complete [OF with_session_simps(1) _ _ _ auth_example(3-7) _ _ _ auth_example(8),
        of lp_session "[[''GET'', ''lp:lowpower:device_id_index:E1'']]"]
      auth_example(1,2) prints by (auto simp: bytes_of_string_def)
qed

lemma auth_decision_replay:
  assumes "auth_decision E c log frame = Some (d, key, req)" and "ctx_redis c'"
    and "\<And>e. fst (getDeviceIdByEncryptedId (env_redis E) (env_redis_cfg E) e log')
       = fst (getDeviceIdByEncryptedId (env_redis E) (env_redis_cfg E) e log)"
    and "\<And>e. fst (getLocalKey (env_redis E) (env_redis_cfg E) d
           (snd (getDeviceIdByEncryptedId (env_redis E) (env_redis_cfg E) e log')))
       = fst (getLocalKey (env_redis E) (env_redis_cfg E) d
           (snd (getDeviceIdByEncryptedId (env_redis E) (env_redis_cfg E) e log)))"
  shows "auth_decision E c' log' frame = Some (d, key, req)"
proof -
  obtain p where p: "parseAuthPayloadLV (fr_payload frame) = Some p"
    using assms(1) by (auto simp: auth_decision_def bind_eq_Some_conv)
  let ?id = "getDeviceIdByEncryptedId (env_redis E) (env_redis_cfg E) (ap_encrypted_devid_base64 p)"
  have "fst (?id log) = Some d"
    using assms(1) p
    by (auto simp: auth_decision_def bind_eq_Some_conv Let_def split: prod.splits sum.splits if_splits)
  with assms(1-4) p show ?thesis
    by (simp add: auth_decision_def case_prod_beta Let_def split: if_splits)
qed

text \<open>
  C27: a recorded authentication is good for ever: a frame that registered a device once, in
  whatever world, registers it again on any other session of any later world, whatever the
  clocks and the random bytes have become, as long as Redis still has the same index entry
  and the same key for the device.  The request carries a time and a random value, and
  neither is compared with anything.
\<close>

theorem auth_replay_accepted:
  assumes "um_find (w_heap w) sid = Some s"
    and "um_find (ctx_sessions (w_ctx (snd (handleLowPowerAuthReq E sid frame w)))) d
      \<noteq> um_find (ctx_sessions (w_ctx w)) d"
    and "E' = E\<lparr>env_system := clock1, env_steady := clock2, env_random := rnd\<rparr>"
    and "um_find (w_heap w') sid' = Some s'" and "ctx_redis (w_ctx w')"
    and "\<And>e. fst (getDeviceIdByEncryptedId (env_redis E) (env_redis_cfg E) e (w_redis_log w'))
       = fst (getDeviceIdByEncryptedId (env_redis E) (env_redis_cfg E) e (w_redis_log w))"
    and "\<And>e. fst (getLocalKey (env_redis E) (env_redis_cfg E) d
           (snd (getDeviceIdByEncryptedId (env_redis E) (env_redis_cfg E) e (w_redis_log w'))))
       = fst (getLocalKey (env_redis E) (env_redis_cfg E) d
           (snd (getDeviceIdByEncryptedId (env_redis E) (env_redis_cfg E) e (w_redis_log w))))"
  shows "um_find (ctx_sessions (w_ctx (snd (handleLowPowerAuthReq E' sid' frame w')))) d = Some sid'"
proof -
  obtain key req where "auth_decision E (w_ctx w) (w_redis_log w) frame = Some (d, key, req)"
    using assms(2) by (auto simp: auth_sessions [OF assms(1)] split: option.splits prod.splits if_splits)
  then have "auth_decision E (w_ctx w') (w_redis_log w') frame = Some (d, key, req)"
    using assms(5-7) by (rule auth_decision_replay)
  moreover have env: "env_redis E' = env_redis E" "env_redis_cfg E' = env_redis_cfg E"
    "env_session_cfg E' = env_session_cfg E" "env_crypto E' = env_crypto E" "env_json E' = env_json E"
    by (simp_all add: assms(3))
  ultimately have "auth_decision E' (w_ctx w') (w_redis_log w') frame = Some (d, key, req)"
    unfolding auth_decision_def env by simp
  then show ?thesis by (simp add: auth_sessions [OF assms(4)])
qed

theorem auth_replay_accepted_witness:
  "um_find (ctx_sessions (w_ctx (snd (handleLowPowerAuthReq
     (auth_env\<lparr>env_system := (\<lambda>_. 10 ^ 18), env_steady := (\<lambda>_. 0), env_random := (\<lambda>_. [])\<rparr>) 7 auth_frame
     ((with_session lp_session)\<lparr>w_heap := [(7, lp_session)], w_redis_log := [[''PING'']]\<rparr>))))) ''D1''
   = Some 7"
proof (rule auth_replay_accepted [where E = auth_env and s = lp_session and s' = lp_session, OF _ _ refl])
  show "um_find (w_heap (with_session lp_session)) 0 = Some lp_session" by simp
  show "um_find (ctx_sessions (w_ctx (snd (handleLowPowerAuthReq auth_env 0 auth_frame
      (with_session lp_session))))) ''D1'' \<noteq> um_find (ctx_sessions (w_ctx (with_session lp_session))) ''D1''"
    using auth_sessions [of "with_session lp_session" 0 lp_session auth_env auth_frame]
      auth_example_decision by (simp add: initial_World_def)
qed (simp_all add: um_find_def initial_World_def auth_env_def getDeviceIdByEncryptedId_def getLocalKey_def
    getRaw_def redisCommand_def auth_redis_def Let_def)

lemma handleJsonLogin_answers:
  fixes E :: env and w :: World and s :: Session and msg :: json
  defines "st \<equiv> login_state E msg (ss_remote_addr s) (env_steady E (w_steady_reads w))
         (env_steady E (Suc (w_steady_reads w)))"
  assumes "um_find (w_heap w) sid = Some s" and "well_typed E msg"
    and "str_of E msg ''device_id'' '''' \<noteq> ''''" and "state_prints E st"
    and "json_dump (env_json E) (makeLoginAck (int_of E msg ''seq'' 0) 0
        (rt_heartbeat_default_sec (env_session_cfg E)) (rt_idle_timeout_sec (env_session_cfg E)) '''')
      = Inr line"
  shows "fst (handleJsonLogin E sid msg w) = Inr ()
    \<and> w_heap (snd (handleJsonLogin E sid msg w)) = um_put (w_heap w) sid
        (s\<lparr>ss_device_id := str_of E msg ''device_id'' '''',
           ss_writer := enqueueWrite (bytes_of_string (line @ [CHR 0x0A])) (ss_writer s)\<rparr>)"
proof -
  let ?d = "str_of E msg ''device_id'' ''''"
  define w1 where "w1 = w\<lparr>w_heap := um_put (w_heap w) sid (s\<lparr>ss_device_id := ?d\<rparr>),
    w_steady_reads := Suc (Suc (w_steady_reads w)), w_ctx := (w_ctx w)\<lparr>
      ctx_sessions := um_put (ctx_sessions (w_ctx w)) ?d sid,
      ctx_states := um_put (ctx_states (w_ctx w)) ?d st\<rparr>\<rparr>"
  obtain w2 where w2: "updateRedisOnline E st w1 = (Inr (), w2)" "w_heap w2 = w_heap w1"
    using updateRedisOnline_returns [OF assms(5), of w1] by auto
  have "handleJsonLogin E sid msg w = sendJson E sid (makeLoginAck (int_of E msg ''seq'' 0) 0
      (rt_heartbeat_default_sec (env_session_cfg E)) (rt_idle_timeout_sec (env_session_cfg E)) '''') w2"
    using w2(1) assms(2-4)
    by (simp add: handleJsonLogin_def registerOnlineState_def Let_def well_typedD members
        session_seq_runs seq_runs gw_runs comp_step w1_def st_def login_state_def)
  with assms(6) show ?thesis
    by (simp add: sendJson_def encodeLine_def seq_runs sendRaw_def modify_session_def w2(2) w1_def)
qed

text \<open>
  C15: a JSON login registers whatever device the message names: no key, password or
  signature is asked for, whatever the configuration of the authentication says.  When the
  state and the acknowledgement can be printed, the handler returns with the acknowledgement
  of success, which carries the sequence number of the message and the configured intervals,
  queued on the writer of this session.
\<close>

theorem json_login_registers:
  assumes "um_find (w_heap w) sid = Some s" and "well_typed E msg"
    and "str_of E msg ''device_id'' '''' \<noteq> ''''"
    and "st = login_state E msg (ss_remote_addr s) (env_steady E (w_steady_reads w))
           (env_steady E (Suc (w_steady_reads w)))"
  shows "w_ctx (snd (handleJsonLogin E sid msg w)) =
     (w_ctx w)\<lparr>ctx_sessions := um_put (ctx_sessions (w_ctx w)) (str_of E msg ''device_id'' '''') sid,
       ctx_states := um_put (ctx_states (w_ctx w)) (str_of E msg ''device_id'' '''') st\<rparr>
    \<and> (\<forall>line. state_prints E st \<longrightarrow>
        json_dump (env_json E) (makeLoginAck (int_of E msg ''seq'' 0) 0
          (rt_heartbeat_default_sec (env_session_cfg E)) (rt_idle_timeout_sec (env_session_cfg E)) '''')
          = Inr line \<longrightarrow>
        fst (handleJsonLogin E sid msg w) = Inr ()
        \<and> w_heap (snd (handleJsonLogin E sid msg w)) = um_put (w_heap w) sid
            (s\<lparr>ss_device_id := str_of E msg ''device_id'' '''',
               ss_writer := enqueueWrite (bytes_of_string (line @ [CHR 0x0A])) (ss_writer s)\<rparr>))"
  using handleJsonLogin_ctx [OF assms(1-3)] handleJsonLogin_answers [OF assms(1-3)] assms(4) by simp

definition login_doc :: json where
  "login_doc = JObject [(''type'', JString ''login''), (''device_id'', JString ''D1''),
     (''battery'', JInt 15), (''seq'', JInt 7)]"

lemma login_doc_well_typed: "well_typed (sample_env (brief_json t) R) login_doc"
  by (simp add: well_typed_def login_doc_def string_members_def int_members_def)

theorem json_login_registers_witness:
  "um_find (ctx_sessions (w_ctx (snd (handleJsonLogin (sample_env (brief_json ''{}'') db_server) 0
     login_doc (with_session json_session))))) ''D1'' = Some 0
   \<and> fst (handleJsonLogin (sample_env (brief_json ''{}'') db_server) 0
     login_doc (with_session json_session)) = Inr ()
   \<and> w_heap (snd (handleJsonLogin (sample_env (brief_json ''{}'') db_server) 0
     login_doc (with_session json_session))) = um_put (w_heap (with_session json_session)) 0
       (json_session\<lparr>ss_device_id := ''D1'', ss_writer := enqueueWrite
          (bytes_of_string (''{}'' @ [CHR 0x0A])) (ss_writer json_session)\<rparr>)"
  using json_login_registers [OF with_session_simps(1) login_doc_well_typed _ refl,
      of "''{}''" db_server json_session]
  by (simp add: str_of_def login_doc_def state_prints_def del: bytes_of_string_append)

lemma handleJsonHeartbeat_updates:
  assumes "um_find (w_heap w) sid = Some session" and "well_typed E msg"
    and "ss_device_id session \<noteq> ''''"
    and "um_find (ctx_states (w_ctx w)) (ss_device_id session) = Some s"
    and "s' = heartbeat_state E msg (env_steady E (w_steady_reads w)) s"
    and "state_prints E s'"
    and "next_sec = (if 0 \<le> ds_battery s' \<and> ds_battery s' < 10 then 600
           else if 0 \<le> ds_battery s' \<and> ds_battery s' < 20 then 300
           else rt_heartbeat_default_sec (env_session_cfg E))"
    and "json_dump (env_json E) (makeHeartbeatAck (int_of E msg ''seq'' 0) 0 next_sec) = Inr line"
  shows "\<exists>w'. handleJsonHeartbeat E sid msg w = (Inr (), w')
    \<and> w_ctx w' = (w_ctx w)\<lparr>ctx_states := um_put (ctx_states (w_ctx w)) (ss_device_id session) s'\<rparr>
    \<and> w_heap w' = um_put (w_heap w) sid (session\<lparr>ss_writer := enqueueWrite
        (bytes_of_string (line @ [CHR 0x0A])) (ss_writer session)\<rparr>)"
proof -
  let ?w = "w\<lparr>w_steady_reads := Suc (w_steady_reads w), w_ctx := (w_ctx w)\<lparr>ctx_states :=
            um_put (ctx_states (w_ctx w)) (ss_device_id session) s'\<rparr>\<rparr>"
  have next_sec: "next_heartbeat (env_session_cfg E) (ds_battery s') = next_sec"
    by (simp add: next_heartbeat_def Let_def assms(7))
  obtain w1 where w1: "updateRedisOnline E s' ?w = (Inr (), w1)" "w_heap w1 = w_heap w"
    "w_ctx w1 = w_ctx ?w"
    using updateRedisOnline_returns [OF assms(6), of ?w] by auto
  have "handleJsonHeartbeat E sid msg w =
      sendJson E sid (makeHeartbeatAck (int_of E msg ''seq'' 0) 0 next_sec) w1"
    using handleJsonHeartbeat_run [OF assms(1-4)] w1(1) next_sec
    by (simp add: assms(5) [symmetric] comp_step)
  then show ?thesis
    using assms(1,8) w1(2,3)
    by (simp add: sendJson_def encodeLine_def seq_runs sendRaw_def session_runs)
qed

text \<open>
  C16: a heartbeat of a device that is known updates exactly its own state: on line, the time
  read at that moment, and the members the message has, the others kept; and the answer,
  queued on the session's writer, carries the sequence number and the next interval, which
  grows when the battery is low.
\<close>

theorem json_heartbeat_updates:
  assumes "um_find (w_heap w) sid = Some session" and "well_typed E msg"
    and "ss_device_id session \<noteq> ''''"
    and "um_find (ctx_states (w_ctx w)) (ss_device_id session) = Some s"
    and "s' = heartbeat_state E msg (env_steady E (w_steady_reads w)) s"
    and "state_prints E s'"
    and "next_sec = (if 0 \<le> ds_battery s' \<and> ds_battery s' < 10 then 600
           else if 0 \<le> ds_battery s' \<and> ds_battery s' < 20 then 300
           else rt_heartbeat_default_sec (env_session_cfg E))"
    and "json_dump (env_json E) (makeHeartbeatAck (int_of E msg ''seq'' 0) 0 next_sec) = Inr line"
  shows "\<exists>w'. handleJsonHeartbeat E sid msg w = (Inr (), w')
    \<and> w_ctx w' = (w_ctx w)\<lparr>ctx_states := um_put (ctx_states (w_ctx w)) (ss_device_id session) s'\<rparr>
    \<and> w_heap w' = um_put (w_heap w) sid (session\<lparr>ss_writer := enqueueWrite
        (bytes_of_string (line @ [CHR 0x0A])) (ss_writer session)\<rparr>)"
  by (rule handleJsonHeartbeat_updates [OF assms])

definition known_device :: World where
  "known_device = (with_session (json_session\<lparr>ss_device_id := ''D1''\<rparr>))\<lparr>
     w_ctx := (w_ctx (initial_World True []))\<lparr>ctx_states := [(''D1'', default_DeviceState)]\<rparr>\<rparr>"

lemma known_device_simps:
  "um_find (w_heap known_device) 0 = Some (json_session\<lparr>ss_device_id := ''D1''\<rparr>)"
  "um_find (ctx_states (w_ctx known_device)) ''D1'' = Some default_DeviceState"
  "w_steady_reads known_device = 0"
  by (simp_all add: known_device_def um_find_def [of "[_]"])

theorem json_heartbeat_updates_witness:
  "\<exists>s'. um_find (ctx_states (w_ctx (snd (handleJsonHeartbeat
      (sample_env (brief_json ''{}'') db_server) 0 login_doc known_device)))) ''D1'' = Some s'
     \<and> ds_online s' \<and> ds_battery s' = 15"
proof -
  let ?E = "sample_env (brief_json ''{}'') db_server"
  let ?s = "heartbeat_state ?E login_doc 0 default_DeviceState"
  have "ds_online ?s" "ds_battery ?s = 15" "state_prints ?E ?s"
    by (simp_all add: heartbeat_state_def int_of_def login_doc_def state_prints_def)
  with json_heartbeat_updates [OF known_device_simps(1) login_doc_well_typed [of "''{}''" db_server],
      of default_DeviceState ?s 300 "''{}''"]
  show ?thesis by (auto simp: known_device_simps)
qed

text \<open>
  Any peer can end the process with one line: a line that is JSON but not an object makes
  the first look at its members throw, outside every handler of exceptions.
\<close>

theorem json_message_not_object_throws:
  assumes "value_string_law (env_json E)" and "json_parse (env_json E) line = Inr j"
    and "\<And>fs. j \<noteq> JObject fs"
  shows "\<exists>e. handleJsonMessage E sid line w = (Inl (Json_Error e), w)"
proof -
  obtain e where "value_string (env_json E) j ''type'' '''' = Inl (Json_Error e)"
    using value_string_not_object [OF assms(1,3)] by blast
  with assms(2) show ?thesis
    by (simp add: handleJsonMessage_def parseLine_def seq_runs)
qed

theorem json_message_not_object_throws_witness:
  "\<exists>e. handleJsonMessage (sample_env (table_json [(JArray [], ''[]'')]) db_server) 0 ''[]''
     (with_session json_session) = (Inl (Json_Error e), with_session json_session)"
  by (rule json_message_not_object_throws [where j = "JArray []"])
    (simp_all add: table_value_string_law table_parse_def)

text \<open>
  A session that never logged in writes the state of a device without a name: the first
  \<^verbatim>\<open>host_sleep\<close> on it creates that state.
\<close>

theorem host_sleep_creates_nameless_device:
  assumes "um_find (w_heap w) sid = Some s" and "ss_device_id s = ''''"
  shows "um_find (ctx_states (w_ctx (snd (handleJsonHostSleep E sid msg w)))) '''' =
     Some ((case um_find (ctx_states (w_ctx w)) '''' of None \<Rightarrow> default_DeviceState | Some d \<Rightarrow> d)
       \<lparr>ds_dev_state := ''sleep''\<rparr>)"
proof -
  have tail: "keeps w_ctx (bindM (liftR r) (\<lambda>seq. sendJson E sid (f seq)))" for r :: "exn + int" and f
    by (intro keeps_rules) simp
  show ?thesis
    using assms
    by (simp add: handleJsonHostSleep_def session_seq_runs gw_runs keeps_snd [OF tail])
qed

theorem host_sleep_creates_nameless_device_witness:
  "um_find (ctx_states (w_ctx (snd (handleJsonHostSleep
      (sample_env (brief_json ''{}'') db_server) 0 JNull (with_session json_session))))) ''''
     = Some (default_DeviceState\<lparr>ds_dev_state := ''sleep''\<rparr>)"
  using host_sleep_creates_nameless_device [OF with_session_simps(1), of json_session
      "sample_env (brief_json ''{}'') db_server" JNull]
  by (simp add: json_session_def new_Session_def initial_World_def)

text \<open>
  A frame of another version on an authenticated session closes the socket without the
  bookkeeping of a disconnection: no read is outstanding any more, so nothing will report the
  end of the connection, and the device stays registered and on line.
\<close>

theorem bad_version_stays_registered:
  assumes "um_find (w_heap w) sid = Some s" and "ss_reading s = Lp_header"
    and "header ! 0 \<noteq> VERSION_1"
  shows "read_completed E sid (Some header) w =
     (Inr (), w\<lparr>w_heap := um_put (w_heap w) sid (s\<lparr>ss_reading := No_read, ss_open := False\<rparr>)\<rparr>)"
  using assms
  by (simp add: read_completed_def session_seq_runs start_read_def on_lowpower_header_def
      close_session_def session_runs)

theorem bad_version_stays_registered_witness:
  "w_ctx (snd (read_completed (sample_env (brief_json ''{}'') db_server) 0 (Some [2, 3, 0, 0, 0]) (with_session lp_session)))
     = w_ctx (with_session lp_session)"
  using bad_version_stays_registered [OF with_session_simps(1), of lp_session "[2, 3, 0, 0, 0]"
      "sample_env (brief_json ''{}'') db_server"]
  by (simp add: lp_session_def VERSION_1_def)

section \<open>Lines in a buffer\<close>

abbreviation LF :: u8 where "LF \<equiv> byte_of_char CHR 0x0A"

lemma takeWhile_line: "LF \<notin> set l \<Longrightarrow> takeWhile (\<lambda>b. b \<noteq> LF) (l @ LF # t) = l"
  by (subst takeWhile_append2) auto

lemma take_line_first: "LF \<notin> set l \<Longrightarrow> take_line (l @ LF # t) = (l, t)"
  by (simp add: take_line_def takeWhile_line Let_def)

lemma take_line_split:
  assumes "LF \<in> set buf"
  shows "fst (take_line buf) @ LF # snd (take_line buf) = buf" and "LF \<notin> set (fst (take_line buf))"
proof -
  from assms obtain xs ys where "buf = xs @ LF # ys" "LF \<notin> set xs"
    by (meson split_list_first)
  then show "fst (take_line buf) @ LF # snd (take_line buf) = buf" "LF \<notin> set (fst (take_line buf))"
    by (simp_all add: take_line_first)
qed

end
