(* ===== verification/TcpGatewayServer.thy ===== *)
theory TcpGatewayServer
  imports DeviceSession
begin

text \<open>
  The listener (\<^verbatim>\<open>src/TcpGatewayServer.cpp\<close>): new sessions, and the timer that marks
  silent devices as offline.
\<close>

section \<open>Accepting\<close>

text \<open>\<^verbatim>\<open>DeviceSession::start\<close>; \<open>remote\<close> is the outcome of
  \<^verbatim>\<open>remote_endpoint().address().to_string()\<close>, which throws when the peer has
  already gone.  The object is dropped when it does.\<close>

definition session_start :: "exn + string \<Rightarrow> unit gw" where
  "session_start remote =
     bindM (liftR remote) (\<lambda>addr.
     bindM (getsM w_next_session) (\<lambda>sid.
     thenM (modifyM (\<lambda>w. w\<lparr>w_heap := um_put (w_heap w) sid (new_Session addr),
         w_next_session := Suc sid\<rparr>))
       (readAutoDetect sid)))"

text \<open>The completion handler of \<^verbatim>\<open>async_accept\<close>: \<open>None\<close> for an error.\<close>

definition tcp_accept :: "(exn + string) option \<Rightarrow> unit gw" where
  "tcp_accept result = (case result of None \<Rightarrow> ret () | Some remote \<Rightarrow> session_start remote)"

section \<open>The offline checker\<close>

definition silent :: "env \<Rightarrow> int \<Rightarrow> DeviceState \<Rightarrow> bool" where
  "silent E now s \<longleftrightarrow> ds_online s
     \<and> sc_idle_timeout_sec (env_server_cfg E) < duration_cast 1000000000 (now - ds_last_heartbeat s)"

definition offline_devices :: "env \<Rightarrow> int \<Rightarrow> (string, DeviceState) umap \<Rightarrow> string list" where
  "offline_devices E now states = map fst (filter (\<lambda>(_, s). silent E now s) states)"

definition mark_offline :: "string \<Rightarrow> unit gw" where
  "mark_offline d =
     thenM (write_state d (\<lambda>s. s\<lparr>ds_online := False\<rparr>))
       (modify_ctx (\<lambda>c. c\<lparr>ctx_sessions := um_erase (ctx_sessions c) d\<rparr>))"

definition checkOffline :: "env \<Rightarrow> unit gw" where
  "checkOffline E =
     bindM (steady_now E) (\<lambda>now.
     bindM get_ctx (\<lambda>c.
     let offline = offline_devices E now (ctx_states c) in
     thenM (forM offline mark_offline)
       (forM offline (\<lambda>d. whenM (ctx_redis c)
          (bindM (on_redis (setOffline (env_redis E) (env_redis_cfg E) d)) (\<lambda>_. ret ()))))))"

section \<open>Lemmas\<close>

lemma mark_offline_run:
  "mark_offline d w = (Inr (), w\<lparr>w_ctx := (w_ctx w)\<lparr>
     ctx_states := um_modify default_DeviceState (ctx_states (w_ctx w)) d (\<lambda>s. s\<lparr>ds_online := False\<rparr>),
     ctx_sessions := um_erase (ctx_sessions (w_ctx w)) d\<rparr>\<rparr>)"
  by (simp add: mark_offline_def write_state_def modify_ctx_def comp_defs)

lemma forM_mark_offline:
  assumes "\<forall>d\<in>set ds. um_find (ctx_states (w_ctx w)) d \<noteq> None"
  shows "\<exists>w'. forM ds mark_offline w = (Inr (), w')
    \<and> (\<forall>d. um_find (ctx_states (w_ctx w')) d = map_option (\<lambda>s.
         if d \<in> set ds then s\<lparr>ds_online := False\<rparr> else s) (um_find (ctx_states (w_ctx w)) d))
    \<and> (\<forall>d. um_find (ctx_sessions (w_ctx w')) d =
         (if d \<in> set ds then None else um_find (ctx_sessions (w_ctx w)) d))
    \<and> w_heap w' = w_heap w \<and> w_published w' = w_published w \<and> w_pending w' = w_pending w"
  using assms
proof (induction ds arbitrary: w)
  case Nil
  then show ?case by (simp add: ret_def option.map_ident)
next
  case (Cons d ds)
  let ?w = "snd (mark_offline d w)"
  have "\<forall>d\<in>set ds. um_find (ctx_states (w_ctx ?w)) d \<noteq> None"
    using Cons.prems by (auto simp: mark_offline_run)
  from Cons.IH [OF this] obtain w' where w': "forM ds mark_offline ?w = (Inr (), w')"
    "\<And>d'. um_find (ctx_states (w_ctx w')) d' = map_option (\<lambda>s.
         if d' \<in> set ds then s\<lparr>ds_online := False\<rparr> else s) (um_find (ctx_states (w_ctx ?w)) d')"
    "\<And>d'. um_find (ctx_sessions (w_ctx w')) d' =
         (if d' \<in> set ds then None else um_find (ctx_sessions (w_ctx ?w)) d')"
    "w_heap w' = w_heap ?w" "w_published w' = w_published ?w" "w_pending w' = w_pending ?w"
    by blast
  have one: "ctx_states (w_ctx ?w) =
        um_modify default_DeviceState (ctx_states (w_ctx w)) d (\<lambda>s. s\<lparr>ds_online := False\<rparr>)"
      "ctx_sessions (w_ctx ?w) = um_erase (ctx_sessions (w_ctx w)) d"
      "w_heap ?w = w_heap w" "w_published ?w = w_published w" "w_pending ?w = w_pending w"
      "mark_offline d w = (Inr (), ?w)"
    by (simp_all add: mark_offline_run)
  obtain s where "um_find (ctx_states (w_ctx w)) d = Some s"
    using Cons.prems by auto
  moreover have "forM (d # ds) mark_offline w = (Inr (), w')"
    using w'(1) one(6) by (simp add: comp_step(2) [of "mark_offline d" w "()" ?w])
  ultimately show ?case using w'
    by (intro exI [of _ w']) (auto simp: one(1-5) split: option.splits)
qed

lemma forM_setOffline:
  "\<exists>l. forM ds (\<lambda>d. whenM b (bindM (on_redis (setOffline R cfg d)) (\<lambda>_. ret ()))) w =
     (Inr (), w\<lparr>w_redis_log := l\<rparr>)"
proof (induction ds arbitrary: w)
  case Nil
  show ?case by (rule exI [of _ "w_redis_log w"]) (simp add: ret_def)
next
  case (Cons d ds)
  obtain l where "whenM b (bindM (on_redis (setOffline R cfg d)) (\<lambda>_. ret ())) w =
      (Inr (), w\<lparr>w_redis_log := l\<rparr>)"
    by (rule that [of "if b then snd (setOffline R cfg d (w_redis_log w)) else w_redis_log w"])
      (simp add: comp_defs on_redis_def split: prod.splits)
  then show ?case
    using Cons.IH [of "w\<lparr>w_redis_log := l\<rparr>"] by (auto simp: comp_step)
qed

lemma set_offline_devices:
  "um_ok states \<Longrightarrow> d \<in> set (offline_devices E now states) \<longleftrightarrow>
     (\<exists>s. um_find states d = Some s \<and> silent E now s)"
  by (auto simp: offline_devices_def um_ok_def um_find_def image_iff)

lemma checkOffline_run:
  fixes E :: env
  assumes "um_ok (ctx_states (w_ctx w))"
  defines "now \<equiv> env_steady E (w_steady_reads w)"
  shows "\<exists>w'. checkOffline E w = (Inr (), w')
    \<and> (\<forall>d. um_find (ctx_states (w_ctx w')) d = map_option (\<lambda>s.
         if silent E now s then s\<lparr>ds_online := False\<rparr> else s) (um_find (ctx_states (w_ctx w)) d))
    \<and> (\<forall>d. um_find (ctx_sessions (w_ctx w')) d =
         (if \<exists>s. um_find (ctx_states (w_ctx w)) d = Some s \<and> silent E now s then None
          else um_find (ctx_sessions (w_ctx w)) d))
    \<and> w_heap w' = w_heap w \<and> w_published w' = w_published w \<and> w_pending w' = w_pending w"
proof -
  let ?w = "w\<lparr>w_steady_reads := Suc (w_steady_reads w)\<rparr>"
  let ?ds = "offline_devices E now (ctx_states (w_ctx w))"
  note mem = set_offline_devices [OF assms(1), of _ E now]
  have "\<forall>d\<in>set ?ds. um_find (ctx_states (w_ctx ?w)) d \<noteq> None"
    by (auto simp: mem)
  from forM_mark_offline [OF this] obtain w1 where w1: "forM ?ds mark_offline ?w = (Inr (), w1)"
    "\<And>d. um_find (ctx_states (w_ctx w1)) d = map_option (\<lambda>s.
         if d \<in> set ?ds then s\<lparr>ds_online := False\<rparr> else s) (um_find (ctx_states (w_ctx w)) d)"
    "\<And>d. um_find (ctx_sessions (w_ctx w1)) d =
         (if d \<in> set ?ds then None else um_find (ctx_sessions (w_ctx w)) d)"
    "w_heap w1 = w_heap w" "w_published w1 = w_published w" "w_pending w1 = w_pending w"
    by auto
  obtain l where "forM ?ds (\<lambda>d. whenM (ctx_redis (w_ctx w))
      (bindM (on_redis (setOffline (env_redis E) (env_redis_cfg E) d)) (\<lambda>_. ret ()))) w1 =
      (Inr (), w1\<lparr>w_redis_log := l\<rparr>)"
    using forM_setOffline by blast
  with w1(1) have "checkOffline E w = (Inr (), w1\<lparr>w_redis_log := l\<rparr>)"
    by (simp add: checkOffline_def gw_runs Let_def now_def comp_step(2) [of _ ?w "()" w1])
  moreover have "map_option (\<lambda>s. if d \<in> set ?ds then s\<lparr>ds_online := False\<rparr> else s)
      (um_find (ctx_states (w_ctx w)) d)
    = map_option (\<lambda>s. if silent E now s then s\<lparr>ds_online := False\<rparr> else s)
      (um_find (ctx_states (w_ctx w)) d)" for d
    by (cases "um_find (ctx_states (w_ctx w)) d") (simp_all add: mem)
  ultimately show ?thesis
    using w1(2-6) by (intro exI [of _ "w1\<lparr>w_redis_log := l\<rparr>"]) (simp add: mem)
qed

section \<open>Properties\<close>

text \<open>
  C17: the offline checker takes exactly the silent devices off line: those marked as on line
  whose last heartbeat is more than the idle timeout old, in whole seconds; it never throws;
  and it neither closes their sockets nor publishes that they are gone.
\<close>

theorem checkOffline_exact:
  assumes "um_ok (ctx_states (w_ctx w))"
  shows "\<exists>w'. checkOffline E w = (Inr (), w')
    \<and> (\<forall>d. um_find (ctx_states (w_ctx w')) d = map_option (\<lambda>s.
         if ds_online s \<and> sc_idle_timeout_sec (env_server_cfg E)
              < duration_cast 1000000000 (env_steady E (w_steady_reads w) - ds_last_heartbeat s)
         then s\<lparr>ds_online := False\<rparr> else s) (um_find (ctx_states (w_ctx w)) d))
    \<and> (\<forall>d. um_find (ctx_sessions (w_ctx w')) d =
         (if \<exists>s. um_find (ctx_states (w_ctx w)) d = Some s
               \<and> silent E (env_steady E (w_steady_reads w)) s
          then None else um_find (ctx_sessions (w_ctx w)) d))
    \<and> w_heap w' = w_heap w \<and> w_published w' = w_published w"
  using checkOffline_run [OF assms, of E] by (auto simp: silent_def)

theorem checkOffline_exact_witness:
  "um_find (ctx_sessions (w_ctx (snd (checkOffline
      ((sample_env (brief_json ''{}'') db_server)\<lparr>env_steady := (\<lambda>_. 601000000000)\<rparr>)
      two_sessions)))) ''D1'' = None"
proof -
  have "um_ok (ctx_states (w_ctx two_sessions))" by (simp add: two_sessions_def um_ok_def)
  from checkOffline_exact [OF this,
      of "(sample_env (brief_json ''{}'') db_server)\<lparr>env_steady := (\<lambda>_. 601000000000)\<rparr>"]
  show ?thesis
    by (auto simp: two_sessions_def um_find_def silent_def duration_cast_def sample_env_def
        default_ServerConfig_def default_DeviceState_def)
qed

end
