(* ===== verification/HttpAdminServer.thy ===== *)
theory HttpAdminServer
  imports TcpGatewayServer
begin

text \<open>
  The administration interface (\<^verbatim>\<open>src/HttpAdminServer.cpp\<close>).  A request is handled by
  its first line; the result is the text handed to \<^verbatim>\<open>async_write\<close>, after which the
  connection is closed.
\<close>

section \<open>Requests\<close>

definition is_space :: "char \<Rightarrow> bool" where
  "is_space c \<longleftrightarrow> c = CHR '' '' \<or> c = CHR 0x09 \<or> c = CHR 0x0A \<or> c = CHR 0x0B \<or> c = CHR 0x0C
     \<or> c = CHR 0x0D"

text \<open>\<^verbatim>\<open>ss >> word\<close>: skip white space, then read up to white space.\<close>

definition read_word :: "string \<Rightarrow> string \<times> string" where
  "read_word s =
     (let s = dropWhile is_space s
      in (takeWhile (\<lambda>c. \<not> is_space c) s, dropWhile (\<lambda>c. \<not> is_space c) s))"

definition http_extractDeviceId :: "string \<Rightarrow> string" where
  "http_extractDeviceId url =
     (case str_find ''/api/devices/'' url of
        None \<Rightarrow> ''''
      | Some p \<Rightarrow>
          (let start = p + length ''/api/devices/''
           in case str_find_from ''/'' url start of
                None \<Rightarrow> ''''
              | Some end_pos \<Rightarrow> take (end_pos - start) (drop start url)))"

fun query_of_items :: "string list \<Rightarrow> string \<Rightarrow> string" where
  "query_of_items [] key = ''''"
| "query_of_items (pair # pairs) key =
     (case str_find ''='' pair of
        None \<Rightarrow> query_of_items pairs key
      | Some eq \<Rightarrow>
          (if take eq pair = key then drop (eq + 1) pair else query_of_items pairs key))"

definition extractQuery :: "string \<Rightarrow> string \<Rightarrow> string" where
  "extractQuery url key =
     (case str_find ''?'' url of
        None \<Rightarrow> ''''
      | Some q \<Rightarrow> query_of_items (getline_items CHR ''&'' (drop (q + 1) url)) key)"

section \<open>Responses\<close>

definition status_text :: "int \<Rightarrow> string" where
  "status_text code =
     (let status = ''OK'';
          status = (if code = 404 then ''Not Found'' else status);
          status = (if code = 409 then ''Conflict'' else status)
      in if 500 \<le> code then ''Server Error'' else status)"

definition CRLF :: string where "CRLF = [CHR 0x0D, CHR 0x0A]"

definition http_response :: "env \<Rightarrow> int \<Rightarrow> json \<Rightarrow> string gw" where
  "http_response E code body =
     bindM (liftR (json_dump2 (env_json E) body)) (\<lambda>content.
       ret (''HTTP/1.1 '' @ to_string code @ '' '' @ status_text code @ CRLF
         @ ''Content-Type: application/json'' @ CRLF
         @ ''Content-Length: '' @ to_string (int (length content)) @ CRLF
         @ ''Connection: close'' @ CRLF @ CRLF @ content))"

section \<open>Handlers\<close>

definition device_doc :: "DeviceState \<Rightarrow> json" where
  "device_doc s = JObject [(''dev_id'', JString (ds_device_id s)), (''online'', JBool (ds_online s)),
     (''imei'', JString (ds_imei s)), (''fw'', JString (ds_fw s)), (''model'', JString (ds_model s)),
     (''remote_addr'', JString (ds_remote_addr s)), (''battery'', JInt (ds_battery s)),
     (''rssi'', JInt (ds_rssi s)), (''rsrp'', JInt (ds_rsrp s)),
     (''dev_state'', JString (ds_dev_state s))]"

definition handleOnline :: "env \<Rightarrow> string \<Rightarrow> string gw" where
  "handleOnline E device_id =
     bindM get_ctx (\<lambda>c.
       case um_find (ctx_states c) device_id of
         None \<Rightarrow> http_response E 404 (JObject [(''error'', JString ''device_not_found'')])
       | Some s \<Rightarrow> http_response E 200 (device_doc s))"

definition http_params :: json where
  "http_params = JObject [(''resolution'', JString ''640x480''), (''quality'', JInt 80)]"

text \<open>\<open>dispatch\<close> is \<^verbatim>\<open>ctx_.wake_manager->sendWake\<close>.\<close>

definition command_response ::
    "env \<Rightarrow> (string \<Rightarrow> string \<Rightarrow> json \<Rightarrow> string gw) \<Rightarrow> string \<Rightarrow> string \<Rightarrow> string gw" where
  "command_response E dispatch device_id cmd =
     catchM
       (bindM get_ctx (\<lambda>c.
          if \<not> ctx_wake_manager c then
            http_response E 500 (JObject [(''error'', JString ''wake_manager_not_ready'')])
          else bindM (dispatch device_id cmd http_params) (\<lambda>msg_id.
            http_response E 200 (JObject [(''result'', JString ''sent''),
              (''device_id'', JString device_id), (''cmd'', JString cmd),
              (''msg_id'', JString msg_id)]))))
       (\<lambda>e. http_response E 409 (JObject [(''error'', JString (what e)),
          (''device_id'', JString device_id)]))"

definition handleCommand :: "env \<Rightarrow> string \<Rightarrow> string \<Rightarrow> string gw" where
  "handleCommand E device_id cmd = command_response E (sendWake E) device_id cmd"

datatype route = Route_online string | Route_command string string | Route_none

text \<open>The tests of \<^verbatim>\<open>handle\<close>, in their order.\<close>

definition http_route :: "string \<Rightarrow> route" where
  "http_route request_line =
     (let (method, rest) = read_word request_line;
          (url, rest) = read_word rest;
          device = (str_find ''/api/devices/'' url = Some 0);
          command = (let cmd = extractQuery url ''cmd''
            in Route_command (http_extractDeviceId url) (if cmd = [] then ''take_photo'' else cmd))
      in if method = ''GET'' \<and> device \<and> str_find ''/online'' url \<noteq> None
           then Route_online (http_extractDeviceId url)
         else if method = ''POST'' \<and> device \<and> str_find ''/wake'' url \<noteq> None then command
         else if method = ''POST'' \<and> device \<and> str_find ''/commands'' url \<noteq> None then command
         else Route_none)"

definition http_handle :: "env \<Rightarrow> string \<Rightarrow> string gw" where
  "http_handle E request_line =
     (case http_route request_line of
        Route_online device_id \<Rightarrow> handleOnline E device_id
      | Route_command device_id cmd \<Rightarrow> handleCommand E device_id cmd
      | Route_none \<Rightarrow> http_response E 404 (JObject [(''error'', JString ''not_found'')]))"

text \<open>The completion handler of the read: \<open>None\<close> for an error, and the bytes up to
  and beyond the end of the header otherwise.\<close>

definition http_request :: "env \<Rightarrow> bytes option \<Rightarrow> string option gw" where
  "http_request E result =
     (case result of
        None \<Rightarrow> ret None
      | Some buf \<Rightarrow>
          bindM (http_handle E (strip_cr (string_of_bytes (fst (take_line buf)))))
            (\<lambda>resp. ret (Some resp)))"

section \<open>Lemmas\<close>

lemma read_word_first:
  assumes "s \<noteq> []" and "\<forall>c\<in>set s. \<not> is_space c"
  shows "read_word (s @ CHR '' '' # t) = (s, CHR '' '' # t)"
    and "read_word (CHR '' '' # s @ CHR '' '' # t) = (s, CHR '' '' # t)"
proof -
  have sp: "is_space CHR '' ''" by (simp add: is_space_def)
  have "\<not> is_space (hd s)" using assms by (cases s) auto
  then have drop: "dropWhile is_space (s @ CHR '' '' # t) = s @ CHR '' '' # t"
    using assms(1) by (cases s) simp_all
  have take: "takeWhile (\<lambda>c. \<not> is_space c) (s @ CHR '' '' # t) = s"
    "dropWhile (\<lambda>c. \<not> is_space c) (s @ CHR '' '' # t) = CHR '' '' # t"
    using assms(2) sp by (simp_all add: takeWhile_append2 dropWhile_append2)
  show "read_word (s @ CHR '' '' # t) = (s, CHR '' '' # t)"
    "read_word (CHR '' '' # s @ CHR '' '' # t) = (s, CHR '' '' # t)"
    using sp by (simp_all add: read_word_def drop take Let_def)
qed

lemma http_first_line:
  assumes "CHR 0x0A \<notin> set l"
  shows "strip_cr (string_of_bytes (fst (take_line (bytes_of_string (l @ CRLF @ rest))))) = l"
proof -
  have "byte_of_char CHR 0x0A \<notin> set (bytes_of_string (l @ [CHR 0x0D]))"
    using assms by (auto simp: bytes_of_string_def byte_of_char_eq_iff)
  then have "fst (take_line (bytes_of_string (l @ CRLF @ rest))) = bytes_of_string (l @ [CHR 0x0D])"
    using takeWhile_line [of "bytes_of_string (l @ [CHR 0x0D])" "bytes_of_string rest"]
    by (simp add: take_line_def CRLF_def bytes_of_string_def)
  then show ?thesis unfolding strip_cr_def by (simp only: string_of_bytes_of_string) simp
qed

lemma http_extractDeviceId_url:
  assumes "CHR ''/'' \<notin> set d"
  shows "http_extractDeviceId (''/api/devices/'' @ d @ ''/'' @ rest) = d"
proof -
  have len: "length ''/api/devices/'' = 13" by simp
  have "drop 13 (''/api/devices/'' @ d @ ''/'' @ rest) = d @ CHR ''/'' # rest" by simp
  moreover have "str_find ''/api/devices/'' (''/api/devices/'' @ d @ ''/'' @ rest) = Some 0" by simp
  ultimately show ?thesis
    unfolding http_extractDeviceId_def len Let_def using assms
    by (simp add: str_find_from_def)
qed

lemma extractQuery_single:
  assumes "CHR ''?'' \<notin> set path" and "CHR ''&'' \<notin> set v"
  shows "extractQuery (path @ ''?cmd='' @ v) ''cmd'' = v"
proof -
  have "str_find ''?'' (path @ CHR ''?'' # ''cmd='' @ v) = Some (length path)"
    using assms(1) by simp
  moreover have "getline_items CHR ''&'' (''cmd='' @ v) = [''cmd='' @ v]"
    using assms(2) getline_items_no_delim [of "CHR ''&''" "''cmd='' @ v"] by simp
  ultimately show ?thesis
    by (simp add: extractQuery_def)
qed

text \<open>The route of a wake command.\<close>

lemma http_route_wake:
  assumes "CHR ''/'' \<notin> set d" and "CHR ''?'' \<notin> set d" and "\<forall>c\<in>set d. \<not> is_space c"
    and "CHR ''&'' \<notin> set cmd" and "\<forall>c\<in>set cmd. \<not> is_space c"
  shows "http_route (''POST /api/devices/'' @ d @ ''/wake?cmd='' @ cmd @ '' HTTP/1.1'') =
     Route_command d (if cmd = '''' then ''take_photo'' else cmd)"
proof -
  let ?url = "''/api/devices/'' @ d @ ''/'' @ ''wake?cmd='' @ cmd"
  have spaces: "\<forall>c\<in>set ?url. \<not> is_space c"
    using assms(3,5) by (auto simp: is_space_def)
  have line: "''POST /api/devices/'' @ d @ ''/wake?cmd='' @ cmd @ '' HTTP/1.1'' =
      ''POST'' @ CHR '' '' # ?url @ CHR '' '' # ''HTTP/1.1''" by simp
  have verb_read: "read_word (''POST'' @ CHR '' '' # u) = (''POST'', CHR '' '' # u)" for u
    by (rule read_word_first) (simp_all add: is_space_def)
  have url_read: "read_word (CHR '' '' # ?url @ CHR '' '' # v) = (?url, CHR '' '' # v)" for v
    by (rule read_word_first) (use spaces in simp_all)
  have prefix: "str_find ''/api/devices/'' ?url = Some 0" by simp
  have wake: "str_find ''/wake'' ?url \<noteq> None"
    using str_find_infix [of "''/wake''" "''/api/devices/'' @ d" "''?cmd='' @ cmd"] by simp
  have cmd: "extractQuery ?url ''cmd'' = cmd"
    using extractQuery_single [of "''/api/devices/'' @ d @ ''/wake''" cmd] assms(2,4) by simp
  show ?thesis
    unfolding http_route_def line verb_read url_read Let_def prod.case
    using prefix wake cmd http_extractDeviceId_url [OF assms(1), of "''wake?cmd='' @ cmd"]
    by simp
qed

text \<open>The routes of a command on the newer URL and of a query.\<close>

lemma http_route_commands:
  assumes "CHR ''/'' \<notin> set d" and "CHR ''?'' \<notin> set d" and "\<forall>c\<in>set d. \<not> is_space c"
    and "CHR ''&'' \<notin> set cmd" and "\<forall>c\<in>set cmd. \<not> is_space c"
  shows "http_route (''POST /api/devices/'' @ d @ ''/commands?cmd='' @ cmd @ '' HTTP/1.1'') =
     Route_command d (if cmd = '''' then ''take_photo'' else cmd)"
proof -
  let ?url = "''/api/devices/'' @ d @ ''/'' @ ''commands?cmd='' @ cmd"
  have spaces: "\<forall>c\<in>set ?url. \<not> is_space c"
    using assms(3,5) by (auto simp: is_space_def)
  have line: "''POST /api/devices/'' @ d @ ''/commands?cmd='' @ cmd @ '' HTTP/1.1'' =
      ''POST'' @ CHR '' '' # ?url @ CHR '' '' # ''HTTP/1.1''" by simp
  have verb_read: "read_word (''POST'' @ CHR '' '' # u) = (''POST'', CHR '' '' # u)" for u
    by (rule read_word_first) (simp_all add: is_space_def)
  have url_read: "read_word (CHR '' '' # ?url @ CHR '' '' # v) = (?url, CHR '' '' # v)" for v
    by (rule read_word_first) (use spaces in simp_all)
  have prefix: "str_find ''/api/devices/'' ?url = Some 0" by simp
  have word: "str_find ''/commands'' ?url \<noteq> None"
    using str_find_infix [of "''/commands''" "''/api/devices/'' @ d" "''?cmd='' @ cmd"] by simp
  have cmd: "extractQuery ?url ''cmd'' = cmd"
    using extractQuery_single [of "''/api/devices/'' @ d @ ''/commands''" cmd] assms(2,4) by simp
  show ?thesis
    unfolding http_route_def line verb_read url_read Let_def prod.case
    using prefix word cmd http_extractDeviceId_url [OF assms(1), of "''commands?cmd='' @ cmd"]
    by simp
qed

lemma http_route_online:
  assumes "CHR ''/'' \<notin> set d" and "\<forall>c\<in>set d. \<not> is_space c"
  shows "http_route (''GET /api/devices/'' @ d @ ''/online HTTP/1.1'') = Route_online d"
proof -
  let ?url = "''/api/devices/'' @ d @ ''/'' @ ''online''"
  have spaces: "\<forall>c\<in>set ?url. \<not> is_space c"
    using assms(2) by (auto simp: is_space_def)
  have line: "''GET /api/devices/'' @ d @ ''/online HTTP/1.1'' =
      ''GET'' @ CHR '' '' # ?url @ CHR '' '' # ''HTTP/1.1''" by simp
  have verb_read: "read_word (''GET'' @ CHR '' '' # u) = (''GET'', CHR '' '' # u)" for u
    by (rule read_word_first) (simp_all add: is_space_def)
  have url_read: "read_word (CHR '' '' # ?url @ CHR '' '' # v) = (?url, CHR '' '' # v)" for v
    by (rule read_word_first) (use spaces in simp_all)
  have prefix: "str_find ''/api/devices/'' ?url = Some 0" by simp
  have word: "str_find ''/online'' ?url \<noteq> None"
    using str_find_infix [of "''/online''" "''/api/devices/'' @ d" "''''"] by simp
  show ?thesis
    unfolding http_route_def line verb_read url_read Let_def prod.case
    using prefix word http_extractDeviceId_url [OF assms(1), of "''online''"] by simp
qed

section \<open>Properties\<close>

text \<open>
  C38: the URL of a wake command is read back as it was written: a device identifier without
  slash, question mark or white space, and a command without ampersand or white space, reach
  the dispatcher unchanged, and an empty command is the default one.
\<close>

theorem wake_url_roundtrip:
  assumes "CHR ''/'' \<notin> set d" and "CHR ''?'' \<notin> set d" and "\<forall>c\<in>set d. \<not> is_space c"
    and "CHR ''&'' \<notin> set cmd" and "\<forall>c\<in>set cmd. \<not> is_space c"
  shows "http_route (''POST /api/devices/'' @ d @ ''/wake?cmd='' @ cmd @ '' HTTP/1.1'') =
     Route_command d (if cmd = '''' then ''take_photo'' else cmd)"
  using assms by (rule http_route_wake)

theorem wake_url_roundtrip_witness:
  "http_route ''POST /api/devices/dev-7/wake?cmd=take_photo HTTP/1.1''
     = Route_command ''dev-7'' ''take_photo''"
  using wake_url_roundtrip [of "''dev-7''" "''take_photo''"] by (simp add: is_space_def)

text \<open>
  C24: what a command request answers: the dispatcher's identifier with status 200, or its
  error with status 409, and nothing else; in particular a device that is not registered is a
  409 with the text \<^verbatim>\<open>device offline\<close> and changes nothing.
\<close>

theorem handleCommand_outcome:
  assumes "ctx_wake_manager (w_ctx w)"
    and "\<And>b. \<exists>t. json_dump2 (env_json E) (JObject [(''result'', JString ''sent''),
        (''device_id'', JString d), (''cmd'', JString cmd), (''msg_id'', JString b)]) = Inr t"
  shows "handleCommand E d cmd w =
     (case sendWake E d cmd http_params w of
        (Inr m, w') \<Rightarrow> http_response E 200 (JObject [(''result'', JString ''sent''),
            (''device_id'', JString d), (''cmd'', JString cmd), (''msg_id'', JString m)]) w'
      | (Inl e, w') \<Rightarrow> http_response E 409 (JObject [(''error'', JString (what e)),
            (''device_id'', JString d)]) w')
   \<and> (um_find (ctx_sessions (w_ctx w)) d = None \<longrightarrow>
        handleCommand E d cmd w = http_response E 409
          (JObject [(''error'', JString ''device offline''), (''device_id'', JString d)]) w)"
proof -
  have ok: "\<exists>t. http_response E 200 (JObject [(''result'', JString ''sent''),
      (''device_id'', JString d), (''cmd'', JString cmd), (''msg_id'', JString m)]) w' = (Inr t, w')"
    for m w'
    using assms(2) [of m] by (auto simp: http_response_def comp_defs)
  have run: "handleCommand E d cmd w =
     (case sendWake E d cmd http_params w of
        (Inr m, w') \<Rightarrow> http_response E 200 (JObject [(''result'', JString ''sent''),
            (''device_id'', JString d), (''cmd'', JString cmd), (''msg_id'', JString m)]) w'
      | (Inl e, w') \<Rightarrow> http_response E 409 (JObject [(''error'', JString (what e)),
            (''device_id'', JString d)]) w')"
  proof (cases "sendWake E d cmd http_params w")
    case (Pair r w')
    show ?thesis
    proof (cases r)
      case (Inl e)
      with Pair assms(1) show ?thesis
        by (simp add: handleCommand_def command_response_def catchM_def gw_runs comp_step(3))
    next
      case (Inr m)
      obtain t where "http_response E 200 (JObject [(''result'', JString ''sent''),
          (''device_id'', JString d), (''cmd'', JString cmd), (''msg_id'', JString m)]) w' = (Inr t, w')"
        using ok by blast
      with Pair Inr assms(1) show ?thesis
        by (simp add: handleCommand_def command_response_def catchM_def gw_runs comp_step(1))
    qed
  qed
  have "um_find (ctx_sessions (w_ctx w)) d = None \<Longrightarrow>
      sendWake E d cmd http_params w = (Inl (Runtime_Error ''device offline''), w)"
    by (simp add: sendWake_def lock_session_def get_ctx_def comp_defs)
  with run show ?thesis by auto
qed

theorem handleCommand_outcome_witness:
  "handleCommand (sample_env (brief_json ''{}'') db_server) ''D9'' ''take_photo'' sample_online
     = http_response (sample_env (brief_json ''{}'') db_server) 409
         (JObject [(''error'', JString ''device offline''), (''device_id'', JString ''D9'')])
         sample_online"
proof -
  have off: "um_find (ctx_sessions (w_ctx sample_online)) ''D9'' = None"
    and on: "ctx_wake_manager (w_ctx sample_online)"
    by (simp_all add: sample_online_def initial_World_def um_find_def)
  have printed: "\<exists>t. json_dump2 (env_json (sample_env (brief_json ''{}'') db_server)) j = Inr t" for j
    by simp
  show ?thesis
    using handleCommand_outcome [OF on printed, THEN conjunct2, rule_format, OF off] .
qed

end
