(* ===== verification/MqttCommands.thy ===== *)
theory MqttCommands
  imports HttpAdminServer
begin

text \<open>
  The command requests that arrive over MQTT (\<^verbatim>\<open>src/backend/MqttBackend.cpp\<close>, lines
  210 to 313).  The callbacks run on the thread of the library; a dispatch is posted to the
  event loop, whose queue of such tasks is \<open>w_tasks\<close>.
\<close>

text \<open>\<^verbatim>\<open>onConnect\<close>: the subscription it asks for.\<close>

definition mqtt_onConnect :: "MqttConfig \<Rightarrow> int \<Rightarrow> (string \<times> int) option" where
  "mqtt_onConnect cfg rc =
     (if rc \<noteq> 0 then None
      else Some (c_str (makeTopic cfg (mc_command_request_topic cfg)), mc_qos cfg))"

definition rejected :: "string \<Rightarrow> (string \<times> json) list \<Rightarrow> string \<Rightarrow> json" where
  "rejected device_id extra error =
     JObject ([(''device_id'', JString device_id)] @ extra
       @ [(''status'', JString ''rejected''), (''error'', JString error)])"

definition handleCommandRequest :: "env \<Rightarrow> string \<Rightarrow> json \<Rightarrow> unit gw" where
  "handleCommandRequest E device_id payload =
     bindM (liftR (value_string (env_json E) payload ''cmd'' '''')) (\<lambda>cmd.
     bindM (liftR (value_json (env_json E) payload ''params'' (JObject []))) (\<lambda>params.
       if cmd = [] then mqtt_publishCommandEvent E device_id (rejected device_id [] ''cmd_required'')
       else modifyM (\<lambda>w. w\<lparr>w_tasks := w_tasks w @ [(device_id, cmd, params)]\<rparr>)))"

text \<open>The posted lambda; \<open>dispatch\<close> is \<^verbatim>\<open>ctx_.wake_manager->sendWake\<close>.\<close>

definition command_task ::
    "env \<Rightarrow> (string \<Rightarrow> string \<Rightarrow> json \<Rightarrow> string gw) \<Rightarrow> string \<times> string \<times> json \<Rightarrow> unit gw" where
  "command_task E dispatch task =
     (case task of (device_id, cmd, params) \<Rightarrow>
        bindM get_ctx (\<lambda>c.
          if \<not> ctx_wake_manager c then
            mqtt_publishCommandEvent E device_id
              (rejected device_id [(''cmd'', JString cmd)] ''command_dispatcher_not_ready'')
          else catchM (bindM (dispatch device_id cmd params) (\<lambda>_. ret ()))
            (\<lambda>e. mqtt_publishCommandEvent E device_id
              (rejected device_id [(''cmd'', JString cmd)] (what e)))))"

text \<open>The event loop takes the oldest task.\<close>

definition run_task :: "env \<Rightarrow> unit gw" where
  "run_task E =
     bindM (getsM w_tasks) (\<lambda>tasks.
       case tasks of
         [] \<Rightarrow> ret ()
       | t # ts \<Rightarrow> thenM (modifyM (\<lambda>w. w\<lparr>w_tasks := ts\<rparr>)) (command_task E (sendWake E) t))"

text \<open>A null topic or payload is \<open>None\<close>.\<close>

definition mqtt_onMessage :: "env \<Rightarrow> string option \<Rightarrow> string option \<Rightarrow> unit gw" where
  "mqtt_onMessage E topic payload =
     (case (topic, payload) of
        (Some topic, Some content) \<Rightarrow>
          (let device_id = mqtt_extractDeviceId (c_str topic)
           in if device_id = [] then ret ()
              else catchM
                (bindM (liftR (json_parse (env_json E) content)) (\<lambda>j.
                   handleCommandRequest E device_id j))
                (\<lambda>e. mqtt_publishCommandEvent E device_id
                  (rejected device_id [] (''bad_request_json: '' @ what e))))
      | _ \<Rightarrow> ret ())"

section \<open>Properties\<close>

text \<open>
  C25: a command request over MQTT: a message on a request topic of a device posts exactly
  one task, for that device, with the command and the parameters of the message, behind the
  tasks already waiting; nothing is dispatched on the thread of the library.
\<close>

theorem mqtt_request_posts_task:
  assumes "str_find ''/devices/'' (mc_topic_prefix (env_mqtt_cfg E) @ ''/devices/'')
      = Some (length (mc_topic_prefix (env_mqtt_cfg E)))"
    and "d \<noteq> ''''" and "CHR ''/'' \<notin> set d"
    and "CHR 0x00 \<notin> set (makeDeviceTopic (env_mqtt_cfg E) d sfx)"
    and "json_parse (env_json E) content = Inr j"
    and "value_string (env_json E) j ''cmd'' '''' = Inr cmd" and "cmd \<noteq> ''''"
    and "value_json (env_json E) j ''params'' (JObject []) = Inr params"
  shows "mqtt_onMessage E (Some (makeDeviceTopic (env_mqtt_cfg E) d sfx)) (Some content) w =
     (Inr (), w\<lparr>w_tasks := w_tasks w @ [(d, cmd, params)]\<rparr>)"
  using assms(2,5-8)
  by (simp add: mqtt_onMessage_def c_str_id [OF assms(4)] mqtt_extractDeviceId_topic [OF assms(1-3)]
      handleCommandRequest_def comp_defs)

theorem mqtt_request_posts_task_witness:
  "w_tasks (snd (mqtt_onMessage (sample_env (table_json [(JObject [(''cmd'', JString ''reboot'')], ''x'')])
      db_server) (Some ''lp_gateway/devices/dev001/commands/request'') (Some ''x'') (initial_World True [])))
     = [(''dev001'', ''reboot'', JObject [])]"
  using mqtt_request_posts_task [of "sample_env (table_json [(JObject [(''cmd'', JString ''reboot'')], ''x'')])
      db_server" "''dev001''" "''commands/request''" "''x''" "JObject [(''cmd'', JString ''reboot'')]"
      "''reboot''" "JObject []" "initial_World True []"]
  by (simp add: default_MqttConfig_def makeDeviceTopic_def makeTopic_def table_parse_def
      initial_World_def)

text \<open>
  A command that cannot be dispatched is reported: running the oldest task removes it
  from the queue, and when the device is not registered the only other effect is one event on
  the device's topic that says \<^verbatim>\<open>rejected\<close> and why.
\<close>

theorem mqtt_task_rejected:
  assumes "w_tasks w = (d, cmd, params) # ts" and "um_find (ctx_sessions (w_ctx w)) d = None"
    and "ctx_wake_manager (w_ctx w)" and "w_mqtt_client w"
    and "json_dump (env_json E) (rejected d [(''cmd'', JString cmd)] ''device offline'') = Inr content"
  shows "run_task E w = (Inr (), w\<lparr>w_tasks := ts, w_published := w_published w @
     [\<lparr>pub_topic = c_str (makeDeviceTopic (env_mqtt_cfg E) d ''commands/events''),
       pub_document = rejected d [(''cmd'', JString cmd)] ''device offline'', pub_content = content,
       pub_qos = mc_qos (env_mqtt_cfg E), pub_retain = False\<rparr>]\<rparr>)"
proof -
  let ?w = "w\<lparr>w_tasks := ts\<rparr>"
  have taken: "run_task E w = command_task E (sendWake E) (d, cmd, params) ?w"
    using assms(1) by (simp add: run_task_def seq_runs)
  have offline: "sendWake E d cmd params ?w = (Inl (Runtime_Error ''device offline''), ?w)"
    using assms(2) by (simp add: sendWake_def lock_session_def get_ctx_def comp_defs)
  have "command_task E (sendWake E) (d, cmd, params) ?w
      = mqtt_publishCommandEvent E d (rejected d [(''cmd'', JString cmd)] ''device offline'') ?w"
    using assms(3) offline by (simp add: command_task_def gw_runs catchM_def comp_step(3))
  also have "\<dots> = (Inr (), ?w\<lparr>w_published := w_published w @
     [\<lparr>pub_topic = c_str (makeDeviceTopic (env_mqtt_cfg E) d ''commands/events''),
       pub_document = rejected d [(''cmd'', JString cmd)] ''device offline'', pub_content = content,
       pub_qos = mc_qos (env_mqtt_cfg E), pub_retain = False\<rparr>]\<rparr>)"
    using assms(4,5) by (simp add: mqtt_publishCommandEvent_def publishJson_def comp_defs)
  finally show ?thesis by (simp add: taken)
qed

theorem mqtt_task_rejected_witness:
  "map pub_content (w_published (snd (run_task (sample_env (brief_json ''{}'') db_server)
      ((initial_World True [])\<lparr>w_tasks := [(''D1'', ''reboot'', JNull)]\<rparr>)))) = [''{}'']"
  using mqtt_task_rejected [of "(initial_World True [])\<lparr>w_tasks := [(''D1'', ''reboot'', JNull)]\<rparr>"
      "''D1''" "''reboot''" JNull "[]" "sample_env (brief_json ''{}'') db_server" "''{}''"]
  by (simp add: initial_World_def)

end
