(* ===== verification/Gateway.thy ===== *)
theory Gateway
  imports MqttCommands
begin

text \<open>
  The running gateway: every handler that the event loop, the strands and the MQTT library can
  run, as one labelled transition system.  A step runs one handler to its end; between steps
  the session objects that nothing holds any more are destroyed.  An exception that leaves a
  handler leaves \<^verbatim>\<open>io.run()\<close> and ends the process
  (\<^verbatim>\<open>src/main.cpp\<close>, lines 80 to 103).
\<close>

section \<open>Events\<close>

datatype gw_event =
    Accept "(exn + string) option"
  | Read nat "bytes option"
  | Strand nat
  | Written nat bool
  | Timer_wake
  | Timer_offline
  | Http "bytes option"
  | Mqtt_message "string option" "string option"
  | Task

definition gateway_handler :: "env \<Rightarrow> gw_event \<Rightarrow> unit gw" where
  "gateway_handler E ev =
     (case ev of
        Accept r \<Rightarrow> tcp_accept r
      | Read sid r \<Rightarrow> read_completed E sid r
      | Strand sid \<Rightarrow> session_run_posted sid
      | Written sid ok \<Rightarrow> session_write_completed E sid ok
      | Timer_wake \<Rightarrow> onTick E
      | Timer_offline \<Rightarrow> checkOffline E
      | Http r \<Rightarrow> bindM (http_request E r) (\<lambda>_. ret ())
      | Mqtt_message topic payload \<Rightarrow> mqtt_onMessage E topic payload
      | Task \<Rightarrow> run_task E)"

text \<open>A completion needs the operation to be outstanding and delivers what the operation
  promises.  A read that succeeded may be handled after the socket was closed.\<close>

definition enabled :: "gw_event \<Rightarrow> World \<Rightarrow> bool" where
  "enabled ev w =
     (case ev of
        Accept r \<Rightarrow> r \<noteq> Some (Inl Dead_Object)
      | Read sid r \<Rightarrow>
          (case um_find (w_heap w) sid of
             None \<Rightarrow> False
           | Some s \<Rightarrow> ss_reading s \<noteq> No_read \<and>
               (case r of None \<Rightarrow> True
                | Some chunk \<Rightarrow> read_contract (ss_reading s) (ss_read_buffer s) chunk))
      | Strand sid \<Rightarrow>
          (case um_find (w_heap w) sid of None \<Rightarrow> False | Some s \<Rightarrow> wr_posted (ss_writer s) \<noteq> [])
      | Written sid ok \<Rightarrow>
          (case um_find (w_heap w) sid of None \<Rightarrow> False | Some s \<Rightarrow> wr_inflight (ss_writer s) \<noteq> [])
      | Mqtt_message _ _ \<Rightarrow> w_mqtt_client w
      | Task \<Rightarrow> w_tasks w \<noteq> []
      | _ \<Rightarrow> True)"

text \<open>A session lives as long as an outstanding read, a posted buffer or an outstanding
  write holds its \<^verbatim>\<open>shared_ptr\<close>.\<close>

definition session_held :: "Session \<Rightarrow> bool" where
  "session_held s \<longleftrightarrow> ss_reading s \<noteq> No_read \<or> wr_posted (ss_writer s) \<noteq> []
     \<or> wr_inflight (ss_writer s) \<noteq> []"

definition reap :: "World \<Rightarrow> World" where
  "reap w = w\<lparr>w_heap := um_filter session_held (w_heap w)\<rparr>"

section \<open>Steps and runs\<close>

inductive gw_step :: "env \<Rightarrow> World \<Rightarrow> gw_event \<Rightarrow> World \<Rightarrow> bool" for E where
  gw_step: "enabled ev w \<Longrightarrow> gateway_handler E ev w = (Inr (), w') \<Longrightarrow> gw_step E w ev (reap w')"

inductive gw_crash :: "env \<Rightarrow> World \<Rightarrow> gw_event \<Rightarrow> exn \<Rightarrow> bool" for E where
  gw_crash: "enabled ev w \<Longrightarrow> gateway_handler E ev w = (Inl e, w') \<Longrightarrow> gw_crash E w ev e"

inductive_cases gw_stepE: "gw_step E w ev w'"
inductive_simps gw_step_iff: "gw_step E w ev w'"
inductive_simps gw_crash_iff: "gw_crash E w ev e"

inductive reachable :: "env \<Rightarrow> World \<Rightarrow> World \<Rightarrow> bool" for E w0 where
  start: "reachable E w0 w0"
| step: "reachable E w0 w \<Longrightarrow> gw_step E w ev w' \<Longrightarrow> reachable E w0 w'"

text \<open>The same as an executable step: the process runs or has ended.\<close>

datatype process = Running World | Ended exn

fun process_step :: "env \<Rightarrow> gw_event \<Rightarrow> process \<Rightarrow> process" where
  "process_step E ev (Running w) =
     (if \<not> enabled ev w then Running w
      else case gateway_handler E ev w of
          (Inr _, w') \<Rightarrow> Running (reap w')
        | (Inl e, _) \<Rightarrow> Ended e)"
| "process_step E ev (Ended e) = Ended e"

lemma process_step_iff:
  "process_step E ev (Running w) = Running w' \<longleftrightarrow> gw_step E w ev w' \<or> (\<not> enabled ev w \<and> w' = w)"
  by (auto simp: gw_step_iff split: prod.splits sum.splits if_splits)

lemma process_step_ended_iff: "process_step E ev (Running w) = Ended e \<longleftrightarrow> gw_crash E w ev e"
  by (auto simp: gw_crash_iff split: prod.splits sum.splits if_splits)

fun_cases process_step_RunningE: "process_step E ev p = Running w'"

text \<open>A process that runs has run before, and its last step was one of the relation.\<close>

lemma process_step_Running:
  assumes "process_step E ev p = Running w'"
  obtains w where "p = Running w" "gw_step E w ev w' \<or> w' = w"
  using assms by (elim process_step_RunningE)
    (auto simp: gw_step_iff split: prod.splits sum.splits if_splits)

lemma reachable_run:
  "run (process_step E) evs (Running w) = Running w' \<Longrightarrow> reachable E w0 w \<Longrightarrow> reachable E w0 w'"
proof (induction evs arbitrary: w' rule: rev_induct)
  case (snoc ev evs)
  from snoc.prems(1) obtain w1 where
    "run (process_step E) evs (Running w) = Running w1" "gw_step E w1 ev w' \<or> w' = w1"
    by (auto elim: process_step_Running)
  with snoc show ?case by (auto intro: reachable.step)
qed simp

lemma um_find_reap:
  "um_ok (w_heap w) \<Longrightarrow> um_find (w_heap (reap w)) sid =
     (case um_find (w_heap w) sid of None \<Rightarrow> None | Some s \<Rightarrow> if session_held s then Some s else None)"
  by (simp add: reap_def um_find_filter)

lemma reap_simps [simp]:
  "w_ctx (reap w) = w_ctx w" "w_pending (reap w) = w_pending w"
  "w_next_session (reap w) = w_next_session w" "w_published (reap w) = w_published w"
  "w_redis_log (reap w) = w_redis_log w" "w_tasks (reap w) = w_tasks w"
  "w_mqtt_client (reap w) = w_mqtt_client w"
  by (simp_all add: reap_def)

end
