(* ===== verification/GatewayInvariants.thy ===== *)
theory GatewayInvariants
  imports Gateway
begin

text \<open>
  The invariant of the running gateway and the absence of dangling objects.  \<open>live E S\<close>
  is the invariant together with a set of sessions known to live; \<open>fine E S m\<close> says that
  the computation, started where the sessions of \<open>S\<close> live, keeps the invariant and every
  live session, and never runs a method on an object that is gone.  There is one rule per
  combinator and one lemma per operation, in the order of the components.
\<close>

section \<open>The invariant\<close>

definition ctx_inv :: "World \<Rightarrow> bool" where
  "ctx_inv w \<longleftrightarrow> um_ok (ctx_sessions (w_ctx w)) \<and> um_ok (ctx_states (w_ctx w))
     \<and> (\<forall>d sid. um_find (ctx_sessions (w_ctx w)) d = Some sid \<longrightarrow>
          sid < w_next_session w \<and> d \<noteq> [] \<and> um_find (ctx_states (w_ctx w)) d \<noteq> None)"

definition heap_inv :: "World \<Rightarrow> bool" where
  "heap_inv w \<longleftrightarrow> um_ok (w_heap w)
     \<and> (\<forall>sid s. um_find (w_heap w) sid = Some s \<longrightarrow> sid < w_next_session w \<and> writer_ok (ss_writer s))"

definition wake_inv :: "env \<Rightarrow> World \<Rightarrow> bool" where
  "wake_inv E w \<longleftrightarrow> table_ok E w
     \<and> (\<forall>k p. um_find (w_pending w) k = Some p \<longrightarrow> pw_session p < w_next_session w)"

definition gw_inv :: "env \<Rightarrow> World \<Rightarrow> bool" where
  "gw_inv E w \<longleftrightarrow> ctx_inv w \<and> heap_inv w \<and> wake_inv E w"

definition live :: "env \<Rightarrow> nat set \<Rightarrow> World \<Rightarrow> bool" where
  "live E S w \<longleftrightarrow> gw_inv E w \<and> S \<subseteq> alive_set w"

definition fine :: "env \<Rightarrow> nat set \<Rightarrow> 'a gw \<Rightarrow> bool" where
  "fine E S m \<longleftrightarrow> (\<forall>S' w. S \<subseteq> S' \<longrightarrow> live E S' w \<longrightarrow>
     live E S' (snd (m w)) \<and> fst (m w) \<noteq> Inl Dead_Object)"

named_theorems fine_rules

lemma fineD:
  "fine E S m \<Longrightarrow> S \<subseteq> S' \<Longrightarrow> live E S' w \<Longrightarrow>
   live E S' (snd (m w)) \<and> fst (m w) \<noteq> Inl Dead_Object"
  unfolding fine_def by blast

lemma fine_mono: "fine E S m \<Longrightarrow> S \<subseteq> S' \<Longrightarrow> fine E S' m"
  by (auto simp: fine_def)

lemma live_mono: "live E S' w \<Longrightarrow> S \<subseteq> S' \<Longrightarrow> live E S w"
  by (auto simp: live_def)

section \<open>Rules of the combinators\<close>

lemma fine_ret [fine_rules]: "fine E S (ret x)"
  by (simp add: fine_def ret_def)

lemma fine_throw [fine_rules]: "e \<noteq> Dead_Object \<Longrightarrow> fine E S (throw e)"
  by (simp add: fine_def throw_def)

lemma fine_liftR: "r \<noteq> Inl Dead_Object \<Longrightarrow> fine E S (liftR r)"
  by (simp add: fine_def liftR_def)

lemma fine_getsM [fine_rules]: "fine E S (getsM g)"
  by (simp add: fine_def getsM_def)

lemma fine_bindM [fine_rules]:
  assumes m: "fine E S m" and f: "\<And>x. fine E S (f x)"
  shows "fine E S (bindM m f)"
  unfolding fine_def
proof (intro allI impI)
  fix S' w assume S': "S \<subseteq> S'" "live E S' w"
  obtain r w1 where r: "m w = (r, w1)" by (cases "m w")
  with fineD [OF m S'] have 1: "live E S' w1" "r \<noteq> Inl Dead_Object" by simp_all
  show "live E S' (snd (bindM m f w)) \<and> fst (bindM m f w) \<noteq> Inl Dead_Object"
  proof (cases r)
    case (Inl e)
    with r 1 show ?thesis by (simp add: bindM_def)
  next
    case (Inr x)
    from fineD [OF f S'(1) 1(1), of x] show ?thesis by (simp add: bindM_def r Inr)
  qed
qed

lemma fine_thenM [fine_rules]: "fine E S m \<Longrightarrow> fine E S n \<Longrightarrow> fine E S (thenM m n)"
  unfolding thenM_def by (rule fine_bindM)

lemma fine_catchM [fine_rules]:
  assumes m: "fine E S m" and h: "\<And>e. fine E S (h e)"
  shows "fine E S (catchM m h)"
  unfolding fine_def
proof (intro allI impI)
  fix S' w assume S': "S \<subseteq> S'" "live E S' w"
  obtain r w1 where r: "m w = (r, w1)" by (cases "m w")
  with fineD [OF m S'] have 1: "live E S' w1" "r \<noteq> Inl Dead_Object" by simp_all
  show "live E S' (snd (catchM m h w)) \<and> fst (catchM m h w) \<noteq> Inl Dead_Object"
  proof (cases r)
    case (Inl e)
    from fineD [OF h S'(1) 1(1), of e] show ?thesis by (simp add: catchM_def r Inl)
  next
    case (Inr x)
    with r 1 show ?thesis by (simp add: catchM_def)
  qed
qed

lemma fine_whenM [fine_rules]: "fine E S m \<Longrightarrow> fine E S (whenM b m)"
  by (simp add: whenM_def fine_ret)

lemma fine_if [fine_rules]:
  "(b \<Longrightarrow> fine E S m) \<Longrightarrow> (\<not> b \<Longrightarrow> fine E S n) \<Longrightarrow> fine E S (if b then m else n)"
  by simp

lemma fine_case_option [fine_rules]:
  "fine E S m \<Longrightarrow> (\<And>x. fine E S (f x)) \<Longrightarrow> fine E S (case x of None \<Rightarrow> m | Some x \<Rightarrow> f x)"
  by (simp split: option.split)

lemma fine_case_sum [fine_rules]:
  "(\<And>x. fine E S (l x)) \<Longrightarrow> (\<And>x. fine E S (r x)) \<Longrightarrow>
   fine E S (case x of Inl x \<Rightarrow> l x | Inr x \<Rightarrow> r x)"
  by (simp split: sum.split)

lemma fine_case_prod [fine_rules]:
  "(\<And>x y. fine E S (f x y)) \<Longrightarrow> fine E S (case x of (x, y) \<Rightarrow> f x y)"
  by (simp split: prod.split)

lemma fine_let [fine_rules]: "(\<And>x. fine E S (f x)) \<Longrightarrow> fine E S (let x = t in f x)"
  by simp

lemma fine_forM [fine_rules]: "(\<And>x. fine E S (f x)) \<Longrightarrow> fine E S (forM xs f)"
  by (induction xs) (auto intro: fine_rules)

text \<open>A computation that leaves alone what the invariant speaks of.\<close>

lemma fine_keeps:
  assumes "keeps w_ctx m" "keeps w_heap m" "keeps w_pending m" "keeps w_next_session m"
    and "\<And>w. fst (m w) \<noteq> Inl Dead_Object"
  shows "fine E S m"
  using assms
  by (simp add: fine_def live_def gw_inv_def ctx_inv_def heap_inv_def wake_inv_def alive_set_def
      keeps_snd)

lemma fine_clocks [fine_rules]:
  "fine E S (steady_now E')" "fine E S (system_now E')" "fine E S (rand_bytes E')"
  by (intro fine_keeps keeps_rules; simp add: gw_defs)+

lemma fine_on_redis [fine_rules]: "fine E S (on_redis f)"
  by (intro fine_keeps keeps_rules) (simp_all add: on_redis_def split: prod.split)

lemma fine_get_ctx [fine_rules]: "fine E S get_ctx"
  by (simp add: get_ctx_def fine_getsM)

lemma fine_clock_ops [fine_rules]: "fine E S (nowMs E')" "fine E S (makeMsgId E')"
  unfolding nowMs_def makeMsgId_def by (intro fine_rules)+

section \<open>Rules that learn of a live session\<close>

lemma fine_get_session [fine_rules]: "sid \<in> S \<Longrightarrow> fine E S (get_session sid)"
  by (auto simp: fine_def live_def alive_set_def get_session_def split: option.splits)

lemma heap_inv_put:
  "heap_inv w \<Longrightarrow> sid < w_next_session w \<Longrightarrow> writer_ok (ss_writer s) \<Longrightarrow>
   heap_inv (w\<lparr>w_heap := um_put (w_heap w) sid s\<rparr>)"
  by (auto simp: heap_inv_def um.ok_put split: if_splits)

lemma fine_modify_session:
  assumes "sid \<in> S" and "\<And>s. writer_ok (ss_writer s) \<Longrightarrow> writer_ok (ss_writer (f s))"
  shows "fine E S (modify_session sid f)"
  unfolding fine_def
proof (intro allI impI)
  fix S' w assume S': "S \<subseteq> S'" "live E S' w"
  then have "sid \<in> alive_set w" using assms(1) by (auto simp: live_def)
  then obtain s where s: "um_find (w_heap w) sid = Some s" by (auto simp: alive_set_def)
  have alive: "alive_set (w\<lparr>w_heap := um_put (w_heap w) sid (f s)\<rparr>) = alive_set w"
    using s by (auto simp: alive_set_def)
  have "heap_inv (w\<lparr>w_heap := um_put (w_heap w) sid (f s)\<rparr>)"
    using S'(2) s assms(2) by (intro heap_inv_put) (auto simp: live_def gw_inv_def heap_inv_def)
  then show "live E S' (snd (modify_session sid f w))
      \<and> fst (modify_session sid f w) \<noteq> Inl Dead_Object"
    using S'(2) s alive
    by (auto simp: modify_session_def live_def gw_inv_def ctx_inv_def wake_inv_def)
qed

lemma fine_send [fine_rules]:
  "sid \<in> S \<Longrightarrow> fine E S (close_session sid)"
  "sid \<in> S \<Longrightarrow> fine E S (sendRaw sid data)"
  "sid \<in> S \<Longrightarrow> fine E S (session_run_posted sid)"
  "sid \<in> S \<Longrightarrow> fine E S (start_read sid op)"
  "sid \<in> S \<Longrightarrow> fine E S (readJsonLine sid)"
  "sid \<in> S \<Longrightarrow> fine E S (readLowPowerHeader sid)"
  unfolding close_session_def sendRaw_def session_run_posted_def start_read_def readJsonLine_def
    readLowPowerHeader_def
  by (intro fine_modify_session; simp add: writer_ok_enqueue writer_ok_run_posted)+

lemma fine_alive_test [fine_rules]:
  assumes "fine E S m" and "fine E (insert sid S) n"
  shows "fine E S (bindM (session_alive sid) (\<lambda>alive. if \<not> alive then m else n))"
  unfolding fine_def
proof (intro allI impI)
  fix S' w assume S': "S \<subseteq> S'" "live E S' w"
  show "live E S' (snd (bindM (session_alive sid) (\<lambda>alive. if \<not> alive then m else n) w))
      \<and> fst (bindM (session_alive sid) (\<lambda>alive. if \<not> alive then m else n) w) \<noteq> Inl Dead_Object"
  proof (cases "sid \<in> alive_set w")
    case True
    then have "live E (insert sid S') w" using S'(2) by (simp add: live_def)
    moreover have "insert sid S \<subseteq> insert sid S'" using S'(1) by auto
    ultimately have "live E (insert sid S') (snd (n w)) \<and> fst (n w) \<noteq> Inl Dead_Object"
      using assms(2) by (intro fineD)
    then show ?thesis using True by (auto simp: bindM_def wake_runs elim: live_mono)
  next
    case False
    then show ?thesis using assms(1) S' by (auto simp: bindM_def wake_runs fine_def)
  qed
qed

lemma fine_lock_session [fine_rules]:
  assumes "\<And>sid. fine E (insert sid S) (f sid)"
  shows "fine E S (bindM (lock_session d) f)"
  unfolding fine_def
proof (intro allI impI)
  fix S' w assume S': "S \<subseteq> S'" "live E S' w"
  show "live E S' (snd (bindM (lock_session d) f w))
      \<and> fst (bindM (lock_session d) f w) \<noteq> Inl Dead_Object"
  proof (cases "um_find (ctx_sessions (w_ctx w)) d")
    case None
    then have "lock_session d w = (Inl (Runtime_Error ''device offline''), w)"
      by (simp add: lock_session_def comp_defs get_ctx_def)
    then show ?thesis using S' by (simp add: comp_step)
  next
    case (Some sid)
    show ?thesis
    proof (cases "sid \<in> alive_set w")
      case True
      then have "lock_session d w = (Inr sid, w)"
        using Some by (simp add: lock_session_def comp_defs get_ctx_def session_alive_def alive_set_def)
      moreover have "live E (insert sid S') w" "insert sid S \<subseteq> insert sid S'"
        using True S' by (auto simp: live_def)
      then have "live E (insert sid S') (snd (f sid w)) \<and> fst (f sid w) \<noteq> Inl Dead_Object"
        using assms by (intro fineD)
      ultimately show ?thesis by (auto simp: comp_step elim: live_mono)
    next
      case False
      let ?w = "w\<lparr>w_ctx := (w_ctx w)\<lparr>ctx_sessions := um_erase (ctx_sessions (w_ctx w)) d\<rparr>\<rparr>"
      have "lock_session d w = (Inl (Runtime_Error ''device session expired''), ?w)"
        using Some False
        by (simp add: lock_session_def comp_defs get_ctx_def modify_ctx_def session_alive_def
            alive_set_def)
      moreover have "live E S' ?w"
        using S'(2) by (auto simp: live_def gw_inv_def ctx_inv_def heap_inv_def wake_inv_def um.ok_erase)
      ultimately show ?thesis by (simp add: comp_step)
    qed
  qed
qed

section \<open>The operations\<close>

text \<open>The exceptions of the JSON library are its own.\<close>

definition json_raises :: "json_lib \<Rightarrow> bool" where
  "json_raises J \<longleftrightarrow>
     (\<forall>s. json_parse J s \<noteq> Inl Dead_Object) \<and> (\<forall>j. json_dump J j \<noteq> Inl Dead_Object)
     \<and> (\<forall>j. json_dump2 J j \<noteq> Inl Dead_Object)
     \<and> (\<forall>j k d. value_string J j k d \<noteq> Inl Dead_Object)
     \<and> (\<forall>j k d. value_int J j k d \<noteq> Inl Dead_Object)
     \<and> (\<forall>j k d. value_bool J j k d \<noteq> Inl Dead_Object)
     \<and> (\<forall>j k d. value_json J j k d \<noteq> Inl Dead_Object)"

abbreviation lib_ok :: "env \<Rightarrow> bool" where "lib_ok E \<equiv> json_raises (env_json E)"

lemma lib_ok_table: "json_raises (table_json tbl)"
proof -
  have "table_value_string j k d \<noteq> Inl Dead_Object" for j k d
    by (cases j) (simp_all split: option.split json.split)
  moreover have "table_value_int j k i \<noteq> Inl Dead_Object" for j k i
    by (cases j) (simp_all split: option.split json.split)
  moreover have "table_value_bool j k b \<noteq> Inl Dead_Object" for j k b
    by (cases j) (simp_all split: option.split json.split)
  moreover have "table_value_json j k v \<noteq> Inl Dead_Object" for j k v
    by (cases j) (simp_all split: option.split)
  ultimately show ?thesis
    by (simp add: json_raises_def table_parse_def table_dump_def split: option.split)
qed

lemma lib_ok_brief: "json_raises (brief_json t)"
  using lib_ok_table [of "[]"] by (simp add: json_raises_def)

lemma fine_json [fine_rules]:
  "lib_ok E \<Longrightarrow> fine E S (liftR (json_parse (env_json E) s))"
  "lib_ok E \<Longrightarrow> fine E S (liftR (json_dump (env_json E) j))"
  "lib_ok E \<Longrightarrow> fine E S (liftR (json_dump2 (env_json E) j))"
  "lib_ok E \<Longrightarrow> fine E S (liftR (value_string (env_json E) j k d))"
  "lib_ok E \<Longrightarrow> fine E S (liftR (value_int (env_json E) j k i))"
  "lib_ok E \<Longrightarrow> fine E S (liftR (value_bool (env_json E) j k b))"
  "lib_ok E \<Longrightarrow> fine E S (liftR (value_json (env_json E) j k x))"
  by (simp_all add: fine_liftR json_raises_def)

lemma fine_sendJson [fine_rules]: "lib_ok E \<Longrightarrow> sid \<in> S \<Longrightarrow> fine E S (sendJson E sid j)"
  unfolding sendJson_def
  by (intro fine_bindM fine_liftR fine_send)
    (auto simp: encodeLine_def json_raises_def split: sum.splits)

lemma fine_setex [fine_rules]:
  assumes "lib_ok E"
  shows "fine E S (on_redis_throwing (setex R cfg (env_json E) k doc ttl))"
proof (rule fine_keeps)
  have "fst (setex R cfg (env_json E) k doc ttl l) \<noteq> Inl Dead_Object" for l
    using assms by (auto simp: setex_def json_raises_def redisCommand_def Let_def split: sum.splits)
  then show "fst (on_redis_throwing (setex R cfg (env_json E) k doc ttl) w) \<noteq> Inl Dead_Object" for w
    by (simp add: on_redis_throwing_def split: prod.split) (metis fst_conv)
qed (intro keeps_redis; simp)+

lemma fine_publishJson [fine_rules]: "lib_ok E \<Longrightarrow> fine E S (publishJson E topic j retain)"
  unfolding publishJson_def
proof (intro fine_rules)
  show "fine E S (modifyM (\<lambda>w. w\<lparr>w_published := w_published w @ p\<rparr>))" for p
    by (intro fine_keeps keeps_modifyM) (simp_all add: modifyM_def)
qed

lemma fine_publications [fine_rules]:
  "lib_ok E \<Longrightarrow> fine E S (publishDeviceState E s)"
  "lib_ok E \<Longrightarrow> fine E S (publishDeviceOffline E d)"
  "lib_ok E \<Longrightarrow> fine E S (mqtt_publishCommandEvent E d j)"
  "lib_ok E \<Longrightarrow> fine E S (publishCommandEvent E d m st cmd extra)"
  unfolding publishDeviceState_def publishDeviceOffline_def mqtt_publishCommandEvent_def
    publishCommandEvent_def
  by (intro fine_rules; assumption)+

subsection \<open>The wake manager\<close>

lemma fine_add_pending:
  assumes "entry_ok (env_wake_cfg E) k p" and "pw_session p \<in> S"
  shows "fine E S (add_pending k p)"
  unfolding fine_def
proof (intro allI impI)
  fix S' w assume S': "S \<subseteq> S'" "live E S' w"
  then have "pw_session p < w_next_session w"
    using assms(2) by (auto simp: live_def gw_inv_def heap_inv_def alive_set_def)
  with S' assms show "live E S' (snd (add_pending k p w)) \<and> fst (add_pending k p w) \<noteq> Inl Dead_Object"
    by (auto simp: add_pending_def modifyM_def live_def gw_inv_def ctx_inv_def heap_inv_def
        wake_inv_def pending_ok_put)
qed

lemma fine_erase_pending [fine_rules]: "fine E S (erase_pending k)"
  by (auto simp: fine_def erase_pending_def modifyM_def live_def gw_inv_def ctx_inv_def
      heap_inv_def wake_inv_def pending_ok_erase)

lemma fine_session_protocol [fine_rules]: "sid \<in> S \<Longrightarrow> fine E S (session_protocol sid)"
  unfolding session_protocol_def by (intro fine_rules)

lemma fine_sendLowPowerWake [fine_rules]: "lib_ok E \<Longrightarrow> fine E S (sendLowPowerWake E d)"
  unfolding sendLowPowerWake_def savePendingWake_def
  by (intro fine_lock_session fine_bindM fine_thenM fine_if fine_let fine_case_option fine_add_pending
      fine_setex fine_publications fine_send fine_on_redis fine_get_ctx fine_clock_ops fine_clocks
      fine_ret fine_throw)
    (simp_all add: entry_ok_def)

lemma fine_sendWake [fine_rules]: "lib_ok E \<Longrightarrow> fine E S (sendWake E d cmd params)"
  unfolding sendWake_def savePendingWake_def
  by (intro fine_lock_session fine_bindM fine_thenM fine_if fine_let fine_add_pending fine_whenM
      fine_setex fine_publications fine_sendJson fine_get_ctx fine_clock_ops fine_clocks
      fine_session_protocol fine_sendLowPowerWake fine_ret)
    (simp_all add: entry_ok_def)

lemma fine_mark [fine_rules]:
  "lib_ok E \<Longrightarrow> fine E S (markAck E m)" "lib_ok E \<Longrightarrow> fine E S (markDone E m)"
  unfolding markAck_def markDone_def by (intro fine_rules; assumption)+

lemma fine_resendWake:
  "lib_ok E \<Longrightarrow> pw_session p \<in> S \<Longrightarrow> fine E S (resendWake E p)"
  unfolding resendWake_def by (intro fine_rules)

lemma tick_entry_live:
  assumes lib: "lib_ok E" and w: "live E S w" and p: "um_find (w_pending w) k = Some p"
  shows "live E S (snd (tick_entry E now k w)) \<and> fst (tick_entry E now k w) \<noteq> Inl Dead_Object"
proof (cases "resends E now (alive_set w) p")
  case True
  define q where "q = retried E (env_steady E (w_steady_reads w)) p"
  define w2 where "w2 = w\<lparr>w_steady_reads := Suc (w_steady_reads w),
    w_pending := um_put (w_pending w) k q\<rparr>"
  have q: "pw_session q = pw_session p" "pw_session p \<in> alive_set w"
    using True by (simp_all add: q_def retried_def resends_def)
  have "entry_ok (env_wake_cfg E) k p" "pw_session p < w_next_session w"
    using w p by (auto simp: live_def gw_inv_def wake_inv_def pending_ok_def)
  then have "live E (insert (pw_session q) S) w2"
    using w q entry_ok_retried [OF _ True]
    by (auto simp: live_def gw_inv_def ctx_inv_def heap_inv_def wake_inv_def w2_def pending_ok_put
        q_def retried_def)
  moreover have "fine E (insert (pw_session q) S) (thenM (thenM (publishCommandEvent E d m st c x)
      (resendWake E q)) (ret []))" for d m st c x
    using lib by (intro fine_thenM fine_publications fine_resendWake fine_ret) auto
  moreover obtain d m st c x where "tick_entry E now k w =
      thenM (thenM (publishCommandEvent E d m st c x) (resendWake E q)) (ret []) w2"
    using True retryWake_alive [OF p q(2), of E]
    by (auto simp: tick_entry_def comp_step wake_runs p resends_def thenM_def bindM_def
        q_def [symmetric] w2_def [symmetric] split: prod.splits sum.splits)
  ultimately show ?thesis
    using fineD live_mono by (metis subset_insertI subset_refl)
next
  case False
  then have "tick_entry E now k w =
     (if exhausted E now p then thenM (publishCommandEvent E (pw_device_id p) (pw_msg_id p) ''failed''
          (pw_cmd p) (Some (JObject [(''retry_count'', JInt (pw_retry_count p))])))
        (ret [pw_msg_id p]) w else ret [] w)"
    using p by (auto simp: tick_entry_def comp_step wake_runs resends_def exhausted_def retryWake_dead)
  moreover have "fine E S (if b then thenM (publishCommandEvent E d m st c x) (ret rm) else ret [])"
    for b d m st c x and rm :: "string list"
    using lib by (intro fine_if fine_thenM fine_publications fine_ret)
  note fineD [OF this subset_refl w, of "exhausted E now p"]
  ultimately show ?thesis by (simp add: if_distribR del: snd_ret)
qed

lemma tick_loop_live:
  assumes "lib_ok E" and "live E S w" and "\<forall>k\<in>set ks. um_find (w_pending w) k \<noteq> None"
  shows "live E S (snd (tick_loop E now ks w)) \<and> fst (tick_loop E now ks w) \<noteq> Inl Dead_Object"
  using assms(2,3)
proof (induction ks arbitrary: w)
  case Nil
  then show ?case by (simp add: ret_def)
next
  case (Cons k ks)
  obtain p where p: "um_find (w_pending w) k = Some p" using Cons.prems by auto
  obtain r w1 where one: "tick_entry E now k w = (r, w1)" by (cases "tick_entry E now k w")
  have w1: "live E S w1" "r \<noteq> Inl Dead_Object"
    using tick_entry_live [OF assms(1) Cons.prems(1) p, of now] one by simp_all
  have "\<forall>k\<in>set ks. um_find (w_pending w1) k \<noteq> None"
    using Cons.prems(2) tick_entry_pending(1) [OF p, of E now] one by auto
  with Cons.IH [OF w1(1)] w1 one show ?case
    by (auto simp: bindM_def ret_def split: prod.splits sum.splits)
qed

lemma fine_onTick [fine_rules]:
  assumes "lib_ok E"
  shows "fine E S (onTick E)"
  unfolding fine_def
proof (intro allI impI)
  fix S' w assume w: "live E S' w"
  let ?w = "w\<lparr>w_steady_reads := Suc (w_steady_reads w)\<rparr>"
  let ?loop = "tick_loop E (env_steady E (w_steady_reads w)) (um_keys (w_pending w)) ?w"
  have "live E S' ?w"
    using w by (auto simp: live_def gw_inv_def ctx_inv_def heap_inv_def wake_inv_def)
  then have loop: "live E S' (snd ?loop) \<and> fst ?loop \<noteq> Inl Dead_Object"
    using assms by (intro tick_loop_live) (auto simp: um.mem_keys)
  have "onTick E w = bindM (\<lambda>_. ?loop) (\<lambda>remove_list. forM remove_list erase_pending) w"
    by (simp add: onTick_def comp_step wake_runs bindM_def getsM_def)
  moreover have "fine E S' (forM rm erase_pending)" for rm
    by (intro fine_forM fine_erase_pending)
  note fineD [OF this subset_refl]
  ultimately show "live E S' (snd (onTick E w)) \<and> fst (onTick E w) \<noteq> Inl Dead_Object"
    using loop by (auto simp: bindM_def split: prod.splits sum.splits)
qed

subsection \<open>The sessions\<close>

text \<open>Changes of the shared state that keep its invariant.\<close>

lemma fine_modify_ctx:
  assumes "\<And>S w. live E S w \<Longrightarrow> ctx_inv (w\<lparr>w_ctx := f (w_ctx w)\<rparr>)"
  shows "fine E S (modify_ctx f)"
  using assms
  by (auto simp: fine_def modify_ctx_def modifyM_def live_def gw_inv_def heap_inv_def wake_inv_def)

lemma fine_states [fine_rules]: "fine E S (write_state d f)" "fine E S (state_ref d)"
proof -
  show wr: "fine E S (write_state d f)" for f
    unfolding write_state_def
    by (rule fine_modify_ctx)
      (auto simp: live_def gw_inv_def ctx_inv_def um_ok_modify split: option.splits)
  have "snd (state_ref d w) = snd (write_state d (\<lambda>s. s) w)"
    "fst (state_ref d w) \<noteq> Inl Dead_Object" for w
    by (simp_all add: state_ref_def write_state_def comp_defs modify_ctx_def get_ctx_def)
  with wr show "fine E S (state_ref d)"
    by (simp add: fine_def)
qed

lemma fine_erase_registration [fine_rules]:
  "fine E S (modify_ctx (\<lambda>c. c\<lparr>ctx_sessions := um_erase (ctx_sessions c) d\<rparr>))"
  by (rule fine_modify_ctx) (auto simp: live_def gw_inv_def ctx_inv_def um.ok_erase)

lemma fine_updateRedisOnline [fine_rules]:
  "lib_ok E \<Longrightarrow> fine E S (updateRedisOnline E state)"
  unfolding updateRedisOnline_def setOnline_def by (intro fine_rules; assumption)

lemma fine_registerOnlineState:
  assumes "lib_ok E" and "sid \<in> S" and "ds_device_id state \<noteq> []"
  shows "fine E S (registerOnlineState E sid state)"
  unfolding registerOnlineState_def fine_def
proof (intro allI impI)
  fix S' w assume S': "S \<subseteq> S'" "live E S' w"
  let ?reg = "modify_ctx (\<lambda>c. c\<lparr>ctx_sessions := um_put (ctx_sessions c) (ds_device_id state) sid,
         ctx_states := um_put (ctx_states c) (ds_device_id state) state\<rparr>)"
  have "sid < w_next_session w"
    using S' assms(2) by (auto simp: live_def gw_inv_def heap_inv_def alive_set_def)
  then have "live E S' (snd (?reg w))"
    using S'(2) assms(3)
    by (auto simp: modify_ctx_def modifyM_def live_def gw_inv_def ctx_inv_def heap_inv_def
        wake_inv_def um.ok_put)
  from fineD [OF fine_updateRedisOnline [OF assms(1)] subset_refl this, of state]
  show "live E S' (snd (thenM ?reg (updateRedisOnline E state) w))
      \<and> fst (thenM ?reg (updateRedisOnline E state) w) \<noteq> Inl Dead_Object"
    by (simp add: thenM_def bindM_def modify_ctx_def modifyM_def)
qed

lemma fine_session_updates [fine_rules]:
  "sid \<in> S \<Longrightarrow> fine E S (modify_session sid (\<lambda>s. s\<lparr>ss_closing := b\<rparr>))"
  "sid \<in> S \<Longrightarrow> fine E S (modify_session sid (\<lambda>s. s\<lparr>ss_device_id := d\<rparr>))"
  "sid \<in> S \<Longrightarrow> fine E S (modify_session sid (\<lambda>s. s\<lparr>ss_protocol := p\<rparr>))"
  "sid \<in> S \<Longrightarrow> fine E S (modify_session sid (\<lambda>s. s\<lparr>ss_read_buffer := buf\<rparr>))"
  "sid \<in> S \<Longrightarrow> fine E S (modify_session sid
     (\<lambda>s. s\<lparr>ss_writer := write_completed ok (ss_writer s)\<rparr>))"
  by (intro fine_modify_session; simp add: writer_ok_completed)+

lemma fine_handleDisconnect [fine_rules]:
  "lib_ok E \<Longrightarrow> sid \<in> S \<Longrightarrow> fine E S (handleDisconnect E sid)"
  unfolding handleDisconnect_def deregisterDevice_def by (intro fine_rules; assumption)

lemma fine_handleJsonLogin [fine_rules]:
  "lib_ok E \<Longrightarrow> sid \<in> S \<Longrightarrow> fine E S (handleJsonLogin E sid msg)"
  unfolding handleJsonLogin_def by (intro fine_rules fine_registerOnlineState; simp)

lemma fine_update_field:
  assumes "\<And>s. rd s \<noteq> Inl Dead_Object"
  shows "fine E S (update_field d rd upd)"
  unfolding update_field_def using assms by (intro fine_rules fine_liftR)

lemma fine_handleJsonHeartbeat [fine_rules]:
  "lib_ok E \<Longrightarrow> sid \<in> S \<Longrightarrow> fine E S (handleJsonHeartbeat E sid msg)"
  unfolding handleJsonHeartbeat_def Let_def
  by (intro fine_rules fine_update_field; (assumption | simp add: json_raises_def))

lemma fine_json_handlers [fine_rules]:
  "lib_ok E \<Longrightarrow> fine E S (handleJsonWakeAck E sid msg)"
  "lib_ok E \<Longrightarrow> sid \<in> S \<Longrightarrow> fine E S (handleJsonTaskDone E sid msg)"
  "lib_ok E \<Longrightarrow> sid \<in> S \<Longrightarrow> fine E S (handleJsonHostSleep E sid msg)"
  "lib_ok E \<Longrightarrow> sid \<in> S \<Longrightarrow> fine E S (handleJsonHostState E sid msg)"
  unfolding handleJsonWakeAck_def handleJsonTaskDone_def handleJsonHostSleep_def
    handleJsonHostState_def
  by (intro fine_rules; assumption)+

lemma fine_handleJsonMessage [fine_rules]:
  "lib_ok E \<Longrightarrow> sid \<in> S \<Longrightarrow> fine E S (handleJsonMessage E sid line)"
  unfolding handleJsonMessage_def by (intro fine_rules; assumption)

lemma fine_key_lookups [fine_rules]:
  "fine E S (resolveLocalKey E' d)" "fine E S (lookup_encrypted_id E' enc)"
  unfolding resolveLocalKey_def lookup_encrypted_id_def by (intro fine_rules)+

lemma aes_raises: "aes128CbcPkcs7Encrypt C key iv plain \<noteq> Inl Dead_Object"
  by (simp add: aes128CbcPkcs7Encrypt_def Let_def)

lemma buildAuthResponse_raises:
  assumes "json_raises J"
  shows "buildAuthResponse C J iv rnd now d k r hb \<noteq> Inl Dead_Object"
proof -
  have "json_dump J doc \<noteq> Inl Dead_Object" for doc
    using assms by (simp add: json_raises_def)
  then show ?thesis
    unfolding buildAuthResponse_def Let_def
    by (simp split: sum.split) (metis aes_raises)
qed

lemma fine_run_buildAuthResponse [fine_rules]:
  "lib_ok E \<Longrightarrow> fine E S (run_buildAuthResponse E d k r)"
  unfolding run_buildAuthResponse_def
  by (intro fine_rules fine_liftR buildAuthResponse_raises)

lemma fine_handleLowPowerAuthReq [fine_rules]:
  "lib_ok E \<Longrightarrow> sid \<in> S \<Longrightarrow> fine E S (handleLowPowerAuthReq E sid frame)"
  unfolding handleLowPowerAuthReq_def by (intro fine_rules fine_registerOnlineState; simp)

lemma fine_handleLowPowerFrame [fine_rules]:
  "lib_ok E \<Longrightarrow> sid \<in> S \<Longrightarrow> fine E S (handleLowPowerFrame E sid frame)"
  unfolding handleLowPowerFrame_def handleLowPowerHeartbeat_def
  by (intro fine_rules; assumption)

lemma fine_read_completed [fine_rules]:
  assumes "lib_ok E" and "sid \<in> S"
  shows "fine E S (read_completed E sid result)"
proof -
  have "fine E S (on_read E sid op result)" for op
    using assms
    by (cases op) (auto simp: on_peek_def on_json_line_def on_lowpower_header_def
        on_lowpower_payload_def readLowPowerPayload_def split: option.split list.split
        intro!: fine_rules)
  then show ?thesis
    unfolding read_completed_def using assms by (intro fine_rules)
qed

lemma fine_session_write_completed [fine_rules]:
  "lib_ok E \<Longrightarrow> sid \<in> S \<Longrightarrow> fine E S (session_write_completed E sid ok)"
  unfolding session_write_completed_def by (intro fine_rules; assumption)

subsection \<open>The servers\<close>

lemma fine_session_start:
  assumes "remote \<noteq> Inl Dead_Object"
  shows "fine E S (session_start remote)"
proof (cases remote)
  case (Inl e)
  with assms show ?thesis by (simp add: fine_def session_start_def bindM_def liftR_def)
next
  case (Inr addr)
  show ?thesis
    unfolding fine_def
  proof (intro allI impI)
    fix S' w assume w: "live E S' w"
    let ?sid = "w_next_session w"
    have "um_find (w_heap w) ?sid = None"
      using w by (cases "um_find (w_heap w) ?sid") (auto simp: live_def gw_inv_def heap_inv_def)
    moreover have "session_start remote w = (Inr (), w\<lparr>w_next_session := Suc ?sid,
        w_heap := um_put (w_heap w) ?sid ((new_Session addr)\<lparr>ss_reading := Peek\<rparr>)\<rparr>)"
      by (simp add: session_start_def Inr comp_defs readAutoDetect_def start_read_def
          modify_session_def)
    moreover have "writer_ok (ss_writer ((new_Session addr)\<lparr>ss_reading := Peek\<rparr>))"
      by (simp add: new_Session_def writer_ok_new)
    ultimately show "live E S' (snd (session_start remote w))
        \<and> fst (session_start remote w) \<noteq> Inl Dead_Object"
      using w
      by (auto simp: live_def gw_inv_def ctx_inv_def heap_inv_def wake_inv_def alive_set_def
          um.ok_put less_Suc_eq intro: less_SucI split: if_splits)
  qed
qed

lemma fine_tcp_accept: "r \<noteq> Some (Inl Dead_Object) \<Longrightarrow> fine E S (tcp_accept r)"
  by (auto simp: tcp_accept_def fine_ret intro: fine_session_start split: option.split)

lemma fine_checkOffline [fine_rules]: "fine E S (checkOffline E')"
  unfolding checkOffline_def mark_offline_def by (intro fine_rules)

lemma fine_http_response [fine_rules]: "lib_ok E \<Longrightarrow> fine E S (http_response E code body)"
  unfolding http_response_def by (intro fine_rules)

interpretation wake: dispatcher "sendWake E" "\<lambda>w. lib_ok E \<and> live E S w" Dead_Object for E S
  by unfold_locales (auto dest: fineD [OF fine_sendWake subset_refl])

lemma fine_reported:
  assumes "lib_ok E" and f: "\<And>r S. fine E S (f r)" and h: "\<And>e S. fine E S (h e)"
  shows "fine E S (catchM (bindM (sendWake E d c p) f) h)"
  unfolding fine_def
proof (intro allI impI)
  fix S' w assume "live E S' w"
  with assms(1) wake.reported [of E S' w f h d c p]
  show "live E S' (snd (catchM (bindM (sendWake E d c p) f) h w))
      \<and> fst (catchM (bindM (sendWake E d c p) f) h w) \<noteq> Inl Dead_Object"
    using fineD [OF f subset_refl] fineD [OF h subset_refl] by blast
qed

lemma catch_ctx:
  "catchM (bindM get_ctx (\<lambda>c. if P c then m else n)) h =
     bindM get_ctx (\<lambda>c. if P c then catchM m h else catchM n h)"
  by (auto simp: fun_eq_iff get_ctx_def comp_defs)

lemma fine_http_handle [fine_rules]: "lib_ok E \<Longrightarrow> fine E S (http_handle E line)"
  unfolding http_handle_def handleOnline_def handleCommand_def command_response_def catch_ctx
  by (auto split: route.split intro!: fine_bindM fine_get_ctx fine_if fine_case_option
      fine_http_response fine_reported fine_catchM [OF fine_http_response])

lemma fine_http_request [fine_rules]: "lib_ok E \<Longrightarrow> fine E S (http_request E r)"
  unfolding http_request_def by (intro fine_rules)

lemma fine_modify_tasks [fine_rules]: "fine E S (modifyM (\<lambda>w. w\<lparr>w_tasks := f w\<rparr>))"
  by (intro fine_keeps keeps_modifyM) (simp_all add: modifyM_def)

lemma fine_run_task [fine_rules]: "lib_ok E \<Longrightarrow> fine E S (run_task E)"
  unfolding run_task_def command_task_def
  by (auto split: list.split intro!: fine_bindM fine_thenM fine_getsM fine_get_ctx fine_if fine_ret
      fine_modify_tasks fine_publications fine_reported)

lemma fine_mqtt_onMessage [fine_rules]: "lib_ok E \<Longrightarrow> fine E S (mqtt_onMessage E t p)"
  unfolding mqtt_onMessage_def handleCommandRequest_def
  by (auto split: option.split simp: Let_def intro!: fine_rules)

section \<open>Every handler\<close>

lemma fine_gateway_handler:
  assumes "lib_ok E" and "enabled ev w" and "gw_inv E w"
  shows "gw_inv E (snd (gateway_handler E ev w)) \<and> fst (gateway_handler E ev w) \<noteq> Inl Dead_Object"
proof -
  define S where "S = alive_set w"
  have w: "live E S w" using assms(3) by (simp add: live_def S_def)
  have "fine E S (gateway_handler E ev)"
  proof (cases ev)
    case (Accept r)
    with assms(2) show ?thesis by (simp add: gateway_handler_def enabled_def fine_tcp_accept)
  next
    case (Read sid r)
    with assms show ?thesis
      by (auto simp: gateway_handler_def enabled_def S_def alive_set_def intro!: fine_rules
          split: option.splits)
  next
    case (Strand sid)
    with assms show ?thesis
      by (auto simp: gateway_handler_def enabled_def S_def alive_set_def intro!: fine_rules
          split: option.splits)
  next
    case (Written sid ok)
    with assms show ?thesis
      by (auto simp: gateway_handler_def enabled_def S_def alive_set_def intro!: fine_rules
          split: option.splits)
  qed (use assms in \<open>auto simp: gateway_handler_def intro!: fine_rules\<close>)
  from fineD [OF this subset_refl w] show ?thesis by (simp add: live_def)
qed

lemma gw_inv_reap: "gw_inv E w \<Longrightarrow> gw_inv E (reap w)"
  by (auto simp: gw_inv_def ctx_inv_def heap_inv_def wake_inv_def um_find_reap reap_def
      um_ok_filter um_find_filter split: option.splits if_splits)

lemma gw_inv_initial: "gw_inv E (initial_World mqtt log)"
  by (simp add: gw_inv_def ctx_inv_def heap_inv_def wake_inv_def initial_World_def pending_ok_def)

fun process_inv :: "env \<Rightarrow> process \<Rightarrow> bool" where
  "process_inv E (Running w) \<longleftrightarrow> lib_ok E \<longrightarrow> gw_inv E w"
| "process_inv E (Ended e) \<longleftrightarrow> lib_ok E \<longrightarrow> e \<noteq> Dead_Object"

interpretation process: machine "process_step E" "process_inv E" for E
proof
  fix p ev assume inv: "process_inv E p"
  show "process_inv E (process_step E ev p)"
  proof (cases p)
    case (Running w)
    with inv fine_gateway_handler [of E ev w] show ?thesis
      by (auto intro: gw_inv_reap split: prod.split sum.split)
  next
    case (Ended e)
    with inv show ?thesis by simp
  qed
qed

lemma reachable_inv: "reachable E (initial_World mqtt log) w \<Longrightarrow> lib_ok E \<Longrightarrow> gw_inv E w"
proof (induction rule: reachable.induct)
  case start
  show ?case by (rule gw_inv_initial)
next
  case (step w ev w')
  then show ?case
    using fine_gateway_handler [of E ev w] by (auto simp: gw_step_iff intro: gw_inv_reap)
qed

end
