(* ===== verification/Registry.thy ===== *)
theory Registry
  imports GatewayInvariants
begin

text \<open>
  Relations between the world before and after a handler, proved for every operation of every
  component.  The registry is who may be reached under which identifier: an entry appears only
  for the session whose message is being handled, and may vanish.  A session that has been
  disconnected stays so, and its name is not used again.  The read loop of a session and its
  protocol are left alone by everything but the read loop.
\<close>

section \<open>The relations\<close>

abbreviation registry :: "World \<Rightarrow> string \<Rightarrow> nat option" where
  "registry w \<equiv> um_find (ctx_sessions (w_ctx w))"

text \<open>The abstract registry: every entry stays, vanishes, or is one of the sessions
  \<open>A\<close>.\<close>

definition registry_step :: "nat set \<Rightarrow> (string \<Rightarrow> nat option) \<Rightarrow> (string \<Rightarrow> nat option) \<Rightarrow> bool" where
  "registry_step A r r' \<longleftrightarrow>
     (\<forall>d. r' d = r d \<or> r' d = None \<or> (\<exists>sid\<in>A. r' d = Some sid))"

text \<open>What a session reads: its protocol and the read that is outstanding.\<close>

definition reads_of :: "World \<Rightarrow> nat \<Rightarrow> (SessionProtocol \<times> read_op) option" where
  "reads_of w sid = map_option (\<lambda>s. (ss_protocol s, ss_reading s)) (um_find (w_heap w) sid)"

text \<open>The session is disconnected or gone; and what is so stays so.\<close>

definition over :: "nat \<Rightarrow> World \<Rightarrow> bool" where
  "over sid w \<longleftrightarrow> (\<forall>s. um_find (w_heap w) sid = Some s \<longrightarrow> ss_closing s)"

definition lasting :: "World \<Rightarrow> World \<Rightarrow> bool" where
  "lasting w w' \<longleftrightarrow> w_next_session w \<le> w_next_session w'
     \<and> (\<forall>sid<w_next_session w. over sid w \<longrightarrow> over sid w')"

definition relates :: "nat set \<Rightarrow> World \<Rightarrow> World \<Rightarrow> bool" where
  "relates A w w' \<longleftrightarrow> registry_step A (registry w) (registry w') \<and> lasting w w'"

definition tracks :: "nat set \<Rightarrow> World \<Rightarrow> World \<Rightarrow> bool" where
  "tracks A w w' \<longleftrightarrow> relates A w w' \<and> reads_of w' = reads_of w"

lemma registry_step_refl: "registry_step A r r"
  by (simp add: registry_step_def)

lemma registry_step_trans: "registry_step A r r' \<Longrightarrow> registry_step A r' r'' \<Longrightarrow> registry_step A r r''"
  unfolding registry_step_def by metis

lemma registry_step_mono: "registry_step A r r' \<Longrightarrow> A \<subseteq> B \<Longrightarrow> registry_step B r r'"
  unfolding registry_step_def by blast

lemma lasting_same: "w_heap w' = w_heap w \<Longrightarrow> w_next_session w' = w_next_session w \<Longrightarrow> lasting w w'"
  by (simp add: lasting_def over_def)

lemma lasting_put:
  assumes "um_find (w_heap w) sid = Some s" and "ss_closing s \<Longrightarrow> ss_closing (f s)"
  shows "lasting w (w\<lparr>w_heap := um_put (w_heap w) sid (f s)\<rparr>)"
  using assms by (auto simp: lasting_def over_def)

lemma lasting_trans: "lasting w w1 \<Longrightarrow> lasting w1 w2 \<Longrightarrow> lasting w w2"
  unfolding lasting_def by (meson le_trans less_le_trans)

interpretation relates: step_relation "relates A" for A
  by unfold_locales
    (auto simp: relates_def registry_step_refl lasting_same intro: registry_step_trans lasting_trans)

interpretation tracks: step_relation "tracks A" for A
  by unfold_locales (auto simp: tracks_def relates.refl intro: relates.trans)

lemma tracks_mono: "tracks A w w' \<Longrightarrow> A \<subseteq> B \<Longrightarrow> tracks B w w'"
  by (auto simp: tracks_def relates_def intro: registry_step_mono)

lemma moves_tracks_mono: "moves (tracks {}) m \<Longrightarrow> moves (tracks A) m"
  by (erule moves_mono) (auto intro: tracks_mono)

lemma moves_tracks_relates: "moves (tracks A) m \<Longrightarrow> moves (relates A) m"
  by (erule moves_mono) (simp add: tracks_def)

text \<open>What touches neither the registrations nor the sessions.\<close>

lemma tracks_keeps:
  "keeps (\<lambda>w. (ctx_sessions (w_ctx w), w_heap w, w_next_session w)) m \<Longrightarrow> moves (tracks A) m"
  by (rule keeps_moves)
    (auto simp: tracks_def relates_def registry_step_refl lasting_same reads_of_def fun_eq_iff)

section \<open>Every operation\<close>

named_theorems tracks_rules

lemma relates_modify_session:
  assumes "\<And>s. ss_closing s \<Longrightarrow> ss_closing (f s)"
  shows "moves (relates A) (modify_session sid f)"
  using assms
  by (auto simp: moves_def modify_session_def relates_def registry_step_refl lasting_put
      intro: lasting_same split: option.split)

lemma tracks_modify_session:
  assumes "\<And>s. ss_protocol (f s) = ss_protocol s \<and> ss_reading (f s) = ss_reading s
    \<and> (ss_closing s \<longrightarrow> ss_closing (f s))"
  shows "moves (tracks A) (modify_session sid f)"
proof -
  have "moves (relates A) (modify_session sid f)"
    using assms by (intro relates_modify_session) simp
  then show ?thesis
    using assms
    by (auto simp: moves_def modify_session_def tracks_def reads_of_def fun_eq_iff split: option.split)
qed

lemma tracks_elementary [tracks_rules]:
  "moves (tracks A) get_ctx"
  "moves (tracks A) (get_session sid)"
  "moves (tracks A) (steady_now E)"
  "moves (tracks A) (system_now E)"
  "moves (tracks A) (rand_bytes E)"
  "moves (tracks A) (on_redis f)"
  "moves (tracks A) (on_redis_throwing h)"
  "moves (tracks A) (session_alive sid)"
  "moves (tracks A) (state_ref d)"
  "moves (tracks A) (write_state d u)"
  "moves (tracks A) (get_pending k)"
  by (rule tracks_keeps, intro keeps_rules; simp)+

lemma tracks_pending [tracks_rules]:
  "moves (tracks A) (add_pending k p)"
  "moves (tracks A) (erase_pending k)"
  "moves (tracks A) (set_pending k g)"
  by (rule tracks_keeps, rule keeps_pending_ops; simp)+

lemma tracks_clock_ops [tracks_rules]:
  "moves (tracks A) (nowMs E)"
  "moves (tracks A) (makeMsgId E)"
  "moves (tracks A) (publishCommandEvent E d m st c x)"
  "moves (tracks A) (publishDeviceOffline E d)"
  "moves (tracks A) (mqtt_publishCommandEvent E d j)"
  "moves (tracks A) (updateRedisOnline E state)"
  "moves (tracks A) (resolveLocalKey E d)"
  "moves (tracks A) (lookup_encrypted_id E enc)"
  "moves (tracks A) (run_buildAuthResponse E d k r)"
  by (rule tracks_keeps, intro keeps_rules; simp)+

lemma tracks_heap_ops [tracks_rules]:
  "moves (tracks A) (close_session sid)"
  "moves (tracks A) (sendRaw sid data)"
  "moves (tracks A) (session_run_posted sid)"
  "moves (tracks A) (session_protocol sid)"
  unfolding close_session_def sendRaw_def session_run_posted_def session_protocol_def
  by (intro tracks_modify_session tracks.moves_rules tracks_rules; simp)+

lemma tracks_sendJson [tracks_rules]: "moves (tracks A) (sendJson E sid j)"
  unfolding sendJson_def by (intro tracks.moves_rules tracks_rules)

lemma tracks_erase [tracks_rules]:
  "moves (tracks A) (modify_ctx (\<lambda>c. c\<lparr>ctx_sessions := um_erase (ctx_sessions c) d\<rparr>))"
  by (auto simp: moves_def modify_ctx_def modifyM_def tracks_def relates_def lasting_same
      registry_step_def reads_of_def)

lemma tracks_register [tracks_rules]:
  "moves (tracks {sid}) (modify_ctx (\<lambda>c. c\<lparr>ctx_sessions := um_put (ctx_sessions c) d sid,
     ctx_states := st c\<rparr>))"
  by (auto simp: moves_def modify_ctx_def modifyM_def tracks_def relates_def lasting_same
      registry_step_def reads_of_def)

lemma tracks_wake [tracks_rules]:
  "moves (tracks A) (lock_session d)"
  "moves (tracks A) (sendLowPowerWake E d)"
  unfolding lock_session_def sendLowPowerWake_def
  by (intro tracks.moves_rules tracks_rules)+


lemma tracks_sendWake [tracks_rules]: "moves (tracks A) (sendWake E d cmd params)"
  unfolding sendWake_def by (intro tracks.moves_rules tracks_rules)

lemma tracks_mark [tracks_rules]:
  "moves (tracks A) (markAck E m)" "moves (tracks A) (markDone E m)"
  unfolding markAck_def markDone_def by (intro tracks.moves_rules tracks_rules)+

lemma tracks_retryWake [tracks_rules]: "moves (tracks A) (retryWake E k)"
  unfolding retryWake_def resendWake_def by (intro tracks.moves_rules tracks_rules)

lemma tracks_tick_loop [tracks_rules]: "moves (tracks A) (tick_loop E now ks)"
  by (induction ks) (simp_all, (intro tracks.moves_rules tracks_rules | simp add: tick_entry_def)+)

lemma tracks_onTick [tracks_rules]: "moves (tracks A) (onTick E)"
  unfolding onTick_def by (intro tracks.moves_rules tracks_rules)

lemma tracks_handleDisconnect [tracks_rules]: "moves (tracks A) (handleDisconnect E sid)"
  unfolding handleDisconnect_def deregisterDevice_def
  by (intro tracks.moves_rules tracks_rules tracks_modify_session; simp)

lemma tracks_registerOnlineState [tracks_rules]:
  "moves (tracks {sid}) (registerOnlineState E sid state)"
  unfolding registerOnlineState_def by (intro tracks.moves_rules tracks_rules)

lemma tracks_update_field [tracks_rules]: "moves (tracks A) (update_field d rd upd)"
  unfolding update_field_def by (intro tracks.moves_rules tracks_rules)

lemma tracks_device_id [tracks_rules]:
  "moves (tracks A) (modify_session sid (\<lambda>s. s\<lparr>ss_device_id := d\<rparr>))"
  "moves (tracks A) (modify_session sid (\<lambda>s. s\<lparr>ss_read_buffer := b\<rparr>))"
  "moves (tracks A) (modify_session sid (\<lambda>s. s\<lparr>ss_writer := g s\<rparr>))"
  by (rule tracks_modify_session; simp)+

lemma tracks_json_handlers [tracks_rules]:
  "moves (tracks {sid}) (handleJsonLogin E sid msg)"
  "moves (tracks A) (handleJsonHeartbeat E sid msg)"
  "moves (tracks A) (handleJsonWakeAck E sid msg)"
  "moves (tracks A) (handleJsonTaskDone E sid msg)"
  "moves (tracks A) (handleJsonHostSleep E sid msg)"
  "moves (tracks A) (handleJsonHostState E sid msg)"
  unfolding handleJsonLogin_def handleJsonHeartbeat_def handleJsonWakeAck_def
    handleJsonTaskDone_def handleJsonHostSleep_def handleJsonHostState_def
  by (intro tracks.moves_rules tracks_rules)+

lemma tracks_handleJsonMessage [tracks_rules]:
  "moves (tracks {sid}) (handleJsonMessage E sid line)"
  unfolding handleJsonMessage_def by (intro tracks.moves_rules tracks_rules)

lemma tracks_lowpower_handlers [tracks_rules]:
  "moves (tracks {sid}) (handleLowPowerAuthReq E sid frame)"
  "moves (tracks A) (handleLowPowerHeartbeat E sid frame)"
  unfolding handleLowPowerAuthReq_def handleLowPowerHeartbeat_def
  by (intro tracks.moves_rules tracks_rules)+

lemma tracks_handleLowPowerFrame [tracks_rules]:
  "moves (tracks {sid}) (handleLowPowerFrame E sid frame)"
  unfolding handleLowPowerFrame_def by (intro tracks.moves_rules tracks_rules)

lemma tracks_written [tracks_rules]:
  "moves (tracks A) (session_write_completed E sid ok)"
  unfolding session_write_completed_def by (intro tracks.moves_rules tracks_rules)

lemma tracks_checkOffline [tracks_rules]: "moves (tracks A) (checkOffline E)"
  unfolding checkOffline_def mark_offline_def by (intro tracks.moves_rules tracks_rules)

lemma tracks_http_response [tracks_rules]: "moves (tracks A) (http_response E code body)"
  unfolding http_response_def by (intro tracks.moves_rules)

lemma tracks_http_handle [tracks_rules]: "moves (tracks A) (http_handle E line)"
proof -
  have "moves (tracks A) (handleOnline E d)" for d
    unfolding handleOnline_def by (intro tracks.moves_rules tracks_rules)
  moreover have "moves (tracks A) (handleCommand E d cmd)" for d cmd
    unfolding handleCommand_def command_response_def by (intro tracks.moves_rules tracks_rules)
  ultimately show ?thesis
    unfolding http_handle_def by (auto intro: tracks_rules split: route.split)
qed

lemma tracks_http_request [tracks_rules]: "moves (tracks A) (http_request E r)"
  unfolding http_request_def by (intro tracks.moves_rules tracks_rules)

lemma tracks_mqtt [tracks_rules]:
  "moves (tracks A) (mqtt_onMessage E t p)"
  "moves (tracks A) (run_task E)"
proof -
  have posted: "moves (tracks A) (modifyM (\<lambda>w. w\<lparr>w_tasks := f w\<rparr>))" for f
    by (rule tracks_keeps, rule keeps_modifyM) simp
  have "moves (tracks A) (handleCommandRequest E d j)" for d j
    unfolding handleCommandRequest_def by (intro tracks.moves_rules tracks_rules posted)
  then show "moves (tracks A) (mqtt_onMessage E t p)"
    unfolding mqtt_onMessage_def
    by (cases t; cases p) (simp_all add: tracks.moves_pure Let_def tracks.moves_rules tracks_rules)
  have "moves (tracks A) (command_task E (sendWake E) task)" for task
    unfolding command_task_def by (intro tracks.moves_rules tracks_rules)
  then show "moves (tracks A) (run_task E)"
    unfolding run_task_def
    by (intro tracks.moves_rules) (auto intro: tracks.moves_rules posted split: list.split)
qed

section \<open>The read loops\<close>

lemmas relates_tracked = tracks_rules [THEN moves_tracks_relates]

lemma relates_start_read:
  "moves (relates A) (start_read sid op)"
  "moves (relates A) (readJsonLine sid)"
  "moves (relates A) (readLowPowerHeader sid)"
  "moves (relates A) (readAutoDetect sid)"
  "moves (relates A) (modify_session sid (\<lambda>s. s\<lparr>ss_protocol := p\<rparr>))"
  unfolding start_read_def readJsonLine_def readLowPowerHeader_def readAutoDetect_def
  by (intro relates_modify_session; simp)+

lemma relates_read_completed: "moves (relates {sid}) (read_completed E sid r)"
proof -
  have "moves (relates {sid}) (on_read E sid op r)" for op
  proof (cases op)
    case Peek
    then show ?thesis
      by (auto simp: on_peek_def intro!: relates.moves_rules relates_start_read relates_tracked
          split: option.split list.split)
  next
    case Json_line
    then show ?thesis
      by (simp add: on_json_line_def) (intro relates.moves_rules relates_start_read relates_tracked)
  next
    case Lp_header
    have "moves (relates {sid}) (readLowPowerPayload E sid v t f n)" for v t f n
      unfolding readLowPowerPayload_def
      by (intro relates.moves_rules relates_start_read relates_tracked)
    with Lp_header show ?thesis
      by (simp add: on_lowpower_header_def) (intro relates.moves_rules relates_tracked)
  next
    case (Lp_payload version type flag sz)
    then show ?thesis
      by (simp add: on_lowpower_payload_def) (intro relates.moves_rules relates_start_read relates_tracked)
  qed (simp add: relates.moves_pure)
  then show ?thesis
    unfolding read_completed_def by (intro relates.moves_rules relates_start_read relates_tracked)
qed

section \<open>What a session reads\<close>

text \<open>The protocol is chosen once: the flat order.\<close>

instantiation SessionProtocol :: order_bot
begin

definition bot_SessionProtocol :: SessionProtocol where "bot_SessionProtocol = UNKNOWN"

definition less_eq_SessionProtocol :: "SessionProtocol \<Rightarrow> SessionProtocol \<Rightarrow> bool" where
  "less_eq_SessionProtocol p q \<longleftrightarrow> p = UNKNOWN \<or> p = q"

definition less_SessionProtocol :: "SessionProtocol \<Rightarrow> SessionProtocol \<Rightarrow> bool" where
  "less_SessionProtocol p q \<longleftrightarrow> p = UNKNOWN \<and> q \<noteq> UNKNOWN"

instance
  by standard (auto simp: less_eq_SessionProtocol_def less_SessionProtocol_def bot_SessionProtocol_def)

end

text \<open>The read that a session of a protocol may wait for.\<close>

fun reads_for :: "SessionProtocol \<Rightarrow> read_op set" where
  "reads_for UNKNOWN = {No_read, Peek}"
| "reads_for JSON_LINE = {No_read, Json_line}"
| "reads_for LOWPOWER = {No_read, Lp_header} \<union> {Lp_payload v t f n | v t f n. True}"

text \<open>What the first bytes of a connection decide: an opening brace is JSON, the byte 1 is
  the low-power protocol, and anything else is neither.\<close>

fun first_choice :: "bytes option \<Rightarrow> SessionProtocol" where
  "first_choice (Some (b # _)) = (if b = 0x7B then JSON_LINE else if b = 0x01 then LOWPOWER else UNKNOWN)"
| "first_choice _ = UNKNOWN"

definition next_protocol :: "gw_event \<Rightarrow> nat \<Rightarrow> SessionProtocol \<Rightarrow> SessionProtocol" where
  "next_protocol ev sid p =
     (case ev of Read sid' r \<Rightarrow> if p = UNKNOWN \<and> sid' = sid then first_choice r else p | _ \<Rightarrow> p)"

text \<open>From a state where session \<open>sid\<close> speaks \<open>p\<close>, the computation leaves the
  other sessions alone and at most starts one of the reads \<open>ops\<close> on this one.\<close>

definition settles :: "nat \<Rightarrow> SessionProtocol \<Rightarrow> read_op set \<Rightarrow> 'a gw \<Rightarrow> bool" where
  "settles sid p ops m \<longleftrightarrow> (\<forall>w op. reads_of w sid = Some (p, op) \<longrightarrow>
     (\<exists>op'\<in>insert op ops. reads_of (snd (m w)) = (reads_of w)(sid \<mapsto> (p, op'))))"

lemma settlesD:
  assumes "settles sid p ops m" and "reads_of w sid = Some (p, op)" and "m w = (r, w')"
  obtains op' where "op' \<in> insert op ops" "reads_of w' = (reads_of w)(sid \<mapsto> (p, op'))"
  using assms unfolding settles_def by force

lemma settles_tracks: "moves (tracks A) m \<Longrightarrow> settles sid p ops m"
  by (auto simp: settles_def moves_def tracks_def)

lemma settles_bindM:
  assumes "settles sid p ops m" and "\<And>x. settles sid p ops (f x)"
  shows "settles sid p ops (bindM m f)"
  unfolding settles_def
proof (intro allI impI)
  fix w op assume op: "reads_of w sid = Some (p, op)"
  obtain r w1 where m: "m w = (r, w1)" by (cases "m w")
  from settlesD [OF assms(1) op m] obtain op1 where
    op1: "op1 \<in> insert op ops" "reads_of w1 = (reads_of w)(sid \<mapsto> (p, op1))" .
  show "\<exists>op'\<in>insert op ops. reads_of (snd (bindM m f w)) = (reads_of w)(sid \<mapsto> (p, op'))"
  proof (cases r)
    case (Inl e)
    with m op1 show ?thesis by (auto simp: bindM_def)
  next
    case (Inr x)
    obtain r2 w2 where f: "f x w1 = (r2, w2)" by (cases "f x w1")
    from settlesD [OF assms(2) _ f] op1 obtain op2 where
      "op2 \<in> insert op1 ops" "reads_of w2 = (reads_of w1)(sid \<mapsto> (p, op2))"
      by (metis fun_upd_same)
    with m f Inr op1 show ?thesis by (auto simp: bindM_def)
  qed
qed

lemma settles_thenM: "settles sid p ops m \<Longrightarrow> settles sid p ops n \<Longrightarrow> settles sid p ops (thenM m n)"
  by (simp add: thenM_def settles_bindM)

lemma settles_start_read: "op \<in> ops \<Longrightarrow> settles sid p ops (start_read sid op)"
  by (fastforce simp: settles_def start_read_def modify_session_def reads_of_def split: option.splits)

lemma settles_if: "settles sid p ops m \<Longrightarrow> settles sid p ops n \<Longrightarrow> settles sid p ops (if b then m else n)"
  by simp

lemmas settles_rules = settles_thenM settles_if settles_start_read
  tracks_handleJsonMessage [THEN settles_tracks] tracks_handleLowPowerFrame [THEN settles_tracks]
  tracks_handleDisconnect [THEN settles_tracks] tracks_heap_ops [THEN settles_tracks]

lemma settles_on_read:
  assumes "op \<in> reads_for p" and "p \<noteq> UNKNOWN"
  shows "settles sid p (reads_for p) (on_read E sid op r)"
proof (cases op)
  case No_read
  then show ?thesis by (simp add: settles_tracks [OF tracks.moves_pure(1)])
next
  case Peek
  with assms show ?thesis by (cases p) auto
next
  case Json_line
  with assms(1) have p: "p = JSON_LINE" by (cases p) auto
  have "settles sid JSON_LINE (reads_for JSON_LINE) (on_json_line E sid r)"
    unfolding on_json_line_def readJsonLine_def
    by (auto split: option.split simp: Let_def case_prod_beta
        intro!: settles_bindM settles_rules settles_tracks [OF tracks.moves_whenM]
          settles_tracks [OF tracks_elementary(2)] settles_tracks [OF tracks_device_id(2)]
          tracks_handleJsonMessage)
  with Json_line p show ?thesis by simp
next
  case Lp_header
  with assms(1) have p: "p = LOWPOWER" by (cases p) auto
  have "settles sid LOWPOWER (reads_for LOWPOWER) (on_lowpower_header E sid r)"
    by (auto simp: on_lowpower_header_def readLowPowerPayload_def readLowPowerHeader_def
        split: option.split intro!: settles_rules)
  with Lp_header p show ?thesis by simp
next
  case (Lp_payload v t f n)
  with assms(1) have p: "p = LOWPOWER" by (cases p) auto
  have "settles sid LOWPOWER (reads_for LOWPOWER) (on_lowpower_payload E sid v t f n r)"
    by (auto simp: on_lowpower_payload_def readLowPowerHeader_def split: option.split intro!: settles_rules)
  with Lp_payload p show ?thesis by simp
qed


lemma reads_of_Some:
  "reads_of w sid = Some (p, op) \<longleftrightarrow>
     (\<exists>s. um_find (w_heap w) sid = Some s \<and> ss_protocol s = p \<and> ss_reading s = op)"
  by (auto simp: reads_of_def)

lemma reads_of_put:
  "reads_of (w\<lparr>w_heap := um_put (w_heap w) sid s\<rparr>) = (reads_of w)(sid \<mapsto> (ss_protocol s, ss_reading s))"
  by (auto simp: reads_of_def)

lemma on_peek_reads:
  assumes "reads_of w sid = Some (UNKNOWN, No_read)"
  shows "\<exists>op\<in>reads_for (first_choice r).
    reads_of (snd (on_peek E sid r w)) = (reads_of w)(sid \<mapsto> (first_choice r, op))"
proof -
  obtain s where s: "um_find (w_heap w) sid = Some s" using assms by (auto simp: reads_of_Some)
  have stay: "\<exists>op\<in>reads_for UNKNOWN. reads_of (snd (m w)) = (reads_of w)(sid \<mapsto> (UNKNOWN, op))"
    if "moves (tracks {}) m" for m :: "unit gw"
    using that assms by (auto simp: moves_def tracks_def intro!: bexI [of _ No_read])
  have choose: "\<exists>op\<in>reads_for p. reads_of (snd (thenM (modify_session sid (\<lambda>s. s\<lparr>ss_protocol := p\<rparr>))
      (start_read sid op') w)) = (reads_of w)(sid \<mapsto> (p, op))"
    if "op' \<in> reads_for p" for p op'
    by (rule bexI [OF _ that])
      (use s in \<open>simp add: session_seq_runs start_read_def session_runs reads_of_put\<close>)
  have reads: "Json_line \<in> reads_for JSON_LINE" "Lp_header \<in> reads_for LOWPOWER" by simp_all
  have brace: "byte_of_char CHR ''{'' = 0x7B" by (simp add: byte_of_char_def)
  show ?thesis
    by (cases r rule: first_choice.cases)
      (auto simp: on_peek_def readJsonLine_def readLowPowerHeader_def brace VERSION_1_def
        intro: stay choose [OF reads(1)] choose [OF reads(2)] tracks_rules simp del: reads_for.simps)
qed

lemma read_completed_reads:
  fixes r :: "bytes option"
  assumes "reads_of w sid = Some (p, op)" and "op \<in> reads_for p" and "op \<noteq> No_read"
  defines "p' \<equiv> next_protocol (Read sid r) sid p"
  shows "\<exists>op'\<in>reads_for p'. reads_of (snd (read_completed E sid r w)) = (reads_of w)(sid \<mapsto> (p', op'))"
proof -
  obtain s where s: "um_find (w_heap w) sid = Some s" "ss_protocol s = p" "ss_reading s = op"
    using assms(1) by (auto simp: reads_of_Some)
  define w1 where "w1 = w\<lparr>w_heap := um_put (w_heap w) sid (s\<lparr>ss_reading := No_read\<rparr>)\<rparr>"
  have w1: "reads_of w1 = (reads_of w)(sid \<mapsto> (p, No_read))"
    by (simp add: w1_def reads_of_put s)
  have run: "read_completed E sid r w = on_read E sid op r w1"
    using s by (simp add: read_completed_def session_seq_runs start_read_def w1_def)
  show ?thesis
  proof (cases "p = UNKNOWN")
    case False
    have "\<exists>op'\<in>insert No_read (reads_for p). reads_of (snd (on_read E sid op r w1)) =
        (reads_of w1)(sid \<mapsto> (p, op'))"
      using settles_on_read [OF assms(2) False, of sid E r, unfolded settles_def, rule_format,
          of w1 No_read] w1 by simp
    then show ?thesis
      using False w1 by (cases p) (auto simp: run p'_def next_protocol_def)
  next
    case True
    with assms(2,3) have "op = Peek" by simp
    with on_peek_reads [of w1 sid r E] w1 True show ?thesis
      by (auto simp: run p'_def next_protocol_def)
  qed
qed

section \<open>Every step of the process\<close>

definition reads_ok :: "World \<Rightarrow> bool" where
  "reads_ok w \<longleftrightarrow> (\<forall>sid p op. reads_of w sid = Some (p, op) \<longrightarrow> op \<in> reads_for p)"

lemma tracks_gateway_handler:
  assumes "\<And>sid r. ev \<noteq> Read sid r" and "\<And>r. ev \<noteq> Accept r"
  shows "moves (tracks {}) (gateway_handler E ev)"
  using assms
  by (cases ev) (auto simp: gateway_handler_def intro!: tracks.moves_rules tracks_rules)

lemma relates_tcp_accept: "moves (relates A) (tcp_accept r)"
proof (rule movesI)
  fix w
  show "relates A w (snd (tcp_accept r w))"
    by (auto simp: tcp_accept_def session_start_def comp_defs readAutoDetect_def start_read_def
        modify_session_def relates_def registry_step_refl lasting_def over_def
        split: option.split sum.split)
qed

lemma relates_gateway_handler:
  "moves (relates (case ev of Read sid _ \<Rightarrow> {sid} | _ \<Rightarrow> {})) (gateway_handler E ev)"
proof (cases "(\<exists>sid r. ev = Read sid r) \<or> (\<exists>r. ev = Accept r)")
  case True
  then show ?thesis
    by (auto simp: gateway_handler_def relates_read_completed relates_tcp_accept)
next
  case False
  then have "moves (tracks {}) (gateway_handler E ev)" by (intro tracks_gateway_handler) auto
  then show ?thesis by (rule moves_tracks_relates [OF moves_tracks_mono])
qed

lemma tcp_accept_reads:
  assumes "um_find (w_heap w) (w_next_session w) = None" and "tcp_accept r w = (x, w')"
  shows "reads_of w' = reads_of w \<or> reads_of w' = (reads_of w)(w_next_session w \<mapsto> (UNKNOWN, Peek))"
  using assms
  by (auto simp: tcp_accept_def session_start_def comp_defs readAutoDetect_def start_read_def
      modify_session_def reads_of_def new_Session_def fun_eq_iff split: option.splits sum.splits)

lemma gateway_handler_reads:
  assumes "gateway_handler E ev w = (x, w')" and "enabled ev w" and "reads_ok w" and "heap_inv w"
  shows "reads_ok w' \<and> (\<forall>sid p op. reads_of w sid = Some (p, op) \<longrightarrow>
    (\<exists>op'. reads_of w' sid = Some (next_protocol ev sid p, op')))"
proof (cases ev)
  case (Accept r)
  have "um_find (w_heap w) (w_next_session w) = None"
    using assms(4) by (cases "um_find (w_heap w) (w_next_session w)") (auto simp: heap_inv_def)
  moreover from this have "reads_of w (w_next_session w) = None" by (simp add: reads_of_def)
  ultimately show ?thesis
    using tcp_accept_reads [of w r x w'] assms(1,3) Accept
    by (auto simp: gateway_handler_def reads_ok_def next_protocol_def split: if_splits)
next
  case (Read sid r)
  then obtain p op where rd: "reads_of w sid = Some (p, op)" "op \<noteq> No_read"
    using assms(2) by (auto simp: enabled_def reads_of_def split: option.splits)
  with assms(3) have "op \<in> reads_for p" by (auto simp: reads_ok_def)
  from read_completed_reads [OF rd(1) this rd(2), of r E] Read assms(1) obtain op' where
    "reads_of w' = (reads_of w)(sid \<mapsto> (next_protocol ev sid p, op'))"
    "op' \<in> reads_for (next_protocol ev sid p)"
    by (auto simp: gateway_handler_def)
  with rd assms(3) Read show ?thesis
    by (auto simp: reads_ok_def next_protocol_def split: if_splits)
qed (use tracks_gateway_handler [of ev E] assms(1,3) in
      \<open>auto simp: moves_def tracks_def reads_ok_def next_protocol_def dest!: spec [of _ w]\<close>)

lemma reads_of_reap:
  "um_ok (w_heap w) \<Longrightarrow> reads_of (reap w) sid = Some x \<Longrightarrow> reads_of w sid = Some x"
  by (auto simp: reads_of_def um_find_reap split: option.splits if_splits)

lemma reads_ok_reachable:
  assumes "reachable E (initial_World mqtt log) w" and "lib_ok E"
  shows "reads_ok w"
  using assms
proof (induction rule: reachable.induct)
  case start
  show ?case by (simp add: reads_ok_def reads_of_def initial_World_def)
next
  case (step w ev w')
  from step.hyps(2) obtain w1 where w1: "enabled ev w" "gateway_handler E ev w = (Inr (), w1)" "w' = reap w1"
    by (auto elim: gw_stepE)
  have inv: "gw_inv E w" using step by (intro reachable_inv) 
  then have "gw_inv E w1" using fine_gateway_handler [OF step.prems w1(1), of] w1(2) by simp
  with gateway_handler_reads [OF w1(2,1)] step inv w1(3) show ?case
    by (auto simp: reads_ok_def gw_inv_def heap_inv_def dest!: reads_of_reap)
qed

section \<open>A disconnected session stays disconnected\<close>

lemma over_step:
  assumes "gw_step E w ev w'" and "lib_ok E" and "gw_inv E w"
    and "sid < w_next_session w" and "over sid w"
  shows "sid < w_next_session w' \<and> over sid w'"
proof -
  obtain w1 where w1: "enabled ev w" "gateway_handler E ev w = (Inr (), w1)" "w' = reap w1"
    using assms(1) by (auto elim: gw_stepE)
  have "gw_inv E w1" using fine_gateway_handler [OF assms(2) w1(1), of] w1(2) assms(3) by simp
  then have ok: "um_ok (w_heap w1)" by (simp add: gw_inv_def heap_inv_def)
  have "lasting w w1"
    using relates_gateway_handler [of ev E] w1(2) by (auto simp: relates_def dest: movesD)
  then have "sid < w_next_session w1" "over sid w1"
    using assms(4,5) by (auto simp: lasting_def)
  then show ?thesis
    using ok by (auto simp: w1(3) over_def um_find_reap split: option.splits if_splits)
qed

lemma over_reachable:
  assumes "reachable E w w'" and "lib_ok E" and "reachable E (initial_World mqtt log) w"
    and "sid < w_next_session w" and "over sid w"
  shows "reachable E (initial_World mqtt log) w' \<and> sid < w_next_session w' \<and> over sid w'"
  using assms(1)
proof (induction rule: reachable.induct)
  case start
  with assms show ?case by simp
next
  case (step w1 ev w2)
  then show ?case
    using over_step [OF step.hyps(2) assms(2) reachable_inv] assms(2) by (auto intro: reachable.step)
qed

end
