(* ===== verification/Startup.thy ===== *)
theory Startup
  imports Registry
begin

text \<open>
  The start of the process (\<^verbatim>\<open>main\<close> in \<^verbatim>\<open>src/main.cpp\<close>): the configuration,
  the connection to Redis, the MQTT bridge, the two listening sockets, and the event loop with
  its threads.  Every failure on the way leaves \<^verbatim>\<open>main\<close> with the exit code 1, and the
  destructor of the bridge then stops a client that was started.
\<close>

section \<open>The sequence\<close>

text \<open>What the process finds: the content of the configuration file (\<open>None\<close> when it does
  not open), whether \<^verbatim>\<open>redisConnect\<close> gave a context, what libmosquitto answers,
  whether the two ports can be bound (the constructor of an acceptor throws otherwise), and
  \<^verbatim>\<open>hardware_concurrency()\<close>.\<close>

record boot =
  bt_path :: string
  bt_file :: "string option"
  bt_redis_up :: bool
  bt_mosquitto :: mosquitto_outcomes
  bt_tcp_bind :: bool
  bt_http_bind :: bool
  bt_hw :: nat

datatype startup = Exit int MqttClient | Serve env World MqttClient nat

definition configured :: "env \<Rightarrow> AppConfig \<Rightarrow> env" where
  "configured E cfg = E\<lparr>env_redis_cfg := app_redis cfg, env_session_cfg := makeSessionConfig cfg,
     env_wake_cfg := makeWakeConfig cfg, env_server_cfg := app_server cfg,
     env_mqtt_cfg := app_mqtt cfg\<rparr>"

text \<open>\<open>E\<close> brings the libraries, the Redis server and the clocks.  The number of the result
  counts the threads beside the main one.\<close>

definition gateway_main :: "env \<Rightarrow> boot \<Rightarrow> redis_cmd list \<Rightarrow> startup" where
  "gateway_main E B log =
     (case AppConfig_load (env_json E) (bt_path B) (bt_file B) of
        Inl _ \<Rightarrow> Exit 1 new_MqttClient
      | Inr cfg \<Rightarrow>
          (let (connected, log) = redis_connect (env_redis E) (app_redis cfg) (bt_redis_up B) log in
           if \<not> connected then Exit 1 new_MqttClient
           else
             (let (started, mqtt) = (if mc_enable (app_mqtt cfg)
                  then MqttBackend_start (app_mqtt cfg) (bt_mosquitto B) new_MqttClient
                  else (True, new_MqttClient)) in
              if \<not> started then Exit 1 (MqttBackend_stop mqtt)
              else if \<not> bt_tcp_bind B \<or> \<not> bt_http_bind B then Exit 1 (MqttBackend_stop mqtt)
              else Serve (configured E cfg) (initial_World (mc_enable (app_mqtt cfg)) log) mqtt
                (spawned_threads cfg (bt_hw B)))))"

section \<open>Lemmas\<close>

lemma new_client_balanced: "mqtt_balanced new_MqttClient"
  by (simp add: mqtt_balanced_def new_MqttClient_def)

lemma start_balanced: "mqtt_balanced (snd (MqttBackend_start cfg out new_MqttClient))"
  using mqtt_balanced_step [OF new_client_balanced, of cfg "Start out"] by simp

lemma stop_balanced: "mqtt_balanced st \<Longrightarrow> MqttBackend_stop st = new_MqttClient"
  by (cases st) (auto simp: mqtt_balanced_def MqttBackend_stop_def new_MqttClient_def)

lemma gateway_main_Serve_iff:
  "gateway_main E B log = Serve E' w mqtt n \<longleftrightarrow>
     (\<exists>cfg log'. AppConfig_load (env_json E) (bt_path B) (bt_file B) = Inr cfg
        \<and> redis_connect (env_redis E) (app_redis cfg) (bt_redis_up B) log = (True, log')
        \<and> (if mc_enable (app_mqtt cfg)
            then MqttBackend_start (app_mqtt cfg) (bt_mosquitto B) new_MqttClient = (True, mqtt)
            else mqtt = new_MqttClient)
        \<and> bt_tcp_bind B \<and> bt_http_bind B
        \<and> E' = configured E cfg \<and> w = initial_World (mc_enable (app_mqtt cfg)) log'
        \<and> n = spawned_threads cfg (bt_hw B))"
  by (auto simp: gateway_main_def Let_def split: sum.split prod.split)

lemma started_client:
  "mc_enable cfg \<Longrightarrow> MqttBackend_start cfg out new_MqttClient = (True, mqtt) \<Longrightarrow> mq_client mqtt"
  using mqtt_start_client [OF _ new_client_balanced] by (metis fst_conv snd_conv)

lemma gateway_main_Exit:
  assumes "gateway_main E B log = Exit code mqtt"
  shows "code = 1 \<and> mqtt = new_MqttClient"
proof -
  have stopped: "MqttBackend_stop (snd (MqttBackend_start cfg out new_MqttClient)) = new_MqttClient"
    "MqttBackend_stop new_MqttClient = new_MqttClient" for cfg out
    by (rule stop_balanced, rule start_balanced new_client_balanced)+
  show ?thesis
    using assms stopped
    by (auto simp: gateway_main_def Let_def split: sum.splits prod.splits if_splits) (metis snd_conv)+
qed

section \<open>Properties\<close>

text \<open>
  C12: the process serves exactly when its configuration loads, Redis accepts the connection,
  the bridge starts if it is enabled, and both ports can be bound; it then runs with that
  configuration, from the initial world, with the bridge set exactly when it is enabled and
  its client running.  In every other case it ends with the exit code 1 and holds nothing of
  the MQTT library any more.
\<close>

theorem main_outcome:
  "(\<forall>E' w mqtt n. gateway_main E B log = Serve E' w mqtt n \<longleftrightarrow>
      (\<exists>cfg log'. AppConfig_load (env_json E) (bt_path B) (bt_file B) = Inr cfg
        \<and> redis_connect (env_redis E) (app_redis cfg) (bt_redis_up B) log = (True, log')
        \<and> (if mc_enable (app_mqtt cfg)
            then MqttBackend_start (app_mqtt cfg) (bt_mosquitto B) new_MqttClient = (True, mqtt)
              \<and> mq_client mqtt
            else mqtt = new_MqttClient)
        \<and> bt_tcp_bind B \<and> bt_http_bind B
        \<and> E' = configured E cfg \<and> w = initial_World (mc_enable (app_mqtt cfg)) log'
        \<and> n = spawned_threads cfg (bt_hw B)))
   \<and> (\<forall>code mqtt. gateway_main E B log = Exit code mqtt \<longrightarrow> code = 1 \<and> mqtt = new_MqttClient)"
  using gateway_main_Exit started_client by (auto simp: gateway_main_Serve_iff)

definition sample_boot :: boot where
  "sample_boot = \<lparr>bt_path = ''config.json'', bt_file = Some ''{}'', bt_redis_up = True,
     bt_mosquitto = \<lparr>mo_new = True, mo_pw_set = True, mo_connect = True, mo_loop_start = True\<rparr>,
     bt_tcp_bind = True, bt_http_bind = True, bt_hw = 4\<rparr>"

definition sample_host :: env where
  "sample_host = sample_env (table_json [(JObject [], ''{}'')])
     (\<lambda>_. Some (Reply_Status ''OK''))"

lemma sample_host_loads:
  "AppConfig_load (env_json sample_host) (bt_path sample_boot) (bt_file sample_boot) = Inr default_AppConfig"
  by (simp add: sample_host_def sample_boot_def AppConfig_load_def table_read_def load_section_def
      table_json_def)

lemma sample_host_connects:
  "redis_connect (env_redis sample_host) (app_redis default_AppConfig) (bt_redis_up sample_boot) []
     = (True, [[''SELECT'', to_string (rc_db default_RedisConfig)]])"
  by (simp add: sample_host_def sample_boot_def redis_connect_def default_AppConfig_def
      default_RedisConfig_def redisCommand_def)

definition running_client :: MqttClient where
  "running_client = \<lparr>mq_client = True, mq_started = True, mq_lib_inits = 1, mq_clients = 1,
     mq_loops = 1\<rparr>"

lemma sample_host_mqtt:
  "mc_enable (app_mqtt default_AppConfig)"
  "MqttBackend_start (app_mqtt default_AppConfig) (bt_mosquitto sample_boot) new_MqttClient
     = (True, running_client)"
  by (simp_all add: MqttBackend_start_def sample_boot_def new_MqttClient_def running_client_def
      default_AppConfig_def default_MqttConfig_def)

theorem main_outcome_witness:
  "gateway_main sample_host sample_boot [] = Serve (configured sample_host default_AppConfig)
     (initial_World True [[''SELECT'', to_string (rc_db default_RedisConfig)]]) running_client
     (spawned_threads default_AppConfig 4)"
  by (rule main_outcome [THEN conjunct1, rule_format, THEN iffD2],
      intro exI conjI, rule sample_host_loads, rule sample_host_connects)
    (simp_all add: sample_host_mqtt, simp_all add: sample_boot_def running_client_def)

lemma sample_main:
  "gateway_main sample_host sample_boot [] = Serve (configured sample_host default_AppConfig)
     (initial_World True [[''SELECT'', to_string (rc_db default_RedisConfig)]]) running_client
     (spawned_threads default_AppConfig 4)"
  unfolding gateway_main_Serve_iff
  by (intro exI conjI, rule sample_host_loads, rule sample_host_connects)
    (simp_all add: sample_host_mqtt, simp_all add: sample_boot_def)

end
