(* ===== verification/EarlierSession.thy ===== *)
theory EarlierSession
  imports EarlierWriter EarlierProtocol Startup
begin

text \<open>
  The earlier gateway that the build no longer compiles: the signed login
  (\<^verbatim>\<open>src/Auth.cpp\<close>), the session (\<^verbatim>\<open>src/DeviceSession.cpp\<close> and
  its low-power patch), the wake manager (\<^verbatim>\<open>src/WakeManager.cpp\<close> and its patch) and
  the patch of the HTTP handler.  It shares the context, Redis and the clocks with the current
  gateway, so its world is the world of the current one beside its own sessions and its own
  table of pending commands; \<open>base\<close> runs a computation of the current world in it.
\<close>

section \<open>The world\<close>

record EarlierSession =
  es_device_id :: string
  es_remote_addr :: string
  es_open :: bool
  es_protocol :: SessionProtocol
  es_reading :: read_op
  es_read_buffer :: bytes
  es_writer :: EarlierWriter

record EarlierPending =
  ep_device_id :: string
  ep_msg_id :: string
  ep_payload :: json
  ep_session :: nat
  ep_retry_count :: int
  ep_next_retry :: int

record EarlierWorld =
  e_base :: World
  e_heap :: "(nat, EarlierSession) umap"
  e_pending :: "(string, EarlierPending) umap"

type_synonym 'a ew = "(EarlierWorld, 'a) comp"

definition base :: "'a gw \<Rightarrow> 'a ew" where
  "base m = (\<lambda>w. case m (e_base w) of (r, b) \<Rightarrow> (r, w\<lparr>e_base := b\<rparr>))"

definition get_es :: "nat \<Rightarrow> EarlierSession ew" where
  "get_es sid = (\<lambda>w. case um_find (e_heap w) sid of None \<Rightarrow> (Inl Dead_Object, w) | Some s \<Rightarrow> (Inr s, w))"

definition modify_es :: "nat \<Rightarrow> (EarlierSession \<Rightarrow> EarlierSession) \<Rightarrow> unit ew" where
  "modify_es sid f =
     (\<lambda>w. case um_find (e_heap w) sid of
            None \<Rightarrow> (Inl Dead_Object, w)
          | Some s \<Rightarrow> (Inr (), w\<lparr>e_heap := um_put (e_heap w) sid (f s)\<rparr>))"

abbreviation es_str :: "env \<Rightarrow> json \<Rightarrow> string \<Rightarrow> string \<Rightarrow> string ew" where
  "es_str E msg k d \<equiv> liftR (value_string (env_json E) msg k d)"

abbreviation es_int :: "env \<Rightarrow> json \<Rightarrow> string \<Rightarrow> int \<Rightarrow> int ew" where
  "es_int E msg k d \<equiv> liftR (value_int (env_json E) msg k d)"

abbreviation es_redis :: "(redis_cmd list \<Rightarrow> 'a \<times> redis_cmd list) \<Rightarrow> 'a ew" where
  "es_redis f \<equiv> base (on_redis f)"

section \<open>The Redis operations of the patch (RedisStore.cpp)\<close>

definition es_getLocalKey :: "redis_server \<Rightarrow> RedisConfig \<Rightarrow> string \<Rightarrow> redis_cmd list
    \<Rightarrow> string option \<times> redis_cmd list" where
  "es_getLocalKey R cfg device_id log =
     (let k = redis_key cfg (''device:local_key:'' @ device_id);
          (reply, log) = redisCommand R [''GET'', c_str k] log
      in (case reply of Some (Reply_String s) \<Rightarrow> Some s | _ \<Rightarrow> None, log))"

definition es_setLocalKeyForDev :: "redis_server \<Rightarrow> RedisConfig \<Rightarrow> string \<Rightarrow> string \<Rightarrow> redis_cmd list
    \<Rightarrow> bool \<times> redis_cmd list" where
  "es_setLocalKeyForDev R cfg device_id local_key log =
     (let k = redis_key cfg (''device:local_key:'' @ device_id);
          (reply, log) = redisCommand R [''SET'', c_str k, c_str local_key] log
      in (commandOK reply, log))"

text \<open>They are the operations the current client has.\<close>

lemma es_local_keys:
  "es_getLocalKey = getLocalKey" "es_setLocalKeyForDev = setLocalKeyForDev"
  by (simp_all add: fun_eq_iff es_getLocalKey_def getLocalKey_def getRaw_def local_key_key_def
      es_setLocalKeyForDev_def setLocalKeyForDev_def setRaw_def Let_def
      split: prod.split option.split redisReply.split)

section \<open>The signed login (Auth.cpp)\<close>

definition hex_digit :: "nat \<Rightarrow> char" where
  "hex_digit n = ''0123456789abcdef'' ! n"

definition hex_byte :: "u8 \<Rightarrow> string" where
  "hex_byte b = [hex_digit (unat b div 16), hex_digit (unat b mod 16)]"

definition hmacSha256Hex :: "crypto \<Rightarrow> string \<Rightarrow> string \<Rightarrow> string" where
  "hmacSha256Hex C secret data =
     concat (map hex_byte (hmac_sha256 C (bytes_of_string secret) (bytes_of_string data)))"

text \<open>\<open>None\<close> for \<^verbatim>\<open>true\<close>, \<open>Some error\<close> for \<^verbatim>\<open>false\<close>.\<close>

definition verifyLoginSignature :: "env \<Rightarrow> json \<Rightarrow> string \<Rightarrow> int \<Rightarrow> string option gw" where
  "verifyLoginSignature E msg secret timestamp_window_sec =
     bindM (jstr E msg ''device_id'' '''') (\<lambda>device_id.
     bindM (jstr E msg ''imei'' '''') (\<lambda>imei.
     bindM (jstr E msg ''nonce'' '''') (\<lambda>nonce.
     bindM (jstr E msg ''sign'' '''') (\<lambda>sign.
     bindM (liftR (value_int64 (env_json E) msg ''timestamp'' 0)) (\<lambda>ts.
       if device_id = [] \<or> imei = [] \<or> nonce = [] \<or> sign = [] \<or> ts \<le> 0
       then ret (Some ''missing auth fields'')
       else bindM (system_now E) (\<lambda>now.
         let now_sec = duration_cast 1000000000 now in
         if timestamp_window_sec < \<bar>now_sec - ts\<bar> then ret (Some ''timestamp expired'')
         else let data = device_id @ ''|'' @ imei @ ''|'' @ to_string ts @ ''|'' @ nonce;
                  expected = hmacSha256Hex (env_crypto E) secret data
           in if expected \<noteq> sign then ret (Some ''bad signature'') else ret None))))))"

section \<open>The session (DeviceSession.cpp)\<close>

definition es_sendJson :: "env \<Rightarrow> nat \<Rightarrow> json \<Rightarrow> unit ew" where
  "es_sendJson E sid j =
     bindM (liftR (json_dump (env_json E) j)) (\<lambda>data.
       modify_es sid (\<lambda>s. s\<lparr>es_writer :=
         send_post (Queued (bytes_of_string (data @ [CHR 0x0A]))) (es_writer s)\<rparr>))"

definition es_close :: "nat \<Rightarrow> unit ew" where
  "es_close sid = modify_es sid (\<lambda>s. s\<lparr>es_open := False\<rparr>)"

definition es_handleDisconnect :: "env \<Rightarrow> nat \<Rightarrow> unit ew" where
  "es_handleDisconnect E sid =
     bindM (get_es sid) (\<lambda>s. let device_id = es_device_id s in
     thenM
       (if device_id \<noteq> [] then
          thenM (base (modify_ctx (\<lambda>c. c\<lparr>ctx_sessions := um_erase (ctx_sessions c) device_id\<rparr>)))
          (bindM (base get_ctx) (\<lambda>c.
          thenM (whenM (um_find (ctx_states c) device_id \<noteq> None)
              (base (write_state device_id (\<lambda>d. d\<lparr>ds_online := False\<rparr>))))
          (whenM (ctx_redis c)
              (bindM (es_redis (setOffline (env_redis E) (env_redis_cfg E) device_id)) (\<lambda>_. ret ())))))
        else ret ())
       (es_close sid))"

definition es_write_completed :: "env \<Rightarrow> nat \<Rightarrow> nat \<Rightarrow> bool \<Rightarrow> unit ew" where
  "es_write_completed E sid i ok =
     thenM (modify_es sid (\<lambda>s. s\<lparr>es_writer := earlier_completed i ok (es_writer s)\<rparr>))
       (whenM (\<not> ok) (es_handleDisconnect E sid))"

text \<open>The secret of the device, provisioned with the default when Redis has none.\<close>

definition login_secret :: "env \<Rightarrow> AppConfig \<Rightarrow> string \<Rightarrow> string gw" where
  "login_secret E cfg device_id =
     (let secret = ac_dev_default_secret (app_auth cfg) in
      bindM get_ctx (\<lambda>c.
        if \<not> ctx_redis c then ret secret
        else bindM (on_redis (getDeviceSecret (env_redis E) (env_redis_cfg E) device_id)) (\<lambda>r.
          case r of
            Some redis_secret \<Rightarrow> ret redis_secret
          | None \<Rightarrow>
              bindM (on_redis (setDeviceSecretForDev (env_redis E) (env_redis_cfg E) device_id secret))
                (\<lambda>_. ret secret))))"

definition es_accept_login :: "env \<Rightarrow> AppConfig \<Rightarrow> nat \<Rightarrow> json \<Rightarrow> string \<Rightarrow> string \<Rightarrow> unit ew" where
  "es_accept_login E cfg sid msg device_id imei =
     thenM (modify_es sid (\<lambda>s. s\<lparr>es_device_id := device_id\<rparr>))
     (bindM (es_str E msg ''fw'' '''') (\<lambda>fw.
     bindM (es_str E msg ''model'' '''') (\<lambda>model.
     bindM (get_es sid) (\<lambda>s.
     bindM (es_str E msg ''dev'' ''unknown'') (\<lambda>dev.
     bindM (base (steady_now E)) (\<lambda>login_time.
     bindM (base (steady_now E)) (\<lambda>last_heartbeat.
     let state = default_DeviceState\<lparr>ds_device_id := device_id, ds_imei := imei, ds_fw := fw,
           ds_model := model, ds_remote_addr := es_remote_addr s, ds_online := True,
           ds_dev_state := dev, ds_login_time := login_time, ds_last_heartbeat := last_heartbeat\<rparr> in
     thenM (base (modify_ctx (\<lambda>c. c\<lparr>ctx_sessions := um_put (ctx_sessions c) device_id sid,
         ctx_states := um_put (ctx_states c) device_id state\<rparr>)))
     (bindM (base get_ctx) (\<lambda>c.
     thenM (whenM (ctx_redis c)
         (bindM (base (on_redis_throwing (setOnline (env_redis E) (env_redis_cfg E) (env_json E)
           device_id (JObject [(''device_id'', JString device_id), (''online'', JBool True),
             (''remote_addr'', JString (es_remote_addr s)), (''dev'', JString dev)])
           (sc_idle_timeout_sec (app_server cfg))))) (\<lambda>_. ret ())))
     (bindM (es_int E msg ''seq'' 0) (\<lambda>seq.
       es_sendJson E sid (JObject [(''type'', JString ''login_ack''), (''seq'', JInt seq),
         (''result'', JInt 0), (''heartbeat'', JInt (sc_heartbeat_default_sec (app_server cfg))),
         (''idle_timeout'', JInt (sc_idle_timeout_sec (app_server cfg)))]))))))))))))"

definition es_handleLogin :: "env \<Rightarrow> AppConfig \<Rightarrow> nat \<Rightarrow> json \<Rightarrow> unit ew" where
  "es_handleLogin E cfg sid msg =
     bindM (es_str E msg ''device_id'' '''') (\<lambda>device_id.
     bindM (es_str E msg ''imei'' '''') (\<lambda>imei.
       if device_id = [] then
         es_sendJson E sid (JObject [(''type'', JString ''login_ack''), (''result'', JInt 1),
           (''error'', JString ''device_id_required'')])
       else bindM
         (if ac_enable (app_auth cfg) then
            bindM (base (login_secret E cfg device_id)) (\<lambda>secret.
              base (verifyLoginSignature E msg secret (ac_timestamp_window_sec (app_auth cfg))))
          else ret None) (\<lambda>error.
         case error of
           Some error \<Rightarrow>
             bindM (es_int E msg ''seq'' 0) (\<lambda>seq.
             thenM (es_sendJson E sid (JObject [(''type'', JString ''login_ack''), (''seq'', JInt seq),
                 (''result'', JInt 2), (''error'', JString error)]))
               (es_close sid))
         | None \<Rightarrow> es_accept_login E cfg sid msg device_id imei)))"

definition es_handleHeartbeat :: "env \<Rightarrow> AppConfig \<Rightarrow> nat \<Rightarrow> json \<Rightarrow> unit ew" where
  "es_handleHeartbeat E cfg sid msg =
     bindM (get_es sid) (\<lambda>session.
       let dev = es_device_id session; J = env_json E in
       if dev = [] then es_sendJson E sid (JObject [(''type'', JString ''error''),
           (''code'', JString ''not_logged_in'')])
       else thenM (base (bindM (state_ref dev) (\<lambda>_. bindM (steady_now E) (\<lambda>t.
           write_state dev (\<lambda>s. s\<lparr>ds_last_heartbeat := t\<rparr>)))))
         (thenM (base (write_state dev (\<lambda>s. s\<lparr>ds_online := True\<rparr>)))
         (thenM (base (update_field dev (\<lambda>s. value_int J msg ''battery'' (ds_battery s))
             (\<lambda>v s. s\<lparr>ds_battery := v\<rparr>)))
         (thenM (base (update_field dev (\<lambda>s. value_int J msg ''rssi'' (ds_rssi s))
             (\<lambda>v s. s\<lparr>ds_rssi := v\<rparr>)))
         (thenM (base (update_field dev (\<lambda>s. value_int J msg ''rsrp'' (ds_rsrp s))
             (\<lambda>v s. s\<lparr>ds_rsrp := v\<rparr>)))
         (thenM (base (update_field dev (\<lambda>s. value_string J msg ''dev'' (ds_dev_state s))
             (\<lambda>v s. s\<lparr>ds_dev_state := v\<rparr>)))
         (thenM (base (update_field dev (\<lambda>s. value_bool J msg ''charging'' (ds_charging s))
             (\<lambda>v s. s\<lparr>ds_charging := v\<rparr>)))
         (bindM (base (state_ref dev)) (\<lambda>state_copy.
         let next_heartbeat = sc_heartbeat_default_sec (app_server cfg);
             next_heartbeat = (if 0 \<le> ds_battery state_copy \<and> ds_battery state_copy < 20 then 300
               else next_heartbeat);
             next_heartbeat = (if 0 \<le> ds_battery state_copy \<and> ds_battery state_copy < 10 then 600
               else next_heartbeat) in
         bindM (base get_ctx) (\<lambda>c.
         thenM (whenM (ctx_redis c)
             (bindM (base (on_redis_throwing (setOnline (env_redis E) (env_redis_cfg E) J dev
               (JObject [(''device_id'', JString dev), (''online'', JBool True),
                 (''battery'', JInt (ds_battery state_copy)), (''rssi'', JInt (ds_rssi state_copy)),
                 (''rsrp'', JInt (ds_rsrp state_copy)), (''dev'', JString (ds_dev_state state_copy))])
               (sc_idle_timeout_sec (app_server cfg))))) (\<lambda>_. ret ())))
         (bindM (es_int E msg ''seq'' 0) (\<lambda>seq.
           es_sendJson E sid (JObject [(''type'', JString ''heartbeat_ack''), (''seq'', JInt seq),
             (''result'', JInt 0), (''next_heartbeat'', JInt next_heartbeat)])))))))))))))"


section \<open>The wake manager (WakeManager.cpp)\<close>

definition es_add_pending :: "string \<Rightarrow> EarlierPending \<Rightarrow> unit ew" where
  "es_add_pending msg_id p = modifyM (\<lambda>w. w\<lparr>e_pending := um_put (e_pending w) msg_id p\<rparr>)"

definition es_erase_pending :: "string \<Rightarrow> unit ew" where
  "es_erase_pending msg_id = modifyM (\<lambda>w. w\<lparr>e_pending := um_erase (e_pending w) msg_id\<rparr>)"

definition es_lock_session :: "string \<Rightarrow> nat ew" where
  "es_lock_session device_id =
     bindM (base get_ctx) (\<lambda>c. case um_find (ctx_sessions c) device_id of
         None \<Rightarrow> throw (Runtime_Error ''device offline'')
       | Some sid \<Rightarrow> bindM (getsM (\<lambda>w. um_find (e_heap w) sid)) (\<lambda>s.
           if s \<noteq> None then ret sid
           else thenM (base (modify_ctx (\<lambda>c. c\<lparr>ctx_sessions := um_erase (ctx_sessions c) device_id\<rparr>)))
             (throw (Runtime_Error ''device session expired''))))"

definition es_makeMsgId :: "env \<Rightarrow> string ew" where
  "es_makeMsgId E =
     bindM (base (system_now E)) (\<lambda>t. ret (''W'' @ to_string (duration_cast 1000000 t)))"

definition es_sendWake :: "env \<Rightarrow> WakeConfig \<Rightarrow> string \<Rightarrow> string \<Rightarrow> json \<Rightarrow> string ew" where
  "es_sendWake E cfg device_id cmd params =
     bindM (es_lock_session device_id) (\<lambda>sid.
     bindM (es_makeMsgId E) (\<lambda>msg_id.
     bindM (base (system_now E)) (\<lambda>now.
     let now_ms = duration_cast 1000000 now;
         payload = JObject [(''type'', JString ''wake''), (''seq'', JInt now_ms),
           (''msg_id'', JString msg_id), (''cmd'', JString cmd), (''reason'', JString ''admin_api''),
           (''expire_ms'', JInt (now_ms + wc_expire_ms cfg)), (''params'', params)] in
     bindM (base (steady_now E)) (\<lambda>t.
     thenM (es_add_pending msg_id \<lparr>ep_device_id = device_id, ep_msg_id = msg_id,
         ep_payload = payload, ep_session = sid, ep_retry_count = 0,
         ep_next_retry = t + milliseconds (wc_ack_timeout_ms cfg)\<rparr>)
     (bindM (base get_ctx) (\<lambda>c.
     thenM (whenM (ctx_redis c)
         (bindM (base (on_redis_throwing (savePendingWake (env_redis E) (env_redis_cfg E)
           (env_json E) device_id msg_id payload (duration_cast 1000 (wc_expire_ms cfg)))))
           (\<lambda>_. ret ())))
     (thenM (es_sendJson E sid payload)
     (ret msg_id))))))))"

definition es_markAck :: "string \<Rightarrow> unit ew" where
  "es_markAck msg_id =
     bindM (getsM (\<lambda>w. um_find (e_pending w) msg_id)) (\<lambda>it.
       case it of None \<Rightarrow> ret () | Some _ \<Rightarrow> es_erase_pending msg_id)"

definition es_markDone :: "env \<Rightarrow> string \<Rightarrow> unit ew" where
  "es_markDone E msg_id =
     bindM (getsM (\<lambda>w. um_find (e_pending w) msg_id)) (\<lambda>it.
       case it of
         None \<Rightarrow> ret ()
       | Some p \<Rightarrow>
           bindM (base get_ctx) (\<lambda>c.
           thenM (whenM (ctx_redis c)
               (bindM (es_redis (removePendingWake (env_redis E) (env_redis_cfg E)
                 (ep_device_id p) msg_id)) (\<lambda>_. ret ())))
             (es_erase_pending msg_id)))"

section \<open>The other messages (DeviceSession.cpp)\<close>

text \<open>The code reads \<^verbatim>\<open>result\<close> and \<^verbatim>\<open>url\<close> for its log lines only; either read
  may throw.\<close>

definition es_handleWakeAck :: "env \<Rightarrow> json \<Rightarrow> unit ew" where
  "es_handleWakeAck E msg =
     bindM (es_str E msg ''msg_id'' '''') (\<lambda>msg_id.
     bindM (es_int E msg ''result'' (- 1)) (\<lambda>_.
     bindM (base get_ctx) (\<lambda>c.
       whenM (ctx_wake_manager c \<and> msg_id \<noteq> []) (es_markAck msg_id))))"

definition es_handleTaskDone :: "env \<Rightarrow> nat \<Rightarrow> json \<Rightarrow> unit ew" where
  "es_handleTaskDone E sid msg =
     bindM (es_str E msg ''msg_id'' '''') (\<lambda>msg_id.
     bindM (es_int E msg ''result'' (- 1)) (\<lambda>_.
     bindM (es_str E msg ''url'' '''') (\<lambda>_.
     bindM (base get_ctx) (\<lambda>c.
     thenM (whenM (ctx_wake_manager c \<and> msg_id \<noteq> []) (es_markDone E msg_id))
     (bindM (es_int E msg ''seq'' 0) (\<lambda>seq.
       es_sendJson E sid (JObject [(''type'', JString ''task_done_ack''), (''seq'', JInt seq),
         (''msg_id'', JString msg_id), (''result'', JInt 0)])))))))"

definition es_handleHostSleep :: "env \<Rightarrow> nat \<Rightarrow> json \<Rightarrow> unit ew" where
  "es_handleHostSleep E sid msg =
     bindM (get_es sid) (\<lambda>s.
     thenM (base (write_state (es_device_id s) (\<lambda>d. d\<lparr>ds_dev_state := ''sleep''\<rparr>)))
     (bindM (es_int E msg ''seq'' 0) (\<lambda>seq.
       es_sendJson E sid (JObject [(''type'', JString ''host_sleep_ack''), (''seq'', JInt seq),
         (''result'', JInt 0)]))))"

definition es_handleHostState :: "env \<Rightarrow> nat \<Rightarrow> json \<Rightarrow> unit ew" where
  "es_handleHostState E sid msg =
     bindM (es_str E msg ''dev'' ''unknown'') (\<lambda>dev.
     bindM (get_es sid) (\<lambda>s.
       base (write_state (es_device_id s) (\<lambda>d. d\<lparr>ds_dev_state := dev\<rparr>))))"


definition es_handleMessage :: "env \<Rightarrow> AppConfig \<Rightarrow> nat \<Rightarrow> string \<Rightarrow> unit ew" where
  "es_handleMessage E cfg sid line =
     (case json_parse (env_json E) line of
        Inl _ \<Rightarrow> es_sendJson E sid (JObject [(''type'', JString ''error''),
            (''code'', JString ''bad_json'')])
      | Inr msg \<Rightarrow>
          bindM (es_str E msg ''type'' '''') (\<lambda>type.
            if type = ''login'' then es_handleLogin E cfg sid msg
            else if type = ''heartbeat'' then es_handleHeartbeat E cfg sid msg
            else if type = ''wake_ack'' then es_handleWakeAck E msg
            else if type = ''task_done'' then es_handleTaskDone E sid msg
            else if type = ''host_sleep'' then es_handleHostSleep E sid msg
            else if type = ''host_state'' then es_handleHostState E sid msg
            else es_sendJson E sid (JObject [(''type'', JString ''error''),
              (''code'', JString ''unknown_type''), (''message'', JString type)])))"

definition es_start_read :: "nat \<Rightarrow> read_op \<Rightarrow> unit ew" where
  "es_start_read sid op = modify_es sid (\<lambda>s. s\<lparr>es_reading := op\<rparr>)"

definition es_readLine :: "nat \<Rightarrow> unit ew" where
  "es_readLine sid = es_start_read sid Json_line"

text \<open>\<^verbatim>\<open>start\<close>; \<open>remote\<close> is what \<^verbatim>\<open>remote_endpoint()\<close> gives or
  throws.\<close>

definition es_start :: "nat \<Rightarrow> exn + string \<Rightarrow> unit ew" where
  "es_start sid remote =
     bindM (liftR remote) (\<lambda>addr.
     thenM (modify_es sid (\<lambda>s. s\<lparr>es_remote_addr := addr\<rparr>)) (es_readLine sid))"

definition es_on_line :: "env \<Rightarrow> AppConfig \<Rightarrow> nat \<Rightarrow> bytes option \<Rightarrow> unit ew" where
  "es_on_line E cfg sid result =
     (case result of
        None \<Rightarrow> es_handleDisconnect E sid
      | Some chunk \<Rightarrow>
          bindM (get_es sid) (\<lambda>s.
          let (line, rest) = take_line (es_read_buffer s @ chunk);
              line = strip_cr (string_of_bytes line) in
          thenM (modify_es sid (\<lambda>s. s\<lparr>es_read_buffer := rest\<rparr>))
          (thenM (whenM (line \<noteq> []) (es_handleMessage E cfg sid line))
            (es_readLine sid))))"

section \<open>The low-power patch (DeviceSession_lowpower_patch.cpp)\<close>

text \<open>A raw frame is written past the queue.\<close>

definition es_sendRaw :: "nat \<Rightarrow> bytes \<Rightarrow> unit ew" where
  "es_sendRaw sid data =
     modify_es sid (\<lambda>s. s\<lparr>es_writer := send_post (Direct data) (es_writer s)\<rparr>)"

definition resolveLocalKeyOrDefault :: "env \<Rightarrow> AppConfig \<Rightarrow> string \<Rightarrow> string gw" where
  "resolveLocalKeyOrDefault E cfg device_id =
     bindM get_ctx (\<lambda>c.
       if ctx_redis c then
         bindM (on_redis (es_getLocalKey (env_redis E) (env_redis_cfg E) device_id)) (\<lambda>k.
           case k of Some k \<Rightarrow> ret k | None \<Rightarrow> ret (ac_dev_default_secret (app_auth cfg)))
       else ret (ac_dev_default_secret (app_auth cfg)))"

definition es_lookup_id :: "env \<Rightarrow> string \<Rightarrow> string gw" where
  "es_lookup_id E encrypted_devid =
     bindM get_ctx (\<lambda>c.
       if ctx_redis c then
         bindM (on_redis (getRaw (env_redis E) (env_redis_cfg E)
             (''lowpower:device_id_index:'' @ encrypted_devid))) (\<lambda>v.
           case v of Some d \<Rightarrow> ret d | None \<Rightarrow> ret '''')
       else ret '''')"

definition es_lp_buildAuthResponse :: "env \<Rightarrow> AppConfig \<Rightarrow> string \<Rightarrow> string \<Rightarrow> string \<Rightarrow> AuthResponseResult gw" where
  "es_lp_buildAuthResponse E cfg devid local_key device_random =
     bindM (rand_bytes E) (\<lambda>iv.
     bindM (system_now E) (\<lambda>t.
     bindM (rand_bytes E) (\<lambda>rnd.
       liftR (lp_buildAuthResponse (env_crypto E) (env_json E) iv (duration_cast 1000000000 t) rnd
         devid local_key device_random (sc_heartbeat_default_sec (app_server cfg))))))"


definition es_handleLowPowerAuthReq :: "env \<Rightarrow> AppConfig \<Rightarrow> nat \<Rightarrow> Frame \<Rightarrow> unit ew" where
  "es_handleLowPowerAuthReq E cfg sid frame =
     (case lp_parseAuthPayloadLV (fr_payload frame) of
        None \<Rightarrow> es_close sid
      | Some auth_payload \<Rightarrow>
          bindM (base (es_lookup_id E (ap_encrypted_devid_base64 auth_payload))) (\<lambda>device_id.
            if device_id = [] then es_close sid
            else bindM (base (resolveLocalKeyOrDefault E cfg device_id)) (\<lambda>local_key.
              case lp_aes128CbcPkcs7Decrypt (env_crypto E) local_key (ap_iv auth_payload)
                  (ap_encrypted_data auth_payload) of
                Inl _ \<Rightarrow> es_close sid
              | Inr plain_data \<Rightarrow>
                  (case lp_parseAuthRequestJson (env_json E) plain_data of
                     None \<Rightarrow> es_close sid
                   | Some req \<Rightarrow>
                       if \<not> lp_verifyAuthRequest (env_crypto E) req device_id local_key
                       then es_close sid
                       else
                         thenM (modify_es sid (\<lambda>s. s\<lparr>es_device_id := device_id\<rparr>))
                         (bindM (get_es sid) (\<lambda>s.
                         bindM (base (steady_now E)) (\<lambda>login_time.
                         bindM (base (steady_now E)) (\<lambda>last_heartbeat.
                         let state = default_DeviceState\<lparr>ds_device_id := device_id,
                             ds_remote_addr := es_remote_addr s, ds_online := True,
                             ds_dev_state := ''sleep'', ds_login_time := login_time,
                             ds_last_heartbeat := last_heartbeat\<rparr> in
                         thenM (base (modify_ctx (\<lambda>c. c\<lparr>
                             ctx_sessions := um_put (ctx_sessions c) device_id sid,
                             ctx_states := um_put (ctx_states c) device_id state\<rparr>)))
                         (bindM (base (es_lp_buildAuthResponse E cfg device_id local_key
                             (ar_random req))) (\<lambda>resp.
                           es_sendRaw sid (lp_encodeFrame (rr_frame resp))))))))))))"

definition es_handleLowPowerHeartbeat :: "env \<Rightarrow> AppConfig \<Rightarrow> nat \<Rightarrow> Frame \<Rightarrow> unit ew" where
  "es_handleLowPowerHeartbeat E cfg sid frame =
     bindM (get_es sid) (\<lambda>session.
       let dev = es_device_id session in
       if dev = [] then es_close sid
       else if fr_flag frame \<noteq> 0 \<or> fr_size frame \<noteq> 0 then es_close sid
       else thenM (base (bindM (state_ref dev) (\<lambda>_. write_state dev (\<lambda>s. s\<lparr>ds_online := True\<rparr>))))
         (thenM (base (bindM (steady_now E) (\<lambda>t.
             write_state dev (\<lambda>s. s\<lparr>ds_last_heartbeat := t\<rparr>))))
         (thenM (base (write_state dev (\<lambda>s. s\<lparr>ds_dev_state := ''sleep''\<rparr>)))
         (bindM (base get_ctx) (\<lambda>c.
         thenM (whenM (ctx_redis c)
             (bindM (base (on_redis_throwing (setOnline (env_redis E) (env_redis_cfg E) (env_json E)
               dev (JObject [(''device_id'', JString dev), (''online'', JBool True),
                 (''protocol'', JString ''lowpower''), (''dev'', JString ''sleep'')])
               (sc_idle_timeout_sec (app_server cfg))))) (\<lambda>_. ret ())))
           (es_sendRaw sid lp_makeHeartbeatFrame))))))"

definition es_handleLowPowerFrame :: "env \<Rightarrow> AppConfig \<Rightarrow> nat \<Rightarrow> Frame \<Rightarrow> unit ew" where
  "es_handleLowPowerFrame E cfg sid frame =
     (if fr_type frame = AUTH_REQ then es_handleLowPowerAuthReq E cfg sid frame
      else if fr_type frame = HEARTBEAT then es_handleLowPowerHeartbeat E cfg sid frame
      else ret ())"

definition es_readLowPowerHeader :: "nat \<Rightarrow> unit ew" where
  "es_readLowPowerHeader sid = es_start_read sid Lp_header"

definition es_frame :: "u8 \<Rightarrow> u8 \<Rightarrow> u8 \<Rightarrow> u16 \<Rightarrow> bytes \<Rightarrow> Frame" where
  "es_frame version type flag sz payload = lp_new_Frame\<lparr>fr_version := version,
     fr_type := MsgType_of_byte type, fr_flag := flag, fr_size := sz, fr_payload := payload\<rparr>"

definition es_readLowPowerPayload ::
    "env \<Rightarrow> AppConfig \<Rightarrow> nat \<Rightarrow> u8 \<Rightarrow> u8 \<Rightarrow> u8 \<Rightarrow> u16 \<Rightarrow> unit ew" where
  "es_readLowPowerPayload E cfg sid version type flag sz =
     (if sz = 0 then
        thenM (es_handleLowPowerFrame E cfg sid (es_frame version type flag 0 []))
          (es_readLowPowerHeader sid)
      else es_start_read sid (Lp_payload version type flag sz))"

definition es_on_header :: "env \<Rightarrow> AppConfig \<Rightarrow> nat \<Rightarrow> bytes option \<Rightarrow> unit ew" where
  "es_on_header E cfg sid result =
     (case result of
        None \<Rightarrow> es_handleDisconnect E sid
      | Some header \<Rightarrow>
          (let version = header ! 0; type = header ! 1; flag = header ! 2;
               sz = (push_bit 8 (ucast (header ! 3)) OR ucast (header ! 4) :: u16)
           in if version \<noteq> 1 then es_close sid
              else es_readLowPowerPayload E cfg sid version type flag sz))"

definition es_on_payload ::
    "env \<Rightarrow> AppConfig \<Rightarrow> nat \<Rightarrow> u8 \<Rightarrow> u8 \<Rightarrow> u8 \<Rightarrow> u16 \<Rightarrow> bytes option \<Rightarrow> unit ew" where
  "es_on_payload E cfg sid version type flag sz result =
     (case result of
        None \<Rightarrow> es_handleDisconnect E sid
      | Some payload \<Rightarrow>
          thenM (es_handleLowPowerFrame E cfg sid (es_frame version type flag sz payload))
            (es_readLowPowerHeader sid))"


text \<open>\<open>readJsonLine\<close>, which the patch calls, is in none of the files: a parameter.\<close>

definition es_on_peek :: "env \<Rightarrow> (nat \<Rightarrow> unit ew) \<Rightarrow> nat \<Rightarrow> bytes option \<Rightarrow> unit ew" where
  "es_on_peek E read_json sid result =
     (case result of
        None \<Rightarrow> es_handleDisconnect E sid
      | Some [] \<Rightarrow> es_handleDisconnect E sid
      | Some (b # _) \<Rightarrow>
          if b = byte_of_char CHR ''{'' then
            thenM (modify_es sid (\<lambda>s. s\<lparr>es_protocol := JSON_LINE\<rparr>)) (read_json sid)
          else if b = 1 then
            thenM (modify_es sid (\<lambda>s. s\<lparr>es_protocol := LOWPOWER\<rparr>)) (es_readLowPowerHeader sid)
          else es_close sid)"

section \<open>Retries (WakeManager.cpp) and low-power wake commands (its patch)\<close>

definition es_get_pending :: "string \<Rightarrow> EarlierPending ew" where
  "es_get_pending k =
     (\<lambda>w. case um_find (e_pending w) k of None \<Rightarrow> (Inl Dead_Object, w) | Some p \<Rightarrow> (Inr p, w))"

definition es_retryWake :: "env \<Rightarrow> WakeConfig \<Rightarrow> string \<Rightarrow> unit ew" where
  "es_retryWake E cfg k =
     bindM (es_get_pending k) (\<lambda>p.
     bindM (getsM (\<lambda>w. um_find (e_heap w) (ep_session p))) (\<lambda>s.
       if s = None then ret ()
       else thenM (es_add_pending k (p\<lparr>ep_retry_count := ep_retry_count p + 1\<rparr>))
         (bindM (base (steady_now E)) (\<lambda>t.
         thenM (es_add_pending k (p\<lparr>ep_retry_count := ep_retry_count p + 1,
             ep_next_retry := t + milliseconds (wc_ack_timeout_ms cfg)\<rparr>))
         (es_sendJson E (ep_session p) (ep_payload p))))))"

definition es_tick_entry :: "env \<Rightarrow> WakeConfig \<Rightarrow> int \<Rightarrow> string \<Rightarrow> string list ew" where
  "es_tick_entry E cfg now k =
     bindM (es_get_pending k) (\<lambda>p.
       if now < ep_next_retry p then ret []
       else if wc_max_retry cfg \<le> ep_retry_count p then ret [ep_msg_id p]
       else thenM (es_retryWake E cfg k) (ret []))"

primrec es_tick_loop :: "env \<Rightarrow> WakeConfig \<Rightarrow> int \<Rightarrow> string list \<Rightarrow> string list ew" where
  "es_tick_loop E cfg now [] = ret []"
| "es_tick_loop E cfg now (k # ks) =
     bindM (es_tick_entry E cfg now k) (\<lambda>r.
     bindM (es_tick_loop E cfg now ks) (\<lambda>rs. ret (r @ rs)))"

definition es_onTick :: "env \<Rightarrow> WakeConfig \<Rightarrow> unit ew" where
  "es_onTick E cfg =
     bindM (base (steady_now E)) (\<lambda>now.
     bindM (getsM (\<lambda>w. um_keys (e_pending w))) (\<lambda>ks.
     bindM (es_tick_loop E cfg now ks) (\<lambda>remove_list. forM remove_list es_erase_pending)))"

definition es_sendLowPowerWake :: "env \<Rightarrow> WakeConfig \<Rightarrow> string \<Rightarrow> string ew" where
  "es_sendLowPowerWake E cfg device_id =
     bindM (es_lock_session device_id) (\<lambda>sid.
     bindM (base get_ctx) (\<lambda>c.
       if \<not> ctx_redis c then throw (Runtime_Error ''redis not configured'')
       else bindM (es_redis (es_getLocalKey (env_redis E) (env_redis_cfg E) device_id)) (\<lambda>k.
         case k of
           None \<Rightarrow> throw (Runtime_Error ''local_key not found'')
         | Some local_key \<Rightarrow>
             bindM (es_makeMsgId E) (\<lambda>msg_id.
             thenM (es_sendRaw sid (lp_makeWakeupFrame local_key))
             (bindM (base (steady_now E)) (\<lambda>t.
             thenM (es_add_pending msg_id \<lparr>ep_device_id = device_id, ep_msg_id = msg_id,
                 ep_payload = JObject [(''protocol'', JString ''lowpower''),
                   (''type'', JString ''wakeup''), (''msg_id'', JString msg_id)],
                 ep_session = sid, ep_retry_count = 0,
                 ep_next_retry = t + milliseconds (wc_ack_timeout_ms cfg)\<rparr>)
               (ret msg_id)))))))"

text \<open>\<^verbatim>\<open>handleWake\<close> of \<^verbatim>\<open>src/HttpAdminServer_lowpower_patch.cpp\<close>; the member
  \<^verbatim>\<open>response\<close> it calls is a parameter.\<close>

definition es_handleWake ::
    "env \<Rightarrow> WakeConfig \<Rightarrow> (int \<Rightarrow> json \<Rightarrow> unit ew) \<Rightarrow> string \<Rightarrow> string \<Rightarrow> unit ew" where
  "es_handleWake E cfg response device_id cmd =
     catchM
       (bindM (base get_ctx) (\<lambda>c.
          if \<not> ctx_wake_manager c then
            response 500 (JObject [(''error'', JString ''wake_manager_not_ready'')])
          else bindM
            (if cmd = ''lowpower_wakeup'' then es_sendLowPowerWake E cfg device_id
             else es_sendWake E cfg device_id cmd (JObject [(''resolution'', JString ''640x480''),
               (''quality'', JInt 80)])) (\<lambda>msg_id.
            response 200 (JObject [(''result'', JString ''sent''),
              (''device_id'', JString device_id), (''cmd'', JString cmd),
              (''msg_id'', JString msg_id)]))))
       (\<lambda>e. response 409 (JObject [(''error'', JString (what e)),
          (''device_id'', JString device_id)]))"


section \<open>Lemmas\<close>

text \<open>The context, of which every handler is a client.\<close>

abbreviation es_ctx :: "EarlierWorld \<Rightarrow> GatewayContext" where
  "es_ctx w \<equiv> w_ctx (e_base w)"

lemma keeps_base: "keeps g m \<Longrightarrow> keeps (\<lambda>w. g (e_base w)) (base m)"
  by (auto simp: keeps_def base_def split: prod.splits) (metis snd_conv)

lemma keeps_es_ops:
  "keeps es_ctx (modify_es sid f)" "keeps es_ctx (get_es sid)" "keeps es_ctx (es_close sid)"
  "keeps es_ctx (es_sendJson E sid j)"
proof -
  show *: "keeps es_ctx (modify_es sid f)" for f
    by (auto simp: keeps_def modify_es_def split: option.splits)
  show "keeps es_ctx (get_es sid)"
    by (auto simp: keeps_def get_es_def split: option.splits)
  show "keeps es_ctx (es_close sid)" by (simp add: es_close_def *)
  show "keeps es_ctx (es_sendJson E sid j)"
    unfolding es_sendJson_def by (intro keeps_rules *)
qed

lemma keeps_login_checks:
  "keeps w_ctx (verifyLoginSignature E msg secret win)" "keeps w_ctx (login_secret E cfg d)"
  unfolding verifyLoginSignature_def login_secret_def Let_def by (intro keeps_rules; simp)+

text \<open>What an accepted signature says.\<close>

definition signed_by :: "env \<Rightarrow> json \<Rightarrow> string \<Rightarrow> string \<Rightarrow> int \<Rightarrow> int \<Rightarrow> bool" where
  "signed_by E msg device_id secret window now_sec \<longleftrightarrow>
     (\<exists>imei nonce ts. value_string (env_json E) msg ''imei'' '''' = Inr imei \<and> imei \<noteq> ''''
        \<and> value_string (env_json E) msg ''nonce'' '''' = Inr nonce \<and> nonce \<noteq> ''''
        \<and> value_int64 (env_json E) msg ''timestamp'' 0 = Inr ts \<and> 0 < ts \<and> \<bar>now_sec - ts\<bar> \<le> window
        \<and> value_string (env_json E) msg ''sign'' '''' = Inr (hmacSha256Hex (env_crypto E) secret
            (device_id @ ''|'' @ imei @ ''|'' @ to_string ts @ ''|'' @ nonce)))"

lemma verifyLoginSignature_accepts:
  assumes "verifyLoginSignature E msg secret win w = (Inr None, w')"
    and "value_string (env_json E) msg ''device_id'' '''' = Inr d"
  shows "signed_by E msg d secret win (duration_cast 1000000000 (env_system E (w_system_reads w)))"
  using assms
  by (auto simp: verifyLoginSignature_def comp_defs system_now_def signed_by_def Let_def
      split: sum.splits if_splits)


lemma bindM_liftR: "bindM (liftR (Inr x)) f = f x"
  by (simp add: fun_eq_iff bindM_def liftR_def)

text \<open>A login that touches the context got past the signature.\<close>

lemma es_handleLogin_accepts:
  assumes "ac_enable (app_auth cfg)"
    and "es_ctx (snd (es_handleLogin E cfg sid msg w)) \<noteq> es_ctx w"
  obtains d secret b b' where
    "value_string (env_json E) msg ''device_id'' '''' = Inr d" "d \<noteq> ''''"
    "login_secret E cfg d (e_base w) = (Inr secret, b)"
    "verifyLoginSignature E msg secret (ac_timestamp_window_sec (app_auth cfg)) b = (Inr None, b')"
proof -
  let ?win = "ac_timestamp_window_sec (app_auth cfg)"
  obtain d where d: "value_string (env_json E) msg ''device_id'' '''' = Inr d"
    using assms(2)
    by (cases "value_string (env_json E) msg ''device_id'' ''''")
      (auto simp: es_handleLogin_def comp_defs)
  obtain imei where i: "value_string (env_json E) msg ''imei'' '''' = Inr imei"
    using assms(2) d
    by (cases "value_string (env_json E) msg ''imei'' ''''")
      (auto simp: es_handleLogin_def comp_defs)
  have ne: "d \<noteq> ''''"
    using assms(2) d i keeps_es_ops(4)
    by (auto simp: es_handleLogin_def bindM_def liftR_def keeps_def)
  let ?check = "bindM (base (login_secret E cfg d)) (\<lambda>secret.
    base (verifyLoginSignature E msg secret ?win))"
  have k: "keeps es_ctx ?check"
    by (intro keeps_bindM keeps_base keeps_login_checks)
  have rejected: "keeps es_ctx (bindM (es_int E msg ''seq'' 0) (\<lambda>seq.
      thenM (es_sendJson E sid (f seq)) (es_close sid)))" for f
    by (intro keeps_rules keeps_es_ops)
  have run: "es_handleLogin E cfg sid msg w = (bindM ?check (\<lambda>error. case error of
      Some error \<Rightarrow> bindM (es_int E msg ''seq'' 0) (\<lambda>seq.
        thenM (es_sendJson E sid (JObject [(''type'', JString ''login_ack''), (''seq'', JInt seq),
          (''result'', JInt 2), (''error'', JString error)])) (es_close sid))
    | None \<Rightarrow> es_accept_login E cfg sid msg d imei)) w"
    using assms(1) d i ne by (simp add: es_handleLogin_def bindM_liftR)
  obtain w' where check: "?check w = (Inr None, w')"
  proof (cases "?check w")
    case (Pair r w')
    with k have same: "es_ctx w' = es_ctx w" by (rule keepsD)
    show thesis
    proof (cases "r = Inr None")
      case True
      with Pair that show thesis by blast
    next
      case False
      have "es_ctx (snd (es_handleLogin E cfg sid msg w)) = es_ctx w'"
        unfolding run bindM_def [of ?check] Pair using False
        by (auto simp: keeps_snd [OF rejected] split: sum.split option.split)
      with same assms(2) show thesis by simp
    qed
  qed
  then obtain secret b b' where
    "login_secret E cfg d (e_base w) = (Inr secret, b)"
    "verifyLoginSignature E msg secret ?win b = (Inr None, b')"
    by (auto simp: bindM_def base_def split: prod.splits sum.splits)
  with d ne that show thesis by blast
qed

lemma login_secret_clock:
  "login_secret E cfg d w = (r, w') \<Longrightarrow> w_system_reads w' = w_system_reads w"
proof -
  have "keeps w_system_reads (login_secret E cfg d)"
    unfolding login_secret_def Let_def by (intro keeps_rules; simp)
  then show "login_secret E cfg d w = (r, w') \<Longrightarrow> w_system_reads w' = w_system_reads w"
    by (rule keepsD)
qed

section \<open>Properties\<close>

text \<open>
  C28: with authentication enabled, a login that changes anything in the shared context was
  signed with the secret of the device it names, over its identifier, IMEI, timestamp and
  nonce, and its timestamp lay within the window around the clock at that moment.
\<close>

theorem earlier_login_needs_signature:
  assumes "ac_enable (app_auth cfg)"
    and "es_ctx (snd (es_handleLogin E cfg sid msg w)) \<noteq> es_ctx w"
  shows "\<exists>d secret. value_string (env_json E) msg ''device_id'' '''' = Inr d \<and> d \<noteq> ''''
    \<and> fst (login_secret E cfg d (e_base w)) = Inr secret
    \<and> signed_by E msg d secret (ac_timestamp_window_sec (app_auth cfg))
        (duration_cast 1000000000 (env_system E (w_system_reads (e_base w))))"
proof -
  from assms obtain d secret b b' where d: "value_string (env_json E) msg ''device_id'' '''' = Inr d"
      "d \<noteq> ''''" and s: "login_secret E cfg d (e_base w) = (Inr secret, b)"
    and v: "verifyLoginSignature E msg secret (ac_timestamp_window_sec (app_auth cfg)) b = (Inr None, b')"
    by (rule es_handleLogin_accepts)
  from verifyLoginSignature_accepts [OF v d(1)] d s login_secret_clock [OF s]
  show ?thesis by auto
qed


text \<open>A signed login of \<^verbatim>\<open>D1\<close>, and a session that has not logged in.\<close>

definition signed_login :: json where
  "signed_login = JObject [(''device_id'', JString ''D1''), (''imei'', JString ''I''),
     (''nonce'', JString ''N''), (''timestamp'', JInt 5),
     (''sign'', JString (hmacSha256Hex plain_crypto ''DEV_ONLY_CHANGE_ME'' ''D1|I|5|N''))]"

definition earlier_world :: EarlierWorld where
  "earlier_world = \<lparr>e_base = (initial_World True [])\<lparr>w_ctx := \<lparr>ctx_sessions = [], ctx_states = [],
       ctx_redis = False, ctx_wake_manager = True, ctx_mqtt_backend = False\<rparr>\<rparr>,
     e_heap = [(0, \<lparr>es_device_id = '''', es_remote_addr = ''10.0.0.9'', es_open = True,
       es_protocol = UNKNOWN, es_reading = No_read, es_read_buffer = [],
       es_writer = new_earlier_writer\<rparr>)], e_pending = []\<rparr>"

lemma signed_login_members:
  "table_value_string signed_login ''device_id'' '''' = Inr ''D1''"
  "table_value_string signed_login ''imei'' '''' = Inr ''I''"
  "table_value_string signed_login ''nonce'' '''' = Inr ''N''"
  "table_value_string signed_login ''sign'' '''' =
     Inr (hmacSha256Hex plain_crypto ''DEV_ONLY_CHANGE_ME'' ''D1|I|5|N'')"
  "table_value_int signed_login ''timestamp'' 0 = Inr 5"
  "table_value_string signed_login ''fw'' '''' = Inr ''''"
  "table_value_string signed_login ''model'' '''' = Inr ''''"
  "table_value_string signed_login ''dev'' ''unknown'' = Inr ''unknown''"
  "table_value_int signed_login ''seq'' 0 = Inr 0"
  by (simp_all add: signed_login_def)

lemma length_hex: "length (concat (map hex_byte bs)) = 2 * length bs"
  by (induction bs) (simp_all add: hex_byte_def)

lemma hmacSha256Hex_nonempty: "hmacSha256Hex plain_crypto s d \<noteq> ''''"
proof -
  have "length (hmacSha256Hex plain_crypto s d) = 64"
    unfolding hmacSha256Hex_def length_hex by simp
  then show ?thesis by auto
qed

lemma to_string_5: "to_string 5 = ''5''"
  by code_simp

lemma signed_login_verified:
  "w_system_reads w = 0 \<Longrightarrow>
   verifyLoginSignature (sample_env (brief_json ''{}'') db_server) signed_login
     ''DEV_ONLY_CHANGE_ME'' 300 w = (Inr None, w\<lparr>w_system_reads := Suc (w_system_reads w)\<rparr>)"
  using hmacSha256Hex_nonempty
  by (simp add: verifyLoginSignature_def signed_login_members liftR_def Let_def bindM_def
      system_now_def ret_def duration_cast_def to_string_5)

lemma signed_login_accepted:
  "es_ctx (snd (es_handleLogin (sample_env (brief_json ''{}'') db_server) default_AppConfig 0
     signed_login earlier_world)) \<noteq> es_ctx earlier_world"
proof -
  let ?E = "sample_env (brief_json ''{}'') db_server"
  let ?w = "earlier_world\<lparr>e_base := (e_base earlier_world)\<lparr>w_system_reads := 1\<rparr>\<rparr>"
  have cfg: "ac_enable (app_auth default_AppConfig)"
    "ac_dev_default_secret (app_auth default_AppConfig) = ''DEV_ONLY_CHANGE_ME''"
    "ac_timestamp_window_sec (app_auth default_AppConfig) = 300"
    by (simp_all add: default_AppConfig_def default_AuthConfig_def)
  have w: "\<not> ctx_redis (w_ctx (e_base earlier_world))" "w_system_reads (e_base earlier_world) = 0"
    by (simp_all add: earlier_world_def initial_World_def)
  have "es_handleLogin ?E default_AppConfig 0 signed_login earlier_world =
      es_accept_login ?E default_AppConfig 0 signed_login ''D1'' ''I'' ?w"
    using signed_login_verified [of "e_base earlier_world"] w cfg
    by (simp add: es_handleLogin_def signed_login_members liftR_def bindM_def base_def
        login_secret_def get_ctx_def getsM_def ret_def Let_def)
  moreover have "ctx_sessions (es_ctx (snd (es_accept_login ?E default_AppConfig 0 signed_login
      ''D1'' ''I'' ?w))) = [(''D1'', 0)]"
    by (simp add: es_accept_login_def signed_login_members earlier_world_def initial_World_def
        comp_defs modify_es_def get_es_def base_def steady_now_def modify_ctx_def get_ctx_def
        es_sendJson_def um_find_def um_put_def Let_def)
  moreover have "ctx_sessions (es_ctx earlier_world) = []"
    by (simp add: earlier_world_def)
  ultimately show ?thesis by auto
qed

theorem earlier_login_needs_signature_witness:
  "\<exists>secret. signed_by (sample_env (brief_json ''{}'') db_server) signed_login ''D1'' secret 300 0"
proof -
  let ?E = "sample_env (brief_json ''{}'') db_server"
  have cfg: "ac_enable (app_auth default_AppConfig)"
    "ac_timestamp_window_sec (app_auth default_AppConfig) = 300"
    by (simp_all add: default_AppConfig_def default_AuthConfig_def)
  have now: "w_system_reads (e_base earlier_world) = 0" "duration_cast 1000000000 0 = 0"
    by (simp_all add: earlier_world_def initial_World_def duration_cast_def)
  from earlier_login_needs_signature [OF cfg(1) signed_login_accepted]
  show ?thesis by (auto simp: cfg(2) now signed_login_members)
qed

text \<open>
  A disconnection is not remembered: a later report (the pending read of the closed socket, a
  failed write) deregisters the device again, whoever registered it in between.
\<close>

lemma base_ctx_runs:
  "base (modify_ctx f) w = (Inr (), w\<lparr>e_base := (e_base w)\<lparr>w_ctx := f (es_ctx w)\<rparr>\<rparr>)"
  "base get_ctx w = (Inr (es_ctx w), w)"
  by (simp_all add: base_def modify_ctx_def get_ctx_def modifyM_def getsM_def)

lemma es_handleDisconnect_sessions:
  assumes "um_find (e_heap w) sid = Some s" and "es_device_id s \<noteq> ''''"
  shows "ctx_sessions (es_ctx (snd (es_handleDisconnect E sid w))) =
     um_erase (ctx_sessions (es_ctx w)) (es_device_id s)"
proof -
  let ?g = "\<lambda>w. ctx_sessions (es_ctx w)"
  have ctx: "keeps (\<lambda>w. ctx_sessions (w_ctx w)) (write_state d f)" for d f
    by (rule keepsI) (simp add: write_state_def modify_ctx_def modifyM_def)
  have redis: "keeps (\<lambda>w. ctx_sessions (w_ctx w)) (on_redis f)"
    for f :: "redis_cmd list \<Rightarrow> bool \<times> redis_cmd list"
    by (intro keeps_rules) simp
  have close: "keeps ?g (es_close sid)"
    using keeps_es_ops(3) [of sid] by (simp add: keeps_def)
  have rest: "keeps ?g (thenM (whenM b (base (write_state d f))) (whenM c
      (bindM (es_redis h) (\<lambda>_. ret ()))))"
    for b d f c and h :: "redis_cmd list \<Rightarrow> bool \<times> redis_cmd list"
    by (intro keeps_thenM keeps_whenM keeps_bindM keeps_ret keeps_base ctx redis)
  show ?thesis
    using assms
    by (simp add: es_handleDisconnect_def get_es_def comp_step keeps_tail(1) [where g = ?g, OF close]
        base_ctx_runs Let_def keeps_snd [OF rest])
qed

end
