(* ===== verification/Prototype.thy ===== *)
theory Prototype
  imports EarlierWriter HttpAdminServer
begin

text \<open>
  The prototype of the gateway, one file (\<^verbatim>\<open>src/main.cpp\<close>, not part of the build):
  sessions that speak JSON lines, the timer that closes silent connections, the administration
  interface, and the event loop that runs all of them on one thread.  Its writer is that of
  the theory \<open>EarlierWriter\<close>.  It uses no Redis and no broker, so a world of its own
  suffices; clocks and the JSON library are those of the environment \<open>env\<close>.
\<close>

section \<open>State\<close>

record ProtoDevice =
  pd_device_id :: string
  pd_imei :: string
  pd_fw :: string
  pd_model :: string
  pd_remote_addr :: string
  pd_dev_state :: string
  pd_battery :: int
  pd_rssi :: int
  pd_rsrp :: int
  pd_charging :: bool
  pd_online :: bool
  pd_login_time :: int
  pd_last_heartbeat :: int

definition default_ProtoDevice :: ProtoDevice where
  "default_ProtoDevice = \<lparr>pd_device_id = '''', pd_imei = '''', pd_fw = '''', pd_model = '''',
     pd_remote_addr = '''', pd_dev_state = ''unknown'', pd_battery = -1, pd_rssi = 0, pd_rsrp = 0,
     pd_charging = False, pd_online = False, pd_login_time = 0, pd_last_heartbeat = 0\<rparr>"

record GatewayState =
  gs_sessions :: "(string, nat) umap"
  gs_states :: "(string, ProtoDevice) umap"

record ProtoSession =
  ps_device_id :: string
  ps_remote_addr :: string
  ps_open :: bool
  ps_reading :: bool
  ps_read_buffer :: bytes
  ps_writer :: EarlierWriter

record ProtoWorld =
  pr_gateway :: GatewayState
  pr_heap :: "(nat, ProtoSession) umap"
  pr_next_session :: nat
  pr_steady_reads :: nat
  pr_system_reads :: nat

type_synonym 'a pw = "(ProtoWorld, 'a) comp"

definition DEFAULT_HEARTBEAT_SECONDS :: int where "DEFAULT_HEARTBEAT_SECONDS = 180"
definition DEFAULT_IDLE_TIMEOUT_SECONDS :: int where "DEFAULT_IDLE_TIMEOUT_SECONDS = 600"

section \<open>Elementary computations\<close>

definition pr_steady_now :: "env \<Rightarrow> int pw" where
  "pr_steady_now E = (\<lambda>w. (Inr (env_steady E (pr_steady_reads w)),
     w\<lparr>pr_steady_reads := Suc (pr_steady_reads w)\<rparr>))"

definition now_ms :: "env \<Rightarrow> int pw" where
  "now_ms E = (\<lambda>w. (Inr (duration_cast 1000000 (env_system E (pr_system_reads w))),
     w\<lparr>pr_system_reads := Suc (pr_system_reads w)\<rparr>))"

definition now_ms_string :: "env \<Rightarrow> string pw" where
  "now_ms_string E = bindM (now_ms E) (\<lambda>ms. ret (to_string ms))"

definition make_msg_id :: "env \<Rightarrow> string pw" where
  "make_msg_id E = bindM (now_ms_string E) (\<lambda>s. ret (''W'' @ s))"

definition pr_get :: "nat \<Rightarrow> ProtoSession pw" where
  "pr_get sid =
     (\<lambda>w. case um_find (pr_heap w) sid of None \<Rightarrow> (Inl Dead_Object, w) | Some s \<Rightarrow> (Inr s, w))"

definition pr_modify :: "nat \<Rightarrow> (ProtoSession \<Rightarrow> ProtoSession) \<Rightarrow> unit pw" where
  "pr_modify sid f =
     (\<lambda>w. case um_find (pr_heap w) sid of
            None \<Rightarrow> (Inl Dead_Object, w)
          | Some s \<Rightarrow> (Inr (), w\<lparr>pr_heap := um_put (pr_heap w) sid (f s)\<rparr>))"

definition gateway :: "GatewayState pw" where
  "gateway = getsM pr_gateway"

definition pr_states :: "((string, ProtoDevice) umap \<Rightarrow> (string, ProtoDevice) umap) \<Rightarrow> unit pw" where
  "pr_states f =
     modifyM (\<lambda>w. w\<lparr>pr_gateway := (pr_gateway w)\<lparr>gs_states := f (gs_states (pr_gateway w))\<rparr>\<rparr>)"

definition pr_sessions :: "((string, nat) umap \<Rightarrow> (string, nat) umap) \<Rightarrow> unit pw" where
  "pr_sessions f =
     modifyM (\<lambda>w. w\<lparr>pr_gateway := (pr_gateway w)\<lparr>gs_sessions := f (gs_sessions (pr_gateway w))\<rparr>\<rparr>)"

text \<open>\<^verbatim>\<open>gateway_.states[id]\<close> and an assignment through the reference.\<close>

definition pr_state_ref :: "string \<Rightarrow> ProtoDevice pw" where
  "pr_state_ref dev =
     thenM (pr_states (\<lambda>m. um_modify default_ProtoDevice m dev (\<lambda>s. s)))
       (bindM gateway (\<lambda>g. case um_find (gs_states g) dev of
          None \<Rightarrow> throw Dead_Object | Some s \<Rightarrow> ret s))"

definition pr_write :: "string \<Rightarrow> (ProtoDevice \<Rightarrow> ProtoDevice) \<Rightarrow> unit pw" where
  "pr_write dev f = pr_states (\<lambda>m. um_modify default_ProtoDevice m dev f)"

definition pr_update ::
    "string \<Rightarrow> (ProtoDevice \<Rightarrow> exn + 'a) \<Rightarrow> ('a \<Rightarrow> ProtoDevice \<Rightarrow> ProtoDevice) \<Rightarrow> unit pw" where
  "pr_update dev rd upd =
     bindM (pr_state_ref dev) (\<lambda>s. bindM (liftR (rd s)) (\<lambda>v. pr_write dev (upd v)))"

abbreviation pr_str :: "env \<Rightarrow> json \<Rightarrow> string \<Rightarrow> string \<Rightarrow> string pw" where
  "pr_str E msg k d \<equiv> liftR (value_string (env_json E) msg k d)"

abbreviation pr_int :: "env \<Rightarrow> json \<Rightarrow> string \<Rightarrow> int \<Rightarrow> int pw" where
  "pr_int E msg k d \<equiv> liftR (value_int (env_json E) msg k d)"

section \<open>The session\<close>

definition send_json :: "env \<Rightarrow> nat \<Rightarrow> json \<Rightarrow> unit pw" where
  "send_json E sid j =
     bindM (liftR (json_dump (env_json E) j)) (\<lambda>data.
       pr_modify sid (\<lambda>s. s\<lparr>ps_writer :=
         send_post (Queued (bytes_of_string (data @ [CHR 0x0A]))) (ps_writer s)\<rparr>))"

definition pr_close :: "nat \<Rightarrow> unit pw" where
  "pr_close sid = pr_modify sid (\<lambda>s. s\<lparr>ps_open := False\<rparr>)"

definition handle_login :: "env \<Rightarrow> nat \<Rightarrow> json \<Rightarrow> unit pw" where
  "handle_login E sid msg =
     bindM (pr_str E msg ''device_id'' '''') (\<lambda>device_id.
     bindM (pr_str E msg ''imei'' '''') (\<lambda>imei.
     bindM (pr_str E msg ''fw'' '''') (\<lambda>fw.
     bindM (pr_str E msg ''model'' '''') (\<lambda>model.
       if device_id = [] then
         send_json E sid (JObject [(''type'', JString ''login_ack''), (''result'', JInt 1),
           (''error'', JString ''device_id_required'')])
       else
         thenM (pr_modify sid (\<lambda>s. s\<lparr>ps_device_id := device_id\<rparr>))
         (bindM (pr_get sid) (\<lambda>s.
         bindM (pr_str E msg ''dev'' ''unknown'') (\<lambda>dev.
         bindM (pr_steady_now E) (\<lambda>login_time.
         bindM (pr_steady_now E) (\<lambda>last_heartbeat.
         let state = default_ProtoDevice\<lparr>pd_device_id := device_id, pd_imei := imei, pd_fw := fw,
               pd_model := model, pd_remote_addr := ps_remote_addr s, pd_online := True,
               pd_dev_state := dev, pd_login_time := login_time,
               pd_last_heartbeat := last_heartbeat\<rparr> in
         thenM (pr_sessions (\<lambda>m. um_put m device_id sid))
         (thenM (pr_states (\<lambda>m. um_put m device_id state))
         (bindM (pr_int E msg ''seq'' 0) (\<lambda>seq.
         bindM (now_ms_string E) (\<lambda>t.
           send_json E sid (JObject [(''type'', JString ''login_ack''), (''seq'', JInt seq),
             (''result'', JInt 0), (''heartbeat'', JInt DEFAULT_HEARTBEAT_SECONDS),
             (''idle_timeout'', JInt DEFAULT_IDLE_TIMEOUT_SECONDS),
             (''server_time_ms'', JString t)]))))))))))))))"

definition handle_heartbeat :: "env \<Rightarrow> nat \<Rightarrow> json \<Rightarrow> unit pw" where
  "handle_heartbeat E sid msg =
     bindM (pr_get sid) (\<lambda>session.
       let dev = ps_device_id session; J = env_json E in
       if dev = [] then send_json E sid (JObject [(''type'', JString ''error''),
           (''code'', JString ''not_logged_in'')])
       else thenM (bindM (pr_state_ref dev) (\<lambda>_. bindM (pr_steady_now E) (\<lambda>t.
           pr_write dev (\<lambda>s. s\<lparr>pd_last_heartbeat := t\<rparr>))))
         (thenM (pr_write dev (\<lambda>s. s\<lparr>pd_online := True\<rparr>))
         (thenM (pr_update dev (\<lambda>s. value_int J msg ''battery'' (pd_battery s))
             (\<lambda>v s. s\<lparr>pd_battery := v\<rparr>))
         (thenM (pr_update dev (\<lambda>s. value_int J msg ''rssi'' (pd_rssi s))
             (\<lambda>v s. s\<lparr>pd_rssi := v\<rparr>))
         (thenM (pr_update dev (\<lambda>s. value_int J msg ''rsrp'' (pd_rsrp s))
             (\<lambda>v s. s\<lparr>pd_rsrp := v\<rparr>))
         (thenM (pr_update dev (\<lambda>s. value_string J msg ''dev'' (pd_dev_state s))
             (\<lambda>v s. s\<lparr>pd_dev_state := v\<rparr>))
         (thenM (pr_update dev (\<lambda>s. value_bool J msg ''charging'' (pd_charging s))
             (\<lambda>v s. s\<lparr>pd_charging := v\<rparr>))
         (bindM (pr_int E msg ''seq'' 0) (\<lambda>seq.
         bindM (pr_state_ref dev) (\<lambda>state.
         let next_heartbeat = DEFAULT_HEARTBEAT_SECONDS;
             next_heartbeat = (if 0 \<le> pd_battery state \<and> pd_battery state < 20 then 300
               else next_heartbeat);
             next_heartbeat = (if 0 \<le> pd_battery state \<and> pd_battery state < 10 then 600
               else next_heartbeat) in
           send_json E sid (JObject [(''type'', JString ''heartbeat_ack''), (''seq'', JInt seq),
             (''result'', JInt 0), (''next_heartbeat'', JInt next_heartbeat)])))))))))))"


text \<open>The values read for the log lines may throw as the others do.\<close>

definition handle_wake_ack :: "env \<Rightarrow> json \<Rightarrow> unit pw" where
  "handle_wake_ack E msg =
     bindM (pr_str E msg ''msg_id'' '''') (\<lambda>_.
     bindM (pr_int E msg ''result'' (- 1)) (\<lambda>_.
     bindM (pr_str E msg ''status'' '''') (\<lambda>_. ret ())))"

definition handle_task_done :: "env \<Rightarrow> nat \<Rightarrow> json \<Rightarrow> unit pw" where
  "handle_task_done E sid msg =
     bindM (pr_str E msg ''msg_id'' '''') (\<lambda>msg_id.
     bindM (pr_int E msg ''result'' (- 1)) (\<lambda>_.
     bindM (pr_str E msg ''file_type'' '''') (\<lambda>_.
     bindM (pr_str E msg ''url'' '''') (\<lambda>_.
     bindM (pr_int E msg ''size'' 0) (\<lambda>_.
     bindM (pr_int E msg ''seq'' 0) (\<lambda>seq.
       send_json E sid (JObject [(''type'', JString ''task_done_ack''), (''seq'', JInt seq),
         (''msg_id'', JString msg_id), (''result'', JInt 0)])))))))"

definition handle_host_sleep :: "env \<Rightarrow> nat \<Rightarrow> json \<Rightarrow> unit pw" where
  "handle_host_sleep E sid msg =
     bindM (pr_get sid) (\<lambda>s.
       if ps_device_id s = [] then ret ()
       else thenM (pr_write (ps_device_id s) (\<lambda>d. d\<lparr>pd_dev_state := ''sleep''\<rparr>))
         (bindM (pr_int E msg ''seq'' 0) (\<lambda>seq.
           send_json E sid (JObject [(''type'', JString ''host_sleep_ack''), (''seq'', JInt seq),
             (''result'', JInt 0)]))))"

definition handle_host_state :: "env \<Rightarrow> nat \<Rightarrow> json \<Rightarrow> unit pw" where
  "handle_host_state E sid msg =
     bindM (pr_get sid) (\<lambda>s.
       if ps_device_id s = [] then ret ()
       else pr_update (ps_device_id s)
         (\<lambda>d. value_string (env_json E) msg ''dev'' (pd_dev_state d)) (\<lambda>v d. d\<lparr>pd_dev_state := v\<rparr>))"

definition handle_disconnect :: "nat \<Rightarrow> unit pw" where
  "handle_disconnect sid =
     bindM (pr_get sid) (\<lambda>s. let device_id = ps_device_id s in
     thenM
       (if device_id \<noteq> [] then
          bindM gateway (\<lambda>g.
          thenM (whenM (um_find (gs_states g) device_id \<noteq> None)
              (pr_write device_id (\<lambda>d. d\<lparr>pd_online := False\<rparr>)))
            (pr_sessions (\<lambda>m. um_erase m device_id)))
        else ret ())
       (pr_close sid))"

definition handle_message :: "env \<Rightarrow> nat \<Rightarrow> string \<Rightarrow> unit pw" where
  "handle_message E sid line =
     (case json_parse (env_json E) line of
        Inl e \<Rightarrow> send_json E sid (JObject [(''type'', JString ''error''),
            (''code'', JString ''invalid_json''), (''message'', JString (what e))])
      | Inr msg \<Rightarrow>
          bindM (pr_str E msg ''type'' '''') (\<lambda>type.
            if type = ''login'' then handle_login E sid msg
            else if type = ''heartbeat'' then handle_heartbeat E sid msg
            else if type = ''wake_ack'' then handle_wake_ack E msg
            else if type = ''task_done'' then handle_task_done E sid msg
            else if type = ''host_sleep'' then handle_host_sleep E sid msg
            else if type = ''host_state'' then handle_host_state E sid msg
            else send_json E sid (JObject [(''type'', JString ''error''),
              (''code'', JString ''unknown_type''), (''message'', JString type)])))"

definition do_read_line :: "nat \<Rightarrow> unit pw" where
  "do_read_line sid = pr_modify sid (\<lambda>s. s\<lparr>ps_reading := True\<rparr>)"

text \<open>The completion handler of the read: \<open>None\<close> for an error.\<close>

definition line_read :: "env \<Rightarrow> nat \<Rightarrow> bytes option \<Rightarrow> unit pw" where
  "line_read E sid result =
     thenM (pr_modify sid (\<lambda>s. s\<lparr>ps_reading := False\<rparr>))
     (case result of
        None \<Rightarrow> handle_disconnect sid
      | Some chunk \<Rightarrow>
          bindM (pr_get sid) (\<lambda>s.
          let (line, rest) = take_line (ps_read_buffer s @ chunk);
              line = strip_cr (string_of_bytes line) in
          thenM (pr_modify sid (\<lambda>s. s\<lparr>ps_read_buffer := rest\<rparr>))
          (thenM (whenM (line \<noteq> []) (handle_message E sid line))
            (do_read_line sid))))"

definition pr_run_posted :: "nat \<Rightarrow> unit pw" where
  "pr_run_posted sid = pr_modify sid (\<lambda>s. s\<lparr>ps_writer := earlier_run_posted (ps_writer s)\<rparr>)"

definition pr_written :: "nat \<Rightarrow> bool \<Rightarrow> unit pw" where
  "pr_written sid ok =
     thenM (pr_modify sid (\<lambda>s. s\<lparr>ps_writer := earlier_completed 0 ok (ps_writer s)\<rparr>))
       (whenM (\<not> ok) (handle_disconnect sid))"

section \<open>The listener and its timer\<close>

text \<open>The completion handler of \<^verbatim>\<open>async_accept\<close> (\<open>None\<close> for an error), with
  \<^verbatim>\<open>start\<close> of the new session: \<open>remote\<close> is what
  \<^verbatim>\<open>remote_endpoint()\<close> gives or throws.\<close>

definition proto_accept :: "(exn + string) option \<Rightarrow> unit pw" where
  "proto_accept result =
     (case result of
        None \<Rightarrow> ret ()
      | Some remote \<Rightarrow>
          bindM (liftR remote) (\<lambda>addr.
          bindM (getsM pr_next_session) (\<lambda>sid.
          thenM (modifyM (\<lambda>w. w\<lparr>pr_heap := um_put (pr_heap w) sid \<lparr>ps_device_id = '''',
              ps_remote_addr = addr, ps_open = True, ps_reading = False, ps_read_buffer = [],
              ps_writer = new_earlier_writer\<rparr>, pr_next_session := Suc sid\<rparr>))
            (do_read_line sid))))"

definition pr_silent :: "int \<Rightarrow> ProtoDevice \<Rightarrow> bool" where
  "pr_silent now s \<longleftrightarrow> pd_online s
     \<and> DEFAULT_IDLE_TIMEOUT_SECONDS < duration_cast 1000000000 (now - pd_last_heartbeat s)"

definition close_silent :: "string \<Rightarrow> unit pw" where
  "close_silent device_id =
     thenM (pr_write device_id (\<lambda>s. s\<lparr>pd_online := False\<rparr>))
     (bindM gateway (\<lambda>g.
       case um_find (gs_sessions g) device_id of
         None \<Rightarrow> ret ()
       | Some sid \<Rightarrow>
           bindM (getsM (\<lambda>w. um_find (pr_heap w) sid)) (\<lambda>session.
           thenM (whenM (session \<noteq> None) (pr_close sid))
             (pr_sessions (\<lambda>m. um_erase m device_id)))))"

definition check_offline_devices :: "env \<Rightarrow> unit pw" where
  "check_offline_devices E =
     bindM (pr_steady_now E) (\<lambda>now.
     bindM gateway (\<lambda>g.
       forM (map fst (filter (\<lambda>(_, s). pr_silent now s) (gs_states g))) close_silent))"


section \<open>The administration interface\<close>

definition split_path :: "string \<Rightarrow> string list" where
  "split_path path = filter (\<lambda>item. item \<noteq> []) (getline_items CHR ''/'' path)"

fun query_param_of :: "string list \<Rightarrow> string \<Rightarrow> string" where
  "query_param_of [] key = ''''"
| "query_param_of (pair # pairs) key =
     (case str_find ''='' pair of
        None \<Rightarrow> query_param_of pairs key
      | Some eq \<Rightarrow>
          (let k = take eq pair; v = drop (eq + 1) pair
           in if k = key then v else query_param_of pairs key))"

definition get_query_param :: "string \<Rightarrow> string \<Rightarrow> string" where
  "get_query_param url key =
     (case str_find ''?'' url of
        None \<Rightarrow> ''''
      | Some qpos \<Rightarrow> query_param_of (getline_items CHR ''&'' (drop (qpos + 1) url)) key)"

definition strip_query :: "string \<Rightarrow> string" where
  "strip_query url = (case str_find ''?'' url of None \<Rightarrow> url | Some qpos \<Rightarrow> take qpos url)"

definition proto_status_text :: "int \<Rightarrow> string" where
  "proto_status_text status =
     (if status = 404 then ''Not Found'' else if status = 409 then ''Conflict''
      else if 500 \<le> status then ''Internal Server Error'' else ''OK'')"

definition send_response :: "env \<Rightarrow> int \<Rightarrow> json \<Rightarrow> string pw" where
  "send_response E status body =
     bindM (liftR (json_dump2 (env_json E) body)) (\<lambda>content.
       ret (''HTTP/1.1 '' @ to_string status @ '' '' @ proto_status_text status @ CRLF
         @ ''Content-Type: application/json'' @ CRLF
         @ ''Content-Length: '' @ to_string (int (length content)) @ CRLF
         @ ''Connection: close'' @ CRLF @ CRLF @ content))"

definition handle_get_online :: "env \<Rightarrow> string \<Rightarrow> string pw" where
  "handle_get_online E device_id =
     bindM gateway (\<lambda>g.
       case um_find (gs_states g) device_id of
         None \<Rightarrow> send_response E 404 (JObject [(''error'', JString ''device_not_found''),
             (''device_id'', JString device_id)])
       | Some s \<Rightarrow>
           bindM (pr_steady_now E) (\<lambda>now.
             send_response E 200 (JObject [(''device_id'', JString (pd_device_id s)),
               (''online'', JBool (pd_online s)), (''imei'', JString (pd_imei s)),
               (''fw'', JString (pd_fw s)), (''model'', JString (pd_model s)),
               (''remote_addr'', JString (pd_remote_addr s)), (''battery'', JInt (pd_battery s)),
               (''rssi'', JInt (pd_rssi s)), (''rsrp'', JInt (pd_rsrp s)),
               (''charging'', JBool (pd_charging s)), (''dev'', JString (pd_dev_state s)),
               (''last_heartbeat_age_sec'',
                  JInt (duration_cast 1000000000 (now - pd_last_heartbeat s)))])))"

text \<open>\<^verbatim>\<open>std::stoll(now_ms_string())\<close> reads a number back from its own text, so it
  is the number.\<close>

definition handle_post_wake :: "env \<Rightarrow> string \<Rightarrow> string \<Rightarrow> string pw" where
  "handle_post_wake E device_id cmd =
     bindM gateway (\<lambda>g.
       case um_find (gs_sessions g) device_id of
         None \<Rightarrow> send_response E 409 (JObject [(''error'', JString ''device_offline''),
             (''device_id'', JString device_id)])
       | Some sid \<Rightarrow>
           bindM (getsM (\<lambda>w. um_find (pr_heap w) sid)) (\<lambda>session.
             if session = None then
               thenM (pr_sessions (\<lambda>m. um_erase m device_id))
                 (send_response E 409 (JObject [(''error'', JString ''device_session_expired''),
                   (''device_id'', JString device_id)]))
             else
               bindM (make_msg_id E) (\<lambda>msg_id.
               bindM (now_ms E) (\<lambda>seq.
               bindM (now_ms E) (\<lambda>t.
               thenM (send_json E sid (JObject [(''type'', JString ''wake''), (''seq'', JInt seq),
                   (''msg_id'', JString msg_id), (''cmd'', JString cmd),
                   (''reason'', JString ''http_api''), (''expire_ms'', JInt (t + 300000)),
                   (''params'', JObject [(''resolution'', JString ''640x480''),
                     (''quality'', JInt 80)])]))
               (send_response E 200 (JObject [(''result'', JString ''sent''),
                 (''device_id'', JString device_id), (''cmd'', JString cmd),
                 (''msg_id'', JString msg_id)])))))))"

text \<open>The tests of \<^verbatim>\<open>handle_request\<close>.\<close>

definition proto_route :: "string \<Rightarrow> route" where
  "proto_route request_line =
     (let (method, rest) = read_word request_line;
          (url, rest) = read_word rest;
          parts = split_path (strip_query url)
      in if method = ''GET'' \<and> length parts = 4 \<and> parts ! 0 = ''api'' \<and> parts ! 1 = ''devices''
            \<and> parts ! 3 = ''online'' then Route_online (parts ! 2)
         else if method = ''POST'' \<and> length parts = 4 \<and> parts ! 0 = ''api''
            \<and> parts ! 1 = ''devices'' \<and> parts ! 3 = ''wake'' then
           (let cmd = get_query_param url ''cmd''
            in Route_command (parts ! 2) (if cmd = [] then ''take_photo'' else cmd))
         else Route_none)"

definition handle_request :: "env \<Rightarrow> string \<Rightarrow> string pw" where
  "handle_request E request_line =
     (case proto_route request_line of
        Route_online device_id \<Rightarrow> handle_get_online E device_id
      | Route_command device_id cmd \<Rightarrow> handle_post_wake E device_id cmd
      | Route_none \<Rightarrow> send_response E 404 (JObject [(''error'', JString ''not_found''),
          (''request'', JString request_line)]))"

definition proto_http :: "env \<Rightarrow> bytes option \<Rightarrow> string option pw" where
  "proto_http E result =
     (case result of
        None \<Rightarrow> ret None
      | Some buf \<Rightarrow>
          bindM (handle_request E (strip_cr (string_of_bytes (fst (take_line buf)))))
            (\<lambda>resp. ret (Some resp)))"

section \<open>The event loop\<close>

datatype proto_event =
    P_accept "(exn + string) option"
  | P_read nat "bytes option"
  | P_posted nat
  | P_written nat bool
  | P_timer
  | P_http "bytes option"

definition proto_handler :: "env \<Rightarrow> proto_event \<Rightarrow> unit pw" where
  "proto_handler E ev =
     (case ev of
        P_accept r \<Rightarrow> proto_accept r
      | P_read sid r \<Rightarrow> line_read E sid r
      | P_posted sid \<Rightarrow> pr_run_posted sid
      | P_written sid ok \<Rightarrow> pr_written sid ok
      | P_timer \<Rightarrow> check_offline_devices E
      | P_http r \<Rightarrow> bindM (proto_http E r) (\<lambda>_. ret ()))"

definition initial_proto :: ProtoWorld where
  "initial_proto = \<lparr>pr_gateway = \<lparr>gs_sessions = [], gs_states = []\<rparr>, pr_heap = [],
     pr_next_session = 0, pr_steady_reads = 0, pr_system_reads = 0\<rparr>"

text \<open>A session object lives as long as an operation holds it.\<close>

definition pr_held :: "ProtoSession \<Rightarrow> bool" where
  "pr_held s \<longleftrightarrow> ps_reading s \<or> ew_posted (ps_writer s) \<noteq> [] \<or> ew_inflight (ps_writer s) \<noteq> []"

text \<open>The event loop with \<^verbatim>\<open>main\<close> around it: an exception ends the process with
  status 1.\<close>

fun proto_step :: "env \<Rightarrow> proto_event \<Rightarrow> int + ProtoWorld \<Rightarrow> int + ProtoWorld" where
  "proto_step E ev (Inl status) = Inl status"
| "proto_step E ev (Inr w) =
     (case proto_handler E ev w of
        (Inl e, _) \<Rightarrow> Inl 1
      | (Inr _, w') \<Rightarrow> Inr (w'\<lparr>pr_heap := um_filter pr_held (pr_heap w')\<rparr>))"

definition proto_main :: "env \<Rightarrow> proto_event list \<Rightarrow> int + ProtoWorld" where
  "proto_main E evs = run (proto_step E) evs (Inr initial_proto)"

section \<open>What the handlers keep\<close>

text \<open>The maps are maps, and neither has an entry for the empty identifier.\<close>

definition proto_named :: "ProtoWorld \<Rightarrow> bool" where
  "proto_named w \<longleftrightarrow> um_ok (gs_states (pr_gateway w)) \<and> um_ok (gs_sessions (pr_gateway w))
     \<and> um_find (gs_states (pr_gateway w)) '''' = None
     \<and> um_find (gs_sessions (pr_gateway w)) '''' = None"

lemma preserves_if_cond:
  "(b \<Longrightarrow> preserves P m) \<Longrightarrow> (\<not> b \<Longrightarrow> preserves P n) \<Longrightarrow> preserves P (if b then m else n)"
  by simp

lemma preserves_forM_in:
  "(\<And>x. x \<in> set xs \<Longrightarrow> preserves P (f x)) \<Longrightarrow> preserves P (forM xs f)"
  by (induction xs) (auto intro: preserves_rules)

lemma named_states:
  "(\<And>m. um_ok m \<Longrightarrow> um_find m '''' = None \<Longrightarrow> um_ok (f m) \<and> um_find (f m) '''' = None) \<Longrightarrow>
   preserves proto_named (pr_states f)"
  unfolding pr_states_def by (rule preserves_modifyM) (simp add: proto_named_def)

lemma named_sessions:
  "(\<And>m. um_ok m \<Longrightarrow> um_find m '''' = None \<Longrightarrow> um_ok (f m) \<and> um_find (f m) '''' = None) \<Longrightarrow>
   preserves proto_named (pr_sessions f)"
  unfolding pr_sessions_def by (rule preserves_modifyM) (simp add: proto_named_def)

lemma named_ops:
  "preserves proto_named (pr_steady_now E)" "preserves proto_named (now_ms E)"
  "preserves proto_named (now_ms_string E)" "preserves proto_named (make_msg_id E)"
  "preserves proto_named (pr_get sid)" "preserves proto_named (pr_modify sid f)"
  "preserves proto_named gateway" "preserves proto_named (send_json E sid j)"
  "preserves proto_named (pr_close sid)" "preserves proto_named (do_read_line sid)"
  "preserves proto_named (pr_sessions (\<lambda>m. um_erase m d))"
  "preserves proto_named (send_response E st j)"
proof -
  show *: "preserves proto_named (now_ms E)" "preserves proto_named (pr_steady_now E)"
    by (simp_all add: preserves_def now_ms_def pr_steady_now_def proto_named_def)
  show s: "preserves proto_named (now_ms_string E)"
    unfolding now_ms_string_def by (intro preserves_rules *)
  show "preserves proto_named (make_msg_id E)"
    unfolding make_msg_id_def by (intro preserves_rules s)
  show m: "preserves proto_named (pr_modify sid f)" for f
    by (auto simp: preserves_def pr_modify_def proto_named_def split: option.split)
  show "preserves proto_named (pr_get sid)"
    by (auto simp: preserves_def pr_get_def split: option.split)
  show "preserves proto_named gateway" by (simp add: gateway_def preserves_getsM)
  show "preserves proto_named (send_json E sid j)"
    unfolding send_json_def by (intro preserves_rules m)
  show "preserves proto_named (pr_close sid)" "preserves proto_named (do_read_line sid)"
    by (simp_all add: pr_close_def do_read_line_def m)
  show "preserves proto_named (pr_sessions (\<lambda>m. um_erase m d))"
    by (rule named_sessions) (simp add: um.ok_erase um.find_erase)
  show "preserves proto_named (send_response E st j)"
    unfolding send_response_def by (intro preserves_rules)
qed

text \<open>Writes through a name that is not empty.\<close>

lemma named_writes:
  assumes "d \<noteq> ''''"
  shows "preserves proto_named (pr_write d f)" "preserves proto_named (pr_state_ref d)"
    "preserves proto_named (pr_update d rd upd)"
    "preserves proto_named (pr_states (\<lambda>m. um_put m d s))"
    "preserves proto_named (pr_sessions (\<lambda>m. um_put m d sid))"
    "preserves proto_named (close_silent d)"
proof -
  show w: "preserves proto_named (pr_write d f)" for f
    unfolding pr_write_def using assms by (intro named_states) (simp add: um_ok_modify um_find_modify)
  show r: "preserves proto_named (pr_state_ref d)"
    unfolding pr_state_ref_def using w [of "\<lambda>s. s"]
    by (intro preserves_rules named_ops) (simp_all add: pr_write_def)
  show "preserves proto_named (pr_update d rd upd)"
    unfolding pr_update_def by (intro preserves_rules r w)
  show "preserves proto_named (pr_states (\<lambda>m. um_put m d s))"
    using assms by (intro named_states) (simp add: um.ok_put um.find_put)
  show "preserves proto_named (pr_sessions (\<lambda>m. um_put m d sid))"
    using assms by (intro named_sessions) (simp add: um.ok_put um.find_put)
  show "preserves proto_named (close_silent d)"
    unfolding close_silent_def by (intro preserves_rules w named_ops)
qed

lemma named_handlers:
  "preserves proto_named (handle_login E sid msg)"
  "preserves proto_named (handle_heartbeat E sid msg)"
  "preserves proto_named (handle_wake_ack E msg)"
  "preserves proto_named (handle_task_done E sid msg)"
  "preserves proto_named (handle_host_sleep E sid msg)"
  "preserves proto_named (handle_host_state E sid msg)"
  "preserves proto_named (handle_disconnect sid)"
  unfolding handle_login_def handle_heartbeat_def handle_wake_ack_def handle_task_done_def
    handle_host_sleep_def handle_host_state_def handle_disconnect_def Let_def
  by (intro preserves_bindM preserves_thenM preserves_whenM preserves_ret preserves_liftR
      preserves_if_cond named_ops named_writes; simp)+


lemma named_message: "preserves proto_named (handle_message E sid line)"
  unfolding handle_message_def by (intro preserves_rules named_ops named_handlers)

lemma named_line_read: "preserves proto_named (line_read E sid r)"
  unfolding line_read_def Let_def prod.case_distrib
  by (intro preserves_thenM preserves_bindM preserves_whenM preserves_case_option named_ops
      named_handlers named_message) (auto intro: preserves_rules named_ops named_message split: prod.split)

lemma named_check: "preserves proto_named (check_offline_devices E)"
proof (rule preservesI)
  fix w assume w: "proto_named w"
  obtain now w1 where now: "pr_steady_now E w = (Inr now, w1)" "pr_gateway w1 = pr_gateway w"
    by (simp add: pr_steady_now_def)
  let ?ds = "map fst (filter (\<lambda>(_, s). pr_silent now s) (gs_states (pr_gateway w)))"
  have "'''' \<notin> fst ` set (gs_states (pr_gateway w))"
    using w by (simp add: proto_named_def um_find_def map_of_eq_None_iff)
  then have "'''' \<notin> set ?ds" by force
  then have "preserves proto_named (forM ?ds close_silent)"
    by (intro preserves_forM_in named_writes) blast
  moreover have "proto_named w1" using w now(2) by (simp add: proto_named_def)
  moreover have "check_offline_devices E w = forM ?ds close_silent w1"
    by (simp add: check_offline_devices_def comp_step(1) [of "pr_steady_now E" w now w1, OF now(1)]
        gateway_def seq_runs now(2))
  ultimately show "proto_named (snd (check_offline_devices E w))"
    by (simp add: preserves_def)
qed

lemma named_handler: "preserves proto_named (proto_handler E ev)"
proof (cases ev)
  case (P_accept r)
  have "preserves proto_named (modifyM (\<lambda>w. w\<lparr>pr_heap := h w, pr_next_session := n w\<rparr>))" for h n
    by (rule preserves_modifyM) (simp add: proto_named_def)
  then show ?thesis
    unfolding P_accept proto_handler_def proto_event.case proto_accept_def
    by (intro preserves_rules named_ops)
next
  case (P_http r)
  show ?thesis
    unfolding P_http proto_handler_def proto_event.case proto_http_def handle_request_def
      handle_get_online_def handle_post_wake_def
    by (intro preserves_rules named_ops)
      (auto split: route.split intro!: preserves_rules named_ops)
qed (auto simp: proto_handler_def pr_run_posted_def pr_written_def
    intro!: preserves_thenM preserves_whenM named_ops named_handlers named_line_read named_check)

definition proto_inv :: "int + ProtoWorld \<Rightarrow> bool" where
  "proto_inv p \<longleftrightarrow> (case p of Inl _ \<Rightarrow> True | Inr w \<Rightarrow> proto_named w)"

lemma proto_inv_step: "proto_inv p \<Longrightarrow> proto_inv (proto_step E ev p)"
proof (cases p)
  case (Inr w)
  assume "proto_inv p"
  with Inr have "proto_named (snd (proto_handler E ev w))"
    using named_handler [of E ev] by (simp add: proto_inv_def preserves_def)
  with Inr show ?thesis
    by (auto simp: proto_inv_def proto_named_def split: prod.split sum.split)
qed simp

interpretation proto: machine "proto_step E" proto_inv for E
  by unfold_locales (rule proto_inv_step)

lemma initial_proto_inv: "proto_inv (Inr initial_proto)"
  by (simp add: proto_inv_def proto_named_def initial_proto_def um_ok_def)

section \<open>The timer\<close>

text \<open>What \<open>close_silent\<close> makes of the three maps, by look-ups.\<close>

definition shuts :: "string set \<Rightarrow> ProtoWorld \<Rightarrow> ProtoWorld \<Rightarrow> bool" where
  "shuts D w w' \<longleftrightarrow>
     (\<forall>d. um_find (gs_states (pr_gateway w')) d = map_option (\<lambda>s.
        if d \<in> D then s\<lparr>pd_online := False\<rparr> else s) (um_find (gs_states (pr_gateway w)) d))
     \<and> (\<forall>d. um_find (gs_sessions (pr_gateway w')) d =
        (if d \<in> D then None else um_find (gs_sessions (pr_gateway w)) d))
     \<and> (\<forall>sid. um_find (pr_heap w') sid = map_option (\<lambda>s.
        if \<exists>d\<in>D. um_find (gs_sessions (pr_gateway w)) d = Some sid then s\<lparr>ps_open := False\<rparr> else s)
        (um_find (pr_heap w) sid))"

lemma shuts_one:
  assumes "um_find (gs_states (pr_gateway w)) d \<noteq> None"
  shows "\<exists>w'. close_silent d w = (Inr (), w') \<and> shuts {d} w w'"
proof -
  let ?w1 = "w\<lparr>pr_gateway := (pr_gateway w)\<lparr>gs_states := um_modify default_ProtoDevice
    (gs_states (pr_gateway w)) d (\<lambda>s. s\<lparr>pd_online := False\<rparr>)\<rparr>\<rparr>"
  have run: "close_silent d w =
      (case um_find (gs_sessions (pr_gateway w)) d of
         None \<Rightarrow> (Inr (), ?w1)
       | Some sid \<Rightarrow> thenM (whenM (um_find (pr_heap w) sid \<noteq> None) (pr_close sid))
           (pr_sessions (\<lambda>m. um_erase m d)) ?w1)"
    by (simp add: close_silent_def pr_write_def pr_states_def gateway_def seq_runs ret_def
        split: option.split)
  show ?thesis
    using assms
    by (cases "um_find (gs_sessions (pr_gateway w)) d")
      (auto simp: run shuts_def pr_close_def pr_modify_def pr_sessions_def comp_defs
        intro!: option.map_ident_strong [symmetric] split: option.splits)
qed

lemma shuts_trans:
  assumes "shuts D w w1" and "shuts D' w1 w2"
  shows "shuts (D \<union> D') w w2"
proof -
  let ?closed = "\<lambda>D w sid. \<exists>d\<in>D. um_find (gs_sessions (pr_gateway w)) d = Some sid"
  let ?shut = "\<lambda>c. map_option (\<lambda>s. if c then s\<lparr>ps_open := False\<rparr> else s)"
  have twice: "?shut b (?shut a x) = ?shut (a \<or> b) x" for a b x
    by (cases x) simp_all
  have "um_find (pr_heap w1) sid = ?shut (?closed D w sid) (um_find (pr_heap w) sid)"
    "um_find (pr_heap w2) sid = ?shut (?closed D' w1 sid) (um_find (pr_heap w1) sid)" for sid
    using assms by (simp_all only: shuts_def)
  then have "um_find (pr_heap w2) sid =
      ?shut (?closed D w sid \<or> ?closed D' w1 sid) (um_find (pr_heap w) sid)" for sid
    by (simp only: twice)
  moreover have "?closed D w sid \<or> ?closed D' w1 sid \<longleftrightarrow> ?closed (D \<union> D') w sid" for sid
    using assms(1) by (auto simp: shuts_def)
  ultimately have "um_find (pr_heap w2) sid =
      ?shut (?closed (D \<union> D') w sid) (um_find (pr_heap w) sid)" for sid
    by (simp only:)
  moreover have "um_find (gs_states (pr_gateway w2)) d = map_option (\<lambda>s.
      if d \<in> D \<union> D' then s\<lparr>pd_online := False\<rparr> else s) (um_find (gs_states (pr_gateway w)) d)"
    "um_find (gs_sessions (pr_gateway w2)) d =
      (if d \<in> D \<union> D' then None else um_find (gs_sessions (pr_gateway w)) d)" for d
    using assms by (cases "um_find (gs_states (pr_gateway w)) d"; simp add: shuts_def)+
  ultimately show ?thesis by (simp only: shuts_def) simp
qed

lemma shuts_clock: "shuts D (w\<lparr>pr_steady_reads := n\<rparr>) w' = shuts D w w'"
  by (simp add: shuts_def)

lemma shuts_forM:
  "\<forall>d\<in>set ds. um_find (gs_states (pr_gateway w)) d \<noteq> None \<Longrightarrow>
   \<exists>w'. forM ds close_silent w = (Inr (), w') \<and> shuts (set ds) w w'"
proof (induction ds arbitrary: w)
  case Nil
  then show ?case by (simp add: ret_def shuts_def option.map_ident)
next
  case (Cons d ds)
  from Cons.prems have "um_find (gs_states (pr_gateway w)) d \<noteq> None" by simp
  from shuts_one [OF this] obtain w1 where w1: "close_silent d w = (Inr (), w1)" "shuts {d} w w1"
    by blast
  with Cons.prems have "\<forall>d\<in>set ds. um_find (gs_states (pr_gateway w1)) d \<noteq> None"
    by (simp add: shuts_def)
  from Cons.IH [OF this] obtain w2 where "forM ds close_silent w1 = (Inr (), w2)"
    "shuts (set ds) w1 w2" by blast
  with w1 shuts_trans [OF w1(2)] show ?case by (auto simp: comp_step)
qed

lemma check_offline_shuts:
  assumes "um_ok (gs_states (pr_gateway w))"
  shows "\<exists>w'. check_offline_devices E w = (Inr (), w') \<and>
    shuts {d. \<exists>s. um_find (gs_states (pr_gateway w)) d = Some s
      \<and> pr_silent (env_steady E (pr_steady_reads w)) s} w w'"
proof -
  let ?now = "env_steady E (pr_steady_reads w)"
  let ?ds = "map fst (filter (\<lambda>(_, s). pr_silent ?now s) (gs_states (pr_gateway w)))"
  let ?w1 = "w\<lparr>pr_steady_reads := Suc (pr_steady_reads w)\<rparr>"
  have ds: "set ?ds = {d. \<exists>s. um_find (gs_states (pr_gateway w)) d = Some s \<and> pr_silent ?now s}"
    using assms by (auto simp: um_ok_def um_find_def image_iff)
  then have "\<forall>d\<in>set ?ds. um_find (gs_states (pr_gateway ?w1)) d \<noteq> None" by auto
  from shuts_forM [OF this] obtain w' where w': "forM ?ds close_silent ?w1 = (Inr (), w')"
    "shuts (set ?ds) ?w1 w'" by blast
  moreover have "check_offline_devices E w = forM ?ds close_silent ?w1"
    by (simp add: check_offline_devices_def gateway_def pr_steady_now_def bindM_def getsM_def)
  ultimately show ?thesis unfolding ds shuts_clock by auto
qed

section \<open>The two routers\<close>

lemma extractQuery_eq: "get_query_param = extractQuery"
proof -
  have "query_param_of items key = query_of_items items key" for items key
    by (induction items) (simp_all add: Let_def split: option.split)
  then show ?thesis by (simp add: fun_eq_iff get_query_param_def extractQuery_def split: option.split)
qed

lemma proto_route_wake:
  assumes "d \<noteq> ''''" and "CHR ''/'' \<notin> set d" and "CHR ''?'' \<notin> set d" and "\<forall>c\<in>set d. \<not> is_space c"
    and "CHR ''&'' \<notin> set cmd" and "\<forall>c\<in>set cmd. \<not> is_space c"
  shows "proto_route (''POST /api/devices/'' @ d @ ''/wake?cmd='' @ cmd @ '' HTTP/1.1'') =
     Route_command d (if cmd = '''' then ''take_photo'' else cmd)"
proof -
  let ?path = "''/api/devices/'' @ d @ ''/wake''"
  let ?url = "?path @ ''?cmd='' @ cmd"
  have spaces: "\<forall>c\<in>set ?url. \<not> is_space c"
    using assms(4,6) by (auto simp: is_space_def)
  have line: "''POST /api/devices/'' @ d @ ''/wake?cmd='' @ cmd @ '' HTTP/1.1'' =
      ''POST'' @ CHR '' '' # ?url @ CHR '' '' # ''HTTP/1.1''" by simp
  have verb_read: "read_word (''POST'' @ CHR '' '' # u) = (''POST'', CHR '' '' # u)" for u
    by (rule read_word_first) (simp_all add: is_space_def)
  have url_read: "read_word (CHR '' '' # ?url @ CHR '' '' # v) = (?url, CHR '' '' # v)" for v
    by (rule read_word_first) (use spaces in simp_all)
  have "str_find ''?'' (?path @ CHR ''?'' # ''cmd='' @ cmd) = Some (length ?path)"
    using assms(3) by (intro str_find_char_append) simp
  then have strip: "strip_query ?url = ?path"
    by (simp add: strip_query_def)
  have items: "?path = '''' @ CHR ''/'' # ''api'' @ CHR ''/'' # ''devices'' @ CHR ''/'' # d @ CHR ''/'' # ''wake''"
    by simp
  have parts: "split_path ?path = [''api'', ''devices'', d, ''wake'']"
    unfolding split_path_def items using assms(1,2)
    by (simp add: getline_items_first getline_items_no_delim del: append.simps)
  have cmd: "extractQuery ?url ''cmd'' = cmd"
    using extractQuery_single [of ?path cmd] assms(3,5) by simp
  show ?thesis
    unfolding proto_route_def line verb_read url_read Let_def prod.case strip parts extractQuery_eq
    using cmd by simp
qed

lemma proto_route_commands:
  assumes "d \<noteq> ''''" and "CHR ''/'' \<notin> set d" and "CHR ''?'' \<notin> set d" and "\<forall>c\<in>set d. \<not> is_space c"
    and "\<forall>c\<in>set cmd. \<not> is_space c"
  shows "proto_route (''POST /api/devices/'' @ d @ ''/commands?cmd='' @ cmd @ '' HTTP/1.1'') = Route_none"
proof -
  let ?path = "''/api/devices/'' @ d @ ''/commands''"
  let ?url = "?path @ ''?cmd='' @ cmd"
  have spaces: "\<forall>c\<in>set ?url. \<not> is_space c"
    using assms(4,5) by (auto simp: is_space_def)
  have line: "''POST /api/devices/'' @ d @ ''/commands?cmd='' @ cmd @ '' HTTP/1.1'' =
      ''POST'' @ CHR '' '' # ?url @ CHR '' '' # ''HTTP/1.1''" by simp
  have verb_read: "read_word (''POST'' @ CHR '' '' # u) = (''POST'', CHR '' '' # u)" for u
    by (rule read_word_first) (simp_all add: is_space_def)
  have url_read: "read_word (CHR '' '' # ?url @ CHR '' '' # v) = (?url, CHR '' '' # v)" for v
    by (rule read_word_first) (use spaces in simp_all)
  have "str_find ''?'' (?path @ CHR ''?'' # ''cmd='' @ cmd) = Some (length ?path)"
    using assms(3) by (intro str_find_char_append) simp
  then have strip: "strip_query ?url = ?path"
    by (simp add: strip_query_def)
  have items: "?path = '''' @ CHR ''/'' # ''api'' @ CHR ''/'' # ''devices'' @ CHR ''/'' # d @ CHR ''/'' # ''commands''"
    by simp
  have parts: "split_path ?path = [''api'', ''devices'', d, ''commands'']"
    unfolding split_path_def items using assms(1,2)
    by (simp add: getline_items_first getline_items_no_delim del: append.simps)
  show ?thesis
    unfolding proto_route_def line verb_read url_read Let_def prod.case strip parts by simp
qed

lemma proto_route_online:
  assumes "d \<noteq> ''''" and "CHR ''/'' \<notin> set d" and "CHR ''?'' \<notin> set d" and "\<forall>c\<in>set d. \<not> is_space c"
  shows "proto_route (''GET /api/devices/'' @ d @ ''/online HTTP/1.1'') = Route_online d"
proof -
  let ?path = "''/api/devices/'' @ d @ ''/online''"
  have spaces: "\<forall>c\<in>set ?path. \<not> is_space c"
    using assms(4) by (auto simp: is_space_def)
  have line: "''GET /api/devices/'' @ d @ ''/online HTTP/1.1'' =
      ''GET'' @ CHR '' '' # ?path @ CHR '' '' # ''HTTP/1.1''" by simp
  have verb_read: "read_word (''GET'' @ CHR '' '' # u) = (''GET'', CHR '' '' # u)" for u
    by (rule read_word_first) (simp_all add: is_space_def)
  have path_read: "read_word (CHR '' '' # ?path @ CHR '' '' # v) = (?path, CHR '' '' # v)" for v
    by (rule read_word_first) (use spaces in simp_all)
  have strip: "strip_query ?path = ?path"
    using assms(3) by (simp add: strip_query_def str_find_char)
  have items: "?path = '''' @ CHR ''/'' # ''api'' @ CHR ''/'' # ''devices'' @ CHR ''/'' # d @ CHR ''/'' # ''online''"
    by simp
  have parts: "split_path ?path = [''api'', ''devices'', d, ''online'']"
    unfolding split_path_def items using assms(1,2)
    by (simp add: getline_items_first getline_items_no_delim del: append.simps)
  show ?thesis
    unfolding proto_route_def line verb_read path_read Let_def prod.case strip parts by simp
qed

section \<open>Properties\<close>

text \<open>
  C29: in every run of the prototype no device without an identifier comes into being, in the
  state table or in the registry: its handlers of host messages ask for a login first, which
  those of the current gateway do not.
\<close>

theorem proto_no_nameless_device:
  assumes "proto_main E evs = Inr w"
  shows "um_find (gs_states (pr_gateway w)) '''' = None
    \<and> um_find (gs_sessions (pr_gateway w)) '''' = None"
  using proto.run_inv [OF initial_proto_inv, of E evs] assms
  by (simp add: proto_main_def proto_inv_def proto_named_def)

definition sleep_env :: env where
  "sleep_env = sample_env (table_json [(JObject [(''type'', JString ''host_sleep'')], ''x'')]) db_server"

lemma proto_sleep_run:
  "proto_main sleep_env [P_accept (Some (Inr ''10.0.0.9'')),
      P_read 0 (Some (bytes_of_string (''x'' @ [CHR 0x0A])))] =
     Inr (initial_proto\<lparr>pr_next_session := 1,
       pr_heap := [(0, \<lparr>ps_device_id = '''', ps_remote_addr = ''10.0.0.9'', ps_open = True,
         ps_reading = True, ps_read_buffer = [], ps_writer = new_earlier_writer\<rparr>)]\<rparr>)"
  by code_simp

theorem proto_no_nameless_device_witness:
  "\<exists>w. proto_main sleep_env [P_accept (Some (Inr ''10.0.0.9'')),
      P_read 0 (Some (bytes_of_string (''x'' @ [CHR 0x0A])))] = Inr w
    \<and> um_find (gs_states (pr_gateway w)) '''' = None"
  using proto_no_nameless_device [OF proto_sleep_run] proto_sleep_run by blast

text \<open>
  C30: when the timer of the prototype finds a device silent, it marks the device as off
  line, deregisters it and closes its connection: unlike the current gateway, it leaves no
  connection open that can no longer be reached.
\<close>

theorem proto_silent_closed:
  assumes "um_ok (gs_states (pr_gateway w))"
    and "um_find (gs_states (pr_gateway w)) d = Some s"
    and "pr_silent (env_steady E (pr_steady_reads w)) s"
    and "um_find (gs_sessions (pr_gateway w)) d = Some sid" and "um_find (pr_heap w) sid = Some p"
  shows "\<exists>w'. check_offline_devices E w = (Inr (), w')
    \<and> um_find (gs_states (pr_gateway w')) d = Some (s\<lparr>pd_online := False\<rparr>)
    \<and> um_find (gs_sessions (pr_gateway w')) d = None
    \<and> um_find (pr_heap w') sid = Some (p\<lparr>ps_open := False\<rparr>)"
proof -
  from check_offline_shuts [OF assms(1), of E] obtain w' where
    run: "check_offline_devices E w = (Inr (), w')" and
    shut: "shuts {d. \<exists>s. um_find (gs_states (pr_gateway w)) d = Some s
      \<and> pr_silent (env_steady E (pr_steady_reads w)) s} w w'" by blast
  from shut assms(2-5) show ?thesis
    by (intro exI [of _ w'] conjI run) (auto simp: shuts_def)
qed

definition silent_world :: ProtoWorld where
  "silent_world = \<lparr>pr_gateway = \<lparr>gs_sessions = [(''D1'', 0)],
       gs_states = [(''D1'', default_ProtoDevice\<lparr>pd_online := True\<rparr>)]\<rparr>,
     pr_heap = [(0, \<lparr>ps_device_id = ''D1'', ps_remote_addr = ''10.0.0.9'', ps_open = True,
       ps_reading = True, ps_read_buffer = [], ps_writer = new_earlier_writer\<rparr>)],
     pr_next_session = 1, pr_steady_reads = 61, pr_system_reads = 0\<rparr>"

theorem proto_silent_closed_witness:
  "\<exists>w'. check_offline_devices (sample_env (brief_json ''{}'') db_server) silent_world = (Inr (), w')
    \<and> um_find (gs_sessions (pr_gateway w')) ''D1'' = None"
proof -
  let ?p = "\<lparr>ps_device_id = ''D1'', ps_remote_addr = ''10.0.0.9'', ps_open = True,
       ps_reading = True, ps_read_buffer = [], ps_writer = new_earlier_writer\<rparr>"
  have "pr_silent (env_steady (sample_env (brief_json ''{}'') db_server)
      (pr_steady_reads silent_world)) (default_ProtoDevice\<lparr>pd_online := True\<rparr>)"
    by (simp add: pr_silent_def silent_world_def default_ProtoDevice_def duration_cast_def
        DEFAULT_IDLE_TIMEOUT_SECONDS_def)
  from proto_silent_closed [OF _ _ this, of "''D1''" 0 ?p]
  show ?thesis by (auto simp: silent_world_def um_find_def um_ok_def)
qed

text \<open>
  C33: the three URLs that the documentation gives, for a device whose identifier holds no
  slash, question mark or white space: the routers of the prototype and of the current gateway
  take the query for the state of the device and the wake command to the same handler with the
  same device and command; the URL for commands, which the documentation prefers, is a command
  for the current gateway only, and the prototype has no route for it.
\<close>

theorem documented_routes:
  assumes "d \<noteq> ''''" and "CHR ''/'' \<notin> set d" and "CHR ''?'' \<notin> set d" and "\<forall>c\<in>set d. \<not> is_space c"
    and "CHR ''&'' \<notin> set cmd" and "\<forall>c\<in>set cmd. \<not> is_space c"
  defines "online \<equiv> ''GET /api/devices/'' @ d @ ''/online HTTP/1.1''"
    and "wake \<equiv> ''POST /api/devices/'' @ d @ ''/wake?cmd='' @ cmd @ '' HTTP/1.1''"
    and "commands \<equiv> ''POST /api/devices/'' @ d @ ''/commands?cmd='' @ cmd @ '' HTTP/1.1''"
    and "command \<equiv> Route_command d (if cmd = '''' then ''take_photo'' else cmd)"
  shows "http_route online = Route_online d \<and> proto_route online = Route_online d
    \<and> http_route wake = command \<and> proto_route wake = command
    \<and> http_route commands = command \<and> proto_route commands = Route_none"
  unfolding online_def wake_def commands_def command_def
  using http_route_online [OF assms(2,4)] proto_route_online [OF assms(1-4)]
    http_route_wake [OF assms(2-6)] proto_route_wake [OF assms(1-6)]
    http_route_commands [OF assms(2-6)] proto_route_commands [OF assms(1-4,6)] by blast

theorem documented_routes_witness:
  "http_route ''GET /api/devices/dev-7/online HTTP/1.1'' = Route_online ''dev-7''
   \<and> proto_route ''GET /api/devices/dev-7/online HTTP/1.1'' = Route_online ''dev-7''
   \<and> proto_route ''POST /api/devices/dev-7/wake?cmd=take_photo HTTP/1.1''
     = http_route ''POST /api/devices/dev-7/wake?cmd=take_photo HTTP/1.1''
   \<and> http_route ''POST /api/devices/dev-7/commands?cmd=reboot HTTP/1.1'' = Route_command ''dev-7'' ''reboot''
   \<and> proto_route ''POST /api/devices/dev-7/commands?cmd=reboot HTTP/1.1'' = Route_none"
  using documented_routes [of "''dev-7''" "''take_photo''"] documented_routes [of "''dev-7''" "''reboot''"]
  by (simp add: is_space_def)

text \<open>Off those URLs they differ: the current router takes any path that holds the word,
  and the prototype only the four parts.\<close>

lemma routers_differ:
  "http_route ''POST /api/devices/D1/unlock/wakeup HTTP/1.1'' = Route_command ''D1'' ''take_photo''"
  "proto_route ''POST /api/devices/D1/unlock/wakeup HTTP/1.1'' = Route_none"
  by code_simp+

end
