(* ===== verification/JsonStream.thy ===== *)
theory JsonStream
  imports DeviceSession
begin

text \<open>
  The read loop of a JSON session as a function of the bytes it is given.  The handlers of the
  JSON messages look neither at the read buffer of a session nor at the read it waits for
  (\<open>blind\<close>), so a series of completed reads is the handling of the complete lines of the
  stream, one after the other, however the network has cut it.
\<close>

section \<open>Computations that do not touch the sessions\<close>

definition heapless :: "'a gw \<Rightarrow> bool" where
  "heapless m \<longleftrightarrow> (\<forall>w h. m (w\<lparr>w_heap := h\<rparr>) = apsnd (\<lambda>w'. w'\<lparr>w_heap := h\<rparr>) (m w))"

named_theorems heapless_rules

lemma heapless_pure [heapless_rules]:
  "heapless (ret x)" "heapless (throw e)" "heapless (liftR r)"
  by (simp_all add: heapless_def comp_defs)

lemma heapless_bindM [heapless_rules]:
  "heapless m \<Longrightarrow> (\<And>x. heapless (f x)) \<Longrightarrow> heapless (bindM m f)"
  by (auto simp: heapless_def bindM_def split: prod.split sum.split)

lemma heapless_thenM [heapless_rules]: "heapless m \<Longrightarrow> heapless n \<Longrightarrow> heapless (thenM m n)"
  by (simp add: thenM_def heapless_bindM)

lemma heapless_whenM [heapless_rules]: "heapless m \<Longrightarrow> heapless (whenM b m)"
  by (simp add: whenM_def heapless_pure)

lemma heapless_if [heapless_rules]:
  "heapless m \<Longrightarrow> heapless n \<Longrightarrow> heapless (if b then m else n)"
  by simp

lemma heapless_case_option [heapless_rules]:
  "heapless m \<Longrightarrow> (\<And>x. heapless (f x)) \<Longrightarrow> heapless (case x of None \<Rightarrow> m | Some x \<Rightarrow> f x)"
  by (simp split: option.split)

lemma heapless_elementary [heapless_rules]:
  "heapless get_ctx" "heapless (modify_ctx c)" "heapless (steady_now E)"
  "heapless (on_redis f)" "heapless (on_redis_throwing g)" "heapless (write_state d u)"
  "heapless (getsM w_mqtt_client)" "heapless (erase_pending k)"
  "heapless (getsM (\<lambda>w. um_find (w_pending w) k))"
  "heapless (modifyM (\<lambda>w. w\<lparr>w_published := w_published w @ ps\<rparr>))"
  by (auto simp: heapless_def gw_defs comp_defs erase_pending_def split: prod.split)

lemma heapless_state_ref [heapless_rules]: "heapless (state_ref d)"
  unfolding state_ref_def by (intro heapless_rules)

lemma heapless_update_field [heapless_rules]: "heapless (update_field d rd upd)"
  unfolding update_field_def by (intro heapless_rules)

lemma heapless_publish [heapless_rules]:
  "heapless (publishDeviceState E st)" "heapless (publishCommandEvent E d m status c x)"
  unfolding publishDeviceState_def publishCommandEvent_def mqtt_publishCommandEvent_def publishJson_def
  by (intro heapless_rules)+

lemma heapless_updateRedisOnline [heapless_rules]: "heapless (updateRedisOnline E st)"
  unfolding updateRedisOnline_def by (intro heapless_rules)

lemma heapless_register [heapless_rules]: "heapless (registerOnlineState E sid st)"
  unfolding registerOnlineState_def by (intro heapless_rules)

lemma heapless_mark [heapless_rules]: "heapless (markAck E m)" "heapless (markDone E m)"
  unfolding markAck_def markDone_def by (intro heapless_rules)+

lemma heapless_heap:
  assumes "heapless m"
  shows "w_heap (snd (m w)) = w_heap w"
proof -
  have "m (w\<lparr>w_heap := w_heap w\<rparr>) = apsnd (\<lambda>w'. w'\<lparr>w_heap := w_heap w\<rparr>) (m w)"
    using assms unfolding heapless_def by blast
  then have "snd (m w) = (snd (m w))\<lparr>w_heap := w_heap w\<rparr>" by (cases "m w") simp
  from arg_cong [OF this, of w_heap] show ?thesis by simp
qed

section \<open>Computations that do not look at the read loop of a session\<close>

definition set_read :: "nat \<Rightarrow> bytes \<Rightarrow> read_op \<Rightarrow> World \<Rightarrow> World" where
  "set_read sid buf op w =
     (case um_find (w_heap w) sid of
        None \<Rightarrow> w
      | Some s \<Rightarrow> w\<lparr>w_heap := um_put (w_heap w) sid (s\<lparr>ss_read_buffer := buf, ss_reading := op\<rparr>)\<rparr>)"

definition blind :: "nat \<Rightarrow> 'a gw \<Rightarrow> bool" where
  "blind sid m \<longleftrightarrow> (\<forall>buf op w. m (set_read sid buf op w) = apsnd (set_read sid buf op) (m w))"

named_theorems blind_rules

lemma set_read_find [simp]:
  "um_find (w_heap (set_read sid buf op w)) sid' = map_option
     (\<lambda>s. if sid' = sid then s\<lparr>ss_read_buffer := buf, ss_reading := op\<rparr> else s) (um_find (w_heap w) sid')"
  by (cases "um_find (w_heap w) sid'") (auto simp: set_read_def split: option.split)

lemma heapless_blind:
  assumes "heapless m"
  shows "blind sid m"
  unfolding blind_def
proof (intro allI)
  fix buf op w
  obtain r w1 where m: "m w = (r, w1)" by (cases "m w")
  with heapless_heap [OF assms, of w] have "w_heap w1 = w_heap w" by simp
  with assms m show "m (set_read sid buf op w) = apsnd (set_read sid buf op) (m w)"
    by (cases "um_find (w_heap w) sid") (simp_all add: set_read_def heapless_def)
qed

lemmas blind_heapless [blind_rules] = heapless_rules [THEN heapless_blind]

lemma blind_bindM [blind_rules]:
  "blind sid m \<Longrightarrow> (\<And>x. blind sid (f x)) \<Longrightarrow> blind sid (bindM m f)"
  by (auto simp: blind_def bindM_def split: prod.split sum.split)

lemma blind_thenM [blind_rules]: "blind sid m \<Longrightarrow> blind sid n \<Longrightarrow> blind sid (thenM m n)"
  by (simp add: thenM_def blind_bindM)

lemma blind_whenM [blind_rules]: "blind sid m \<Longrightarrow> blind sid (whenM b m)"
  by (simp add: whenM_def blind_heapless)

lemma blind_if [blind_rules]:
  "blind sid m \<Longrightarrow> blind sid n \<Longrightarrow> blind sid (if b then m else n)"
  by simp

lemma blind_case_sum [blind_rules]:
  "(\<And>x. blind sid (l x)) \<Longrightarrow> (\<And>x. blind sid (r x)) \<Longrightarrow>
   blind sid (case x of Inl x \<Rightarrow> l x | Inr x \<Rightarrow> r x)"
  by (simp split: sum.split)

lemma blind_forM: "(\<And>x. blind sid (f x)) \<Longrightarrow> blind sid (forM xs f)"
  by (induction xs) (auto intro: blind_rules)

text \<open>A member access through \<^verbatim>\<open>this\<close> that reads other members only.\<close>

lemma blind_get_session:
  assumes "\<And>s. blind sid (k s)"
    and "\<And>s buf op. k (s\<lparr>ss_read_buffer := buf, ss_reading := op\<rparr>) = k s"
  shows "blind sid (bindM (get_session sid') k)"
  unfolding blind_def
proof (intro allI)
  fix buf op w
  show "bindM (get_session sid') k (set_read sid buf op w)
      = apsnd (set_read sid buf op) (bindM (get_session sid') k w)"
    using assms
    by (cases "um_find (w_heap w) sid'") (simp_all add: bindM_def get_session_def blind_def)
qed

lemma blind_modify_session:
  assumes "\<And>s buf op. f (s\<lparr>ss_read_buffer := buf, ss_reading := op\<rparr>)
      = (f s)\<lparr>ss_read_buffer := buf, ss_reading := op\<rparr>"
  shows "blind sid (modify_session sid f)"
  using assms by (auto simp: blind_def modify_session_def set_read_def split: option.split)

lemma blind_sends [blind_rules]:
  "blind sid (sendJson E sid j)"
  "blind sid (modify_session sid (\<lambda>s. s\<lparr>ss_device_id := d\<rparr>))"
  unfolding sendJson_def sendRaw_def by (intro blind_rules blind_modify_session; simp)+

lemma blind_handlers [blind_rules]:
  "blind sid (handleJsonLogin E sid msg)"
  "blind sid (handleJsonHeartbeat E sid msg)"
  "blind sid (handleJsonWakeAck E sid msg)"
  "blind sid (handleJsonTaskDone E sid msg)"
  "blind sid (handleJsonHostSleep E sid msg)"
  "blind sid (handleJsonHostState E sid msg)"
  unfolding handleJsonLogin_def handleJsonHeartbeat_def handleJsonWakeAck_def handleJsonTaskDone_def
    handleJsonHostSleep_def handleJsonHostState_def Let_def
  by (intro blind_rules blind_get_session; simp)+

lemma blind_handleJsonMessage [blind_rules]: "blind sid (handleJsonMessage E sid line)"
  unfolding handleJsonMessage_def by (intro blind_rules)

section \<open>A stream and its lines\<close>

text \<open>The complete lines of a stream of bytes, and what follows the last of them.\<close>

fun stream_lines :: "bytes \<Rightarrow> bytes list \<times> bytes" where
  "stream_lines [] = ([], [])"
| "stream_lines (b # bs) =
     (let (lines, rest) = stream_lines bs
      in if b = LF then ([] # lines, rest)
         else case lines of [] \<Rightarrow> ([], b # rest) | l # ls \<Rightarrow> ((b # l) # ls, rest))"

lemma stream_lines_rest: "LF \<notin> set bs \<Longrightarrow> stream_lines bs = ([], bs)"
  by (induction bs) auto

lemma stream_lines_line:
  "LF \<notin> set l \<Longrightarrow> stream_lines (l @ LF # bs) = (l # fst (stream_lines bs), snd (stream_lines bs))"
  by (induction l) (auto simp: case_prod_beta)

text \<open>The reads of the loop, each completed with the bytes it got from the network, and what
  \<^verbatim>\<open>async_read_until\<close> promises: a read ends with a line feed in the buffer, and
  as long as there is one the next read ends too.\<close>

definition read_chunks :: "env \<Rightarrow> nat \<Rightarrow> bytes list \<Rightarrow> unit gw" where
  "read_chunks E sid chunks = forM chunks (\<lambda>chunk. read_completed E sid (Some chunk))"

fun reads_ok_from :: "bytes \<Rightarrow> bytes list \<Rightarrow> bool" where
  "reads_ok_from buf [] \<longleftrightarrow> LF \<notin> set buf"
| "reads_ok_from buf (chunk # chunks) \<longleftrightarrow>
     read_contract Json_line buf chunk \<and> reads_ok_from (snd (take_line (buf @ chunk))) chunks"

text \<open>What the gateway does with one line: a trailing carriage return does not belong to it,
  and an empty line is nothing.\<close>

definition serve_line :: "env \<Rightarrow> nat \<Rightarrow> bytes \<Rightarrow> unit gw" where
  "serve_line E sid line =
     (let text = strip_cr (string_of_bytes line) in whenM (text \<noteq> []) (handleJsonMessage E sid text))"

lemma blind_serve_line: "blind sid (serve_line E sid line)"
  unfolding serve_line_def Let_def by (intro blind_rules)

lemma keeps_alive_json:
  "keeps alive_set (handleJsonLogin E sid msg)"
  "keeps alive_set (handleJsonHeartbeat E sid msg)"
  "keeps alive_set (handleJsonWakeAck E sid msg)"
  "keeps alive_set (handleJsonTaskDone E sid msg)"
  "keeps alive_set (handleJsonHostSleep E sid msg)"
  "keeps alive_set (handleJsonHostState E sid msg)"
  unfolding handleJsonLogin_def handleJsonHeartbeat_def handleJsonWakeAck_def handleJsonTaskDone_def
    handleJsonHostSleep_def handleJsonHostState_def registerOnlineState_def update_field_def
    markAck_def markDone_def Let_def
  by (intro keeps_rules keeps_pending_ops; simp)+

lemma keeps_alive_serve_line: "keeps alive_set (serve_line E sid line)"
  unfolding serve_line_def handleJsonMessage_def Let_def by (intro keeps_rules keeps_alive_json)

lemma set_read_same:
  "um_find (w_heap w) sid = Some s \<Longrightarrow> ss_read_buffer s = buf \<Longrightarrow> ss_reading s = op \<Longrightarrow>
   set_read sid buf op w = w"
  by (cases s) (auto simp: set_read_def um_put_same)

lemma set_read_twice [simp]: "set_read sid buf op (set_read sid buf' op' w) = set_read sid buf op w"
  by (auto simp: set_read_def split: option.split)

text \<open>One completed read handles one line.\<close>

lemma read_completed_line:
  assumes s: "um_find (w_heap w) sid = Some s" "ss_reading s = Json_line"
    and line: "take_line (ss_read_buffer s @ chunk) = (line, rest)"
    and serve: "serve_line E sid line w = (r, w1)"
  shows "read_completed E sid (Some chunk) w =
     (case r of Inl e \<Rightarrow> (Inl e, set_read sid rest No_read w1)
      | Inr _ \<Rightarrow> (Inr (), set_read sid rest Json_line w1))"
proof -
  have alive: "um_find (w_heap w1) sid \<noteq> None"
    using keepsD [OF keeps_alive_serve_line serve] s(1) by (auto simp: alive_set_def)
  have loop: "start_read sid Json_line (set_read sid rest No_read w1) = (Inr (), set_read sid rest Json_line w1)"
    using alive by (auto simp: start_read_def modify_session_def set_read_def)
  have same: "ss_read_buffer_update f (ss_reading_update g s) = ss_reading_update g (ss_read_buffer_update f s)"
    for f g and s :: Session by simp
  have "read_completed E sid (Some chunk) w =
      thenM (serve_line E sid line) (start_read sid Json_line) (set_read sid rest No_read w)"
    using s line
    by (simp add: same read_completed_def on_json_line_def session_seq_runs start_read_def
        readJsonLine_def serve_line_def set_read_def Let_def)
  moreover have "serve_line E sid line (set_read sid rest No_read w) = (r, set_read sid rest No_read w1)"
    using blind_serve_line serve by (simp add: blind_def)
  ultimately show ?thesis
    using loop by (cases r) (simp_all add: comp_step)
qed

lemma read_chunks_lines:
  assumes "um_find (w_heap w) sid = Some s" and "ss_reading s = Json_line"
    and "reads_ok_from (ss_read_buffer s) chunks"
  defines "stream \<equiv> stream_lines (ss_read_buffer s @ concat chunks)"
  shows "case forM (fst stream) (serve_line E sid) w of
     (Inr _, w') \<Rightarrow> read_chunks E sid chunks w = (Inr (), set_read sid (snd stream) Json_line w')
   | (Inl e, w') \<Rightarrow> \<exists>buf. read_chunks E sid chunks w = (Inl e, set_read sid buf No_read w')"
  using assms(1-3) unfolding stream_def
proof (induction chunks arbitrary: w s)
  case Nil
  then show ?case
    by (simp add: stream_lines_rest read_chunks_def ret_def set_read_same)
next
  case (Cons chunk chunks)
  obtain line rest where line: "take_line (ss_read_buffer s @ chunk) = (line, rest)" by fastforce
  then have buf: "ss_read_buffer s @ chunk = line @ LF # rest" "LF \<notin> set line"
    using take_line_split [of "ss_read_buffer s @ chunk"] Cons.prems(3) by simp_all
  let ?stream = "stream_lines (rest @ concat chunks)"
  have stream: "stream_lines (ss_read_buffer s @ chunk @ concat chunks) = (line # fst ?stream, snd ?stream)"
  proof -
    have "ss_read_buffer s @ chunk @ concat chunks = line @ LF # rest @ concat chunks"
      using buf(1) by (metis append.assoc append_Cons)
    then show ?thesis by (simp only: stream_lines_line [OF buf(2)])
  qed
  obtain r w1 where serve: "serve_line E sid line w = (r, w1)" by fastforce
  note read = read_completed_line [OF Cons.prems(1,2) line serve]
  show ?case
  proof (cases r)
    case (Inl e)
    then show ?thesis
      using read serve by (auto simp: stream read_chunks_def comp_step)
  next
    case (Inr u)
    let ?w = "set_read sid rest Json_line w1"
    obtain s1 where "um_find (w_heap w1) sid = Some s1"
      using keepsD [OF keeps_alive_serve_line serve] Cons.prems(1) by (auto simp: alive_set_def)
    then obtain s2 where s2: "um_find (w_heap ?w) sid = Some s2" "ss_reading s2 = Json_line"
      "ss_read_buffer s2 = rest"
      by simp
    have "reads_ok_from rest chunks" using Cons.prems(3) line by simp
    with Cons.IH [OF s2(1,2), unfolded s2(3)] have IH: "case forM (fst ?stream) (serve_line E sid) ?w of
         (Inr _, w') \<Rightarrow> read_chunks E sid chunks ?w = (Inr (), set_read sid (snd ?stream) Json_line w')
       | (Inl e, w') \<Rightarrow> \<exists>buf. read_chunks E sid chunks ?w = (Inl e, set_read sid buf No_read w')"
      by simp
    have step: "read_chunks E sid (chunk # chunks) w = read_chunks E sid chunks ?w"
      using read Inr by (simp add: read_chunks_def comp_step)
    obtain r2 w2 where lines: "forM (fst ?stream) (serve_line E sid) w1 = (r2, w2)" by fastforce
    have "blind sid (forM (fst ?stream) (serve_line E sid))" by (intro blind_forM blind_serve_line)
    then have "forM (fst ?stream) (serve_line E sid) ?w = (r2, set_read sid rest Json_line w2)"
      using lines by (simp add: blind_def)
    with IH show ?thesis
      using serve Inr lines by (cases r2) (simp_all add: stream step comp_step)
  qed
qed

section \<open>Properties\<close>

text \<open>
  C14: how the network cuts the stream of a JSON session does not matter: the reads of the loop
  on any series of chunks, until no complete line is left, do exactly what handling the
  complete lines of the whole stream does, one after the other: the same state, the rest of
  the stream in the buffer, and the next read outstanding; and where the handling of a line
  throws, they throw the same exception in the same state.  So two series of chunks of the same
  bytes, in whatever numbers, have the same outcome.
\<close>

theorem json_lines_independent_of_chunks:
  assumes "um_find (w_heap w) sid = Some s" and "ss_reading s = Json_line"
    and "reads_ok_from (ss_read_buffer s) chunks"
  defines "stream \<equiv> stream_lines (ss_read_buffer s @ concat chunks)"
  shows "(case forM (fst stream) (serve_line E sid) w of
       (Inr _, w') \<Rightarrow> read_chunks E sid chunks w = (Inr (), set_read sid (snd stream) Json_line w')
     | (Inl e, w') \<Rightarrow> \<exists>buf. read_chunks E sid chunks w = (Inl e, set_read sid buf No_read w'))
   \<and> (\<forall>chunks'. reads_ok_from (ss_read_buffer s) chunks' \<longrightarrow> concat chunks' = concat chunks \<longrightarrow>
        fst (read_chunks E sid chunks' w) = fst (read_chunks E sid chunks w)
        \<and> (fst (read_chunks E sid chunks w) = Inr () \<longrightarrow>
             read_chunks E sid chunks' w = read_chunks E sid chunks w))"
proof -
  obtain r w' where r: "forM (fst stream) (serve_line E sid) w = (r, w')" by fastforce
  have outcome: "case r of
       Inr _ \<Rightarrow> read_chunks E sid chunks' w = (Inr (), set_read sid (snd stream) Json_line w')
     | Inl e \<Rightarrow> \<exists>buf. read_chunks E sid chunks' w = (Inl e, set_read sid buf No_read w')"
    if "reads_ok_from (ss_read_buffer s) chunks'" "concat chunks' = concat chunks" for chunks'
    using read_chunks_lines [OF assms(1,2) that(1), of E] r that(2)
    by (cases r) (simp_all add: stream_def)
  note outcome [OF assms(3) refl]
  moreover have "fst (read_chunks E sid chunks' w) = fst (read_chunks E sid chunks w)
      \<and> (fst (read_chunks E sid chunks w) = Inr () \<longrightarrow> read_chunks E sid chunks' w = read_chunks E sid chunks w)"
    if "reads_ok_from (ss_read_buffer s) chunks'" "concat chunks' = concat chunks" for chunks'
    using outcome [OF that] outcome [OF assms(3) refl] by (cases r) auto
  ultimately show ?thesis using r by (cases r) auto
qed

text \<open>Two answers to one line that cannot be parsed, and a piece of a third line, in one read
  or in several.\<close>

theorem json_lines_independent_of_chunks_witness:
  "read_chunks (sample_env (brief_json ''{}'') db_server) 0 [[65, 10, 66, 10, 67], []] (with_session json_session)
   = read_chunks (sample_env (brief_json ''{}'') db_server) 0 [[65, 10], [66, 10, 67]] (with_session json_session)"
proof -
  let ?E = "sample_env (brief_json ''{}'') db_server" and ?w = "with_session json_session"
  have session: "ss_reading json_session = Json_line" "ss_read_buffer json_session = []"
    by (simp_all add: json_session_def new_Session_def)
  have lf: "LF = 10" by (simp add: byte_of_char_def)
  have ok: "reads_ok_from [] [[65, 10, 66, 10, 67], []]" "reads_ok_from [] [[65, 10], [66, 10, 67]]"
    by (simp_all add: take_line_def lf)
  have stream: "stream_lines [65, 10, 66, 10, 67] = ([[65], [66]], [67])" by (simp add: lf)
  have bad: "serve_line ?E 0 [b] w = (Inr (), w\<lparr>w_heap := um_put (w_heap w) 0
      (s\<lparr>ss_writer := enqueueWrite (bytes_of_string (''{}'' @ [CHR 0x0A])) (ss_writer s)\<rparr>)\<rparr>)"
    if "um_find (w_heap w) 0 = Some s" "char_of_byte b \<noteq> CHR 0x0D" for w s b
  proof -
    have "string_of_bytes [b] = [char_of_byte b]" by (simp add: string_of_bytes_def)
    moreover have "strip_cr [char_of_byte b] = [char_of_byte b]"
      using that(2) by (auto simp: strip_cr_def)
    ultimately have "serve_line ?E 0 [b] w = handleJsonMessage ?E 0 [char_of_byte b] w"
      by (simp add: serve_line_def whenM_def)
    then show ?thesis
      using that(1) by (simp add: handleJsonMessage_def parseLine_def table_parse_def sendJson_def
          encodeLine_def sendRaw_def session_runs seq_runs)
  qed
  have "char_of_byte 65 \<noteq> CHR 0x0D" "char_of_byte 66 \<noteq> CHR 0x0D" by (simp_all add: char_of_byte_def char_of_def)
  then have "fst (forM [[65], [66]] (serve_line ?E 0) ?w) = Inr ()"
    using bad [of ?w json_session 65] by (simp add: comp_step bad ret_def)
  then obtain w1 where w1: "forM [[65], [66]] (serve_line ?E 0) ?w = (Inr (), w1)"
    by (metis prod.collapse)
  note claim = json_lines_independent_of_chunks [OF with_session_simps(1) session(1), unfolded session(2),
      OF ok(2), of ?E]
  have concat: "[] @ concat [[65, 10], [66, 10, 67]] = [65, 10, 66, 10, 67 :: u8]" by simp
  from claim [THEN conjunct1] have "fst (read_chunks ?E 0 [[65, 10], [66, 10, 67]] ?w) = Inr ()"
    unfolding concat stream fst_conv snd_conv w1 by simp
  with claim [THEN conjunct2, rule_format, OF ok(1)] show ?thesis by simp
qed

end
