(* ===== verification/Spec2Isabelle.thy ===== *)
theory Spec2Isabelle
  imports EarlierSession Prototype JsonStream
begin

text \<open>
  A verification library for the low-power TCP gateway.

  \<^bold>\<open>The program.\<close>  Battery-powered devices keep a TCP connection to the gateway and speak
  either JSON lines or a binary low-power protocol; the first byte decides.  A device logs in
  or authenticates, is registered under its identifier, sends heartbeats, and may be woken by a
  command that an administrator posts over HTTP or a broker publishes over MQTT.  Commands wait
  in a table until the device acknowledges them; a timer repeats them.  Another timer takes
  silent devices off line.  Redis holds keys, online states and copies of the pending commands;
  a bridge publishes states and command events to MQTT.  Everything runs as handlers of one
  event loop, the handlers of a session's writer on its strand.

  \<^bold>\<open>The theories\<close>, in the order of their imports (paths under \<^verbatim>\<open>src/src\<close> and
  \<^verbatim>\<open>src/include\<close>):

  \<^item> \<open>Prelude\<close>, \<open>Containers\<close>, \<open>Effects\<close>, \<open>Codec\<close>: strings, bytes, integers and
    \<^verbatim>\<open>getline\<close>; \<^verbatim>\<open>std::unordered_map\<close> behind the locale \<open>unordered_map\<close>; handlers
    as computations \<open>state \<Rightarrow> (exception + result) \<times> state\<close> with the rule collections
    \<open>keeps_rules\<close>, \<open>preserves_rules\<close> and the locales \<open>step_relation\<close>, \<open>machine\<close>,
    \<open>simulation\<close>, \<open>dispatcher\<close>; the locales \<open>codec\<close> and \<open>framed_codec\<close> of a wire format.
  \<^item> \<open>Json\<close>, \<open>JsonLineProtocol\<close> (\<^verbatim>\<open>protocol/JsonLineProtocol\<close>): documents, the JSON
    library as the parameter \<open>json_lib\<close>, lines and the documents the gateway sends.
  \<^item> \<open>LowPowerProtocol\<close>, \<open>LowPowerWire\<close>, \<open>LowPowerAuth\<close>
    (\<^verbatim>\<open>protocol/LowPowerProtocol\<close>): frames on 8, 16 and 32 bit words, the checksum, the
    cipher and the authentication exchange over the parameter \<open>crypto\<close> (OpenSSL); the formats
    are interpretations of the codec interfaces.
  \<^item> \<open>WriteQueue\<close> (the writer of \<^verbatim>\<open>session/DeviceSession\<close>): the queue, the posts to the
    strand and the completions, as a machine.
  \<^item> \<open>RedisStore\<close> (\<^verbatim>\<open>storage/RedisStore\<close>): every operation as a command appended to the
    log of commands; the server is a parameter that answers from that log.
  \<^item> \<open>AppConfig\<close> (\<^verbatim>\<open>AppConfig\<close> and the helpers of \<^verbatim>\<open>main\<close>): loading and defaults.
  \<^item> \<open>GatewayContext\<close> (\<^verbatim>\<open>GatewayContext.h\<close>): the world \<open>World\<close> of all objects, the
    environment \<open>env\<close> of libraries, configurations, clocks and random bytes.  A shared pointer
    is the name of a session in the heap \<open>w_heap\<close>; \<^verbatim>\<open>weak_ptr::lock\<close> is a look-up there.
  \<^item> \<open>MqttBackend\<close>, \<open>MqttCommands\<close> (\<^verbatim>\<open>backend/MqttBackend\<close>): the life cycle of the
    client, topics, publications, and the requests with the tasks they post.
  \<^item> \<open>SessionCore\<close>, \<open>WakeManager\<close> (\<^verbatim>\<open>service/WakeManager\<close>), \<open>DeviceSession\<close>,
    \<open>JsonStream\<close> (\<^verbatim>\<open>session/DeviceSession\<close>): what the wake manager uses of a session,
    the table of pending commands, the read loops and handlers of both protocols, and the JSON
    read loop as a function of the stream.
  \<^item> \<open>TcpGatewayServer\<close>, \<open>HttpAdminServer\<close>: accepting and the offline checker; requests,
    routes and responses.
  \<^item> \<open>Gateway\<close>, \<open>GatewayInvariants\<close>, \<open>Registry\<close>, \<open>Startup\<close>: the process as a labelled
    transition system over all handlers, its invariant, the relations every step respects (who
    may be registered, who stays disconnected, what a read loop waits for), and \<^verbatim>\<open>main\<close> with every way it ends before it serves.
  \<^item> \<open>EarlierProtocol\<close>, \<open>EarlierWriter\<close>, \<open>EarlierSession\<close>, \<open>Prototype\<close>: the files that
    the build no longer compiles (\<^verbatim>\<open>src/src/*.cpp\<close> beside the directories, with the three
    low-power patches, and the single-file \<^verbatim>\<open>src/main.cpp\<close>), with the theorems that compare
    them to the current code.

  \<^bold>\<open>What the lemmas show.\<close>  The wire formats accept exactly the encodings and are read back
  unchanged, whole or in pieces.  The writer keeps one write outstanding, the order of the
  buffers, and never stalls.  A pass over the pending commands is the abstract outcome per entry,
  with exactly the lines and frames it sends and the events it publishes, and a command is
  repeated as often as configured and then given up.  A low-power registration needs a verified
  HMAC and is answered; the lines of a JSON session do not depend on how the network cuts them.
  Over all events: no handler touches a session that is gone, the reachable states are well
  formed, the registry moves as its specification allows, a session speaks the protocol of its
  first byte, and it is disconnected once.
  Several theorems state what the code does where that is not what it should do (an old
  connection that deregisters the new one, a device reported as on line that cannot be reached,
  an exception that ends the process, a request that can be replayed).  The earlier files agree
  with the current ones where they should, and the theorems about them show the checks that got
  lost on the way: a signed login, a login before host messages, closing a silent connection.

  \<^bold>\<open>Bounds.\<close>  No definition that models code takes fuel: the loops recurse over lists or,
  for \<open>getline_items\<close> and \<open>string_of_nat\<close>, end by a decreasing measure.  \<open>drain\<close>, which says
  how long the writer runs, counts steps, and \<open>work\<close> steps are enough.  Words have the width
  the code gives them on the wire; \<^verbatim>\<open>int\<close> and time values are unbounded integers, so an
  overflow of a configured number of milliseconds is not modelled.

  \<^bold>\<open>What is a parameter or not modelled.\<close>  nlohmann::json, OpenSSL, hiredis with its server,
  libmosquitto and the clocks are arguments of the definitions; a property that needs something
  of them has it as a hypothesis, which the reference instances of the theories satisfy.  Asio is
  modelled by what it promises: which completion may run and what it delivers.  A step runs one
  handler to its end: the preemption of handlers by the other threads of the event loop, and with
  it the unlocked table of pending commands, is not modelled.  Neither are log lines (only reads
  of a document they make, which may throw), the binding of ports beyond its success, socket
  options, and time a blocking call takes.
\<close>

section \<open>Properties of the whole process\<close>

text \<open>
  C1: whatever the peers, the devices, the administrators and the MQTT broker send, and in
  whatever order the event loop, the strands and the timers run their handlers, no handler
  ever runs a method on a session that is gone.
\<close>

theorem gateway_memory_safe:
  assumes "lib_ok E" and "gateway_main E B log = Serve E' w mqtt n"
  shows "run (process_step E') evs (Running w) \<noteq> Ended Dead_Object"
proof -
  obtain mq log' where w: "w = initial_World mq log'" and "env_json E' = env_json E"
    using assms(2) by (auto simp: gateway_main_Serve_iff configured_def)
  moreover have "process_inv E' (run (process_step E') evs (Running w))"
    unfolding w by (rule process.run_inv) (simp add: gw_inv_initial)
  ultimately show ?thesis using assms(1) by auto
qed

theorem gateway_memory_safe_witness:
  "run (process_step (configured sample_host default_AppConfig))
     [Accept (Some (Inr ''10.0.0.9'')), Read 0 (Some [0x7B]), Read 0 None, Written 0 True,
      Timer_wake, Strand 0]
     (Running (initial_World True [[''SELECT'', to_string (rc_db default_RedisConfig)]]))
   \<noteq> Ended Dead_Object"
  by (rule gateway_memory_safe [OF _ sample_main])
    (simp add: sample_host_def lib_ok_table)

text \<open>
  C2: in every state the process can reach, a registered identifier is not empty, has a
  device state, and names a session that was created; every pending command is filed under
  its own identifier, has been repeated no more often than configured, and names a session
  that was created; and every live session has at most one write outstanding, which is the
  front of its queue.
\<close>

theorem gateway_invariant:
  assumes "lib_ok E" and "reachable E (initial_World mqtt log) w"
  shows "(\<forall>d sid. um_find (ctx_sessions (w_ctx w)) d = Some sid \<longrightarrow>
        d \<noteq> '''' \<and> um_find (ctx_states (w_ctx w)) d \<noteq> None \<and> sid < w_next_session w)
    \<and> (\<forall>m p. um_find (w_pending w) m = Some p \<longrightarrow> pw_msg_id p = m \<and> 0 \<le> pw_retry_count p
        \<and> pw_retry_count p \<le> max 0 (wr_max_retry (env_wake_cfg E))
        \<and> pw_session p < w_next_session w)
    \<and> (\<forall>sid s. um_find (w_heap w) sid = Some s \<longrightarrow> sid < w_next_session w
        \<and> (wr_inflight (ss_writer s) = [] \<or>
           wr_inflight (ss_writer s) = [hd (wr_queue (ss_writer s))]))"
  using reachable_inv [OF assms(2,1)]
  by (auto simp: gw_inv_def ctx_inv_def heap_inv_def wake_inv_def pending_ok_def entry_ok_def
      writer_ok_def)

definition accepted_world :: World where
  "accepted_world = reap (snd (tcp_accept (Some (Inr ''10.0.0.9'')) (initial_World True [])))"

lemma accept_first:
  "tcp_accept (Some (Inr ''10.0.0.9'')) (initial_World True []) =
     (Inr (), (initial_World True [])\<lparr>w_next_session := 1,
        w_heap := [(0, (new_Session ''10.0.0.9'')\<lparr>ss_reading := Peek\<rparr>)]\<rparr>)"
  by (simp add: tcp_accept_def session_start_def seq_runs readAutoDetect_def start_read_def
      session_runs initial_World_def um_put_def um_find_def)

lemma accepted_step:
  "gw_step (sample_env (brief_json ''{}'') db_server) (initial_World True [])
     (Accept (Some (Inr ''10.0.0.9''))) accepted_world"
  unfolding accepted_world_def
  by (rule gw_step.gw_step) (simp_all add: enabled_def gateway_handler_def accept_first)

lemmas accepted_reachable = reachable.step [OF reachable.start accepted_step]

theorem gateway_invariant_witness:
  "\<exists>s. um_find (w_heap accepted_world) 0 = Some s \<and> 0 < w_next_session accepted_world
    \<and> (wr_inflight (ss_writer s) = [] \<or> wr_inflight (ss_writer s) = [hd (wr_queue (ss_writer s))])"
proof -
  have "um_find (w_heap accepted_world) 0 \<noteq> None"
    unfolding accepted_world_def accept_first snd_conv
    by (simp add: reap_def um_filter_def um_find_def session_held_def)
  then show ?thesis
    using gateway_invariant [OF _ accepted_reachable] lib_ok_brief by fastforce
qed

text \<open>
  C21: a silent device stays out of reach after it speaks again: the offline checker takes
  its registration and leaves its connection, and the next heartbeat on that connection marks
  the device as on line without registering it, so that every command to it is still refused
  as offline.
\<close>

theorem silenced_device_unreachable:
  assumes "um_ok (ctx_states (w_ctx w))" and "um_find (w_heap w) sid = Some session"
    and "ss_device_id session = d" and "d \<noteq> ''''" and "um_find (ctx_states (w_ctx w)) d = Some s"
    and "silent E (env_steady E (w_steady_reads w)) s" and "well_typed E msg"
    and "\<And>t. state_prints E (heartbeat_state E msg t (s\<lparr>ds_online := False\<rparr>))"
    and "\<And>n. \<exists>line. json_dump (env_json E) (makeHeartbeatAck (int_of E msg ''seq'' 0) 0 n) = Inr line"
  shows "\<exists>w1 w2 s2. checkOffline E w = (Inr (), w1) \<and> handleJsonHeartbeat E sid msg w1 = (Inr (), w2)
    \<and> um_find (ctx_states (w_ctx w2)) d = Some s2 \<and> ds_online s2
    \<and> sendWake E d cmd params w2 = (Inl (Runtime_Error ''device offline''), w2)"
proof -
  obtain w1 where off: "checkOffline E w = (Inr (), w1)"
    and state: "um_find (ctx_states (w_ctx w1)) d = Some (s\<lparr>ds_online := False\<rparr>)"
    and session: "um_find (ctx_sessions (w_ctx w1)) d = None" "w_heap w1 = w_heap w"
    using checkOffline_run [OF assms(1), of E] assms(5,6) by auto
  let ?s2 = "heartbeat_state E msg (env_steady E (w_steady_reads w1)) (s\<lparr>ds_online := False\<rparr>)"
  define n where "n = next_heartbeat (env_session_cfg E) (ds_battery ?s2)"
  obtain line where line:
    "json_dump (env_json E) (makeHeartbeatAck (int_of E msg ''seq'' 0) 0 n) = Inr line"
    using assms(9) by blast
  have "um_find (w_heap w1) sid = Some session" "ss_device_id session \<noteq> ''''"
    "um_find (ctx_states (w_ctx w1)) (ss_device_id session) = Some (s\<lparr>ds_online := False\<rparr>)"
    using assms(2-4) session(2) state by simp_all
  from handleJsonHeartbeat_updates [OF this(1) assms(7) this(2,3) refl assms(8) _ line]
  obtain w2 where beat: "handleJsonHeartbeat E sid msg w1 = (Inr (), w2)"
    and ctx: "w_ctx w2 = (w_ctx w1)\<lparr>ctx_states := um_put (ctx_states (w_ctx w1)) d ?s2\<rparr>"
    using assms(3) by (auto simp: n_def next_heartbeat_def Let_def)
  have "sendWake E d cmd params w2 = (Inl (Runtime_Error ''device offline''), w2)"
    using session(1) ctx by (simp add: sendWake_def lock_session_def get_ctx_def comp_defs)
  with off beat ctx show ?thesis by (auto simp: heartbeat_state_def)
qed

theorem silenced_device_unreachable_witness:
  "\<exists>w1 w2 s2. checkOffline ((sample_env (brief_json ''{}'') db_server)
        \<lparr>env_steady := (\<lambda>_. 601000000000)\<rparr>) two_sessions = (Inr (), w1)
    \<and> handleJsonHeartbeat ((sample_env (brief_json ''{}'') db_server)
        \<lparr>env_steady := (\<lambda>_. 601000000000)\<rparr>) 1 login_doc w1 = (Inr (), w2)
    \<and> um_find (ctx_states (w_ctx w2)) ''D1'' = Some s2 \<and> ds_online s2
    \<and> sendWake ((sample_env (brief_json ''{}'') db_server)
        \<lparr>env_steady := (\<lambda>_. 601000000000)\<rparr>) ''D1'' ''take_photo'' JNull w2
      = (Inl (Runtime_Error ''device offline''), w2)"
proof (rule silenced_device_unreachable)
  let ?E = "(sample_env (brief_json ''{}'') db_server)\<lparr>env_steady := (\<lambda>_. 601000000000)\<rparr>"
  show "um_ok (ctx_states (w_ctx two_sessions))" by (simp add: two_sessions_def um_ok_def)
  show "um_find (w_heap two_sessions) 1 = Some (json_session\<lparr>ss_device_id := ''D1''\<rparr>)"
    by (simp add: two_sessions_def um_find_def)
  show "um_find (ctx_states (w_ctx two_sessions)) ''D1'' = Some (default_DeviceState\<lparr>ds_online := True\<rparr>)"
    by (simp add: two_sessions_def um_find_def)
  show "silent ?E (env_steady ?E (w_steady_reads two_sessions)) (default_DeviceState\<lparr>ds_online := True\<rparr>)"
    by (simp add: silent_def duration_cast_def sample_env_def default_ServerConfig_def
        default_DeviceState_def)
  show "well_typed ?E login_doc"
    by (simp add: well_typed_def login_doc_def string_members_def int_members_def)
qed (simp_all add: state_prints_def)

text \<open>
  C23: a command request over HTTP for a device whose identifier cannot be printed ends the
  process: the handler of the exception builds the answer of status 409 from the identifier
  it was given, and that printing throws outside every other handler.
\<close>

theorem unprintable_command_ends_process:
  assumes "http_route line = Route_command d cmd" and "CHR 0x0A \<notin> set line"
    and "um_find (ctx_sessions (w_ctx w)) d = None" and "ctx_wake_manager (w_ctx w)"
    and "json_dump2 (env_json E) (JObject [(''error'', JString ''device offline''),
        (''device_id'', JString d)]) = Inl e"
  shows "gw_crash E w (Http (Some (bytes_of_string (line @ CRLF @ rest)))) e"
proof -
  have "sendWake E d cmd http_params w = (Inl (Runtime_Error ''device offline''), w)"
    using assms(3) by (simp add: sendWake_def lock_session_def get_ctx_def comp_defs)
  then have "handleCommand E d cmd w = (Inl e, w)"
    using assms(4,5)
    by (simp add: handleCommand_def command_response_def catchM_def gw_runs comp_step(3)
        http_response_def seq_runs)
  then have "gateway_handler E (Http (Some (bytes_of_string (line @ CRLF @ rest)))) w = (Inl e, w)"
    using http_first_line [OF assms(2), of rest] assms(1)
    by (simp add: gateway_handler_def http_request_def http_handle_def comp_step(3))
  then show ?thesis by (intro gw_crash.gw_crash) (simp_all add: enabled_def)
qed


definition utf8_json :: json_lib where
  "utf8_json = (brief_json ''{}'')\<lparr>json_dump2 := (\<lambda>j.
     case json_field j ''device_id'' of
       Some (JString d) \<Rightarrow> if CHR 0xFF \<in> set d then Inl (Json_Error ''invalid UTF-8 byte'') else Inr ''{}''
     | _ \<Rightarrow> Inr ''{}'')\<rparr>"

theorem unprintable_command_ends_process_witness:
  "gw_crash (sample_env utf8_json db_server) sample_online
     (Http (Some (bytes_of_string (''POST /api/devices/'' @ [CHR 0xFF] @ ''/wake HTTP/1.1'' @ CRLF))))
     (Json_Error ''invalid UTF-8 byte'')"
proof -
  let ?line = "''POST /api/devices/'' @ [CHR 0xFF] @ ''/wake HTTP/1.1''"
  have route: "http_route ?line = Route_command [CHR 0xFF] ''take_photo''"
    by (simp add: http_route_def read_word_def is_space_def http_extractDeviceId_def
        extractQuery_def str_find_from_def Let_def)
  have "um_find (ctx_sessions (w_ctx sample_online)) [CHR 0xFF] = None"
    "ctx_wake_manager (w_ctx sample_online)"
    by (simp_all add: sample_online_def initial_World_def um_find_def)
  moreover have "json_dump2 (env_json (sample_env utf8_json db_server))
      (JObject [(''error'', JString ''device offline''), (''device_id'', JString [CHR 0xFF])])
      = Inl (Json_Error ''invalid UTF-8 byte'')"
    by (simp add: utf8_json_def json_field_def)
  ultimately show ?thesis
    using unprintable_command_ends_process [OF route, of sample_online
        "sample_env utf8_json db_server" "Json_Error ''invalid UTF-8 byte''" "''''"] by simp
qed


text \<open>
  C3: the whole process refines the abstract registry: in every step an entry of the
  registry stays as it is, vanishes, or becomes the session whose bytes were just read.  No
  timer, front end, acknowledgement or other session ever binds an identifier.
\<close>

theorem gateway_refines_registry:
  assumes "gw_step E w ev w'"
  shows "registry_step (case ev of Read sid _ \<Rightarrow> {sid} | _ \<Rightarrow> {}) (registry w) (registry w')"
  using assms relates_gateway_handler [of ev E] by (auto simp: relates_def elim!: gw_stepE dest: movesD)

theorem gateway_refines_registry_witness:
  "registry_step {} (registry (initial_World True [])) (registry accepted_world)"
  using gateway_refines_registry [OF accepted_step] by simp

text \<open>
  C4: the protocol of a session is chosen once, by its first byte: in every step of the
  process a session that lives on keeps a protocol it has chosen; one that has none gets it
  from the completion of its first read alone, JSON lines for an opening brace (0x7B) and the
  low-power protocol for the byte 0x01, and stays without one for anything else; and it waits
  only for a read of the protocol it speaks.
\<close>

theorem protocol_chosen_once:
  assumes "lib_ok E" and "reachable E (initial_World mqtt log) w" and "gw_step E w ev w'"
    and "um_find (w_heap w) sid = Some s" and "um_find (w_heap w') sid = Some s'"
  shows "ss_protocol s' =
      (if ss_protocol s \<noteq> UNKNOWN then ss_protocol s
       else case ev of
           Read sid' (Some (b # _)) \<Rightarrow>
             (if sid' \<noteq> sid then UNKNOWN
              else if b = 0x7B then JSON_LINE else if b = 0x01 then LOWPOWER else UNKNOWN)
         | _ \<Rightarrow> UNKNOWN)
    \<and> ss_protocol s \<le> ss_protocol s' \<and> ss_reading s' \<in> reads_for (ss_protocol s')"
proof -
  obtain w1 where w1: "enabled ev w" "gateway_handler E ev w = (Inr (), w1)" "w' = reap w1"
    using assms(3) by (auto elim: gw_stepE)
  have inv: "gw_inv E w" using assms(1,2) by (intro reachable_inv)
  then have "gw_inv E w1" using fine_gateway_handler [OF assms(1) w1(1)] w1(2) by simp
  then have "um_ok (w_heap w1)" by (simp add: gw_inv_def heap_inv_def)
  then have "reads_of w1 sid = Some (ss_protocol s', ss_reading s')"
    by (rule reads_of_reap) (use assms(5) w1(3) in \<open>simp add: reads_of_def\<close>)
  moreover have "reads_of w sid = Some (ss_protocol s, ss_reading s)"
    using assms(4) by (simp add: reads_of_def)
  ultimately have "ss_protocol s' = next_protocol ev sid (ss_protocol s)"
    "ss_reading s' \<in> reads_for (ss_protocol s')"
    using gateway_handler_reads [OF w1(2,1) reads_ok_reachable [OF assms(2,1)]] inv
    by (fastforce simp: gw_inv_def reads_ok_def)+
  then show ?thesis
    by (auto simp: next_protocol_def less_eq_SessionProtocol_def split: gw_event.split option.split list.split)
qed

definition peeked_world :: World where
  "peeked_world = reap (accepted_world\<lparr>w_heap := um_put (w_heap accepted_world) 0
     ((new_Session ''10.0.0.9'')\<lparr>ss_protocol := JSON_LINE, ss_reading := Json_line\<rparr>)\<rparr>)"

lemma accepted_heap:
  "w_heap accepted_world = [(0, (new_Session ''10.0.0.9'')\<lparr>ss_reading := Peek\<rparr>)]"
  unfolding accepted_world_def accept_first snd_conv
  by (simp add: reap_def um_filter_def session_held_def)

lemma peeked_step:
  "gw_step (sample_env (brief_json ''{}'') db_server) accepted_world (Read 0 (Some [0x7B])) peeked_world"
proof -
  let ?s = "(new_Session ''10.0.0.9'')\<lparr>ss_reading := Peek\<rparr>"
  have alive: "um_find (w_heap accepted_world) 0 = Some ?s"
    by (simp add: accepted_heap um_find_def)
  have "byte_of_char CHR ''{'' = 0x7B" by (simp add: byte_of_char_def)
  with alive show ?thesis
    unfolding peeked_world_def
    by (intro gw_step.gw_step)
      (simp_all add: enabled_def HEADER_SIZE_def gateway_handler_def read_completed_def
        session_seq_runs start_read_def session_runs on_peek_def readJsonLine_def)
qed

theorem protocol_chosen_once_witness:
  "\<exists>s'. um_find (w_heap peeked_world) 0 = Some s' \<and> ss_protocol s' = JSON_LINE
    \<and> ss_reading s' \<in> reads_for JSON_LINE"
proof -
  have alive: "um_find (w_heap accepted_world) 0 = Some ((new_Session ''10.0.0.9'')\<lparr>ss_reading := Peek\<rparr>)"
    by (simp add: accepted_heap um_find_def)
  obtain s' where s': "um_find (w_heap peeked_world) 0 = Some s'"
    by (simp add: peeked_world_def reap_def um_filter_def um_find_def um_put_def accepted_heap
        session_held_def)
  have "lib_ok (sample_env (brief_json ''{}'') db_server)" by (simp add: lib_ok_brief)
  from protocol_chosen_once [OF this accepted_reachable peeked_step alive s'] s' show ?thesis
    by (auto simp: new_Session_def simp del: reads_for.simps)
qed

text \<open>What reports the end of a connection: a read that fails and a write that fails.\<close>

lemma report_marks:
  assumes "gateway_handler E ev w = (r, w')" and "enabled ev w"
    and "ev = Read sid None \<or> ev = Written sid False"
  shows "over sid w'"
proof -
  obtain s where s: "um_find (w_heap w) sid = Some s" "ev = Read sid None \<Longrightarrow> ss_reading s \<noteq> No_read"
    using assms(2,3) by (auto simp: enabled_def split: option.splits)
  have marks: "over sid w'" if "handleDisconnect E sid w1 = (r, w')" "um_find (w_heap w1) sid \<noteq> None" for w1
    using handleDisconnect_marks [of w1 sid _ E] that by (auto simp: over_def)
  show ?thesis
  proof (cases "ev = Written sid False")
    case True
    with assms(1) s(1) show ?thesis
      by (intro marks [of "w\<lparr>w_heap := um_put (w_heap w) sid
          (s\<lparr>ss_writer := write_completed False (ss_writer s)\<rparr>)\<rparr>"])
        (simp_all add: gateway_handler_def session_write_completed_def session_seq_runs whenM_def)
  next
    case False
    with assms(3) have ev: "ev = Read sid None" by simp
    have "on_read E sid op None = handleDisconnect E sid" if "op \<noteq> No_read" for op
      using that by (cases op) (simp_all add: on_peek_def on_json_line_def on_lowpower_header_def
          on_lowpower_payload_def)
    with assms(1) s ev show ?thesis
      by (intro marks [of "w\<lparr>w_heap := um_put (w_heap w) sid (s\<lparr>ss_reading := No_read\<rparr>)\<rparr>"])
        (simp_all add: gateway_handler_def read_completed_def session_seq_runs start_read_def)
  qed
qed

text \<open>
  C18: a session is disconnected once.  After a step of the process in which the end of a
  connection was reported, by a failed read or a failed write, the session is marked as
  disconnected for as long as its object lives, whatever handlers of whatever sessions and
  timers run in between; and every later report changes nothing at all: it neither erases a
  registration nor marks a device as off line nor publishes anything again.
\<close>

theorem disconnect_once:
  assumes "lib_ok E" and "reachable E (initial_World mqtt log) w" and "gw_step E w ev w1"
    and "ev = Read sid None \<or> ev = Written sid False"
    and "reachable E w1 w2" and "um_find (w_heap w2) sid = Some s"
  shows "ss_closing s \<and> handleDisconnect E sid w2 = (Inr (), w2)"
proof -
  obtain w' where w': "enabled ev w" "gateway_handler E ev w = (Inr (), w')" "w1 = reap w'"
    using assms(3) by (auto elim: gw_stepE)
  have inv: "gw_inv E w" using assms(1,2) by (intro reachable_inv)
  then have "gw_inv E w'" using fine_gateway_handler [OF assms(1) w'(1)] w'(2) by simp
  then have ok: "um_ok (w_heap w')" by (simp add: gw_inv_def heap_inv_def)
  have "um_find (w_heap w) sid \<noteq> None"
    using w'(1) assms(4) by (auto simp: enabled_def split: option.splits)
  then have "sid < w_next_session w" using inv by (auto simp: gw_inv_def heap_inv_def)
  moreover have "lasting w w'"
    using relates_gateway_handler [of ev E] w'(2) by (auto simp: relates_def dest: movesD)
  ultimately have "sid < w_next_session w1" by (simp add: lasting_def w'(3))
  moreover have "over sid w1"
    using report_marks [OF w'(2,1) assms(4)] ok
    by (auto simp: over_def w'(3) um_find_reap split: option.splits if_splits)
  moreover have "reachable E (initial_World mqtt log) w1"
    using assms(2,3) by (rule reachable.step)
  ultimately have "over sid w2" using over_reachable [OF assms(5,1)] by blast
  with assms(6) have "ss_closing s" by (simp add: over_def)
  with assms(6) show ?thesis by (simp add: handleDisconnect_again)
qed

text \<open>A session whose answer cannot be written.\<close>

definition unsent :: process where
  "unsent = run (process_step (sample_env (brief_json ''{}'') db_server))
     [Accept (Some (Inr ''10.0.0.9'')), Read 0 (Some [0x7B]), Read 0 (Some (bytes_of_string (''{'' @ [CHR 0x0A]))),
      Strand 0] (Running (initial_World True []))"

lemma unsent_run:
  "case unsent of Ended e \<Rightarrow> False
   | Running w \<Rightarrow> enabled (Written 0 False) w
       \<and> (case process_step (sample_env (brief_json ''{}'') db_server) (Written 0 False) (Running w) of
            Ended e \<Rightarrow> False | Running w1 \<Rightarrow> um_find (w_heap w1) 0 \<noteq> None)"
  by code_simp

theorem disconnect_once_witness:
  "\<exists>w1 s. reachable (sample_env (brief_json ''{}'') db_server) (initial_World True []) w1
    \<and> um_find (w_heap w1) 0 = Some s \<and> ss_closing s
    \<and> handleDisconnect (sample_env (brief_json ''{}'') db_server) 0 w1 = (Inr (), w1)"
proof -
  let ?E = "sample_env (brief_json ''{}'') db_server"
  obtain w w1 where w: "unsent = Running w" "enabled (Written 0 False) w"
    "process_step ?E (Written 0 False) (Running w) = Running w1" "um_find (w_heap w1) 0 \<noteq> None"
    using unsent_run by (auto split: process.splits)
  have reach: "reachable ?E (initial_World True []) w"
    by (rule reachable_run [OF _ reachable.start]) (use w(1) in \<open>simp only: unsent_def\<close>)
  have step: "gw_step ?E w (Written 0 False) w1"
    using w(2,3) by (simp only: process_step_iff) blast
  have "lib_ok ?E" by (simp add: lib_ok_brief)
  from disconnect_once [OF this reach step _ reachable.start] w(4) reachable.step [OF reach step]
  show ?thesis by auto
qed

end
